(* ===== verification/ProtocolTransport.thy ===== *)
theory ProtocolTransport
  imports Main
begin

section \<open>Messages of the transport owner\<close>

text \<open>
  The declarations the schema composes from the transport owner, from
  \<^verbatim>\<open>src/gwz/protocol/generated/api.py\<close>: the envelope a request or a response may carry and all it is
  made of. The client never builds one; it travels through requests, responses and the codec.
\<close>

datatype message_kind =
    MessageKind_bind
  | MessageKind_bind_rejected
  | MessageKind_bound
  | MessageKind_cancel
  | MessageKind_check_identity
  | MessageKind_close
  | MessageKind_closed
  | MessageKind_data
  | MessageKind_end_write
  | MessageKind_failed
  | MessageKind_flush
  | MessageKind_flushed
  | MessageKind_identity_check_failed
  | MessageKind_identity_checked
  | MessageKind_open
  | MessageKind_open_failed
  | MessageKind_opened
  | MessageKind_window

fun message_kind_name :: "message_kind \<Rightarrow> string" where
  "message_kind_name MessageKind_bind = ''bind''"
| "message_kind_name MessageKind_bind_rejected = ''bind_rejected''"
| "message_kind_name MessageKind_bound = ''bound''"
| "message_kind_name MessageKind_cancel = ''cancel''"
| "message_kind_name MessageKind_check_identity = ''check_identity''"
| "message_kind_name MessageKind_close = ''close''"
| "message_kind_name MessageKind_closed = ''closed''"
| "message_kind_name MessageKind_data = ''data''"
| "message_kind_name MessageKind_end_write = ''end_write''"
| "message_kind_name MessageKind_failed = ''failed''"
| "message_kind_name MessageKind_flush = ''flush''"
| "message_kind_name MessageKind_flushed = ''flushed''"
| "message_kind_name MessageKind_identity_check_failed = ''identity_check_failed''"
| "message_kind_name MessageKind_identity_checked = ''identity_checked''"
| "message_kind_name MessageKind_open = ''open''"
| "message_kind_name MessageKind_open_failed = ''open_failed''"
| "message_kind_name MessageKind_opened = ''opened''"
| "message_kind_name MessageKind_window = ''window''"

datatype endpoint_role =
    EndpointRole_driver
  | EndpointRole_local

fun endpoint_role_name :: "endpoint_role \<Rightarrow> string" where
  "endpoint_role_name EndpointRole_driver = ''driver''"
| "endpoint_role_name EndpointRole_local = ''local''"

datatype scheme =
    Scheme_https
  | Scheme_ssh

fun scheme_name :: "scheme \<Rightarrow> string" where
  "scheme_name Scheme_https = ''https''"
| "scheme_name Scheme_ssh = ''ssh''"

datatype auth_policy =
    AuthPolicy_anonymous
  | AuthPolicy_gh
  | AuthPolicy_ssh_ambient
  | AuthPolicy_ssh_explicit
  | AuthPolicy_windows_configured
  | AuthPolicy_windows_default

fun auth_policy_name :: "auth_policy \<Rightarrow> string" where
  "auth_policy_name AuthPolicy_anonymous = ''anonymous''"
| "auth_policy_name AuthPolicy_gh = ''gh''"
| "auth_policy_name AuthPolicy_ssh_ambient = ''ssh_ambient''"
| "auth_policy_name AuthPolicy_ssh_explicit = ''ssh_explicit''"
| "auth_policy_name AuthPolicy_windows_configured = ''windows_configured''"
| "auth_policy_name AuthPolicy_windows_default = ''windows_default''"

record limits =
  limits_encoded_frame :: "int"
  limits_data_payload :: "int"
  limits_metadata_bytes :: "int"
  limits_nesting :: "int"
  limits_collection_entries :: "int"
  limits_decode_allocation :: "int"
  limits_queued_bytes :: "int"
  limits_queued_frames :: "int"
  limits_receive_window :: "int"
  limits_control_reserve_bytes :: "int"
  limits_control_reserve_frames :: "int"

record transport_bind =
  tbind_versions :: "int list"
  tbind_role :: "endpoint_role"
  tbind_schemes :: "scheme list"
  tbind_policies :: "auth_policy list"
  tbind_receive_limits :: "limits"

record transport_bound =
  tbound_version :: "int"
  tbound_endpoint_id :: "string"
  tbound_role :: "endpoint_role"
  tbound_schemes :: "scheme list"
  tbound_policies :: "auth_policy list"
  tbound_receive_limits :: "limits"
  tbound_trust_owner :: "string"

datatype error_code =
    ErrorCode_authentication
  | ErrorCode_cancelled
  | ErrorCode_capacity
  | ErrorCode_carrier_lost
  | ErrorCode_invalid_request
  | ErrorCode_io
  | ErrorCode_protocol
  | ErrorCode_repository_refused
  | ErrorCode_timeout
  | ErrorCode_trust
  | ErrorCode_unavailable
  | ErrorCode_unsupported_operation
  | ErrorCode_unsupported_version

fun error_code_name :: "error_code \<Rightarrow> string" where
  "error_code_name ErrorCode_authentication = ''authentication''"
| "error_code_name ErrorCode_cancelled = ''cancelled''"
| "error_code_name ErrorCode_capacity = ''capacity''"
| "error_code_name ErrorCode_carrier_lost = ''carrier_lost''"
| "error_code_name ErrorCode_invalid_request = ''invalid_request''"
| "error_code_name ErrorCode_io = ''io''"
| "error_code_name ErrorCode_protocol = ''protocol''"
| "error_code_name ErrorCode_repository_refused = ''repository_refused''"
| "error_code_name ErrorCode_timeout = ''timeout''"
| "error_code_name ErrorCode_trust = ''trust''"
| "error_code_name ErrorCode_unavailable = ''unavailable''"
| "error_code_name ErrorCode_unsupported_operation = ''unsupported_operation''"
| "error_code_name ErrorCode_unsupported_version = ''unsupported_version''"

datatype effect =
    Effect_none
  | Effect_possible

fun effect_name :: "effect \<Rightarrow> string" where
  "effect_name Effect_none = ''none''"
| "effect_name Effect_possible = ''possible''"

datatype auth_method =
    AuthMethod_gh
  | AuthMethod_none
  | AuthMethod_ssh_agent
  | AuthMethod_ssh_key
  | AuthMethod_sspi

fun auth_method_name :: "auth_method \<Rightarrow> string" where
  "auth_method_name AuthMethod_gh = ''gh''"
| "auth_method_name AuthMethod_none = ''none''"
| "auth_method_name AuthMethod_ssh_agent = ''ssh_agent''"
| "auth_method_name AuthMethod_ssh_key = ''ssh_key''"
| "auth_method_name AuthMethod_sspi = ''sspi''"

datatype native_source =
    NativeSource_configured
  | NativeSource_current_logon

fun native_source_name :: "native_source \<Rightarrow> string" where
  "native_source_name NativeSource_configured = ''configured''"
| "native_source_name NativeSource_current_logon = ''current_logon''"

datatype native_scheme =
    NativeScheme_digest
  | NativeScheme_negotiate
  | NativeScheme_ntlm

fun native_scheme_name :: "native_scheme \<Rightarrow> string" where
  "native_scheme_name NativeScheme_digest = ''digest''"
| "native_scheme_name NativeScheme_negotiate = ''negotiate''"
| "native_scheme_name NativeScheme_ntlm = ''ntlm''"

datatype native_observation =
    NativeObservation_not_started
  | NativeObservation_selected
  | NativeObservation_unresolved

fun native_observation_name :: "native_observation \<Rightarrow> string" where
  "native_observation_name NativeObservation_not_started = ''not_started''"
| "native_observation_name NativeObservation_selected = ''selected''"
| "native_observation_name NativeObservation_unresolved = ''unresolved''"

datatype native_mechanism =
    NativeMechanism_kerberos
  | NativeMechanism_ntlm

fun native_mechanism_name :: "native_mechanism \<Rightarrow> string" where
  "native_mechanism_name NativeMechanism_kerberos = ''kerberos''"
| "native_mechanism_name NativeMechanism_ntlm = ''ntlm''"

record native_facts =
  nfc_source :: "native_source"
  nfc_scheme :: "native_scheme"
  nfc_observation :: "native_observation"
  nfc_mechanism :: "native_mechanism option"
  nfc_authoritative :: "bool"

record transport_facts =
  tfacts_method :: "auth_method"
  tfacts_credential_offered :: "bool"
  tfacts_authenticated :: "bool option"
  tfacts_key_fingerprint :: "string option"
  tfacts_http_status :: "int option"
  tfacts_ssh_exit_status :: "int option"
  tfacts_native :: "native_facts option"

datatype setup_failure_cause =
    SetupFailureCause_address_not_available
  | SetupFailureCause_aggregate
  | SetupFailureCause_allocation
  | SetupFailureCause_connection_refused
  | SetupFailureCause_interaction
  | SetupFailureCause_not_found
  | SetupFailureCause_stall

fun setup_failure_cause_name :: "setup_failure_cause \<Rightarrow> string" where
  "setup_failure_cause_name SetupFailureCause_address_not_available = ''address_not_available''"
| "setup_failure_cause_name SetupFailureCause_aggregate = ''aggregate''"
| "setup_failure_cause_name SetupFailureCause_allocation = ''allocation''"
| "setup_failure_cause_name SetupFailureCause_connection_refused = ''connection_refused''"
| "setup_failure_cause_name SetupFailureCause_interaction = ''interaction''"
| "setup_failure_cause_name SetupFailureCause_not_found = ''not_found''"
| "setup_failure_cause_name SetupFailureCause_stall = ''stall''"

datatype helper_failure_cause =
    HelperFailureCause_configuration_refused
  | HelperFailureCause_control_character
  | HelperFailureCause_declined
  | HelperFailureCause_malformed_output
  | HelperFailureCause_missing_field
  | HelperFailureCause_missing_newline
  | HelperFailureCause_no_helper
  | HelperFailureCause_not_utf8
  | HelperFailureCause_output_limit
  | HelperFailureCause_pipe_failure
  | HelperFailureCause_username_colon

fun helper_failure_cause_name :: "helper_failure_cause \<Rightarrow> string" where
  "helper_failure_cause_name HelperFailureCause_configuration_refused = ''configuration_refused''"
| "helper_failure_cause_name HelperFailureCause_control_character = ''control_character''"
| "helper_failure_cause_name HelperFailureCause_declined = ''declined''"
| "helper_failure_cause_name HelperFailureCause_malformed_output = ''malformed_output''"
| "helper_failure_cause_name HelperFailureCause_missing_field = ''missing_field''"
| "helper_failure_cause_name HelperFailureCause_missing_newline = ''missing_newline''"
| "helper_failure_cause_name HelperFailureCause_no_helper = ''no_helper''"
| "helper_failure_cause_name HelperFailureCause_not_utf8 = ''not_utf8''"
| "helper_failure_cause_name HelperFailureCause_output_limit = ''output_limit''"
| "helper_failure_cause_name HelperFailureCause_pipe_failure = ''pipe_failure''"
| "helper_failure_cause_name HelperFailureCause_username_colon = ''username_colon''"

record retry_attempt =
  rta_attempt :: "int"
  rta_attempts :: "int"

datatype capacity_cause =
    CapacityCause_local
  | CapacityCause_server_retry_after
  | CapacityCause_server_throttle

fun capacity_cause_name :: "capacity_cause \<Rightarrow> string" where
  "capacity_cause_name CapacityCause_local = ''local''"
| "capacity_cause_name CapacityCause_server_retry_after = ''server_retry_after''"
| "capacity_cause_name CapacityCause_server_throttle = ''server_throttle''"

datatype capacity_signal =
    CapacitySignal_http_429
  | CapacitySignal_http_503

fun capacity_signal_name :: "capacity_signal \<Rightarrow> string" where
  "capacity_signal_name CapacitySignal_http_429 = ''http_429''"
| "capacity_signal_name CapacitySignal_http_503 = ''http_503''"

record capacity_detail =
  capd_cause :: "capacity_cause"
  capd_scheme :: "scheme option"
  capd_host :: "string option"
  capd_port :: "int option"
  capd_limit_applied :: "int option"
  capd_max_per_host :: "int option"
  capd_elapsed_ms :: "int option"
  capd_last_signal :: "capacity_signal option"
  capd_retry_after_ms :: "int option"

record failure_detail =
  fld_helper_cause :: "helper_failure_cause option"
  fld_pipe_kind :: "string option"
  fld_schemes :: "string list option"
  fld_retry_attempt :: "retry_attempt option"
  fld_helper_budget_ms :: "int option"
  fld_capacity :: "capacity_detail option"

record transport_failure =
  tfailure_code :: "error_code"
  tfailure_effect :: "effect"
  tfailure_facts :: "transport_facts option"
  tfailure_setup_cause :: "setup_failure_cause option"
  tfailure_detail :: "failure_detail option"

record transport_destination =
  tdestination_scheme :: "scheme"
  tdestination_host :: "string"
  tdestination_port :: "int"
  tdestination_path :: "string"
  tdestination_ssh_username :: "string option"
  tdestination_https_username :: "string option"

datatype git_service =
    GitService_receive_pack_advertisement
  | GitService_receive_pack_exchange
  | GitService_upload_pack_advertisement
  | GitService_upload_pack_exchange

fun git_service_name :: "git_service \<Rightarrow> string" where
  "git_service_name GitService_receive_pack_advertisement = ''receive_pack_advertisement''"
| "git_service_name GitService_receive_pack_exchange = ''receive_pack_exchange''"
| "git_service_name GitService_upload_pack_advertisement = ''upload_pack_advertisement''"
| "git_service_name GitService_upload_pack_exchange = ''upload_pack_exchange''"

datatype identity_mode =
    IdentityMode_ambient
  | IdentityMode_credentials_disabled
  | IdentityMode_explicit_key

fun identity_mode_name :: "identity_mode \<Rightarrow> string" where
  "identity_mode_name IdentityMode_ambient = ''ambient''"
| "identity_mode_name IdentityMode_credentials_disabled = ''credentials_disabled''"
| "identity_mode_name IdentityMode_explicit_key = ''explicit_key''"

record transport_identity =
  tidentity_mode :: "identity_mode"
  tidentity_key_path :: "string option"
  tidentity_path_base :: "string option"

record transport_deadlines =
  tdeadlines_allocation_ms :: "int"
  tdeadlines_connect_ms :: "int"
  tdeadlines_io_ms :: "int"
  tdeadlines_interaction_ms :: "int"
  tdeadlines_cleanup_ms :: "int"

record transport_open =
  topen_endpoint_id :: "string"
  topen_operation_id :: "string"
  topen_destination :: "transport_destination"
  topen_service :: "git_service"
  topen_identity :: "transport_identity"
  topen_policy :: "auth_policy"
  topen_deadlines :: "transport_deadlines"
  topen_receive_limits :: "limits"

record transport_opened =
  topened_connection_id :: "string"
  topened_reused :: "bool"
  topened_endpoint_id :: "string"
  topened_trust_owner :: "string"
  topened_facts :: "transport_facts"
  topened_receive_limits :: "limits"

record transport_data =
  tdata_offset :: "int"
  tdata_payload :: "string"

record transport_window =
  twindow_max_offset :: "int"

record transport_barrier =
  tbarrier_barrier_id :: "int"
  tbarrier_offset :: "int"

record transport_end_write =
  tend_write_final_offset :: "int"

record transport_close =
  tclose_final_offset :: "int"

datatype disposition =
    Disposition_discarded
  | Disposition_reusable

fun disposition_name :: "disposition \<Rightarrow> string" where
  "disposition_name Disposition_discarded = ''discarded''"
| "disposition_name Disposition_reusable = ''reusable''"

record transport_closed =
  tclosed_disposition :: "disposition"
  tclosed_unread_response_discarded :: "bool"
  tclosed_facts :: "transport_facts"
  tclosed_failure :: "transport_failure option"

record transport_cancel =
  tcancel_reason :: "error_code"

record check_identity =
  cid_endpoint_id :: "string"
  cid_operation_id :: "string"
  cid_identity :: "transport_identity"
  cid_timeout_ms :: "int"

datatype identity_checked = IdentityChecked

record transport_envelope =
  tenv_version :: "int"
  tenv_session_id :: "string"
  tenv_stream_id :: "int"
  tenv_kind :: "message_kind"
  tenv_message_seq :: "int option"
  tenv_bind :: "transport_bind option"
  tenv_bound :: "transport_bound option"
  tenv_bind_rejected :: "transport_failure option"
  tenv_open :: "transport_open option"
  tenv_opened :: "transport_opened option"
  tenv_open_failed :: "transport_failure option"
  tenv_data :: "transport_data option"
  tenv_window :: "transport_window option"
  tenv_flush :: "transport_barrier option"
  tenv_flushed :: "transport_barrier option"
  tenv_end_write :: "transport_end_write option"
  tenv_close :: "transport_close option"
  tenv_closed :: "transport_closed option"
  tenv_cancel :: "transport_cancel option"
  tenv_failed :: "transport_failure option"
  tenv_check_identity :: "check_identity option"
  tenv_identity_checked :: "identity_checked option"
  tenv_identity_check_failed :: "transport_failure option"

end
