(* ===== verification/ProtocolRequests.thy ===== *)
theory ProtocolRequests
  imports ProtocolTransport
begin

section \<open>The request half of the protocol types\<close>

text \<open>
  The enums and dataclasses of \<^verbatim>\<open>src/gwz/protocol/generated/api.py\<close> that a request is built from,
  field for field: an enum is a datatype with one constructor per member and a function for
  the member's \<open>name\<close>, a dataclass is a record. An optional field is an \<open>option\<close>,
  a Python \<open>int\<close> an \<open>int\<close>, a \<open>str\<close> the bytes of its UTF-8 encoding.
\<close>

record workspace_ref =
  wr_root :: "string option"
  wr_workspace_id :: "string option"

record selection =
  sel_all :: "bool option"
  sel_member_ids :: "string list"
  sel_paths :: "string list"
  sel_targets :: "string list"
  sel_exclude_targets :: "string list"

datatype partial_behavior =
    PartialBehavior_atomic
  | PartialBehavior_partial

fun partial_behavior_name :: "partial_behavior \<Rightarrow> string" where
  "partial_behavior_name PartialBehavior_atomic = ''atomic''"
| "partial_behavior_name PartialBehavior_partial = ''partial''"

datatype destructive_behavior =
    DestructiveBehavior_refuse
  | DestructiveBehavior_allow

fun destructive_behavior_name :: "destructive_behavior \<Rightarrow> string" where
  "destructive_behavior_name DestructiveBehavior_refuse = ''refuse''"
| "destructive_behavior_name DestructiveBehavior_allow = ''allow''"

datatype sync_behavior =
    SyncBehavior_fetch_only
  | SyncBehavior_ff_only
  | SyncBehavior_merge
  | SyncBehavior_rebase
  | SyncBehavior_reset
  | SyncBehavior_driver_selected

fun sync_behavior_name :: "sync_behavior \<Rightarrow> string" where
  "sync_behavior_name SyncBehavior_fetch_only = ''fetch_only''"
| "sync_behavior_name SyncBehavior_ff_only = ''ff_only''"
| "sync_behavior_name SyncBehavior_merge = ''merge''"
| "sync_behavior_name SyncBehavior_rebase = ''rebase''"
| "sync_behavior_name SyncBehavior_reset = ''reset''"
| "sync_behavior_name SyncBehavior_driver_selected = ''driver_selected''"

datatype unsupported_member_behavior =
    UnsupportedMemberBehavior_fail
  | UnsupportedMemberBehavior_skip

fun unsupported_member_behavior_name :: "unsupported_member_behavior \<Rightarrow> string" where
  "unsupported_member_behavior_name UnsupportedMemberBehavior_fail = ''fail''"
| "unsupported_member_behavior_name UnsupportedMemberBehavior_skip = ''skip''"

record operation_policy =
  pol_partial :: "partial_behavior option"
  pol_destructive :: "destructive_behavior option"
  pol_sync :: "sync_behavior option"
  pol_unsupported_member :: "unsupported_member_behavior option"
  pol_remote :: "string option"
  pol_concurrency :: "int option"
  pol_progress_min_interval_ms :: "int option"
  pol_max_connections_per_host :: "int option"
  pol_max_retries :: "int option"

record operation_actor =
  oac_actor_id :: "string"
  oac_display_name :: "string option"
  oac_email :: "string option"
  oac_authority :: "string option"

record git_object_identity =
  goi_name :: "string"
  goi_email :: "string"
  goi_time_ms :: "int option"
  goi_timezone_offset_minutes :: "int option"

record operation_attribution =
  oat_actor :: "operation_actor option"
  oat_git_author :: "git_object_identity option"
  oat_git_committer :: "git_object_identity option"
  oat_credential_ref :: "string option"

record remote_ssh_identity =
  rsi_remote :: "string"
  rsi_private_key_path :: "string"

datatype url_scheme =
    UrlScheme_manifest
  | UrlScheme_ssh
  | UrlScheme_https

fun url_scheme_name :: "url_scheme \<Rightarrow> string" where
  "url_scheme_name UrlScheme_manifest = ''manifest''"
| "url_scheme_name UrlScheme_ssh = ''ssh''"
| "url_scheme_name UrlScheme_https = ''https''"

datatype transport_placement =
    TransportPlacement_local
  | TransportPlacement_cli

fun transport_placement_name :: "transport_placement \<Rightarrow> string" where
  "transport_placement_name TransportPlacement_local = ''local''"
| "transport_placement_name TransportPlacement_cli = ''cli''"

record transport_options =
  topt_default_identity :: "string option"
  topt_remote_identities :: "remote_ssh_identity list"
  topt_url_scheme :: "url_scheme option"
  topt_placement :: "transport_placement option"
  topt_endpoint_path_base :: "string option"

record invocation_context =
  inv_caller_cwd :: "string"

record request_meta =
  rm_request_id :: "string"
  rm_schema_version :: "string"
  rm_workspace :: "workspace_ref option"
  rm_selection :: "selection option"
  rm_policy :: "operation_policy option"
  rm_dry_run :: "bool option"
  rm_attribution :: "operation_attribution option"
  rm_transport :: "transport_options option"
  rm_invocation :: "invocation_context option"
  rm_transport_message :: "transport_envelope option"

datatype remote_identity_op =
    RemoteIdentityOp_get
  | RemoteIdentityOp_set
  | RemoteIdentityOp_unset

fun remote_identity_op_name :: "remote_identity_op \<Rightarrow> string" where
  "remote_identity_op_name RemoteIdentityOp_get = ''get''"
| "remote_identity_op_name RemoteIdentityOp_set = ''set''"
| "remote_identity_op_name RemoteIdentityOp_unset = ''unset''"

record remote_identity_request =
  remote_identity_request_meta :: "request_meta"
  remote_identity_request_remote :: "string"
  remote_identity_request_op :: "remote_identity_op"
  remote_identity_request_private_key_path :: "string option"

record transport_runtime_request =
  transport_runtime_request_server_timeout_ms :: "int"
  transport_runtime_request_schema_version :: "string"

record transport_capabilities_request =
  transport_capabilities_request_schema_version :: "string"

record create_workspace_request =
  create_workspace_request_meta :: "request_meta"
  create_workspace_request_workspace_root :: "string"
  create_workspace_request_workspace_id :: "string option"

record source_url =
  su_url :: "string"
  su_path :: "string option"
  su_remote_name :: "string option"
  su_branch :: "string option"

datatype materialize_target_kind =
    MaterializeTargetKind_lock
  | MaterializeTargetKind_head
  | MaterializeTargetKind_snapshot
  | MaterializeTargetKind_tag
  | MaterializeTargetKind_commit
  | MaterializeTargetKind_branch

fun materialize_target_kind_name :: "materialize_target_kind \<Rightarrow> string" where
  "materialize_target_kind_name MaterializeTargetKind_lock = ''lock''"
| "materialize_target_kind_name MaterializeTargetKind_head = ''head''"
| "materialize_target_kind_name MaterializeTargetKind_snapshot = ''snapshot''"
| "materialize_target_kind_name MaterializeTargetKind_tag = ''tag''"
| "materialize_target_kind_name MaterializeTargetKind_commit = ''commit''"
| "materialize_target_kind_name MaterializeTargetKind_branch = ''branch''"

record materialize_target =
  mt_kind :: "materialize_target_kind"
  mt_name :: "string option"
  mt_commit :: "string option"

record init_from_sources_request =
  init_from_sources_request_meta :: "request_meta"
  init_from_sources_request_workspace_root :: "string"
  init_from_sources_request_sources :: "source_url list"
  init_from_sources_request_target :: "materialize_target option"
  init_from_sources_request_workspace_id :: "string option"

record clone_workspace_request =
  clone_workspace_request_meta :: "request_meta"
  clone_workspace_request_url :: "string"
  clone_workspace_request_target :: "string"

record add_existing_repo_request =
  add_existing_repo_request_meta :: "request_meta"
  add_existing_repo_request_repository_path :: "string"
  add_existing_repo_request_member_path :: "string option"
  add_existing_repo_request_member_id :: "string option"
  add_existing_repo_request_source_id :: "string option"

record create_repo_request =
  create_repo_request_meta :: "request_meta"
  create_repo_request_member_path :: "string"
  create_repo_request_initial_branch :: "string option"
  create_repo_request_member_id :: "string option"
  create_repo_request_source_id :: "string option"

record repo_sync_request =
  repo_sync_request_meta :: "request_meta"
  repo_sync_request_private :: "bool option"

record clone_repo_member_request =
  clone_repo_member_request_meta :: "request_meta"
  clone_repo_member_request_source :: "source_url"
  clone_repo_member_request_member_id :: "string option"
  clone_repo_member_request_source_id :: "string option"

record detach_repo_member_request =
  detach_repo_member_request_meta :: "request_meta"

record attach_repo_member_request =
  attach_repo_member_request_meta :: "request_meta"

record materialize_request =
  materialize_request_meta :: "request_meta"
  materialize_request_target :: "materialize_target"

datatype status_mode =
    StatusMode_summary
  | StatusMode_combined

fun status_mode_name :: "status_mode \<Rightarrow> string" where
  "status_mode_name StatusMode_summary = ''summary''"
| "status_mode_name StatusMode_combined = ''combined''"

datatype status_path_style =
    StatusPathStyle_member_relative
  | StatusPathStyle_workspace_relative

fun status_path_style_name :: "status_path_style \<Rightarrow> string" where
  "status_path_style_name StatusPathStyle_member_relative = ''member_relative''"
| "status_path_style_name StatusPathStyle_workspace_relative = ''workspace_relative''"

record status_request =
  streq_meta :: "request_meta"
  streq_mode :: "status_mode option"
  streq_include_file_changes :: "bool option"
  streq_include_branch_summary :: "bool option"
  streq_path_style :: "status_path_style option"

record ls_request =
  ls_request_meta :: "request_meta"
  ls_request_include_unmaterialized :: "bool option"

datatype snapshot_source_kind =
    SnapshotSourceKind_current
  | SnapshotSourceKind_branch

fun snapshot_source_kind_name :: "snapshot_source_kind \<Rightarrow> string" where
  "snapshot_source_kind_name SnapshotSourceKind_current = ''current''"
| "snapshot_source_kind_name SnapshotSourceKind_branch = ''branch''"

record snapshot_source =
  ss_kind :: "snapshot_source_kind"
  ss_branch :: "string option"

record snapshot_request =
  snapshot_request_meta :: "request_meta"
  snapshot_request_snapshot_id :: "string"
  snapshot_request_source :: "snapshot_source option"

record list_snapshots_request =
  list_snapshots_request_meta :: "request_meta"

datatype tag_op =
    TagOp_create
  | TagOp_list
  | TagOp_fetch
  | TagOp_push
  | TagOp_delete

fun tag_op_name :: "tag_op \<Rightarrow> string" where
  "tag_op_name TagOp_create = ''create''"
| "tag_op_name TagOp_list = ''list''"
| "tag_op_name TagOp_fetch = ''fetch''"
| "tag_op_name TagOp_push = ''push''"
| "tag_op_name TagOp_delete = ''delete''"

record tag_request =
  tag_request_meta :: "request_meta"
  tag_request_op :: "tag_op"
  tag_request_name :: "string option"
  tag_request_message :: "string option"
  tag_request_signed :: "bool option"
  tag_request_remote :: "string option"
  tag_request_all :: "bool option"

record capture_request =
  capture_request_meta :: "request_meta"

record commit_request =
  commit_request_meta :: "request_meta"
  commit_request_message :: "string"
  commit_request_all :: "bool option"
  commit_request_commit_marker :: "bool option"

record stage_request =
  stage_request_meta :: "request_meta"
  stage_request_cwd :: "string"
  stage_request_pathspecs :: "string list"
  stage_request_all :: "bool option"

record pull_head_request =
  pull_head_request_meta :: "request_meta"

record pull_snapshot_request =
  pull_snapshot_request_meta :: "request_meta"
  pull_snapshot_request_snapshot_id :: "string"

datatype remote_check =
    RemoteCheck_changed
  | RemoteCheck_always

fun remote_check_name :: "remote_check \<Rightarrow> string" where
  "remote_check_name RemoteCheck_changed = ''changed''"
| "remote_check_name RemoteCheck_always = ''always''"

record push_request =
  push_request_meta :: "request_meta"
  push_request_remote :: "string option"
  push_request_refspec :: "string option"
  push_request_remote_check :: "remote_check option"

record fetch_request =
  fetch_request_meta :: "request_meta"

datatype stash_op =
    StashOp_push
  | StashOp_list
  | StashOp_apply
  | StashOp_pop
  | StashOp_drop

fun stash_op_name :: "stash_op \<Rightarrow> string" where
  "stash_op_name StashOp_push = ''push''"
| "stash_op_name StashOp_list = ''list''"
| "stash_op_name StashOp_apply = ''apply''"
| "stash_op_name StashOp_pop = ''pop''"
| "stash_op_name StashOp_drop = ''drop''"

record stash_request =
  stash_request_meta :: "request_meta"
  stash_request_op :: "stash_op"
  stash_request_stash_id :: "string option"
  stash_request_message :: "string option"
  stash_request_include_untracked :: "bool option"
  stash_request_include_ignored :: "bool option"
  stash_request_expanded :: "bool option"
  stash_request_preserve_index :: "bool option"

datatype branch_op =
    BranchOp_list
  | BranchOp_create
  | BranchOp_delete
  | BranchOp_merge

fun branch_op_name :: "branch_op \<Rightarrow> string" where
  "branch_op_name BranchOp_list = ''list''"
| "branch_op_name BranchOp_create = ''create''"
| "branch_op_name BranchOp_delete = ''delete''"
| "branch_op_name BranchOp_merge = ''merge''"

record branch_request =
  branch_request_meta :: "request_meta"
  branch_request_op :: "branch_op"
  branch_request_name :: "string option"
  branch_request_start_ref :: "string option"
  branch_request_switch_after_create :: "bool option"

datatype merge_op =
    MergeOp_start
  | MergeOp_resume
  | MergeOp_abort
  | MergeOp_status
  | MergeOp_gc

fun merge_op_name :: "merge_op \<Rightarrow> string" where
  "merge_op_name MergeOp_start = ''start''"
| "merge_op_name MergeOp_resume = ''resume''"
| "merge_op_name MergeOp_abort = ''abort''"
| "merge_op_name MergeOp_status = ''status''"
| "merge_op_name MergeOp_gc = ''gc''"

datatype merge_mode =
    MergeMode_normal
  | MergeMode_ff_only
  | MergeMode_no_ff

fun merge_mode_name :: "merge_mode \<Rightarrow> string" where
  "merge_mode_name MergeMode_normal = ''normal''"
| "merge_mode_name MergeMode_ff_only = ''ff_only''"
| "merge_mode_name MergeMode_no_ff = ''no_ff''"

record merge_request =
  mreq_meta :: "request_meta"
  mreq_op :: "merge_op"
  mreq_source_ref :: "string option"
  mreq_merge_id :: "string option"
  mreq_mode :: "merge_mode option"
  mreq_message :: "string option"
  mreq_preserve :: "bool option"
  mreq_filesystem_strict :: "bool option"
  mreq_local_source_name :: "string option"
  mreq_wait_seconds :: "int option"

datatype local_clone_mode =
    LocalCloneMode_verbatim
  | LocalCloneMode_clean
  | LocalCloneMode_bare

fun local_clone_mode_name :: "local_clone_mode \<Rightarrow> string" where
  "local_clone_mode_name LocalCloneMode_verbatim = ''verbatim''"
| "local_clone_mode_name LocalCloneMode_clean = ''clean''"
| "local_clone_mode_name LocalCloneMode_bare = ''bare''"

record clone_local_workspace_request =
  clone_local_workspace_request_meta :: "request_meta"
  clone_local_workspace_request_name :: "string"
  clone_local_workspace_request_dest :: "string option"
  clone_local_workspace_request_mode :: "local_clone_mode"
  clone_local_workspace_request_branch :: "string option"
  clone_local_workspace_request_copy_source :: "string option"
  clone_local_workspace_request_owner :: "string option"
  clone_local_workspace_request_wait_seconds :: "int option"

datatype local_family_op =
    LocalFamilyOp_list
  | LocalFamilyOp_dispose
  | LocalFamilyOp_disband

fun local_family_op_name :: "local_family_op \<Rightarrow> string" where
  "local_family_op_name LocalFamilyOp_list = ''list''"
| "local_family_op_name LocalFamilyOp_dispose = ''dispose''"
| "local_family_op_name LocalFamilyOp_disband = ''disband''"

record local_family_request =
  local_family_request_meta :: "request_meta"
  local_family_request_op :: "local_family_op"
  local_family_request_name :: "string option"
  local_family_request_keep :: "bool option"
  local_family_request_force_hazards :: "string list"
  local_family_request_wait_seconds :: "int option"

datatype diff_output_format =
    DiffOutputFormat_patch
  | DiffOutputFormat_raw
  | DiffOutputFormat_name_only
  | DiffOutputFormat_name_status
  | DiffOutputFormat_stat
  | DiffOutputFormat_numstat
  | DiffOutputFormat_shortstat
  | DiffOutputFormat_summary
  | DiffOutputFormat_patch_with_raw
  | DiffOutputFormat_patch_with_stat
  | DiffOutputFormat_no_patch

fun diff_output_format_name :: "diff_output_format \<Rightarrow> string" where
  "diff_output_format_name DiffOutputFormat_patch = ''patch''"
| "diff_output_format_name DiffOutputFormat_raw = ''raw''"
| "diff_output_format_name DiffOutputFormat_name_only = ''name_only''"
| "diff_output_format_name DiffOutputFormat_name_status = ''name_status''"
| "diff_output_format_name DiffOutputFormat_stat = ''stat''"
| "diff_output_format_name DiffOutputFormat_numstat = ''numstat''"
| "diff_output_format_name DiffOutputFormat_shortstat = ''shortstat''"
| "diff_output_format_name DiffOutputFormat_summary = ''summary''"
| "diff_output_format_name DiffOutputFormat_patch_with_raw = ''patch_with_raw''"
| "diff_output_format_name DiffOutputFormat_patch_with_stat = ''patch_with_stat''"
| "diff_output_format_name DiffOutputFormat_no_patch = ''no_patch''"

datatype diff_algorithm =
    DiffAlgorithm_default
  | DiffAlgorithm_myers
  | DiffAlgorithm_minimal
  | DiffAlgorithm_patience

fun diff_algorithm_name :: "diff_algorithm \<Rightarrow> string" where
  "diff_algorithm_name DiffAlgorithm_default = ''default''"
| "diff_algorithm_name DiffAlgorithm_myers = ''myers''"
| "diff_algorithm_name DiffAlgorithm_minimal = ''minimal''"
| "diff_algorithm_name DiffAlgorithm_patience = ''patience''"

datatype diff_whitespace_mode =
    DiffWhitespaceMode_default
  | DiffWhitespaceMode_ignore_all
  | DiffWhitespaceMode_ignore_change
  | DiffWhitespaceMode_ignore_eol
  | DiffWhitespaceMode_ignore_blank_lines

fun diff_whitespace_mode_name :: "diff_whitespace_mode \<Rightarrow> string" where
  "diff_whitespace_mode_name DiffWhitespaceMode_default = ''default''"
| "diff_whitespace_mode_name DiffWhitespaceMode_ignore_all = ''ignore_all''"
| "diff_whitespace_mode_name DiffWhitespaceMode_ignore_change = ''ignore_change''"
| "diff_whitespace_mode_name DiffWhitespaceMode_ignore_eol = ''ignore_eol''"
| "diff_whitespace_mode_name DiffWhitespaceMode_ignore_blank_lines = ''ignore_blank_lines''"

datatype diff_manifest_mode =
    DiffManifestMode_full
  | DiffManifestMode_any_difference

fun diff_manifest_mode_name :: "diff_manifest_mode \<Rightarrow> string" where
  "diff_manifest_mode_name DiffManifestMode_full = ''full''"
| "diff_manifest_mode_name DiffManifestMode_any_difference = ''any_difference''"

record diff_options =
  dop_output_format :: "diff_output_format option"
  dop_context_lines :: "int option"
  dop_interhunk_lines :: "int option"
  dop_algorithm :: "diff_algorithm option"
  dop_whitespace :: "diff_whitespace_mode option"
  dop_find_renames :: "bool option"
  dop_find_copies :: "bool option"
  dop_rename_threshold :: "int option"
  dop_rename_limit :: "int option"
  dop_binary :: "bool option"
  dop_text :: "bool option"
  dop_full_index :: "bool option"
  dop_abbrev :: "int option"
  dop_reverse :: "bool option"
  dop_null_terminated :: "bool option"
  dop_src_prefix :: "string option"
  dop_dst_prefix :: "string option"
  dop_no_prefix :: "bool option"
  dop_line_prefix :: "string option"
  dop_ignore_submodules :: "string option"
  dop_diff_filter :: "string option"
  dop_manifest_mode :: "diff_manifest_mode option"
  dop_echo_manifest_entries :: "bool option"

record diff_request =
  diff_request_meta :: "request_meta"
  diff_request_workspace_cwd :: "string option"
  diff_request_operands :: "string list"
  diff_request_explicit_pathspecs :: "string list"
  diff_request_options :: "diff_options option"
  diff_request_cached :: "bool option"
  diff_request_merge_base :: "bool option"
  diff_request_tagged :: "bool option"

record log_options =
  lop_max_entries :: "int option"
  lop_since :: "string option"
  lop_until :: "string option"
  lop_author :: "string option"
  lop_grep :: "string option"
  lop_no_merges :: "bool option"
  lop_first_parent :: "bool option"
  lop_strict :: "bool option"
  lop_coalesce :: "bool option"
  lop_include_body :: "bool option"

record log_request =
  log_request_meta :: "request_meta"
  log_request_workspace_cwd :: "string option"
  log_request_operands :: "string list"
  log_request_explicit_pathspecs :: "string list"
  log_request_options :: "log_options option"
  log_request_tagged :: "bool option"

end
