(* ===== verification/ProtocolResponses.thy ===== *)
theory ProtocolResponses
  imports ProtocolRequests
begin

section \<open>The response half of the protocol types\<close>

text \<open>
  The response envelope and what it carries, with the transport and listing responses, from
  \<^verbatim>\<open>src/gwz/protocol/generated/api.py\<close>, one record or datatype per class.
  \<open>GwzErrorCode\<close> has 87 members; a code is represented by its member name, and
  \<open>gwz_error_codes\<close> lists the names the schema declares.
\<close>

datatype action_kind =
    ActionKind_create_workspace
  | ActionKind_init_from_sources
  | ActionKind_add_existing_repo
  | ActionKind_create_repo
  | ActionKind_materialize
  | ActionKind_status
  | ActionKind_snapshot
  | ActionKind_tag
  | ActionKind_pull_head
  | ActionKind_pull_snapshot
  | ActionKind_push
  | ActionKind_capture
  | ActionKind_commit
  | ActionKind_stage
  | ActionKind_ls
  | ActionKind_forall
  | ActionKind_repo_sync
  | ActionKind_stash
  | ActionKind_branch
  | ActionKind_clone_workspace
  | ActionKind_list_snapshots
  | ActionKind_diff
  | ActionKind_clone_repo_member
  | ActionKind_detach_repo_member
  | ActionKind_attach_repo_member
  | ActionKind_merge
  | ActionKind_log
  | ActionKind_clone_local_workspace
  | ActionKind_local_family
  | ActionKind_remote_identity
  | ActionKind_fetch

fun action_kind_name :: "action_kind \<Rightarrow> string" where
  "action_kind_name ActionKind_create_workspace = ''create_workspace''"
| "action_kind_name ActionKind_init_from_sources = ''init_from_sources''"
| "action_kind_name ActionKind_add_existing_repo = ''add_existing_repo''"
| "action_kind_name ActionKind_create_repo = ''create_repo''"
| "action_kind_name ActionKind_materialize = ''materialize''"
| "action_kind_name ActionKind_status = ''status''"
| "action_kind_name ActionKind_snapshot = ''snapshot''"
| "action_kind_name ActionKind_tag = ''tag''"
| "action_kind_name ActionKind_pull_head = ''pull_head''"
| "action_kind_name ActionKind_pull_snapshot = ''pull_snapshot''"
| "action_kind_name ActionKind_push = ''push''"
| "action_kind_name ActionKind_capture = ''capture''"
| "action_kind_name ActionKind_commit = ''commit''"
| "action_kind_name ActionKind_stage = ''stage''"
| "action_kind_name ActionKind_ls = ''ls''"
| "action_kind_name ActionKind_forall = ''forall''"
| "action_kind_name ActionKind_repo_sync = ''repo_sync''"
| "action_kind_name ActionKind_stash = ''stash''"
| "action_kind_name ActionKind_branch = ''branch''"
| "action_kind_name ActionKind_clone_workspace = ''clone_workspace''"
| "action_kind_name ActionKind_list_snapshots = ''list_snapshots''"
| "action_kind_name ActionKind_diff = ''diff''"
| "action_kind_name ActionKind_clone_repo_member = ''clone_repo_member''"
| "action_kind_name ActionKind_detach_repo_member = ''detach_repo_member''"
| "action_kind_name ActionKind_attach_repo_member = ''attach_repo_member''"
| "action_kind_name ActionKind_merge = ''merge''"
| "action_kind_name ActionKind_log = ''log''"
| "action_kind_name ActionKind_clone_local_workspace = ''clone_local_workspace''"
| "action_kind_name ActionKind_local_family = ''local_family''"
| "action_kind_name ActionKind_remote_identity = ''remote_identity''"
| "action_kind_name ActionKind_fetch = ''fetch''"

datatype aggregate_status =
    AggregateStatus_accepted
  | AggregateStatus_ok
  | AggregateStatus_noop
  | AggregateStatus_rejected
  | AggregateStatus_partial
  | AggregateStatus_failed
  | AggregateStatus_dirty
  | AggregateStatus_conflicted

fun aggregate_status_name :: "aggregate_status \<Rightarrow> string" where
  "aggregate_status_name AggregateStatus_accepted = ''accepted''"
| "aggregate_status_name AggregateStatus_ok = ''ok''"
| "aggregate_status_name AggregateStatus_noop = ''noop''"
| "aggregate_status_name AggregateStatus_rejected = ''rejected''"
| "aggregate_status_name AggregateStatus_partial = ''partial''"
| "aggregate_status_name AggregateStatus_failed = ''failed''"
| "aggregate_status_name AggregateStatus_dirty = ''dirty''"
| "aggregate_status_name AggregateStatus_conflicted = ''conflicted''"

datatype transport_operation =
    TransportOperation_clone
  | TransportOperation_fetch
  | TransportOperation_push
  | TransportOperation_read_advertisement

fun transport_operation_name :: "transport_operation \<Rightarrow> string" where
  "transport_operation_name TransportOperation_clone = ''clone''"
| "transport_operation_name TransportOperation_fetch = ''fetch''"
| "transport_operation_name TransportOperation_push = ''push''"
| "transport_operation_name TransportOperation_read_advertisement = ''read_advertisement''"

datatype transport_credential_method =
    TransportCredentialMethod_unknown
  | TransportCredentialMethod_file
  | TransportCredentialMethod_agent
  | TransportCredentialMethod_helper

fun transport_credential_method_name :: "transport_credential_method \<Rightarrow> string" where
  "transport_credential_method_name TransportCredentialMethod_unknown = ''unknown''"
| "transport_credential_method_name TransportCredentialMethod_file = ''file''"
| "transport_credential_method_name TransportCredentialMethod_agent = ''agent''"
| "transport_credential_method_name TransportCredentialMethod_helper = ''helper''"

datatype transport_selection_source =
    TransportSelectionSource_ambient
  | TransportSelectionSource_invocation_remote
  | TransportSelectionSource_invocation_default
  | TransportSelectionSource_local_configuration

fun transport_selection_source_name :: "transport_selection_source \<Rightarrow> string" where
  "transport_selection_source_name TransportSelectionSource_ambient = ''ambient''"
| "transport_selection_source_name TransportSelectionSource_invocation_remote = ''invocation_remote''"
| "transport_selection_source_name TransportSelectionSource_invocation_default = ''invocation_default''"
| "transport_selection_source_name TransportSelectionSource_local_configuration = ''local_configuration''"

record transport_observation =
  tob_repository_path :: "string"
  tob_remote :: "string"
  tob_operation :: "transport_operation"
  tob_credential_method :: "transport_credential_method"
  tob_selection_source :: "transport_selection_source"
  tob_credential_offered :: "bool"
  tob_authenticated :: "bool option"
  tob_public_key_fingerprint :: "string option"
  tob_endpoint_id :: "string option"
  tob_connection_id :: "string option"
  tob_stream_id :: "int option"
  tob_reused :: "bool option"

record response_meta =
  rsm_request_id :: "string"
  rsm_schema_version :: "string"
  rsm_action :: "action_kind"
  rsm_aggregate_status :: "aggregate_status"
  rsm_operation_id :: "string option"
  rsm_message :: "string option"
  rsm_attribution :: "operation_attribution option"
  rsm_transport :: "transport_observation list option"
  rsm_transport_message :: "transport_envelope option"

datatype source_kind =
    SourceKind_git
  | SourceKind_archive
  | SourceKind_package
  | SourceKind_local
  | SourceKind_generated

fun source_kind_name :: "source_kind \<Rightarrow> string" where
  "source_kind_name SourceKind_git = ''git''"
| "source_kind_name SourceKind_archive = ''archive''"
| "source_kind_name SourceKind_package = ''package''"
| "source_kind_name SourceKind_local = ''local''"
| "source_kind_name SourceKind_generated = ''generated''"

datatype member_status =
    MemberStatus_planned
  | MemberStatus_ok
  | MemberStatus_noop
  | MemberStatus_skipped
  | MemberStatus_rejected
  | MemberStatus_failed
  | MemberStatus_conflicted

fun member_status_name :: "member_status \<Rightarrow> string" where
  "member_status_name MemberStatus_planned = ''planned''"
| "member_status_name MemberStatus_ok = ''ok''"
| "member_status_name MemberStatus_noop = ''noop''"
| "member_status_name MemberStatus_skipped = ''skipped''"
| "member_status_name MemberStatus_rejected = ''rejected''"
| "member_status_name MemberStatus_failed = ''failed''"
| "member_status_name MemberStatus_conflicted = ''conflicted''"

datatype gwz_error_code = GwzErrorCode (gwz_error_code_name: string)

definition gwz_error_codes :: "string list" where
  "gwz_error_codes =
    [''ok'', ''invalid_request'', ''workspace_not_found'', ''workspace_already_exists'',
     ''nested_workspace'', ''manifest_not_found'', ''manifest_invalid'', ''schema_unsupported'',
     ''member_not_found'', ''member_inactive'', ''path_escape'', ''path_collision'',
     ''path_reserved'', ''unsupported_source_kind'', ''unsupported_operation'',
     ''dirty_member'', ''diverged_member'', ''missing_remote'', ''snapshot_not_found'',
     ''lock_not_found'', ''tag_not_found'', ''tag_invalid'', ''remote_rejected'',
     ''git_command_failed'', ''external_tool_missing'', ''operation_not_found'',
     ''attribution_denied'', ''permission_denied'', ''io_error'', ''internal_error'',
     ''branch_detached_head'', ''branch_unborn_head'', ''branch_mixed'', ''stash_not_found'',
     ''stash_incomplete'', ''stash_conflict'', ''source_identity_mismatch'',
     ''deprecated_operation'', ''merge_validation_failed'', ''merge_id_mismatch'',
     ''merge_drift'', ''open_operation'', ''merge_recovery_required'',
     ''merge_phase_unsupported'', ''root_merge_not_yet_supported'', ''merge_record_unreadable'',
     ''unsupported_record_version'', ''unsupported_legacy_mode'',
     ''archived_record_unreadable'', ''unexpected_acceptance_evidence'',
     ''acceptance_input_drift'', ''candidate_integrity_mismatch'',
     ''ambiguous_evidence_commit'', ''recorded_evidence_drift'',
     ''publication_prefix_mismatch'', ''published_candidate_mismatch'',
     ''preservation_evidence_mismatch'', ''rollback_evidence_mismatch'',
     ''unexpected_publication_evidence'', ''terminal_evidence_mismatch'',
     ''recovery_evidence_mismatch'', ''terminal_rollback_mismatch'', ''unknown_local'',
     ''unsupported_source_layout'', ''copy_failed'', ''source_drift'',
     ''destination_incomplete'', ''pairing_mismatch'', ''import_incomplete'',
     ''unwaived_hazard'', ''unknown_evidence'', ''disposal_incomplete'',
     ''url_scheme_unavailable'', ''cancelled'', ''transport_record_limit'',
     ''credential_helper_timeout'', ''capacity'', ''transport_session_full'',
     ''operation_expired'', ''server_unavailable'', ''server_version_mismatch'',
     ''server_environment_mismatch'', ''server_peer_refused'', ''server_address_refused'',
     ''server_listener_refused'', ''server_session_closed'', ''server_destination_refused'']"

datatype target_kind =
    TargetKind_root
  | TargetKind_member

fun target_kind_name :: "target_kind \<Rightarrow> string" where
  "target_kind_name TargetKind_root = ''root''"
| "target_kind_name TargetKind_member = ''member''"

datatype merge_record_required_wave =
    MergeRecordRequiredWave_a1
  | MergeRecordRequiredWave_a2
  | MergeRecordRequiredWave_a3
  | MergeRecordRequiredWave_a4

fun merge_record_required_wave_name :: "merge_record_required_wave \<Rightarrow> string" where
  "merge_record_required_wave_name MergeRecordRequiredWave_a1 = ''a1''"
| "merge_record_required_wave_name MergeRecordRequiredWave_a2 = ''a2''"
| "merge_record_required_wave_name MergeRecordRequiredWave_a3 = ''a3''"
| "merge_record_required_wave_name MergeRecordRequiredWave_a4 = ''a4''"

record merge_record_compatibility_context =
  mrc_merge_id :: "string"
  mrc_schema :: "string option"
  mrc_record_schema_version :: "int option"
  mrc_required_wave :: "merge_record_required_wave option"
  mrc_legacy_mode :: "string option"

record gwz_error =
  ge_code :: "gwz_error_code"
  ge_message :: "string"
  ge_member_id :: "string option"
  ge_member_path :: "string option"
  ge_detail :: "string option"
  ge_target_kind :: "target_kind option"
  ge_record_context :: "merge_record_compatibility_context option"

datatype planned_action =
    PlannedAction_noop
  | PlannedAction_clone
  | PlannedAction_fetch
  | PlannedAction_fast_forward
  | PlannedAction_checkout
  | PlannedAction_init_repo
  | PlannedAction_add_manifest_member
  | PlannedAction_write_manifest
  | PlannedAction_write_lock
  | PlannedAction_write_snapshot
  | PlannedAction_write_tag
  | PlannedAction_push
  | PlannedAction_merge
  | PlannedAction_rebase
  | PlannedAction_reset
  | PlannedAction_detach_member
  | PlannedAction_attach_member

fun planned_action_name :: "planned_action \<Rightarrow> string" where
  "planned_action_name PlannedAction_noop = ''noop''"
| "planned_action_name PlannedAction_clone = ''clone''"
| "planned_action_name PlannedAction_fetch = ''fetch''"
| "planned_action_name PlannedAction_fast_forward = ''fast_forward''"
| "planned_action_name PlannedAction_checkout = ''checkout''"
| "planned_action_name PlannedAction_init_repo = ''init_repo''"
| "planned_action_name PlannedAction_add_manifest_member = ''add_manifest_member''"
| "planned_action_name PlannedAction_write_manifest = ''write_manifest''"
| "planned_action_name PlannedAction_write_lock = ''write_lock''"
| "planned_action_name PlannedAction_write_snapshot = ''write_snapshot''"
| "planned_action_name PlannedAction_write_tag = ''write_tag''"
| "planned_action_name PlannedAction_push = ''push''"
| "planned_action_name PlannedAction_merge = ''merge''"
| "planned_action_name PlannedAction_rebase = ''rebase''"
| "planned_action_name PlannedAction_reset = ''reset''"
| "planned_action_name PlannedAction_detach_member = ''detach_member''"
| "planned_action_name PlannedAction_attach_member = ''attach_member''"

record planned_change =
  plc_action :: "planned_action"
  plc_from_ref :: "string option"
  plc_to_ref :: "string option"
  plc_message :: "string option"

record remote_spec =
  remote_spec_name :: "string"
  remote_spec_url :: "string"
  remote_spec_fetch :: "bool option"
  remote_spec_push :: "bool option"

record resolved_member_state =
  rms_member_id :: "string"
  rms_path :: "string"
  rms_source_id :: "string"
  rms_source_kind :: "source_kind"
  rms_commit :: "string option"
  rms_branch :: "string option"
  rms_detached :: "bool option"
  rms_upstream :: "string option"
  rms_dirty :: "bool option"
  rms_materialized :: "bool"
  rms_remotes :: "remote_spec list"

record git_status =
  gst_member_id :: "string"
  gst_branch :: "string option"
  gst_detached :: "bool"
  gst_head :: "string option"
  gst_upstream :: "string option"
  gst_ahead :: "int option"
  gst_behind :: "int option"
  gst_staged :: "int"
  gst_unstaged :: "int"
  gst_untracked :: "int"
  gst_dirty :: "bool"

datatype lock_match =
    LockMatch_unknown
  | LockMatch_matches
  | LockMatch_differs
  | LockMatch_missing

fun lock_match_name :: "lock_match \<Rightarrow> string" where
  "lock_match_name LockMatch_unknown = ''unknown''"
| "lock_match_name LockMatch_matches = ''matches''"
| "lock_match_name LockMatch_differs = ''differs''"
| "lock_match_name LockMatch_missing = ''missing''"

datatype lock_difference_reason =
    LockDifferenceReason_dirty_worktree
  | LockDifferenceReason_commit
  | LockDifferenceReason_branch
  | LockDifferenceReason_attachment
  | LockDifferenceReason_missing_lock_entry
  | LockDifferenceReason_unavailable_observations

fun lock_difference_reason_name :: "lock_difference_reason \<Rightarrow> string" where
  "lock_difference_reason_name LockDifferenceReason_dirty_worktree = ''dirty_worktree''"
| "lock_difference_reason_name LockDifferenceReason_commit = ''commit''"
| "lock_difference_reason_name LockDifferenceReason_branch = ''branch''"
| "lock_difference_reason_name LockDifferenceReason_attachment = ''attachment''"
| "lock_difference_reason_name LockDifferenceReason_missing_lock_entry = ''missing_lock_entry''"
| "lock_difference_reason_name LockDifferenceReason_unavailable_observations = ''unavailable_observations''"

datatype url_scheme_source =
    UrlSchemeSource_default
  | UrlSchemeSource_request
  | UrlSchemeSource_workspace

fun url_scheme_source_name :: "url_scheme_source \<Rightarrow> string" where
  "url_scheme_source_name UrlSchemeSource_default = ''default''"
| "url_scheme_source_name UrlSchemeSource_request = ''request''"
| "url_scheme_source_name UrlSchemeSource_workspace = ''workspace''"

record member_url_resolution =
  mur_manifest_url :: "string"
  mur_effective_url :: "string"
  mur_scheme :: "url_scheme"
  mur_source :: "url_scheme_source"
  mur_derived :: "bool"
  mur_host_known :: "bool"

record member_response =
  mr_member_id :: "string"
  mr_member_path :: "string"
  mr_source_kind :: "source_kind"
  mr_status :: "member_status"
  mr_error :: "gwz_error option"
  mr_planned :: "planned_change option"
  mr_state :: "resolved_member_state option"
  mr_git_status :: "git_status option"
  mr_lock_match :: "lock_match option"
  mr_target_kind :: "target_kind option"
  mr_lock_difference_reasons :: "lock_difference_reason list option"
  mr_url_resolution :: "member_url_resolution option"

record response_envelope =
  env_meta :: "response_meta"
  env_members :: "member_response list"
  env_errors :: "gwz_error list"

record remote_identity_entry =
  rie_member_id :: "string"
  rie_member_path :: "string"
  rie_remote :: "string"
  rie_private_key_path :: "string option"

record remote_identity_response =
  remote_identity_response_response :: "response_envelope"
  remote_identity_response_identities :: "remote_identity_entry list"

record transport_runtime_response =
  transport_runtime_response_server_timeout_ms :: "int"

record transport_capabilities_response =
  tcr_file_identity :: "bool"
  tcr_exact_agent_identity :: "bool"
  tcr_message_versions :: "int list option"
  tcr_placements :: "transport_placement list option"
  tcr_schemes :: "scheme list option"
  tcr_auth_policies :: "auth_policy list option"
  tcr_message_limits :: "limits option"
  tcr_cancellation :: "bool option"

record member_entry =
  me_id :: "string"
  me_path :: "string"
  me_abspath :: "string"
  me_materialized :: "bool"
  me_target_kind :: "target_kind option"
  me_note :: "string option"

record ls_response =
  ls_response_response :: "response_envelope"
  ls_response_members :: "member_entry list option"

record exec_result =
  xr_id :: "string"
  xr_path :: "string"
  xr_exit_code :: "int option"
  xr_signal :: "int option"
  xr_spawn_error :: "string option"

record exec_response =
  exec_response_response :: "response_envelope"
  exec_response_results :: "exec_result list option"

datatype exec_mode =
    ExecMode_argv
  | ExecMode_shell

fun exec_mode_name :: "exec_mode \<Rightarrow> string" where
  "exec_mode_name ExecMode_argv = ''argv''"
| "exec_mode_name ExecMode_shell = ''shell''"

end
