(* ===== verification/ProtocolMerge.thy ===== *)
theory ProtocolMerge
  imports ProtocolResponses
begin

section \<open>Events, results and the merge response\<close>

text \<open>
  Operation events and results and the whole merge response tree, from
  \<^verbatim>\<open>src/gwz/protocol/generated/api.py\<close>.
\<close>

datatype event_kind =
    EventKind_operation_started
  | EventKind_member_started
  | EventKind_member_progress
  | EventKind_member_finished
  | EventKind_artifact_written
  | EventKind_operation_finished
  | EventKind_reset
  | EventKind_operation_state_changed
  | EventKind_diagnostic

fun event_kind_name :: "event_kind \<Rightarrow> string" where
  "event_kind_name EventKind_operation_started = ''operation_started''"
| "event_kind_name EventKind_member_started = ''member_started''"
| "event_kind_name EventKind_member_progress = ''member_progress''"
| "event_kind_name EventKind_member_finished = ''member_finished''"
| "event_kind_name EventKind_artifact_written = ''artifact_written''"
| "event_kind_name EventKind_operation_finished = ''operation_finished''"
| "event_kind_name EventKind_reset = ''reset''"
| "event_kind_name EventKind_operation_state_changed = ''operation_state_changed''"
| "event_kind_name EventKind_diagnostic = ''diagnostic''"

datatype severity =
    Severity_debug
  | Severity_info
  | Severity_warn
  | Severity_error

fun severity_name :: "severity \<Rightarrow> string" where
  "severity_name Severity_debug = ''debug''"
| "severity_name Severity_info = ''info''"
| "severity_name Severity_warn = ''warn''"
| "severity_name Severity_error = ''error''"

datatype git_progress_phase =
    GitProgressPhase_enumerating
  | GitProgressPhase_counting
  | GitProgressPhase_compressing
  | GitProgressPhase_receiving
  | GitProgressPhase_resolving
  | GitProgressPhase_checking_out
  | GitProgressPhase_writing

fun git_progress_phase_name :: "git_progress_phase \<Rightarrow> string" where
  "git_progress_phase_name GitProgressPhase_enumerating = ''enumerating''"
| "git_progress_phase_name GitProgressPhase_counting = ''counting''"
| "git_progress_phase_name GitProgressPhase_compressing = ''compressing''"
| "git_progress_phase_name GitProgressPhase_receiving = ''receiving''"
| "git_progress_phase_name GitProgressPhase_resolving = ''resolving''"
| "git_progress_phase_name GitProgressPhase_checking_out = ''checking_out''"
| "git_progress_phase_name GitProgressPhase_writing = ''writing''"

record git_transfer_progress =
  gtp_phase :: "git_progress_phase"
  gtp_received_objects :: "int option"
  gtp_total_objects :: "int option"
  gtp_received_bytes :: "int option"
  gtp_indexed_deltas :: "int option"
  gtp_total_deltas :: "int option"

datatype merge_operation_state =
    MergeOperationState_executing
  | MergeOperationState_awaiting_resolution
  | MergeOperationState_halted
  | MergeOperationState_finalizing
  | MergeOperationState_preserving
  | MergeOperationState_rolling_back
  | MergeOperationState_completed
  | MergeOperationState_aborted
  | MergeOperationState_recovery_required
  | MergeOperationState_idle

fun merge_operation_state_name :: "merge_operation_state \<Rightarrow> string" where
  "merge_operation_state_name MergeOperationState_executing = ''executing''"
| "merge_operation_state_name MergeOperationState_awaiting_resolution = ''awaiting_resolution''"
| "merge_operation_state_name MergeOperationState_halted = ''halted''"
| "merge_operation_state_name MergeOperationState_finalizing = ''finalizing''"
| "merge_operation_state_name MergeOperationState_preserving = ''preserving''"
| "merge_operation_state_name MergeOperationState_rolling_back = ''rolling_back''"
| "merge_operation_state_name MergeOperationState_completed = ''completed''"
| "merge_operation_state_name MergeOperationState_aborted = ''aborted''"
| "merge_operation_state_name MergeOperationState_recovery_required = ''recovery_required''"
| "merge_operation_state_name MergeOperationState_idle = ''idle''"

datatype merge_participant_state =
    MergeParticipantState_planned
  | MergeParticipantState_up_to_date
  | MergeParticipantState_fast_forwarded
  | MergeParticipantState_merged
  | MergeParticipantState_conflicted
  | MergeParticipantState_failed
  | MergeParticipantState_unattempted
  | MergeParticipantState_continued
  | MergeParticipantState_aborted
  | MergeParticipantState_rolled_back

fun merge_participant_state_name :: "merge_participant_state \<Rightarrow> string" where
  "merge_participant_state_name MergeParticipantState_planned = ''planned''"
| "merge_participant_state_name MergeParticipantState_up_to_date = ''up_to_date''"
| "merge_participant_state_name MergeParticipantState_fast_forwarded = ''fast_forwarded''"
| "merge_participant_state_name MergeParticipantState_merged = ''merged''"
| "merge_participant_state_name MergeParticipantState_conflicted = ''conflicted''"
| "merge_participant_state_name MergeParticipantState_failed = ''failed''"
| "merge_participant_state_name MergeParticipantState_unattempted = ''unattempted''"
| "merge_participant_state_name MergeParticipantState_continued = ''continued''"
| "merge_participant_state_name MergeParticipantState_aborted = ''aborted''"
| "merge_participant_state_name MergeParticipantState_rolled_back = ''rolled_back''"

datatype merge_analysis_kind =
    MergeAnalysisKind_up_to_date
  | MergeAnalysisKind_fast_forward
  | MergeAnalysisKind_true_merge
  | MergeAnalysisKind_unknown

fun merge_analysis_kind_name :: "merge_analysis_kind \<Rightarrow> string" where
  "merge_analysis_kind_name MergeAnalysisKind_up_to_date = ''up_to_date''"
| "merge_analysis_kind_name MergeAnalysisKind_fast_forward = ''fast_forward''"
| "merge_analysis_kind_name MergeAnalysisKind_true_merge = ''true_merge''"
| "merge_analysis_kind_name MergeAnalysisKind_unknown = ''unknown''"

datatype merge_participant_drift_kind =
    MergeParticipantDriftKind_branch_changed
  | MergeParticipantDriftKind_head_advanced
  | MergeParticipantDriftKind_head_rewound
  | MergeParticipantDriftKind_target_ref_changed
  | MergeParticipantDriftKind_worktree_modified
  | MergeParticipantDriftKind_index_modified
  | MergeParticipantDriftKind_merge_state_missing
  | MergeParticipantDriftKind_merge_head_changed
  | MergeParticipantDriftKind_new_integration_state
  | MergeParticipantDriftKind_repository_missing
  | MergeParticipantDriftKind_head_diverged
  | MergeParticipantDriftKind_object_missing
  | MergeParticipantDriftKind_foreign_integration_state
  | MergeParticipantDriftKind_pending_action_ambiguous

fun merge_participant_drift_kind_name :: "merge_participant_drift_kind \<Rightarrow> string" where
  "merge_participant_drift_kind_name MergeParticipantDriftKind_branch_changed = ''branch_changed''"
| "merge_participant_drift_kind_name MergeParticipantDriftKind_head_advanced = ''head_advanced''"
| "merge_participant_drift_kind_name MergeParticipantDriftKind_head_rewound = ''head_rewound''"
| "merge_participant_drift_kind_name MergeParticipantDriftKind_target_ref_changed = ''target_ref_changed''"
| "merge_participant_drift_kind_name MergeParticipantDriftKind_worktree_modified = ''worktree_modified''"
| "merge_participant_drift_kind_name MergeParticipantDriftKind_index_modified = ''index_modified''"
| "merge_participant_drift_kind_name MergeParticipantDriftKind_merge_state_missing = ''merge_state_missing''"
| "merge_participant_drift_kind_name MergeParticipantDriftKind_merge_head_changed = ''merge_head_changed''"
| "merge_participant_drift_kind_name MergeParticipantDriftKind_new_integration_state = ''new_integration_state''"
| "merge_participant_drift_kind_name MergeParticipantDriftKind_repository_missing = ''repository_missing''"
| "merge_participant_drift_kind_name MergeParticipantDriftKind_head_diverged = ''head_diverged''"
| "merge_participant_drift_kind_name MergeParticipantDriftKind_object_missing = ''object_missing''"
| "merge_participant_drift_kind_name MergeParticipantDriftKind_foreign_integration_state = ''foreign_integration_state''"
| "merge_participant_drift_kind_name MergeParticipantDriftKind_pending_action_ambiguous = ''pending_action_ambiguous''"

record merge_participant_drift =
  mpd_kind :: "merge_participant_drift_kind"
  mpd_message :: "string"
  mpd_expected_branch :: "string option"
  mpd_live_branch :: "string option"
  mpd_expected_head :: "string option"
  mpd_live_head :: "string option"
  mpd_expected_merge_head :: "string option"
  mpd_live_merge_head :: "string option"

datatype merge_pending_action_kind =
    MergePendingActionKind_verify_up_to_date
  | MergePendingActionKind_fast_forward
  | MergePendingActionKind_true_merge
  | MergePendingActionKind_resolve_conflict

fun merge_pending_action_kind_name :: "merge_pending_action_kind \<Rightarrow> string" where
  "merge_pending_action_kind_name MergePendingActionKind_verify_up_to_date = ''verify_up_to_date''"
| "merge_pending_action_kind_name MergePendingActionKind_fast_forward = ''fast_forward''"
| "merge_pending_action_kind_name MergePendingActionKind_true_merge = ''true_merge''"
| "merge_pending_action_kind_name MergePendingActionKind_resolve_conflict = ''resolve_conflict''"

datatype merge_pending_action_state =
    MergePendingActionState_not_started
  | MergePendingActionState_expected_conflict
  | MergePendingActionState_completed_exactly
  | MergePendingActionState_ambiguous

fun merge_pending_action_state_name :: "merge_pending_action_state \<Rightarrow> string" where
  "merge_pending_action_state_name MergePendingActionState_not_started = ''not_started''"
| "merge_pending_action_state_name MergePendingActionState_expected_conflict = ''expected_conflict''"
| "merge_pending_action_state_name MergePendingActionState_completed_exactly = ''completed_exactly''"
| "merge_pending_action_state_name MergePendingActionState_ambiguous = ''ambiguous''"

record merge_pending_action_summary =
  mpa_kind :: "merge_pending_action_kind"
  mpa_state :: "merge_pending_action_state"
  mpa_message :: "string option"

record merge_repo_summary =
  mrs_target_id :: "string"
  mrs_target_kind :: "target_kind"
  mrs_path :: "string"
  mrs_source_ref :: "string"
  mrs_source_commit :: "string"
  mrs_target_branch :: "string"
  mrs_before_commit :: "string"
  mrs_resulting_commit :: "string option"
  mrs_live_commit :: "string option"
  mrs_state :: "merge_participant_state"
  mrs_predicted :: "merge_analysis_kind option"
  mrs_prediction_complete :: "bool option"
  mrs_conflict_paths :: "string list"
  mrs_continue_eligible :: "bool option"
  mrs_abort_eligible :: "bool option"
  mrs_drift :: "merge_participant_drift list"
  mrs_error :: "gwz_error option"
  mrs_pending_action :: "merge_pending_action_summary option"

record operation_event =
  ev_operation_id :: "string"
  ev_request_id :: "string"
  ev_sequence :: "int"
  ev_timestamp_ms :: "int"
  ev_kind :: "event_kind"
  ev_severity :: "severity"
  ev_member_id :: "string option"
  ev_member_path :: "string option"
  ev_message :: "string option"
  ev_member :: "member_response option"
  ev_error :: "gwz_error option"
  ev_attribution :: "operation_attribution option"
  ev_progress :: "git_transfer_progress option"
  ev_target_kind :: "target_kind option"
  ev_merge_state :: "merge_operation_state option"
  ev_merge_member :: "merge_repo_summary option"
  ev_artifact_path :: "string option"

record operation_result =
  opr_operation_id :: "string"
  opr_request_id :: "string"
  opr_action :: "action_kind"
  opr_aggregate_status :: "aggregate_status"
  opr_started_at_ms :: "int"
  opr_finished_at_ms :: "int"
  opr_members :: "member_response list"
  opr_errors :: "gwz_error list"
  opr_attribution :: "operation_attribution option"
  opr_transport :: "transport_observation list option"

record merge_participant_counts =
  mpc_total :: "int"
  mpc_planned :: "int"
  mpc_up_to_date :: "int"
  mpc_fast_forwarded :: "int"
  mpc_merged :: "int"
  mpc_conflicted :: "int"
  mpc_failed :: "int"
  mpc_unattempted :: "int"
  mpc_continued :: "int"
  mpc_aborted :: "int"
  mpc_rolled_back :: "int"

datatype merge_operation_drift_kind =
    MergeOperationDriftKind_baseline_lock_changed
  | MergeOperationDriftKind_baseline_manifest_changed
  | MergeOperationDriftKind_root_candidate_metadata_invalid
  | MergeOperationDriftKind_root_candidate_state_changed
  | MergeOperationDriftKind_record_unreadable

fun merge_operation_drift_kind_name :: "merge_operation_drift_kind \<Rightarrow> string" where
  "merge_operation_drift_kind_name MergeOperationDriftKind_baseline_lock_changed = ''baseline_lock_changed''"
| "merge_operation_drift_kind_name MergeOperationDriftKind_baseline_manifest_changed = ''baseline_manifest_changed''"
| "merge_operation_drift_kind_name MergeOperationDriftKind_root_candidate_metadata_invalid = ''root_candidate_metadata_invalid''"
| "merge_operation_drift_kind_name MergeOperationDriftKind_root_candidate_state_changed = ''root_candidate_state_changed''"
| "merge_operation_drift_kind_name MergeOperationDriftKind_record_unreadable = ''record_unreadable''"

record merge_operation_drift =
  mopd_kind :: "merge_operation_drift_kind"
  mopd_message :: "string"

record merge_preservation =
  mpv_target_id :: "string"
  mpv_path :: "string"
  mpv_backup_ref :: "string option"
  mpv_backup_commit :: "string option"
  mpv_stash_id :: "string option"
  mpv_stash_object_id :: "string option"

datatype merge_publication_step =
    MergePublicationStep_not_started
  | MergePublicationStep_validating_results
  | MergePublicationStep_preparing_candidate
  | MergePublicationStep_committing_evidence
  | MergePublicationStep_publishing_candidate
  | MergePublicationStep_verifying_publication
  | MergePublicationStep_complete

fun merge_publication_step_name :: "merge_publication_step \<Rightarrow> string" where
  "merge_publication_step_name MergePublicationStep_not_started = ''not_started''"
| "merge_publication_step_name MergePublicationStep_validating_results = ''validating_results''"
| "merge_publication_step_name MergePublicationStep_preparing_candidate = ''preparing_candidate''"
| "merge_publication_step_name MergePublicationStep_committing_evidence = ''committing_evidence''"
| "merge_publication_step_name MergePublicationStep_publishing_candidate = ''publishing_candidate''"
| "merge_publication_step_name MergePublicationStep_verifying_publication = ''verifying_publication''"
| "merge_publication_step_name MergePublicationStep_complete = ''complete''"

datatype merge_record_version =
    MergeRecordVersion_v0
  | MergeRecordVersion_v1

fun merge_record_version_name :: "merge_record_version \<Rightarrow> string" where
  "merge_record_version_name MergeRecordVersion_v0 = ''v0''"
| "merge_record_version_name MergeRecordVersion_v1 = ''v1''"

datatype merge_terminal_outcome =
    MergeTerminalOutcome_completed
  | MergeTerminalOutcome_aborted

fun merge_terminal_outcome_name :: "merge_terminal_outcome \<Rightarrow> string" where
  "merge_terminal_outcome_name MergeTerminalOutcome_completed = ''completed''"
| "merge_terminal_outcome_name MergeTerminalOutcome_aborted = ''aborted''"

datatype merge_acceptance_kind =
    MergeAcceptanceKind_supported_persisted
  | MergeAcceptanceKind_legacy_complete
  | MergeAcceptanceKind_legacy_unavailable
  | MergeAcceptanceKind_not_accepted

fun merge_acceptance_kind_name :: "merge_acceptance_kind \<Rightarrow> string" where
  "merge_acceptance_kind_name MergeAcceptanceKind_supported_persisted = ''supported_persisted''"
| "merge_acceptance_kind_name MergeAcceptanceKind_legacy_complete = ''legacy_complete''"
| "merge_acceptance_kind_name MergeAcceptanceKind_legacy_unavailable = ''legacy_unavailable''"
| "merge_acceptance_kind_name MergeAcceptanceKind_not_accepted = ''not_accepted''"

datatype merge_installed_accepted_workspace_kind =
    MergeInstalledAcceptedWorkspaceKind_v1

fun merge_installed_accepted_workspace_kind_name :: "merge_installed_accepted_workspace_kind \<Rightarrow> string" where
  "merge_installed_accepted_workspace_kind_name MergeInstalledAcceptedWorkspaceKind_v1 = ''v1''"

datatype merge_accepted_metadata_source =
    MergeAcceptedMetadataSource_operation_baseline
  | MergeAcceptedMetadataSource_selected_root_result

fun merge_accepted_metadata_source_name :: "merge_accepted_metadata_source \<Rightarrow> string" where
  "merge_accepted_metadata_source_name MergeAcceptedMetadataSource_operation_baseline = ''operation_baseline''"
| "merge_accepted_metadata_source_name MergeAcceptedMetadataSource_selected_root_result = ''selected_root_result''"

record merge_accepted_metadata_base_projection =
  merge_accepted_metadata_base_projection_source :: "merge_accepted_metadata_source"
  merge_accepted_metadata_base_projection_source_commit :: "string option"
  merge_accepted_metadata_base_projection_manifest_yaml :: "string"
  merge_accepted_metadata_base_projection_manifest_sha256 :: "string"
  merge_accepted_metadata_base_projection_lock_yaml :: "string"
  merge_accepted_metadata_base_projection_lock_sha256 :: "string"

datatype merge_accepted_member_kind =
    MergeAcceptedMemberKind_selected
  | MergeAcceptedMemberKind_unselected_present
  | MergeAcceptedMemberKind_absent

fun merge_accepted_member_kind_name :: "merge_accepted_member_kind \<Rightarrow> string" where
  "merge_accepted_member_kind_name MergeAcceptedMemberKind_selected = ''selected''"
| "merge_accepted_member_kind_name MergeAcceptedMemberKind_unselected_present = ''unselected_present''"
| "merge_accepted_member_kind_name MergeAcceptedMemberKind_absent = ''absent''"

record merge_accepted_integration_projection =
  merge_accepted_integration_projection_branch :: "string"
  merge_accepted_integration_projection_before_commit :: "string"
  merge_accepted_integration_projection_resulting_commit :: "string"

record merge_accepted_checkout_projection =
  merge_accepted_checkout_projection_branch :: "string"
  merge_accepted_checkout_projection_commit :: "string"

record merge_accepted_lock_member_projection =
  merge_accepted_lock_member_projection_path :: "string"
  merge_accepted_lock_member_projection_source_id :: "string"
  merge_accepted_lock_member_projection_source_kind :: "source_kind"
  merge_accepted_lock_member_projection_commit :: "string option"
  merge_accepted_lock_member_projection_branch :: "string option"
  merge_accepted_lock_member_projection_detached :: "bool option"
  merge_accepted_lock_member_projection_upstream :: "string option"
  merge_accepted_lock_member_projection_dirty :: "bool option"
  merge_accepted_lock_member_projection_materialized :: "bool option"

record merge_accepted_member_v1_projection =
  merge_accepted_member_v1_projection_member_id :: "string"
  merge_accepted_member_v1_projection_kind :: "merge_accepted_member_kind"
  merge_accepted_member_v1_projection_integration :: "merge_accepted_integration_projection option"
  merge_accepted_member_v1_projection_final_checkout :: "merge_accepted_checkout_projection option"
  merge_accepted_member_v1_projection_lock_member :: "merge_accepted_lock_member_projection option"

datatype merge_accepted_root_kind =
    MergeAcceptedRootKind_born_attached
  | MergeAcceptedRootKind_born_detached
  | MergeAcceptedRootKind_unborn_attached

fun merge_accepted_root_kind_name :: "merge_accepted_root_kind \<Rightarrow> string" where
  "merge_accepted_root_kind_name MergeAcceptedRootKind_born_attached = ''born_attached''"
| "merge_accepted_root_kind_name MergeAcceptedRootKind_born_detached = ''born_detached''"
| "merge_accepted_root_kind_name MergeAcceptedRootKind_unborn_attached = ''unborn_attached''"

record merge_accepted_root_projection =
  merge_accepted_root_projection_kind :: "merge_accepted_root_kind"
  merge_accepted_root_projection_commit :: "string option"
  merge_accepted_root_projection_symbolic_branch :: "string option"
  merge_accepted_root_projection_publication_branch :: "string option"
  merge_accepted_root_projection_lock_worktree_sha256 :: "string"
  merge_accepted_root_projection_manifest_worktree_sha256 :: "string"
  merge_accepted_root_projection_lock_commit_sha256 :: "string option"
  merge_accepted_root_projection_manifest_commit_sha256 :: "string option"

record merge_accepted_workspace_v1_projection =
  merge_accepted_workspace_v1_projection_operation_baseline_lock_sha256 :: "string"
  merge_accepted_workspace_v1_projection_metadata_base :: "merge_accepted_metadata_base_projection"
  merge_accepted_workspace_v1_projection_lock_yaml :: "string"
  merge_accepted_workspace_v1_projection_lock_sha256 :: "string"
  merge_accepted_workspace_v1_projection_members :: "merge_accepted_member_v1_projection list"
  merge_accepted_workspace_v1_projection_root :: "merge_accepted_root_projection"

record merge_installed_accepted_workspace_projection =
  merge_installed_accepted_workspace_projection_kind :: "merge_installed_accepted_workspace_kind"
  merge_installed_accepted_workspace_projection_v1 :: "merge_accepted_workspace_v1_projection option"

record merge_legacy_accepted_workspace =
  merge_legacy_accepted_workspace_baseline_lock_sha256 :: "string"
  merge_legacy_accepted_workspace_lock_yaml :: "string"
  merge_legacy_accepted_workspace_lock_sha256 :: "string"
  merge_legacy_accepted_workspace_members :: "merge_accepted_member_v1_projection list"
  merge_legacy_accepted_workspace_root :: "merge_accepted_root_projection"

datatype merge_legacy_acceptance_source =
    MergeLegacyAcceptanceSource_candidate
  | MergeLegacyAcceptanceSource_baseline_no_publication

fun merge_legacy_acceptance_source_name :: "merge_legacy_acceptance_source \<Rightarrow> string" where
  "merge_legacy_acceptance_source_name MergeLegacyAcceptanceSource_candidate = ''candidate''"
| "merge_legacy_acceptance_source_name MergeLegacyAcceptanceSource_baseline_no_publication = ''baseline_no_publication''"

record merge_legacy_member_evidence =
  merge_legacy_member_evidence_member_id :: "string"
  merge_legacy_member_evidence_selected :: "bool"
  merge_legacy_member_evidence_state :: "merge_participant_state option"
  merge_legacy_member_evidence_integration :: "merge_accepted_integration_projection option"
  merge_legacy_member_evidence_lock_member :: "merge_accepted_lock_member_projection option"

record merge_accepted_candidate_hash_projection =
  merge_accepted_candidate_hash_projection_path :: "string"
  merge_accepted_candidate_hash_projection_sha256 :: "string"

record merge_legacy_acceptance_evidence =
  merge_legacy_acceptance_evidence_lock_yaml :: "string option"
  merge_legacy_acceptance_evidence_lock_sha256 :: "string option"
  merge_legacy_acceptance_evidence_members :: "merge_legacy_member_evidence list"
  merge_legacy_acceptance_evidence_root :: "merge_accepted_root_projection option"
  merge_legacy_acceptance_evidence_composition_commit :: "string option"
  merge_legacy_acceptance_evidence_composition_tree :: "string option"
  merge_legacy_acceptance_evidence_candidate_hashes :: "merge_accepted_candidate_hash_projection list"

datatype merge_legacy_acceptance_gap =
    MergeLegacyAcceptanceGap_exact_lock_bytes
  | MergeLegacyAcceptanceGap_complete_member_audit
  | MergeLegacyAcceptanceGap_accepted_root_input
  | MergeLegacyAcceptanceGap_publication_evidence

fun merge_legacy_acceptance_gap_name :: "merge_legacy_acceptance_gap \<Rightarrow> string" where
  "merge_legacy_acceptance_gap_name MergeLegacyAcceptanceGap_exact_lock_bytes = ''exact_lock_bytes''"
| "merge_legacy_acceptance_gap_name MergeLegacyAcceptanceGap_complete_member_audit = ''complete_member_audit''"
| "merge_legacy_acceptance_gap_name MergeLegacyAcceptanceGap_accepted_root_input = ''accepted_root_input''"
| "merge_legacy_acceptance_gap_name MergeLegacyAcceptanceGap_publication_evidence = ''publication_evidence''"

record merge_acceptance_projection =
  macc_kind :: "merge_acceptance_kind"
  macc_supported_persisted :: "merge_installed_accepted_workspace_projection option"
  macc_legacy_complete :: "merge_legacy_accepted_workspace option"
  macc_legacy_source :: "merge_legacy_acceptance_source option"
  macc_legacy_evidence :: "merge_legacy_acceptance_evidence option"
  macc_missing_gaps :: "merge_legacy_acceptance_gap list"

datatype merge_recovery_origin_state =
    MergeRecoveryOriginState_executing
  | MergeRecoveryOriginState_awaiting_resolution
  | MergeRecoveryOriginState_halted
  | MergeRecoveryOriginState_finalizing
  | MergeRecoveryOriginState_preserving
  | MergeRecoveryOriginState_rolling_back

fun merge_recovery_origin_state_name :: "merge_recovery_origin_state \<Rightarrow> string" where
  "merge_recovery_origin_state_name MergeRecoveryOriginState_executing = ''executing''"
| "merge_recovery_origin_state_name MergeRecoveryOriginState_awaiting_resolution = ''awaiting_resolution''"
| "merge_recovery_origin_state_name MergeRecoveryOriginState_halted = ''halted''"
| "merge_recovery_origin_state_name MergeRecoveryOriginState_finalizing = ''finalizing''"
| "merge_recovery_origin_state_name MergeRecoveryOriginState_preserving = ''preserving''"
| "merge_recovery_origin_state_name MergeRecoveryOriginState_rolling_back = ''rolling_back''"

datatype merge_compatibility_base_phase =
    MergeCompatibilityBasePhase_pre_acceptance
  | MergeCompatibilityBasePhase_pre_candidate
  | MergeCompatibilityBasePhase_candidate_persisted
  | MergeCompatibilityBasePhase_evidence_unrecorded
  | MergeCompatibilityBasePhase_evidence_recorded
  | MergeCompatibilityBasePhase_publishing_prefix
  | MergeCompatibilityBasePhase_published
  | MergeCompatibilityBasePhase_no_publication_complete

fun merge_compatibility_base_phase_name :: "merge_compatibility_base_phase \<Rightarrow> string" where
  "merge_compatibility_base_phase_name MergeCompatibilityBasePhase_pre_acceptance = ''pre_acceptance''"
| "merge_compatibility_base_phase_name MergeCompatibilityBasePhase_pre_candidate = ''pre_candidate''"
| "merge_compatibility_base_phase_name MergeCompatibilityBasePhase_candidate_persisted = ''candidate_persisted''"
| "merge_compatibility_base_phase_name MergeCompatibilityBasePhase_evidence_unrecorded = ''evidence_unrecorded''"
| "merge_compatibility_base_phase_name MergeCompatibilityBasePhase_evidence_recorded = ''evidence_recorded''"
| "merge_compatibility_base_phase_name MergeCompatibilityBasePhase_publishing_prefix = ''publishing_prefix''"
| "merge_compatibility_base_phase_name MergeCompatibilityBasePhase_published = ''published''"
| "merge_compatibility_base_phase_name MergeCompatibilityBasePhase_no_publication_complete = ''no_publication_complete''"

datatype merge_compatibility_next_action =
    MergeCompatibilityNextAction_reconcile_pending_participant
  | MergeCompatibilityNextAction_execute_next_participant
  | MergeCompatibilityNextAction_await_resolution
  | MergeCompatibilityNextAction_validate_results
  | MergeCompatibilityNextAction_persist_acceptance
  | MergeCompatibilityNextAction_prepare_candidate
  | MergeCompatibilityNextAction_create_or_adopt_evidence
  | MergeCompatibilityNextAction_publish_candidate
  | MergeCompatibilityNextAction_verify_publication
  | MergeCompatibilityNextAction_complete_no_publication
  | MergeCompatibilityNextAction_resume_preservation
  | MergeCompatibilityNextAction_resume_rollback
  | MergeCompatibilityNextAction_archive_completed
  | MergeCompatibilityNextAction_archive_aborted
  | MergeCompatibilityNextAction_report_recovery_required

fun merge_compatibility_next_action_name :: "merge_compatibility_next_action \<Rightarrow> string" where
  "merge_compatibility_next_action_name MergeCompatibilityNextAction_reconcile_pending_participant = ''reconcile_pending_participant''"
| "merge_compatibility_next_action_name MergeCompatibilityNextAction_execute_next_participant = ''execute_next_participant''"
| "merge_compatibility_next_action_name MergeCompatibilityNextAction_await_resolution = ''await_resolution''"
| "merge_compatibility_next_action_name MergeCompatibilityNextAction_validate_results = ''validate_results''"
| "merge_compatibility_next_action_name MergeCompatibilityNextAction_persist_acceptance = ''persist_acceptance''"
| "merge_compatibility_next_action_name MergeCompatibilityNextAction_prepare_candidate = ''prepare_candidate''"
| "merge_compatibility_next_action_name MergeCompatibilityNextAction_create_or_adopt_evidence = ''create_or_adopt_evidence''"
| "merge_compatibility_next_action_name MergeCompatibilityNextAction_publish_candidate = ''publish_candidate''"
| "merge_compatibility_next_action_name MergeCompatibilityNextAction_verify_publication = ''verify_publication''"
| "merge_compatibility_next_action_name MergeCompatibilityNextAction_complete_no_publication = ''complete_no_publication''"
| "merge_compatibility_next_action_name MergeCompatibilityNextAction_resume_preservation = ''resume_preservation''"
| "merge_compatibility_next_action_name MergeCompatibilityNextAction_resume_rollback = ''resume_rollback''"
| "merge_compatibility_next_action_name MergeCompatibilityNextAction_archive_completed = ''archive_completed''"
| "merge_compatibility_next_action_name MergeCompatibilityNextAction_archive_aborted = ''archive_aborted''"
| "merge_compatibility_next_action_name MergeCompatibilityNextAction_report_recovery_required = ''report_recovery_required''"

record merge_recovery_projection =
  mrv_origin_state :: "merge_recovery_origin_state"
  mrv_base_phase :: "merge_compatibility_base_phase"
  mrv_next_action :: "merge_compatibility_next_action"
  mrv_resume_action :: "merge_compatibility_next_action"

record merge_record_projection =
  mrp_source_version :: "merge_record_version"
  mrp_archived :: "bool"
  mrp_terminal_outcome :: "merge_terminal_outcome option"
  mrp_acceptance :: "merge_acceptance_projection option"
  mrp_recovery :: "merge_recovery_projection option"

datatype merge_crash_recovery_gap =
    MergeCrashRecoveryGap_no_durable_identity
  | MergeCrashRecoveryGap_remote_filesystem
  | MergeCrashRecoveryGap_volatile_filesystem

fun merge_crash_recovery_gap_name :: "merge_crash_recovery_gap \<Rightarrow> string" where
  "merge_crash_recovery_gap_name MergeCrashRecoveryGap_no_durable_identity = ''no_durable_identity''"
| "merge_crash_recovery_gap_name MergeCrashRecoveryGap_remote_filesystem = ''remote_filesystem''"
| "merge_crash_recovery_gap_name MergeCrashRecoveryGap_volatile_filesystem = ''volatile_filesystem''"

record merge_crash_recovery =
  mcr_supported :: "bool"
  mcr_filesystem :: "string option"
  mcr_gap :: "merge_crash_recovery_gap option"
  mcr_handles_ok :: "bool option"

record merge_response =
  mresp_response :: "response_envelope"
  mresp_merge_id :: "string option"
  mresp_state :: "merge_operation_state"
  mresp_open :: "bool"
  mresp_participant_counts :: "merge_participant_counts"
  mresp_repos :: "merge_repo_summary list"
  mresp_operation_drift :: "merge_operation_drift list"
  mresp_preservation :: "merge_preservation list option"
  mresp_publication_step :: "merge_publication_step option"
  mresp_record :: "merge_record_projection option"
  mresp_crash_recovery :: "merge_crash_recovery option"

end
