(* ===== verification/ProtocolSession.thy ===== *)
theory ProtocolSession
  imports ProtocolMerge
begin

section \<open>Messages of the core session\<close>

text \<open>
  The messages of the core session's operation service and the remaining request parts of
  \<^verbatim>\<open>src/gwz/protocol/generated/api.py\<close>, which only the codec handles.
\<close>

datatype session_mode =
    SessionMode_unary
  | SessionMode_submit

fun session_mode_name :: "session_mode \<Rightarrow> string" where
  "session_mode_name SessionMode_unary = ''unary''"
| "session_mode_name SessionMode_submit = ''submit''"

datatype log_verb =
    LogVerb_read
  | LogVerb_end_stream

fun log_verb_name :: "log_verb \<Rightarrow> string" where
  "log_verb_name LogVerb_read = ''read''"
| "log_verb_name LogVerb_end_stream = ''end_stream''"

record session_call =
  sca_call_id :: "int"
  sca_method :: "string"
  sca_mode :: "session_mode option"
  sca_request :: "string"
  sca_log_verb :: "log_verb option"

record session_reply =
  srp_call_id :: "int"
  srp_response :: "string"

record session_error =
  ser_call_id :: "int"
  ser_error :: "gwz_error"
  ser_response_meta :: "response_meta option"

record operation_result_request =
  operation_result_request_operation_id :: "string"

record operation_response_request =
  operation_response_request_operation_id :: "string"

record operation_cancel_request =
  operation_cancel_request_call_id :: "int option"
  operation_cancel_request_operation_id :: "string option"

record operation_release_request =
  operation_release_request_operation_id :: "string"

datatype session_close_request = SessionCloseRequest

record cleanup_report =
  clr_pending_local_work :: "int"
  clr_peer_cleanup_confirmed :: "bool"

datatype operation_release_response = OperationReleaseResponse

record transport_lane_frame =
  tlf_request_id :: "string"
  tlf_envelope :: "transport_envelope"

record desired_ref =
  dref_branch :: "string option"
  dref_commit :: "string option"
  dref_git_tag :: "string option"
  dref_local_only :: "bool option"

record member_spec =
  msp_member_id :: "string"
  msp_path :: "string"
  msp_source_id :: "string"
  msp_source_kind :: "source_kind"
  msp_active :: "bool"
  msp_desired :: "desired_ref option"
  msp_remotes :: "remote_spec list"
  msp_private :: "bool option"

record exec_request =
  exec_request_meta :: "request_meta"
  exec_request_mode :: "exec_mode"
  exec_request_command :: "string list"
  exec_request_members :: "member_entry list"
  exec_request_continue_on_fail :: "bool option"

end
