(* ===== verification/Prelude.thy ===== *)
theory Prelude
  imports Main "HOL-Library.Char_ord" "HOL-Library.List_Lexorder" "HOL-Library.Product_Lexorder"
    "HOL-Library.Sublist"
begin

section \<open>Shared notions: results, Python text, decimal numerals\<close>

text \<open>
  Three groups of definitions the components share, with their generic lemmas.

  \<^item> A computation that may raise is a value of \<open>'e + 'a\<close>, \<open>Inl\<close> the exception. \<open>bindE\<close> is
    sequencing, \<open>mapE\<close> a loop that stops at the first exception.
  \<^item> A Python \<open>str\<close> is represented by the bytes of its UTF-8 encoding, a \<open>string\<close>. Concatenation,
    equality, prefix and suffix tests, splitting at an ASCII separator and the code-point order
    used by \<open>sorted\<close> are then the list operations; what counts code points (\<open>len\<close>, slices,
    padding) goes through \<open>ulen\<close> and \<open>utake\<close>, which skip continuation bytes. Case mapping is
    needed on ASCII text only.
  \<^item> Decimal numerals as Python's \<open>str\<close>, \<open>int\<close> and the \<open>0n\<close> format write and read them.
\<close>

named_theorems res_simps \<open>unfolding of the result combinators\<close>
named_theorems text_simps \<open>facts on the text functions\<close>

subsection \<open>Results\<close>

definition bindE :: "'e + 'a \<Rightarrow> ('a \<Rightarrow> 'e + 'b) \<Rightarrow> 'e + 'b" where
  "bindE m f = (case m of Inl e \<Rightarrow> Inl e | Inr x \<Rightarrow> f x)"

lemma bindE_simps [simp, res_simps]:
  "bindE (Inl e) f = Inl e" "bindE (Inr x) f = f x"
  by (simp_all add: bindE_def)

lemma bindE_eq_Inr [res_simps]:
  "bindE m f = Inr y \<longleftrightarrow> (\<exists>x. m = Inr x \<and> f x = Inr y)"
  by (cases m) auto

lemma bindE_eq_Inl [res_simps]:
  "bindE m f = Inl e \<longleftrightarrow> m = Inl e \<or> (\<exists>x. m = Inr x \<and> f x = Inl e)"
  by (cases m) auto

lemma bindE_assoc: "bindE (bindE m f) g = bindE m (\<lambda>x. bindE (f x) g)"
  by (cases m) auto

lemma bindE_cong [fundef_cong]:
  "m = n \<Longrightarrow> (\<And>x. n = Inr x \<Longrightarrow> f x = g x) \<Longrightarrow> bindE m f = bindE n g"
  by (cases n) auto

fun mapE :: "('a \<Rightarrow> 'e + 'b) \<Rightarrow> 'a list \<Rightarrow> 'e + 'b list" where
  "mapE f [] = Inr []"
| "mapE f (x # xs) = bindE (f x) (\<lambda>y. bindE (mapE f xs) (\<lambda>ys. Inr (y # ys)))"

lemma mapE_cong [fundef_cong]:
  "xs = ys \<Longrightarrow> (\<And>x. x \<in> set ys \<Longrightarrow> f x = g x) \<Longrightarrow> mapE f xs = mapE g ys"
  by (induction ys arbitrary: xs) auto

lemma mapE_Inr_iff: "mapE f xs = Inr ys \<longleftrightarrow> list_all2 (\<lambda>x y. f x = Inr y) xs ys"
  by (induction xs arbitrary: ys) (auto simp: bindE_eq_Inr list_all2_Cons1)

lemma mapE_total: "(\<And>x. x \<in> set xs \<Longrightarrow> f x = Inr (g x)) \<Longrightarrow> mapE f xs = Inr (map g xs)"
  by (induction xs) auto

lemma mapE_length: "mapE f xs = Inr ys \<Longrightarrow> length ys = length xs"
  by (auto simp: mapE_Inr_iff dest: list_all2_lengthD)

definition guardE :: "bool \<Rightarrow> 'e \<Rightarrow> 'e + unit" where
  "guardE c e = (if c then Inl e else Inr ())"

lemma guardE_simps [simp]:
  "guardE True e = Inl e" "guardE False e = Inr ()"
  by (simp_all add: guardE_def)

lemma bindE_guardE [res_simps]: "bindE (guardE c e) f = (if c then Inl e else f ())"
  by (simp add: guardE_def)

text \<open>The truth value of an optional string, as \<open>if value:\<close> tests it.\<close>

definition truthy :: "string option \<Rightarrow> bool" where
  "truthy v = (case v of None \<Rightarrow> False | Some s \<Rightarrow> s \<noteq> [])"

definition or_else :: "string option \<Rightarrow> string \<Rightarrow> string" where
  "or_else v d = (case v of None \<Rightarrow> d | Some s \<Rightarrow> if s = [] then d else s)"

definition true_or_none :: "bool \<Rightarrow> bool option" where
  "true_or_none b = (if b then Some True else None)"

lemma truthy_simps [simp]:
  "truthy None = False" "truthy (Some s) = (s \<noteq> [])"
  by (simp_all add: truthy_def)

lemma or_else_simps [simp]:
  "or_else None d = d" "or_else (Some []) d = d" "or_else (Some (c # s)) d = c # s"
  by (simp_all add: or_else_def)

subsection \<open>Code points\<close>

definition byte_of :: "char \<Rightarrow> nat" where
  "byte_of c = of_char c"

definition cont :: "char \<Rightarrow> bool" where
  "cont c \<longleftrightarrow> 128 \<le> byte_of c \<and> byte_of c < 192"

definition ulen :: "string \<Rightarrow> nat" where
  "ulen s = length (filter (\<lambda>c. \<not> cont c) s)"

fun utake :: "nat \<Rightarrow> string \<Rightarrow> string" where
  "utake n [] = []"
| "utake n (c # s) =
     (if cont c then c # utake n s
      else case n of 0 \<Rightarrow> [] | Suc m \<Rightarrow> c # utake m s)"

lemma ulen_Nil [simp]: "ulen [] = 0"
  by (simp add: ulen_def)

lemma ulen_append [simp]: "ulen (s @ t) = ulen s + ulen t"
  by (simp add: ulen_def)

lemma ulen_Cons: "ulen (c # s) = (if cont c then ulen s else Suc (ulen s))"
  by (simp add: ulen_def)

lemma ulen_le_length: "ulen s \<le> length s"
  by (simp add: ulen_def)

lemma utake_prefix: "prefix (utake n s) s"
  by (induction n s rule: utake.induct) (auto split: nat.splits)

lemma ulen_utake: "ulen (utake n s) \<le> n"
  by (induction n s rule: utake.induct) (auto simp: ulen_Cons split: nat.splits)

definition ascii :: "string \<Rightarrow> bool" where
  "ascii s \<longleftrightarrow> list_all (\<lambda>c. byte_of c < 128) s"

lemma ulen_ascii: "ascii s \<Longrightarrow> ulen s = length s"
  by (induction s) (auto simp: ascii_def ulen_Cons cont_def)

lemma ulen_replicate [simp]: "ulen (replicate n (CHR 0x20)) = n"
  by (induction n) (simp_all add: ulen_Cons cont_def byte_of_def)

text \<open>\<open>ljust\<close> and the \<open><w\<close> format pad to a width counted in code points.\<close>

definition ljust :: "nat \<Rightarrow> string \<Rightarrow> string" where
  "ljust w s = s @ replicate (w - ulen s) (CHR 0x20)"

lemma ulen_ljust: "ulen s \<le> w \<Longrightarrow> ulen (ljust w s) = w"
  by (simp add: ljust_def)

lemma prefix_ljust: "prefix s (ljust w s)"
  by (simp add: ljust_def)

subsection \<open>Prefixes, suffixes, splitting and joining\<close>

definition starts_with :: "string \<Rightarrow> string \<Rightarrow> bool" where
  "starts_with p s \<longleftrightarrow> take (length p) s = p"

definition ends_with :: "string \<Rightarrow> string \<Rightarrow> bool" where
  "ends_with p s \<longleftrightarrow> length p \<le> length s \<and> drop (length s - length p) s = p"

definition remove_prefix :: "string \<Rightarrow> string \<Rightarrow> string" where
  "remove_prefix p s = (if starts_with p s then drop (length p) s else s)"

definition remove_suffix :: "string \<Rightarrow> string \<Rightarrow> string" where
  "remove_suffix p s = (if ends_with p s then take (length s - length p) s else s)"

lemma starts_with_iff: "starts_with p s \<longleftrightarrow> (\<exists>t. s = p @ t)"
  unfolding starts_with_def by (metis append_eq_conv_conj)

lemma starts_with_append [simp]: "starts_with p (p @ t)"
  by (simp add: starts_with_def)

lemma remove_prefix_append [simp]: "remove_prefix p (p @ t) = t"
  by (simp add: remove_prefix_def)

lemma ends_with_iff: "ends_with p s \<longleftrightarrow> (\<exists>t. s = t @ p)"
  unfolding ends_with_def by (metis append_take_drop_id length_append le_add2 diff_add_inverse2
      append_eq_conv_conj)

fun split_on :: "char \<Rightarrow> string \<Rightarrow> string list" where
  "split_on c [] = [[]]"
| "split_on c (x # s) =
     (if x = c then [] # split_on c s
      else case split_on c s of [] \<Rightarrow> [[x]] | p # ps \<Rightarrow> (x # p) # ps)"

fun join :: "string \<Rightarrow> string list \<Rightarrow> string" where
  "join sep [] = []"
| "join sep [s] = s"
| "join sep (s # t # ss) = s @ sep @ join sep (t # ss)"

lemma split_on_nonempty [simp]: "split_on c s \<noteq> []"
  by (induction s) (auto split: list.splits)

lemma join_Cons: "ss \<noteq> [] \<Longrightarrow> join sep (s # ss) = s @ sep @ join sep ss"
  by (cases ss) auto

lemma join_split_on: "join [c] (split_on c s) = s"
proof (induction s)
  case Nil
  then show ?case by simp
next
  case (Cons x s)
  show ?case
  proof (cases "x = c")
    case True
    with Cons show ?thesis by (simp add: join_Cons)
  next
    case False
    obtain p ps where ps: "split_on c s = p # ps"
      by (metis split_on_nonempty list.exhaust)
    with False Cons show ?thesis by (cases ps) auto
  qed
qed

lemma split_on_no_sep: "p \<in> set (split_on c s) \<Longrightarrow> c \<notin> set p"
proof (induction s arbitrary: p)
  case Nil
  then show ?case by simp
next
  case (Cons x s)
  obtain q qs where qs: "split_on c s = q # qs"
    by (metis split_on_nonempty list.exhaust)
  with Cons show ?case by (auto split: if_splits)
qed

lemma split_on_single: "c \<notin> set s \<Longrightarrow> split_on c s = [s]"
  by (induction s) auto

lemma split_on_front: "c \<notin> set s \<Longrightarrow> split_on c (s @ c # u) = s # split_on c u"
  by (induction s) auto

lemma split_on_append: "split_on c (s @ c # u) = split_on c s @ split_on c u"
  by (induction s) (auto split: list.splits)

lemma split_on_join:
  "ss \<noteq> [] \<Longrightarrow> (\<And>s. s \<in> set ss \<Longrightarrow> c \<notin> set s) \<Longrightarrow> split_on c (join [c] ss) = ss"
proof (induction "[c]" ss rule: join.induct)
  case (3 s t ss)
  then show ?case by (simp add: split_on_front)
qed (auto simp: split_on_single)

lemma split_on_terminated:
  "(\<And>s. s \<in> set ss \<Longrightarrow> c \<notin> set s) \<Longrightarrow> split_on c (concat (map (\<lambda>s. s @ [c]) ss)) = ss @ [[]]"
  by (induction ss) (simp_all add: split_on_front)

lemma set_join: "set (join sep ss) \<subseteq> \<Union> (set ` set ss) \<union> set sep"
  by (induction sep ss rule: join.induct) auto

lemma join_split_no_char:
  "c \<notin> set sep \<Longrightarrow> (\<And>s. s \<in> set ss \<Longrightarrow> c \<notin> set s) \<Longrightarrow> c \<notin> set (join sep ss)"
  using set_join [of sep ss] by blast

text \<open>\<open>str.partition\<close> at a one-character separator: the part before it, whether it was found,
  and the part after it.\<close>

fun partition_at :: "char \<Rightarrow> string \<Rightarrow> string \<times> bool \<times> string" where
  "partition_at c [] = ([], False, [])"
| "partition_at c (x # s) =
     (if x = c then ([], True, s)
      else case partition_at c s of (a, f, b) \<Rightarrow> (x # a, f, b))"

lemma partition_at_found:
  "partition_at c s = (a, True, b) \<Longrightarrow> s = a @ c # b \<and> c \<notin> set a"
  by (induction s arbitrary: a) (auto split: if_splits prod.splits)

lemma partition_at_missing:
  "partition_at c s = (a, False, b) \<Longrightarrow> a = s \<and> b = [] \<and> c \<notin> set s"
  by (induction s arbitrary: a) (auto split: if_splits prod.splits)

definition replace_char :: "char \<Rightarrow> char \<Rightarrow> string \<Rightarrow> string" where
  "replace_char a b s = map (\<lambda>x. if x = a then b else x) s"

lemma replace_char_absent: "a \<noteq> b \<Longrightarrow> a \<notin> set (replace_char a b s)"
  by (auto simp: replace_char_def)

text \<open>\<open>str.replace(old, new)\<close> for a non-empty \<open>old\<close>, left to right.\<close>

function replace_sub :: "string \<Rightarrow> string \<Rightarrow> string \<Rightarrow> string" where
  "replace_sub old new s =
     (if old = [] then s
      else case s of [] \<Rightarrow> []
      | c # t \<Rightarrow> if starts_with old s then new @ replace_sub old new (drop (length old) s)
                 else c # replace_sub old new t)"
  by pat_completeness auto
termination
  by (relation "measure (\<lambda>(old, new, s). length s)") auto

declare replace_sub.simps [simp del]

text \<open>\<open>str.rstrip\<close> over a set of characters, and \<open>str.strip\<close> over Python's whitespace.\<close>

definition rstrip_set :: "char list \<Rightarrow> string \<Rightarrow> string" where
  "rstrip_set cs s = rev (dropWhile (\<lambda>c. c \<in> set cs) (rev s))"

lemma rstrip_set_decomp: "\<exists>t. s = rstrip_set cs s @ t \<and> set t \<subseteq> set cs"
proof -
  let ?P = "\<lambda>c. c \<in> set cs"
  have "rev s = takeWhile ?P (rev s) @ dropWhile ?P (rev s)" by simp
  then have "s = rev (dropWhile ?P (rev s)) @ rev (takeWhile ?P (rev s))"
    by (metis rev_append rev_rev_ident)
  moreover have "set (rev (takeWhile ?P (rev s))) \<subseteq> set cs"
    using set_takeWhileD by fastforce
  ultimately show ?thesis unfolding rstrip_set_def by blast
qed

lemma rstrip_set_last: "rstrip_set cs s \<noteq> [] \<Longrightarrow> last (rstrip_set cs s) \<notin> set cs"
  by (metis dropWhile_eq_Nil_conv hd_dropWhile last_rev rev_is_Nil_conv rstrip_set_def
      dropWhile_eq_Cons_conv list.exhaust_sel)

text \<open>The UTF-8 encodings of the code points for which \<open>str.isspace\<close> holds.\<close>

definition whitespace_seqs :: "string list" where
  "whitespace_seqs =
     [[CHR 0x09], [CHR 0x0A], [CHR 0x0B], [CHR 0x0C], [CHR 0x0D],
      [CHR 0x1C], [CHR 0x1D], [CHR 0x1E], [CHR 0x1F], [CHR 0x20],
      [CHR 0xC2, CHR 0x85], [CHR 0xC2, CHR 0xA0], [CHR 0xE1, CHR 0x9A, CHR 0x80],
      [CHR 0xE2, CHR 0x80, CHR 0x80], [CHR 0xE2, CHR 0x80, CHR 0x81],
      [CHR 0xE2, CHR 0x80, CHR 0x82], [CHR 0xE2, CHR 0x80, CHR 0x83],
      [CHR 0xE2, CHR 0x80, CHR 0x84], [CHR 0xE2, CHR 0x80, CHR 0x85],
      [CHR 0xE2, CHR 0x80, CHR 0x86], [CHR 0xE2, CHR 0x80, CHR 0x87],
      [CHR 0xE2, CHR 0x80, CHR 0x88], [CHR 0xE2, CHR 0x80, CHR 0x89],
      [CHR 0xE2, CHR 0x80, CHR 0x8A], [CHR 0xE2, CHR 0x80, CHR 0xA8],
      [CHR 0xE2, CHR 0x80, CHR 0xA9], [CHR 0xE2, CHR 0x80, CHR 0xAF],
      [CHR 0xE2, CHR 0x81, CHR 0x9F], [CHR 0xE3, CHR 0x80, CHR 0x80]]"

function strip_front :: "string list \<Rightarrow> string \<Rightarrow> string" where
  "strip_front ws s =
     (case filter (\<lambda>w. w \<noteq> [] \<and> starts_with w s) ws of
        [] \<Rightarrow> s
      | w # _ \<Rightarrow> strip_front ws (drop (length w) s))"
  by pat_completeness auto
termination
proof (relation "measure (\<lambda>(ws, s). length s)", goal_cases)
  case (2 ws s w rest)
  then have "w \<in> set (filter (\<lambda>w. w \<noteq> [] \<and> starts_with w s) ws)" by simp
  then have "w \<noteq> []" "starts_with w s" by auto
  then obtain t where "s = w @ t" by (auto simp: starts_with_iff)
  with \<open>w \<noteq> []\<close> show ?case by simp
qed simp

declare strip_front.simps [simp del]

definition lstrip :: "string \<Rightarrow> string" where
  "lstrip s = strip_front whitespace_seqs s"

definition rstrip :: "string \<Rightarrow> string" where
  "rstrip s = rev (strip_front (map rev whitespace_seqs) (rev s))"

definition strip :: "string \<Rightarrow> string" where
  "strip s = rstrip (lstrip s)"

lemma strip_front_suffix: "\<exists>t. s = t @ strip_front ws s"
proof (induction ws s rule: strip_front.induct)
  case (1 ws s)
  show ?case
  proof (cases "filter (\<lambda>w. w \<noteq> [] \<and> starts_with w s) ws")
    case Nil
    then show ?thesis by (simp add: strip_front.simps)
  next
    case (Cons w rest)
    then have "w \<in> set (filter (\<lambda>w. w \<noteq> [] \<and> starts_with w s) ws)" by simp
    then obtain u where u: "s = w @ u" by (auto simp: starts_with_iff)
    from "1.IH" [OF Cons] obtain t where "drop (length w) s = t @ strip_front ws (drop (length w) s)"
      by blast
    moreover have "strip_front ws s = strip_front ws (drop (length w) s)"
      by (subst strip_front.simps) (simp only: Cons list.case)
    ultimately have "s = (w @ t) @ strip_front ws s" using u by simp
    then show ?thesis by blast
  qed
qed

text \<open>A text in single quotes.\<close>

definition squote :: "string \<Rightarrow> string" where
  "squote s = [CHR 0x27] @ s @ [CHR 0x27]"

subsection \<open>ASCII case mapping\<close>

definition lower_char :: "char \<Rightarrow> char" where
  "lower_char c = (if 65 \<le> byte_of c \<and> byte_of c \<le> 90 then char_of (byte_of c + 32) else c)"

definition upper_char :: "char \<Rightarrow> char" where
  "upper_char c = (if 97 \<le> byte_of c \<and> byte_of c \<le> 122 then char_of (byte_of c - 32) else c)"

definition lower :: "string \<Rightarrow> string" where
  "lower s = map lower_char s"

definition capitalize :: "string \<Rightarrow> string" where
  "capitalize s = (case s of [] \<Rightarrow> [] | c # t \<Rightarrow> upper_char c # lower t)"

definition is_digit :: "char \<Rightarrow> bool" where
  "is_digit c \<longleftrightarrow> 48 \<le> byte_of c \<and> byte_of c \<le> 57"

definition is_alnum :: "char \<Rightarrow> bool" where
  "is_alnum c \<longleftrightarrow> is_digit c \<or> (65 \<le> byte_of c \<and> byte_of c \<le> 90) \<or> (97 \<le> byte_of c \<and> byte_of c \<le> 122)"

subsection \<open>Numerals\<close>

definition digit_char :: "nat \<Rightarrow> char" where
  "digit_char d = char_of (48 + d)"

fun show_nat :: "nat \<Rightarrow> string" where
  "show_nat n = (if n < 10 then [digit_char n] else show_nat (n div 10) @ [digit_char (n mod 10)])"

declare show_nat.simps [simp del]

definition show_int :: "int \<Rightarrow> string" where
  "show_int i = (if i < 0 then CHR ''-'' # show_nat (nat (- i)) else show_nat (nat i))"

text \<open>The \<open>0w\<close> format of an integer: zeros between the sign and the digits, to a total width.\<close>

definition zpad_nat :: "nat \<Rightarrow> nat \<Rightarrow> string" where
  "zpad_nat w n = (let s = show_nat n in replicate (w - length s) (CHR ''0'') @ s)"

definition zpad :: "nat \<Rightarrow> int \<Rightarrow> string" where
  "zpad w i = (if i < 0 then CHR ''-'' # zpad_nat (w - 1) (nat (- i)) else zpad_nat w (nat i))"

fun digits_value :: "nat \<Rightarrow> string \<Rightarrow> nat" where
  "digits_value a [] = a"
| "digits_value a (c # s) = digits_value (10 * a + (byte_of c - 48)) s"

text \<open>
  \<open>int(text)\<close> in base ten: surrounding whitespace, one optional sign, ASCII digits with single
  underscores between them. \<open>None\<close> is the \<open>ValueError\<close>.
\<close>

fun digit_groups_ok :: "string \<Rightarrow> bool" where
  "digit_groups_ok [] = False"
| "digit_groups_ok [c] = is_digit c"
| "digit_groups_ok (c # d # s) =
     (is_digit c \<and> (if d = CHR ''_'' then digit_groups_ok s else digit_groups_ok (d # s)))"

definition parse_unsigned :: "string \<Rightarrow> nat option" where
  "parse_unsigned s =
     (if digit_groups_ok s then Some (digits_value 0 (filter (\<lambda>c. c \<noteq> CHR ''_'') s)) else None)"

definition parse_int :: "string \<Rightarrow> int option" where
  "parse_int text =
     (case strip text of
        [] \<Rightarrow> None
      | c # s \<Rightarrow>
          if c = CHR ''-'' then map_option (\<lambda>n. - int n) (parse_unsigned s)
          else if c = CHR ''+'' then map_option int (parse_unsigned s)
          else map_option int (parse_unsigned (c # s)))"

lemma byte_of_digit_char: "d < 10 \<Longrightarrow> byte_of (digit_char d) = 48 + d"
  by (simp add: byte_of_def digit_char_def)

lemma is_digit_digit_char: "d < 10 \<Longrightarrow> is_digit (digit_char d)"
  by (simp add: is_digit_def byte_of_digit_char)

lemma show_nat_digits: "c \<in> set (show_nat n) \<Longrightarrow> is_digit c"
proof (induction n arbitrary: c rule: show_nat.induct)
  case (1 n)
  then show ?case
    by (cases "n < 10") (auto simp: show_nat.simps [of n] is_digit_digit_char)
qed

lemma show_nat_nonempty [simp]: "show_nat n \<noteq> []"
  by (subst show_nat.simps) simp

lemma digits_value_append:
  "digits_value a (s @ t) = digits_value (digits_value a s) t"
  by (induction s arbitrary: a) auto

lemma digits_value_show_nat: "digits_value 0 (show_nat n) = n"
proof (induction n rule: show_nat.induct)
  case (1 n)
  show ?case
  proof (cases "n < 10")
    case True
    then show ?thesis by (simp add: show_nat.simps [of n] byte_of_digit_char)
  next
    case False
    with 1 show ?thesis
      by (simp add: show_nat.simps [of n] digits_value_append byte_of_digit_char)
  qed
qed

lemma show_nat_inj: "show_nat m = show_nat n \<longleftrightarrow> m = n"
  by (metis digits_value_show_nat)

lemma length_show_nat_pos: "0 < length (show_nat n)"
  by simp

lemma digit_not_underscore: "is_digit c \<Longrightarrow> c \<noteq> CHR ''_''"
  by (auto simp: is_digit_def byte_of_def)

lemma digit_groups_ok_digits: "s \<noteq> [] \<Longrightarrow> (\<And>c. c \<in> set s \<Longrightarrow> is_digit c) \<Longrightarrow> digit_groups_ok s"
  by (induction s rule: digit_groups_ok.induct) (auto dest: digit_not_underscore)

lemma parse_unsigned_show_nat: "parse_unsigned (show_nat n) = Some n"
proof -
  have "filter (\<lambda>c. c \<noteq> CHR ''_'') (show_nat n) = show_nat n"
    by (rule filter_True) (auto dest: show_nat_digits digit_not_underscore)
  moreover have "digit_groups_ok (show_nat n)"
    by (rule digit_groups_ok_digits) (auto dest: show_nat_digits)
  ultimately show ?thesis
    by (simp add: parse_unsigned_def digits_value_show_nat)
qed

subsection \<open>Index lookups\<close>

text \<open>\<open>xs.index(x, start)\<close>: the first index at or after \<open>start\<close>, \<open>None\<close> for \<open>ValueError\<close>.\<close>

fun find_index :: "'a \<Rightarrow> 'a list \<Rightarrow> nat option" where
  "find_index x [] = None"
| "find_index x (y # ys) = (if x = y then Some 0 else map_option Suc (find_index x ys))"

definition find_index_from :: "'a \<Rightarrow> 'a list \<Rightarrow> nat \<Rightarrow> nat option" where
  "find_index_from x xs start = map_option (\<lambda>i. start + i) (find_index x (drop start xs))"

lemma find_index_None: "find_index x xs = None \<longleftrightarrow> x \<notin> set xs"
  by (induction xs) auto

lemma find_index_Some:
  "find_index x xs = Some i \<Longrightarrow> i < length xs \<and> xs ! i = x \<and> x \<notin> set (take i xs)"
  by (induction xs arbitrary: i) (auto split: if_splits)

lemma find_index_split:
  "find_index x xs = Some i \<Longrightarrow> xs = take i xs @ x # drop (Suc i) xs"
  using find_index_Some [of x xs i] by (metis id_take_nth_drop)

lemma find_index_append: "x \<notin> set ys \<Longrightarrow> find_index x (ys @ x # zs) = Some (length ys)"
  by (induction ys) auto

end
