(* ===== verification/ProtocolPayloads.thy ===== *)
theory ProtocolPayloads
  imports ProtocolResponses
begin

section \<open>Status, branch, fetch, stash, tag and family payloads\<close>

text \<open>
  The payloads the human renderers read, from \<^verbatim>\<open>src/gwz/protocol/generated/api.py\<close>.
\<close>

record snapshot_info =
  si_name :: "string"
  si_created_at :: "string"
  si_created_by :: "string"
  si_members :: "int"

record list_snapshots_response =
  list_snapshots_response_response :: "response_envelope"
  list_snapshots_response_snapshots :: "snapshot_info list option"

record tag_info =
  ti_name :: "string"
  ti_members :: "int"

record tag_response =
  tag_response_response :: "response_envelope"
  tag_response_tags :: "tag_info list option"

datatype fetch_result =
    FetchResult_updated
  | FetchResult_unchanged
  | FetchResult_no_upstream
  | FetchResult_failed
  | FetchResult_planned

fun fetch_result_name :: "fetch_result \<Rightarrow> string" where
  "fetch_result_name FetchResult_updated = ''updated''"
| "fetch_result_name FetchResult_unchanged = ''unchanged''"
| "fetch_result_name FetchResult_no_upstream = ''no_upstream''"
| "fetch_result_name FetchResult_failed = ''failed''"
| "fetch_result_name FetchResult_planned = ''planned''"

record fetch_repo_summary =
  frs_member_id :: "string"
  frs_member_path :: "string"
  frs_source_kind :: "source_kind"
  frs_result :: "fetch_result"
  frs_remote :: "string option"
  frs_branch :: "string option"
  frs_before :: "string option"
  frs_after :: "string option"
  frs_upstream :: "string option"
  frs_ahead :: "int option"
  frs_behind :: "int option"

record fetch_response =
  fetch_response_response :: "response_envelope"
  fetch_response_repos :: "fetch_repo_summary list option"

datatype stash_participation =
    StashParticipation_stashed
  | StashParticipation_empty
  | StashParticipation_skipped

fun stash_participation_name :: "stash_participation \<Rightarrow> string" where
  "stash_participation_name StashParticipation_stashed = ''stashed''"
| "stash_participation_name StashParticipation_empty = ''empty''"
| "stash_participation_name StashParticipation_skipped = ''skipped''"

datatype stash_push_lifecycle =
    StashPushLifecycle_unattempted
  | StashPushLifecycle_saving
  | StashPushLifecycle_saved
  | StashPushLifecycle_empty
  | StashPushLifecycle_failed

fun stash_push_lifecycle_name :: "stash_push_lifecycle \<Rightarrow> string" where
  "stash_push_lifecycle_name StashPushLifecycle_unattempted = ''unattempted''"
| "stash_push_lifecycle_name StashPushLifecycle_saving = ''saving''"
| "stash_push_lifecycle_name StashPushLifecycle_saved = ''saved''"
| "stash_push_lifecycle_name StashPushLifecycle_empty = ''empty''"
| "stash_push_lifecycle_name StashPushLifecycle_failed = ''failed''"

datatype stash_restore_state =
    StashRestoreState_pending
  | StashRestoreState_applied
  | StashRestoreState_popped
  | StashRestoreState_dropped
  | StashRestoreState_noop
  | StashRestoreState_missing

fun stash_restore_state_name :: "stash_restore_state \<Rightarrow> string" where
  "stash_restore_state_name StashRestoreState_pending = ''pending''"
| "stash_restore_state_name StashRestoreState_applied = ''applied''"
| "stash_restore_state_name StashRestoreState_popped = ''popped''"
| "stash_restore_state_name StashRestoreState_dropped = ''dropped''"
| "stash_restore_state_name StashRestoreState_noop = ''noop''"
| "stash_restore_state_name StashRestoreState_missing = ''missing''"

record stash_dirty_summary =
  stash_dirty_summary_staged :: "bool"
  stash_dirty_summary_unstaged :: "bool"
  stash_dirty_summary_untracked :: "bool"
  stash_dirty_summary_ignored :: "bool"

record stash_error_detail =
  stash_error_detail_code :: "string"
  stash_error_detail_message :: "string"

record stash_bundle_member =
  sbm_member_id :: "string"
  sbm_path :: "string"
  sbm_participation :: "stash_participation"
  sbm_push_lifecycle :: "stash_push_lifecycle"
  sbm_restore_state :: "stash_restore_state"
  sbm_branch_before :: "string option"
  sbm_head_before :: "string option"
  sbm_full_stash_message :: "string"
  sbm_dirty_summary :: "stash_dirty_summary"
  sbm_native_stash_object_id :: "string option"
  sbm_native_stash_display_ref :: "string option"
  sbm_error :: "stash_error_detail option"

record stash_warning =
  stash_warning_code :: "string"
  stash_warning_message :: "string"
  stash_warning_member_id :: "string option"

record stash_drift =
  stash_drift_code :: "string"
  stash_drift_message :: "string"
  stash_drift_member_id :: "string"

record stash_bundle =
  sb_schema :: "string"
  sb_workspace_id :: "string"
  sb_stash_id :: "string"
  sb_created_at :: "string"
  sb_message_suffix :: "string"
  sb_include_untracked :: "bool"
  sb_include_ignored :: "bool"
  sb_members :: "stash_bundle_member list"
  sb_warnings :: "stash_warning list"
  sb_drift :: "stash_drift list"
  sb_selected_members :: "string list"

record stash_response =
  stash_response_response :: "response_envelope"
  stash_response_bundles :: "stash_bundle list option"

datatype branch_action_result =
    BranchActionResult_listed
  | BranchActionResult_created
  | BranchActionResult_exists
  | BranchActionResult_deleted
  | BranchActionResult_switched
  | BranchActionResult_noop
  | BranchActionResult_skipped
  | BranchActionResult_merged
  | BranchActionResult_conflicted

fun branch_action_result_name :: "branch_action_result \<Rightarrow> string" where
  "branch_action_result_name BranchActionResult_listed = ''listed''"
| "branch_action_result_name BranchActionResult_created = ''created''"
| "branch_action_result_name BranchActionResult_exists = ''exists''"
| "branch_action_result_name BranchActionResult_deleted = ''deleted''"
| "branch_action_result_name BranchActionResult_switched = ''switched''"
| "branch_action_result_name BranchActionResult_noop = ''noop''"
| "branch_action_result_name BranchActionResult_skipped = ''skipped''"
| "branch_action_result_name BranchActionResult_merged = ''merged''"
| "branch_action_result_name BranchActionResult_conflicted = ''conflicted''"

record branch_repo_summary =
  brs_member_id :: "string"
  brs_member_path :: "string"
  brs_source_kind :: "source_kind"
  brs_result :: "branch_action_result"
  brs_branch :: "string option"
  brs_current_branch :: "string option"
  brs_detached :: "bool"
  brs_unborn :: "bool"
  brs_head :: "string option"
  brs_upstream :: "string option"
  brs_ahead :: "int option"
  brs_behind :: "int option"
  brs_source_ref :: "string option"
  brs_target_branch :: "string option"
  brs_resulting_commit :: "string option"
  brs_conflict_paths :: "string list"

record branch_response =
  branch_response_response :: "response_envelope"
  branch_response_repos :: "branch_repo_summary list option"

record git_file_change =
  gfc_member_id :: "string"
  gfc_member_path :: "string"
  gfc_repo_path :: "string"
  gfc_workspace_path :: "string"
  gfc_index_status :: "string"
  gfc_worktree_status :: "string"
  gfc_original_repo_path :: "string option"

record git_member_branch_status =
  git_member_branch_status_member_id :: "string"
  git_member_branch_status_member_path :: "string"
  git_member_branch_status_label :: "string"
  git_member_branch_status_branch :: "string option"
  git_member_branch_status_detached :: "bool"
  git_member_branch_status_unborn :: "bool"
  git_member_branch_status_head :: "string option"
  git_member_branch_status_upstream :: "string option"
  git_member_branch_status_ahead :: "int option"
  git_member_branch_status_behind :: "int option"

record git_branch_group =
  gbg_label :: "string"
  gbg_member_ids :: "string list"
  gbg_member_paths :: "string list"

record git_branch_difference =
  git_branch_difference_label :: "string"
  git_branch_difference_majority_label :: "string option"
  git_branch_difference_member_ids :: "string list"
  git_branch_difference_member_paths :: "string list"
  git_branch_difference_message :: "string option"

record workspace_root_git_status =
  wrs_branch :: "string option"
  wrs_detached :: "bool"
  wrs_head :: "string option"
  wrs_staged :: "int"
  wrs_unstaged :: "int"
  wrs_untracked :: "int"
  wrs_dirty :: "bool"
  wrs_unborn :: "bool"

record workspace_root_file_change =
  wrf_repo_path :: "string"
  wrf_workspace_path :: "string"
  wrf_index_status :: "string"
  wrf_worktree_status :: "string"
  wrf_original_repo_path :: "string option"

record workspace_git_status =
  wgs_clean :: "bool"
  wgs_file_changes :: "git_file_change list"
  wgs_branches :: "git_member_branch_status list"
  wgs_branch_groups :: "git_branch_group list"
  wgs_branch_differences :: "git_branch_difference list"
  wgs_root_status :: "workspace_root_git_status option"
  wgs_root_file_changes :: "workspace_root_file_change list"

record status_response =
  status_response_response :: "response_envelope"
  status_response_workspace_git_status :: "workspace_git_status option"

datatype local_member_kind =
    LocalMemberKind_checkout
  | LocalMemberKind_bare

fun local_member_kind_name :: "local_member_kind \<Rightarrow> string" where
  "local_member_kind_name LocalMemberKind_checkout = ''checkout''"
| "local_member_kind_name LocalMemberKind_bare = ''bare''"

datatype local_member_state =
    LocalMemberState_creating
  | LocalMemberState_ready
  | LocalMemberState_disposing

fun local_member_state_name :: "local_member_state \<Rightarrow> string" where
  "local_member_state_name LocalMemberState_creating = ''creating''"
| "local_member_state_name LocalMemberState_ready = ''ready''"
| "local_member_state_name LocalMemberState_disposing = ''disposing''"

datatype local_observed_state =
    LocalObservedState_ready
  | LocalObservedState_incomplete
  | LocalObservedState_interrupted_disposal
  | LocalObservedState_missing
  | LocalObservedState_pointer_removed
  | LocalObservedState_mismatched
  | LocalObservedState_malformed
  | LocalObservedState_unobserved

fun local_observed_state_name :: "local_observed_state \<Rightarrow> string" where
  "local_observed_state_name LocalObservedState_ready = ''ready''"
| "local_observed_state_name LocalObservedState_incomplete = ''incomplete''"
| "local_observed_state_name LocalObservedState_interrupted_disposal = ''interrupted_disposal''"
| "local_observed_state_name LocalObservedState_missing = ''missing''"
| "local_observed_state_name LocalObservedState_pointer_removed = ''pointer_removed''"
| "local_observed_state_name LocalObservedState_mismatched = ''mismatched''"
| "local_observed_state_name LocalObservedState_malformed = ''malformed''"
| "local_observed_state_name LocalObservedState_unobserved = ''unobserved''"

record local_family_member_entry =
  lfm_name :: "string"
  lfm_kind :: "local_member_kind"
  lfm_recorded_state :: "local_member_state"
  lfm_observed_state :: "local_observed_state"
  lfm_path :: "string"
  lfm_last_error :: "string option"
  lfm_owner :: "string option"

record local_family_response =
  local_family_response_response :: "response_envelope"
  local_family_response_members :: "local_family_member_entry list"
  local_family_response_root_path :: "string option"

end
