(* ===== verification/ProtocolLogDiff.thy ===== *)
theory ProtocolLogDiff
  imports ProtocolResponses
begin

section \<open>Commit-log and diff payloads\<close>

text \<open>
  The records of the two output logs, from \<^verbatim>\<open>src/gwz/protocol/generated/api.py\<close>.
\<close>

record diff_repo_scope =
  drs_root :: "bool option"
  drs_member_id :: "string option"
  drs_member_path :: "string option"
  drs_source_kind :: "source_kind option"

datatype diff_status =
    DiffStatus_added
  | DiffStatus_modified
  | DiffStatus_deleted
  | DiffStatus_renamed
  | DiffStatus_copied
  | DiffStatus_type_changed
  | DiffStatus_unmerged

fun diff_status_name :: "diff_status \<Rightarrow> string" where
  "diff_status_name DiffStatus_added = ''added''"
| "diff_status_name DiffStatus_modified = ''modified''"
| "diff_status_name DiffStatus_deleted = ''deleted''"
| "diff_status_name DiffStatus_renamed = ''renamed''"
| "diff_status_name DiffStatus_copied = ''copied''"
| "diff_status_name DiffStatus_type_changed = ''type_changed''"
| "diff_status_name DiffStatus_unmerged = ''unmerged''"

record diff_file_entry =
  dfe_file_id :: "string"
  dfe_scope :: "diff_repo_scope"
  dfe_status :: "diff_status"
  dfe_old_path :: "string option"
  dfe_new_path :: "string option"
  dfe_old_mode :: "int option"
  dfe_new_mode :: "int option"
  dfe_similarity :: "int option"
  dfe_insertions :: "int option"
  dfe_deletions :: "int option"
  dfe_is_binary :: "bool option"

record diff_repo_summary =
  diff_repo_summary_scope :: "diff_repo_scope"
  diff_repo_summary_has_differences :: "bool"
  diff_repo_summary_files_changed :: "int"
  diff_repo_summary_insertions :: "int"
  diff_repo_summary_deletions :: "int"
  diff_repo_summary_files_manifested :: "int"

record diff_summary =
  dsm_has_differences :: "bool"
  dsm_repos_examined :: "int"
  dsm_repos_with_differences :: "int"
  dsm_files_changed :: "int"
  dsm_insertions :: "int"
  dsm_deletions :: "int"
  dsm_repo_summaries :: "diff_repo_summary list"

datatype diff_comparison_kind =
    DiffComparisonKind_worktree_vs_index
  | DiffComparisonKind_index_vs_tree
  | DiffComparisonKind_worktree_vs_tree
  | DiffComparisonKind_tree_vs_tree

fun diff_comparison_kind_name :: "diff_comparison_kind \<Rightarrow> string" where
  "diff_comparison_kind_name DiffComparisonKind_worktree_vs_index = ''worktree_vs_index''"
| "diff_comparison_kind_name DiffComparisonKind_index_vs_tree = ''index_vs_tree''"
| "diff_comparison_kind_name DiffComparisonKind_worktree_vs_tree = ''worktree_vs_tree''"
| "diff_comparison_kind_name DiffComparisonKind_tree_vs_tree = ''tree_vs_tree''"

record diff_comparison =
  diff_comparison_kind :: "diff_comparison_kind"
  diff_comparison_left :: "string option"
  diff_comparison_right :: "string option"
  diff_comparison_merge_base :: "bool option"

record diff_parsed_target =
  diff_parsed_target_target_id :: "string"
  diff_parsed_target_scope :: "diff_repo_scope"
  diff_parsed_target_comparison :: "diff_comparison"
  diff_parsed_target_pathspecs :: "string list"
  diff_parsed_target_left_oid :: "string option"
  diff_parsed_target_right_oid :: "string option"
  diff_parsed_target_merge_base_oid :: "string option"
  diff_parsed_target_left_snapshot_id :: "string option"
  diff_parsed_target_right_snapshot_id :: "string option"

datatype diff_chunk_encoding =
    DiffChunkEncoding_utf8
  | DiffChunkEncoding_bytes

fun diff_chunk_encoding_name :: "diff_chunk_encoding \<Rightarrow> string" where
  "diff_chunk_encoding_name DiffChunkEncoding_utf8 = ''utf8''"
| "diff_chunk_encoding_name DiffChunkEncoding_bytes = ''bytes''"

record diff_output_log_ref =
  dol_log_id :: "string"
  dol_format :: "diff_output_format"
  dol_encoding :: "diff_chunk_encoding option"

datatype diff_target_exclusion_reason =
    DiffTargetExclusionReason_snapshot_missing
  | DiffTargetExclusionReason_snapshot_missing_commit
  | DiffTargetExclusionReason_root_not_in_snapshot
  | DiffTargetExclusionReason_tag_missing

fun diff_target_exclusion_reason_name :: "diff_target_exclusion_reason \<Rightarrow> string" where
  "diff_target_exclusion_reason_name DiffTargetExclusionReason_snapshot_missing = ''snapshot_missing''"
| "diff_target_exclusion_reason_name DiffTargetExclusionReason_snapshot_missing_commit = ''snapshot_missing_commit''"
| "diff_target_exclusion_reason_name DiffTargetExclusionReason_root_not_in_snapshot = ''root_not_in_snapshot''"
| "diff_target_exclusion_reason_name DiffTargetExclusionReason_tag_missing = ''tag_missing''"

record diff_excluded_target =
  dxt_scope :: "diff_repo_scope"
  dxt_reason :: "diff_target_exclusion_reason"
  dxt_snapshot_id :: "string option"
  dxt_message :: "string option"

record diff_manifest_response =
  diff_manifest_response_response :: "response_envelope"
  diff_manifest_response_files :: "diff_file_entry list"
  diff_manifest_response_summary :: "diff_summary option"
  diff_manifest_response_targets :: "diff_parsed_target list"
  diff_manifest_response_output :: "diff_output_log_ref option"
  diff_manifest_response_excluded_targets :: "diff_excluded_target list"

datatype diff_output_record_kind =
    DiffOutputRecordKind_patch_bytes
  | DiffOutputRecordKind_file_started
  | DiffOutputRecordKind_file_finished
  | DiffOutputRecordKind_stale_file
  | DiffOutputRecordKind_diagnostic

fun diff_output_record_kind_name :: "diff_output_record_kind \<Rightarrow> string" where
  "diff_output_record_kind_name DiffOutputRecordKind_patch_bytes = ''patch_bytes''"
| "diff_output_record_kind_name DiffOutputRecordKind_file_started = ''file_started''"
| "diff_output_record_kind_name DiffOutputRecordKind_file_finished = ''file_finished''"
| "diff_output_record_kind_name DiffOutputRecordKind_stale_file = ''stale_file''"
| "diff_output_record_kind_name DiffOutputRecordKind_diagnostic = ''diagnostic''"

record diff_output_record =
  dor_kind :: "diff_output_record_kind"
  dor_scope :: "diff_repo_scope option"
  dor_file_id :: "string option"
  dor_entry :: "diff_file_entry option"
  dor_data :: "string option"
  dor_stale :: "bool option"
  dor_diagnostic :: "string option"

datatype log_output_record_kind =
    LogOutputRecordKind_entry
  | LogOutputRecordKind_degradation

fun log_output_record_kind_name :: "log_output_record_kind \<Rightarrow> string" where
  "log_output_record_kind_name LogOutputRecordKind_entry = ''entry''"
| "log_output_record_kind_name LogOutputRecordKind_degradation = ''degradation''"

record log_entry_member =
  lem_member_id :: "string"
  lem_member_path :: "string"
  lem_source_kind :: "source_kind option"
  lem_commit :: "string"
  lem_parents :: "string list"

datatype log_merge_kind =
    LogMergeKind_none
  | LogMergeKind_marker
  | LogMergeKind_heuristic

fun log_merge_kind_name :: "log_merge_kind \<Rightarrow> string" where
  "log_merge_kind_name LogMergeKind_none = ''none''"
| "log_merge_kind_name LogMergeKind_marker = ''marker''"
| "log_merge_kind_name LogMergeKind_heuristic = ''heuristic''"

record log_merge_provenance =
  lmp_kind :: "log_merge_kind"
  lmp_gwz_commit_id :: "string option"

record log_entry =
  le_members :: "log_entry_member list"
  le_provenance :: "log_merge_provenance"
  le_author :: "git_object_identity"
  le_committer :: "git_object_identity"
  le_subject :: "string"
  le_body :: "string option"
  le_ordering_timestamp_ms :: "int option"
  le_author_timestamp_seconds :: "int"
  le_committer_timestamp_seconds :: "int"
  le_ordering_timestamp_seconds :: "int"
  le_lossy :: "bool option"

datatype log_degradation_reason =
    LogDegradationReason_repository_unreadable
  | LogDegradationReason_repository_missing
  | LogDegradationReason_unborn
  | LogDegradationReason_revision_unresolved
  | LogDegradationReason_snapshot_entry_missing
  | LogDegradationReason_lock_entry_missing
  | LogDegradationReason_unsupported_source_kind

fun log_degradation_reason_name :: "log_degradation_reason \<Rightarrow> string" where
  "log_degradation_reason_name LogDegradationReason_repository_unreadable = ''repository_unreadable''"
| "log_degradation_reason_name LogDegradationReason_repository_missing = ''repository_missing''"
| "log_degradation_reason_name LogDegradationReason_unborn = ''unborn''"
| "log_degradation_reason_name LogDegradationReason_revision_unresolved = ''revision_unresolved''"
| "log_degradation_reason_name LogDegradationReason_snapshot_entry_missing = ''snapshot_entry_missing''"
| "log_degradation_reason_name LogDegradationReason_lock_entry_missing = ''lock_entry_missing''"
| "log_degradation_reason_name LogDegradationReason_unsupported_source_kind = ''unsupported_source_kind''"

record log_degradation =
  ld_member_id :: "string"
  ld_member_path :: "string"
  ld_source_kind :: "source_kind option"
  ld_reason :: "log_degradation_reason"
  ld_operand :: "string option"
  ld_message :: "string option"

record log_output_record =
  lor_kind :: "log_output_record_kind"
  lor_entry :: "log_entry option"
  lor_degradation :: "log_degradation option"

record log_output_log_ref =
  lol_log_id :: "string"

record log_response =
  log_response_response :: "response_envelope"
  log_response_output :: "log_output_log_ref"

end
