(* ===== verification/Messages.thy ===== *)
theory Messages
  imports Prelude ProtocolMerge ProtocolPayloads ProtocolLogDiff
begin

section \<open>Request and response messages as one type each\<close>

text \<open>
  The client passes any request dataclass to the bridge and reads any response dataclass back,
  by duck typing. Here \<open>request\<close> and \<open>response\<close> are the disjoint unions of the classes of
  \<^verbatim>\<open>src/gwz/protocol/generated/api.py\<close>; \<open>request_class\<close> and \<open>response_class\<close> are
  \<open>type(value).__name__\<close>. The responses that hold only an envelope share one constructor with
  the class as an argument. \<open>envelope_of\<close>, \<open>errors_attr\<close>, \<open>aggregate_attr\<close> and
  \<open>operation_id_attr\<close> are the attribute reads with a default of None that the helpers make.
\<close>

datatype request =
    CreateWorkspaceRq create_workspace_request
  | InitFromSourcesRq init_from_sources_request
  | CloneWorkspaceRq clone_workspace_request
  | CloneLocalWorkspaceRq clone_local_workspace_request
  | LocalFamilyRq local_family_request
  | CloneRepoMemberRq clone_repo_member_request
  | DetachRepoMemberRq detach_repo_member_request
  | AttachRepoMemberRq attach_repo_member_request
  | AddExistingRepoRq add_existing_repo_request
  | CreateRepoRq create_repo_request
  | RepoSyncRq repo_sync_request
  | StatusRq status_request
  | LsRq ls_request
  | MaterializeRq materialize_request
  | SnapshotRq snapshot_request
  | ListSnapshotsRq list_snapshots_request
  | TagRq tag_request
  | CaptureRq capture_request
  | CommitRq commit_request
  | StageRq stage_request
  | PullHeadRq pull_head_request
  | PullSnapshotRq pull_snapshot_request
  | PushRq push_request
  | FetchRq fetch_request
  | StashRq stash_request
  | BranchRq branch_request
  | MergeRq merge_request
  | DiffRq diff_request
  | LogRq log_request
  | RemoteIdentityRq remote_identity_request
  | TransportRuntimeRq transport_runtime_request
  | TransportCapabilitiesRq transport_capabilities_request

fun request_class :: "request \<Rightarrow> string" where
  "request_class (CreateWorkspaceRq r) = ''CreateWorkspaceRequest''"
| "request_class (InitFromSourcesRq r) = ''InitFromSourcesRequest''"
| "request_class (CloneWorkspaceRq r) = ''CloneWorkspaceRequest''"
| "request_class (CloneLocalWorkspaceRq r) = ''CloneLocalWorkspaceRequest''"
| "request_class (LocalFamilyRq r) = ''LocalFamilyRequest''"
| "request_class (CloneRepoMemberRq r) = ''CloneRepoMemberRequest''"
| "request_class (DetachRepoMemberRq r) = ''DetachRepoMemberRequest''"
| "request_class (AttachRepoMemberRq r) = ''AttachRepoMemberRequest''"
| "request_class (AddExistingRepoRq r) = ''AddExistingRepoRequest''"
| "request_class (CreateRepoRq r) = ''CreateRepoRequest''"
| "request_class (RepoSyncRq r) = ''RepoSyncRequest''"
| "request_class (StatusRq r) = ''StatusRequest''"
| "request_class (LsRq r) = ''LsRequest''"
| "request_class (MaterializeRq r) = ''MaterializeRequest''"
| "request_class (SnapshotRq r) = ''SnapshotRequest''"
| "request_class (ListSnapshotsRq r) = ''ListSnapshotsRequest''"
| "request_class (TagRq r) = ''TagRequest''"
| "request_class (CaptureRq r) = ''CaptureRequest''"
| "request_class (CommitRq r) = ''CommitRequest''"
| "request_class (StageRq r) = ''StageRequest''"
| "request_class (PullHeadRq r) = ''PullHeadRequest''"
| "request_class (PullSnapshotRq r) = ''PullSnapshotRequest''"
| "request_class (PushRq r) = ''PushRequest''"
| "request_class (FetchRq r) = ''FetchRequest''"
| "request_class (StashRq r) = ''StashRequest''"
| "request_class (BranchRq r) = ''BranchRequest''"
| "request_class (MergeRq r) = ''MergeRequest''"
| "request_class (DiffRq r) = ''DiffRequest''"
| "request_class (LogRq r) = ''LogRequest''"
| "request_class (RemoteIdentityRq r) = ''RemoteIdentityRequest''"
| "request_class (TransportRuntimeRq r) = ''TransportRuntimeRequest''"
| "request_class (TransportCapabilitiesRq r) = ''TransportCapabilitiesRequest''"

text \<open>\<open>getattr(request, "meta", None)\<close>.\<close>

fun request_meta_of :: "request \<Rightarrow> request_meta option" where
  "request_meta_of (CreateWorkspaceRq r) = Some (create_workspace_request_meta r)"
| "request_meta_of (InitFromSourcesRq r) = Some (init_from_sources_request_meta r)"
| "request_meta_of (CloneWorkspaceRq r) = Some (clone_workspace_request_meta r)"
| "request_meta_of (CloneLocalWorkspaceRq r) = Some (clone_local_workspace_request_meta r)"
| "request_meta_of (LocalFamilyRq r) = Some (local_family_request_meta r)"
| "request_meta_of (CloneRepoMemberRq r) = Some (clone_repo_member_request_meta r)"
| "request_meta_of (DetachRepoMemberRq r) = Some (detach_repo_member_request_meta r)"
| "request_meta_of (AttachRepoMemberRq r) = Some (attach_repo_member_request_meta r)"
| "request_meta_of (AddExistingRepoRq r) = Some (add_existing_repo_request_meta r)"
| "request_meta_of (CreateRepoRq r) = Some (create_repo_request_meta r)"
| "request_meta_of (RepoSyncRq r) = Some (repo_sync_request_meta r)"
| "request_meta_of (StatusRq r) = Some (streq_meta r)"
| "request_meta_of (LsRq r) = Some (ls_request_meta r)"
| "request_meta_of (MaterializeRq r) = Some (materialize_request_meta r)"
| "request_meta_of (SnapshotRq r) = Some (snapshot_request_meta r)"
| "request_meta_of (ListSnapshotsRq r) = Some (list_snapshots_request_meta r)"
| "request_meta_of (TagRq r) = Some (tag_request_meta r)"
| "request_meta_of (CaptureRq r) = Some (capture_request_meta r)"
| "request_meta_of (CommitRq r) = Some (commit_request_meta r)"
| "request_meta_of (StageRq r) = Some (stage_request_meta r)"
| "request_meta_of (PullHeadRq r) = Some (pull_head_request_meta r)"
| "request_meta_of (PullSnapshotRq r) = Some (pull_snapshot_request_meta r)"
| "request_meta_of (PushRq r) = Some (push_request_meta r)"
| "request_meta_of (FetchRq r) = Some (fetch_request_meta r)"
| "request_meta_of (StashRq r) = Some (stash_request_meta r)"
| "request_meta_of (BranchRq r) = Some (branch_request_meta r)"
| "request_meta_of (MergeRq r) = Some (mreq_meta r)"
| "request_meta_of (DiffRq r) = Some (diff_request_meta r)"
| "request_meta_of (LogRq r) = Some (log_request_meta r)"
| "request_meta_of (RemoteIdentityRq r) = Some (remote_identity_request_meta r)"
| "request_meta_of (TransportRuntimeRq r) = None"
| "request_meta_of (TransportCapabilitiesRq r) = None"

datatype plain_class =
    CreateWorkspaceResponse | InitFromSourcesResponse | CloneWorkspaceResponse
  | AddExistingRepoResponse | CreateRepoResponse | RepoSyncResponse | CloneRepoMemberResponse
  | DetachRepoMemberResponse | AttachRepoMemberResponse | MaterializeResponse | SnapshotResponse
  | CaptureResponse | CommitResponse | StageResponse | PullHeadResponse | PullSnapshotResponse
  | PushResponse | CloneLocalWorkspaceResponse

fun plain_class_name :: "plain_class \<Rightarrow> string" where
  "plain_class_name CreateWorkspaceResponse = ''CreateWorkspaceResponse''"
| "plain_class_name InitFromSourcesResponse = ''InitFromSourcesResponse''"
| "plain_class_name CloneWorkspaceResponse = ''CloneWorkspaceResponse''"
| "plain_class_name AddExistingRepoResponse = ''AddExistingRepoResponse''"
| "plain_class_name CreateRepoResponse = ''CreateRepoResponse''"
| "plain_class_name RepoSyncResponse = ''RepoSyncResponse''"
| "plain_class_name CloneRepoMemberResponse = ''CloneRepoMemberResponse''"
| "plain_class_name DetachRepoMemberResponse = ''DetachRepoMemberResponse''"
| "plain_class_name AttachRepoMemberResponse = ''AttachRepoMemberResponse''"
| "plain_class_name MaterializeResponse = ''MaterializeResponse''"
| "plain_class_name SnapshotResponse = ''SnapshotResponse''"
| "plain_class_name CaptureResponse = ''CaptureResponse''"
| "plain_class_name CommitResponse = ''CommitResponse''"
| "plain_class_name StageResponse = ''StageResponse''"
| "plain_class_name PullHeadResponse = ''PullHeadResponse''"
| "plain_class_name PullSnapshotResponse = ''PullSnapshotResponse''"
| "plain_class_name PushResponse = ''PushResponse''"
| "plain_class_name CloneLocalWorkspaceResponse = ''CloneLocalWorkspaceResponse''"

datatype response =
    PlainResponse plain_class response_envelope
  | StatusResp status_response
  | LsResp ls_response
  | ExecResp exec_response
  | SnapshotsResp list_snapshots_response
  | TagResp tag_response
  | FetchResp fetch_response
  | StashResp stash_response
  | BranchResp branch_response
  | MergeResp merge_response
  | FamilyResp local_family_response
  | IdentityResp remote_identity_response
  | DiffResp diff_manifest_response
  | LogResp log_response
  | RuntimeResp transport_runtime_response
  | CapabilitiesResp transport_capabilities_response
  | ResultRecord operation_result

fun response_class :: "response \<Rightarrow> string" where
  "response_class (PlainResponse c e) = plain_class_name c"
| "response_class (StatusResp r) = ''StatusResponse''"
| "response_class (LsResp r) = ''LsResponse''"
| "response_class (ExecResp r) = ''ExecResponse''"
| "response_class (SnapshotsResp r) = ''ListSnapshotsResponse''"
| "response_class (TagResp r) = ''TagResponse''"
| "response_class (FetchResp r) = ''FetchResponse''"
| "response_class (StashResp r) = ''StashResponse''"
| "response_class (BranchResp r) = ''BranchResponse''"
| "response_class (MergeResp r) = ''MergeResponse''"
| "response_class (FamilyResp r) = ''LocalFamilyResponse''"
| "response_class (IdentityResp r) = ''RemoteIdentityResponse''"
| "response_class (DiffResp r) = ''DiffManifestResponse''"
| "response_class (LogResp r) = ''LogResponse''"
| "response_class (RuntimeResp r) = ''TransportRuntimeResponse''"
| "response_class (CapabilitiesResp r) = ''TransportCapabilitiesResponse''"
| "response_class (ResultRecord r) = ''OperationResult''"

text \<open>\<open>getattr(response, "response", None)\<close>.\<close>

fun envelope_of :: "response \<Rightarrow> response_envelope option" where
  "envelope_of (PlainResponse c e) = Some e"
| "envelope_of (StatusResp r) = Some (status_response_response r)"
| "envelope_of (LsResp r) = Some (ls_response_response r)"
| "envelope_of (ExecResp r) = Some (exec_response_response r)"
| "envelope_of (SnapshotsResp r) = Some (list_snapshots_response_response r)"
| "envelope_of (TagResp r) = Some (tag_response_response r)"
| "envelope_of (FetchResp r) = Some (fetch_response_response r)"
| "envelope_of (StashResp r) = Some (stash_response_response r)"
| "envelope_of (BranchResp r) = Some (branch_response_response r)"
| "envelope_of (MergeResp r) = Some (mresp_response r)"
| "envelope_of (FamilyResp r) = Some (local_family_response_response r)"
| "envelope_of (IdentityResp r) = Some (remote_identity_response_response r)"
| "envelope_of (DiffResp r) = Some (diff_manifest_response_response r)"
| "envelope_of (LogResp r) = Some (log_response_response r)"
| "envelope_of (RuntimeResp r) = None"
| "envelope_of (CapabilitiesResp r) = None"
| "envelope_of (ResultRecord r) = None"

definition meta_of :: "response \<Rightarrow> response_meta option" where
  "meta_of r = map_option env_meta (envelope_of r)"

text \<open>The members of the envelope, or none: \<open>getattr(envelope, "members", None) or []\<close>.\<close>

definition members_of :: "response \<Rightarrow> member_response list" where
  "members_of r = (case envelope_of r of None \<Rightarrow> [] | Some e \<Rightarrow> env_members e)"

definition envelope_errors :: "response_envelope option \<Rightarrow> gwz_error list" where
  "envelope_errors e = (case e of None \<Rightarrow> [] | Some v \<Rightarrow> env_errors v)"

fun errors_attr :: "response \<Rightarrow> gwz_error list option" where
  "errors_attr (ResultRecord r) = Some (opr_errors r)"
| "errors_attr _ = None"

fun aggregate_attr :: "response \<Rightarrow> aggregate_status option" where
  "aggregate_attr (ResultRecord r) = Some (opr_aggregate_status r)"
| "aggregate_attr _ = None"

fun operation_id_attr :: "response \<Rightarrow> string option" where
  "operation_id_attr (ResultRecord r) = Some (opr_operation_id r)"
| "operation_id_attr _ = None"

fun request_id_attr :: "response \<Rightarrow> string option" where
  "request_id_attr (ResultRecord r) = Some (opr_request_id r)"
| "request_id_attr _ = None"

fun workspace_git_status_attr :: "response \<Rightarrow> workspace_git_status option" where
  "workspace_git_status_attr (StatusResp r) = status_response_workspace_git_status r"
| "workspace_git_status_attr _ = None"

end
