(* ===== verification/Faults.thy ===== *)
theory Faults
  imports Messages
begin

section \<open>Exceptions and the client helpers\<close>

text \<open>
  The exceptions of \<^verbatim>\<open>src/gwz/errors.py\<close> with the built-in ones the code raises, as one
  datatype, and the helpers of \<^verbatim>\<open>src/gwz/client_helpers.py\<close>: text of a path, the caller's
  directory, source lists, and \<open>raise_for_response\<close>, which decides which aggregate status is an
  error. What the helpers read from the process (its directory, the file system's link
  resolution, a fresh identifier, the environment) is a record of inputs, \<open>caller_env\<close>.
\<close>

subsection \<open>errors.py\<close>

record bridge_error =
  be_message :: string
  be_code :: "string option"
  be_member_id :: "string option"
  be_member_path :: "string option"
  be_target_kind :: "string option"
  be_detail :: "string option"
  be_machine_message :: "string option"
  be_record_context :: "merge_record_compatibility_context option"
  be_response_meta :: "response_meta option"
  be_operation_id :: "string option"

definition bridge_fault :: "string \<Rightarrow> string option \<Rightarrow> bridge_error" where
  "bridge_fault message code =
     \<lparr>be_message = message, be_code = code, be_member_id = None, be_member_path = None,
      be_target_kind = None, be_detail = None, be_machine_message = None,
      be_record_context = None, be_response_meta = None, be_operation_id = None\<rparr>"

record operation_error =
  oe_message :: string
  oe_response :: "response option"
  oe_aggregate_status :: "aggregate_status option"
  oe_operation_id :: "string option"
  oe_request_id :: "string option"
  oe_member_errors :: "gwz_error list"

record os_error =
  os_errno :: "int option"
  os_winerror :: "int option"
  os_broken_pipe :: bool
  os_text :: string

datatype exn =
    CliUsageError string "string option"
  | GwzBridgeError bridge_error
  | GwzCoreLoadError bridge_error
  | GwzProtocolError string
  | GwzOperationError operation_error
  | ValueError string
  | KeyError string
  | TypeError string
  | AttributeError string
  | AssertionError string
  | UnicodeEncodeError
  | ArgumentTypeError string
  | ParserError string
  | OSFault os_error
  | CancelledError

text \<open>\<open>GwzCoreLoadError\<close> is a subclass of \<open>GwzBridgeError\<close>, and both derive from \<open>GwzError\<close>.\<close>

fun is_bridge_error :: "exn \<Rightarrow> bool" where
  "is_bridge_error (GwzBridgeError b) = True"
| "is_bridge_error (GwzCoreLoadError b) = True"
| "is_bridge_error _ = False"

fun is_gwz_error :: "exn \<Rightarrow> bool" where
  "is_gwz_error (GwzBridgeError b) = True"
| "is_gwz_error (GwzCoreLoadError b) = True"
| "is_gwz_error (GwzProtocolError s) = True"
| "is_gwz_error (GwzOperationError e) = True"
| "is_gwz_error _ = False"

definition invalid_request :: "string \<Rightarrow> exn" where
  "invalid_request m = GwzBridgeError (bridge_fault m (Some ''InvalidRequest''))"

text \<open>\<open>GwzOperationError.response_meta\<close>.\<close>

definition operation_error_response_meta :: "operation_error \<Rightarrow> response_meta option" where
  "operation_error_response_meta e =
     (case oe_response e of
        None \<Rightarrow> None
      | Some r \<Rightarrow>
         (case meta_of r of
            Some m \<Rightarrow>
              (case rsm_transport m of
                 Some (t # ts) \<Rightarrow> Some m
               | _ \<Rightarrow> None)
          | None \<Rightarrow>
              (case r of
                 ResultRecord res \<Rightarrow>
                   (case opr_transport res of
                      Some (t # ts) \<Rightarrow>
                        Some \<lparr>rsm_request_id = opr_request_id res,
                              rsm_schema_version = ''gwz.protocol/v0'',
                              rsm_action = opr_action res,
                              rsm_aggregate_status = opr_aggregate_status res,
                              rsm_operation_id = Some (opr_operation_id res),
                              rsm_message = None,
                              rsm_attribution = opr_attribution res,
                              rsm_transport = opr_transport res,
                              rsm_transport_message = None\<rparr>
                    | _ \<Rightarrow> None)
               | _ \<Rightarrow> None)))"

subsection \<open>Paths\<close>

text \<open>
  \<open>str(Path(text))\<close> on POSIX: empty and dot segments go, repeated slashes collapse, except that
  exactly two leading slashes are kept, and the empty path is a dot.
\<close>

definition path_root :: "string \<Rightarrow> string" where
  "path_root s =
     (if starts_with ''//'' s \<and> \<not> starts_with ''///'' s then ''//''
      else if starts_with ''/'' s then ''/'' else [])"

definition path_parts :: "string \<Rightarrow> string list" where
  "path_parts s = filter (\<lambda>p. p \<noteq> [] \<and> p \<noteq> ''.'') (split_on CHR ''/'' s)"

definition path_str :: "string \<Rightarrow> string" where
  "path_str s =
     (let body = join ''/'' (path_parts s)
      in if path_root s = [] \<and> body = [] then ''.'' else path_root s @ body)"

definition is_absolute :: "string \<Rightarrow> bool" where
  "is_absolute s \<longleftrightarrow> starts_with ''/'' s"

definition path_join :: "string \<Rightarrow> string \<Rightarrow> string" where
  "path_join base s =
     (if is_absolute s then path_str s
      else path_str (if base = [] \<or> ends_with ''/'' base then base @ s else base @ ''/'' @ s))"

record caller_env =
  ce_cwd :: string
  ce_resolve :: "string \<Rightarrow> string"
  ce_uuid :: string
  ce_getenv :: "string \<Rightarrow> string option"

text \<open>
  Python holds an undecodable byte of a path as a lone surrogate, which UTF-8 cannot encode. In
  the three-byte form a surrogate is the byte ED followed by a byte from A0 up.
\<close>

fun has_surrogate :: "string \<Rightarrow> bool" where
  "has_surrogate (a # b # s) =
     ((byte_of a = 237 \<and> 160 \<le> byte_of b \<and> byte_of b < 192) \<or> has_surrogate (b # s))"
| "has_surrogate _ = False"

definition hex_digit :: "nat \<Rightarrow> char" where
  "hex_digit d = (if d < 10 then char_of (48 + d) else char_of (87 + d))"

definition hex2 :: "nat \<Rightarrow> string" where
  "hex2 n = [hex_digit (n div 16 mod 16), hex_digit (n mod 16)]"

definition hex4 :: "nat \<Rightarrow> string" where
  "hex4 n = hex2 (n div 256) @ hex2 (n mod 256)"

definition surrogate_code :: "char \<Rightarrow> char \<Rightarrow> char \<Rightarrow> nat" where
  "surrogate_code a b c = (byte_of a - 224) * 4096 + (byte_of b - 128) * 64 + (byte_of c - 128)"

text \<open>\<open>repr\<close> of a string: quoting, backslash escapes, control characters and surrogates.\<close>

definition repr_char :: "char \<Rightarrow> char \<Rightarrow> string" where
  "repr_char q c =
     (if c = q \<or> c = CHR 0x5C then [CHR 0x5C, c]
      else if c = CHR 0x0A then [CHR 0x5C, CHR ''n'']
      else if c = CHR 0x0D then [CHR 0x5C, CHR ''r'']
      else if c = CHR 0x09 then [CHR 0x5C, CHR ''t'']
      else if byte_of c < 32 \<or> byte_of c = 127 then [CHR 0x5C, CHR ''x''] @ hex2 (byte_of c)
      else [c])"

fun repr_body :: "char \<Rightarrow> string \<Rightarrow> string" where
  "repr_body q [] = []"
| "repr_body q [a] = repr_char q a"
| "repr_body q [a, b] = repr_char q a @ repr_char q b"
| "repr_body q (a # b # c # s) =
     (if byte_of a = 237 \<and> 160 \<le> byte_of b \<and> byte_of b < 192
      then [CHR 0x5C, CHR ''u''] @ hex4 (surrogate_code a b c) @ repr_body q s
      else repr_char q a @ repr_body q (b # c # s))"

definition py_repr :: "string \<Rightarrow> string" where
  "py_repr s =
     (let q = (if CHR 0x27 \<in> set s \<and> CHR 0x22 \<notin> set s then CHR 0x22 else CHR 0x27)
      in [q] @ repr_body q s @ [q])"

subsection \<open>client_helpers.py\<close>

definition SUCCESS_AGGREGATE_STATUS_NAMES :: "string list" where
  "SUCCESS_AGGREGATE_STATUS_NAMES = [''accepted'', ''ok'', ''noop'']"

definition path_text :: "string \<Rightarrow> string \<Rightarrow> exn + string" where
  "path_text path label =
     (if has_surrogate path
      then Inl (invalid_request (label @ '' is not valid Unicode: '' @ py_repr path))
      else Inr path)"

definition caller_directory :: "caller_env \<Rightarrow> exn + string" where
  "caller_directory env =
     (let directory = ce_resolve env (ce_cwd env)
      in bindE (path_text directory ''working directory'') (\<lambda>_. Inr directory))"

definition fresh_request_id :: "caller_env \<Rightarrow> string" where
  "fresh_request_id env = ''req_'' @ ce_uuid env"

definition plain_source :: "string \<Rightarrow> source_url" where
  "plain_source u = \<lparr>su_url = u, su_path = None, su_remote_name = None, su_branch = None\<rparr>"

datatype source_arg = SourceText string | SourceRecord source_url

fun sources :: "source_arg list \<Rightarrow> source_url list" where
  "sources [] = []"
| "sources (SourceRecord s # ss) = s # sources ss"
| "sources (SourceText u # ss) = plain_source u # sources ss"

text \<open>Python's \<open>a or b\<close> on optional strings.\<close>

definition or_opt :: "string option \<Rightarrow> string option \<Rightarrow> string option" where
  "or_opt a b = (if truthy a then a else b)"

definition response_aggregate :: "response \<Rightarrow> aggregate_status option" where
  "response_aggregate r =
     (case map_option rsm_aggregate_status (meta_of r) of
        Some a \<Rightarrow> Some a
      | None \<Rightarrow> aggregate_attr r)"

definition response_member_errors :: "response \<Rightarrow> gwz_error list" where
  "response_member_errors r =
     (case map_option env_errors (envelope_of r) of
        Some es \<Rightarrow> es
      | None \<Rightarrow> (case errors_attr r of None \<Rightarrow> [] | Some es \<Rightarrow> es))"

definition operation_failure :: "response \<Rightarrow> aggregate_status \<Rightarrow> operation_error" where
  "operation_failure r a =
     \<lparr>oe_message = or_else (Option.bind (meta_of r) rsm_message)
                     (''gwz operation returned '' @ aggregate_status_name a),
      oe_response = Some r,
      oe_aggregate_status = Some a,
      oe_operation_id = or_opt (Option.bind (meta_of r) rsm_operation_id) (operation_id_attr r),
      oe_request_id = or_opt (map_option rsm_request_id (meta_of r)) (request_id_attr r),
      oe_member_errors = response_member_errors r\<rparr>"

definition raise_for_response :: "response \<Rightarrow> exn + unit" where
  "raise_for_response r =
     (case response_aggregate r of
        None \<Rightarrow> Inr ()
      | Some a \<Rightarrow>
          if aggregate_status_name a \<in> set SUCCESS_AGGREGATE_STATUS_NAMES then Inr ()
          else Inl (GwzOperationError (operation_failure r a)))"

lemma raise_for_response_Inr:
  "raise_for_response r = Inr () \<longleftrightarrow>
     response_aggregate r \<in> {None, Some AggregateStatus_accepted, Some AggregateStatus_ok,
                            Some AggregateStatus_noop}"
proof (cases "response_aggregate r")
  case None
  then show ?thesis by (simp add: raise_for_response_def)
next
  case (Some a)
  then show ?thesis
    by (cases a) (simp_all add: raise_for_response_def SUCCESS_AGGREGATE_STATUS_NAMES_def)
qed

lemma raise_for_response_Inl:
  "raise_for_response r = Inl e \<Longrightarrow>
     \<exists>a. response_aggregate r = Some a \<and> e = GwzOperationError (operation_failure r a)"
  by (auto simp: raise_for_response_def split: option.splits if_splits)

lemma path_text_Inr: "path_text p l = Inr q \<longleftrightarrow> \<not> has_surrogate p \<and> q = p"
  by (auto simp: path_text_def)

lemma caller_directory_Inr:
  "caller_directory env = Inr d \<longleftrightarrow>
     d = ce_resolve env (ce_cwd env) \<and> \<not> has_surrogate d"
  by (auto simp: caller_directory_def Let_def bindE_eq_Inr path_text_Inr)

end
