(* ===== verification/Enums.thy ===== *)
theory Enums
  imports Faults
begin

section \<open>Enum members by name\<close>

text \<open>
  A client method takes an enum argument as a member or as a member's name, and
  \<open>enum_value\<close> turns the name into the member, \<open>EnumType[name]\<close>, with a \<open>KeyError\<close> for a
  name the enum does not declare. The locale states what makes that lookup right, that the
  member list is complete and the names are distinct, and every enum the client looks up is an
  interpretation of it.
\<close>

datatype 'e enum_arg = EnumMember 'e | EnumName string

fun enum_lookup :: "('e \<Rightarrow> string) \<Rightarrow> 'e list \<Rightarrow> string \<Rightarrow> exn + 'e" where
  "enum_lookup nm [] s = Inl (KeyError s)"
| "enum_lookup nm (e # es) s = (if nm e = s then Inr e else enum_lookup nm es s)"

fun enum_value :: "('e \<Rightarrow> string) \<Rightarrow> 'e list \<Rightarrow> 'e enum_arg option \<Rightarrow> exn + 'e option" where
  "enum_value nm ms None = Inr None"
| "enum_value nm ms (Some (EnumMember e)) = Inr (Some e)"
| "enum_value nm ms (Some (EnumName s)) = bindE (enum_lookup nm ms s) (\<lambda>e. Inr (Some e))"

lemma enum_lookup_Inr: "enum_lookup nm ms s = Inr e \<Longrightarrow> e \<in> set ms \<and> nm e = s"
  by (induction ms) (auto split: if_splits)

lemma enum_lookup_Inl: "enum_lookup nm ms s = Inl x \<longleftrightarrow> (x = KeyError s \<and> s \<notin> nm ` set ms)"
  by (induction ms) auto

lemma enum_value_members:
  "enum_value nm ms (map_option EnumMember v) = Inr v"
  by (cases v) auto

locale named_enum =
  fixes member_name :: "'e \<Rightarrow> string"
    and all_members :: "'e list"
  assumes complete: "e \<in> set all_members"
    and names_distinct: "distinct (map member_name all_members)"
begin

lemma name_inj: "member_name a = member_name b \<longleftrightarrow> a = b"
  using complete names_distinct by (auto simp: distinct_map inj_on_def)

lemma lookup_name: "enum_lookup member_name all_members (member_name e) = Inr e"
proof (cases "enum_lookup member_name all_members (member_name e)")
  case (Inl x)
  then show ?thesis using complete [of e] by (auto simp: enum_lookup_Inl)
next
  case (Inr a)
  then have "member_name a = member_name e" by (auto dest: enum_lookup_Inr)
  with Inr show ?thesis by (simp add: name_inj)
qed

lemma value_by_name:
  "enum_value member_name all_members (Some (EnumName (member_name e))) = Inr (Some e)"
  by (simp add: lookup_name)

lemma value_unknown:
  "s \<notin> range member_name \<Longrightarrow> enum_value member_name all_members (Some (EnumName s)) = Inl (KeyError s)"
proof -
  assume "s \<notin> range member_name"
  then have "enum_lookup member_name all_members s = Inl (KeyError s)"
    by (auto simp: enum_lookup_Inl)
  then show ?thesis by simp
qed

end

definition sync_behavior_members :: "sync_behavior list" where
  "sync_behavior_members =
    [SyncBehavior_fetch_only,
     SyncBehavior_ff_only,
     SyncBehavior_merge,
     SyncBehavior_rebase,
     SyncBehavior_reset,
     SyncBehavior_driver_selected]"

interpretation sync_behavior: named_enum sync_behavior_name sync_behavior_members
proof
  show "e \<in> set sync_behavior_members" for e by (cases e) (simp_all add: sync_behavior_members_def)
  show "distinct (map sync_behavior_name sync_behavior_members)" by (simp add: sync_behavior_members_def)
qed

definition unsupported_member_behavior_members :: "unsupported_member_behavior list" where
  "unsupported_member_behavior_members =
    [UnsupportedMemberBehavior_fail,
     UnsupportedMemberBehavior_skip]"

interpretation unsupported_member_behavior: named_enum unsupported_member_behavior_name unsupported_member_behavior_members
proof
  show "e \<in> set unsupported_member_behavior_members" for e by (cases e) (simp_all add: unsupported_member_behavior_members_def)
  show "distinct (map unsupported_member_behavior_name unsupported_member_behavior_members)" by (simp add: unsupported_member_behavior_members_def)
qed

definition materialize_target_kind_members :: "materialize_target_kind list" where
  "materialize_target_kind_members =
    [MaterializeTargetKind_lock,
     MaterializeTargetKind_head,
     MaterializeTargetKind_snapshot,
     MaterializeTargetKind_tag,
     MaterializeTargetKind_commit,
     MaterializeTargetKind_branch]"

interpretation materialize_target_kind: named_enum materialize_target_kind_name materialize_target_kind_members
proof
  show "e \<in> set materialize_target_kind_members" for e by (cases e) (simp_all add: materialize_target_kind_members_def)
  show "distinct (map materialize_target_kind_name materialize_target_kind_members)" by (simp add: materialize_target_kind_members_def)
qed

definition status_path_style_members :: "status_path_style list" where
  "status_path_style_members =
    [StatusPathStyle_member_relative,
     StatusPathStyle_workspace_relative]"

interpretation status_path_style: named_enum status_path_style_name status_path_style_members
proof
  show "e \<in> set status_path_style_members" for e by (cases e) (simp_all add: status_path_style_members_def)
  show "distinct (map status_path_style_name status_path_style_members)" by (simp add: status_path_style_members_def)
qed

definition tag_op_members :: "tag_op list" where
  "tag_op_members =
    [TagOp_create,
     TagOp_list,
     TagOp_fetch,
     TagOp_push,
     TagOp_delete]"

interpretation tag_op: named_enum tag_op_name tag_op_members
proof
  show "e \<in> set tag_op_members" for e by (cases e) (simp_all add: tag_op_members_def)
  show "distinct (map tag_op_name tag_op_members)" by (simp add: tag_op_members_def)
qed

definition stash_op_members :: "stash_op list" where
  "stash_op_members =
    [StashOp_push,
     StashOp_list,
     StashOp_apply,
     StashOp_pop,
     StashOp_drop]"

interpretation stash_op: named_enum stash_op_name stash_op_members
proof
  show "e \<in> set stash_op_members" for e by (cases e) (simp_all add: stash_op_members_def)
  show "distinct (map stash_op_name stash_op_members)" by (simp add: stash_op_members_def)
qed

definition branch_op_members :: "branch_op list" where
  "branch_op_members =
    [BranchOp_list,
     BranchOp_create,
     BranchOp_delete,
     BranchOp_merge]"

interpretation branch_op: named_enum branch_op_name branch_op_members
proof
  show "e \<in> set branch_op_members" for e by (cases e) (simp_all add: branch_op_members_def)
  show "distinct (map branch_op_name branch_op_members)" by (simp add: branch_op_members_def)
qed

definition merge_op_members :: "merge_op list" where
  "merge_op_members =
    [MergeOp_start,
     MergeOp_resume,
     MergeOp_abort,
     MergeOp_status,
     MergeOp_gc]"

interpretation merge_op: named_enum merge_op_name merge_op_members
proof
  show "e \<in> set merge_op_members" for e by (cases e) (simp_all add: merge_op_members_def)
  show "distinct (map merge_op_name merge_op_members)" by (simp add: merge_op_members_def)
qed

definition merge_mode_members :: "merge_mode list" where
  "merge_mode_members =
    [MergeMode_normal,
     MergeMode_ff_only,
     MergeMode_no_ff]"

interpretation merge_mode: named_enum merge_mode_name merge_mode_members
proof
  show "e \<in> set merge_mode_members" for e by (cases e) (simp_all add: merge_mode_members_def)
  show "distinct (map merge_mode_name merge_mode_members)" by (simp add: merge_mode_members_def)
qed

definition local_clone_mode_members :: "local_clone_mode list" where
  "local_clone_mode_members =
    [LocalCloneMode_verbatim,
     LocalCloneMode_clean,
     LocalCloneMode_bare]"

interpretation local_clone_mode: named_enum local_clone_mode_name local_clone_mode_members
proof
  show "e \<in> set local_clone_mode_members" for e by (cases e) (simp_all add: local_clone_mode_members_def)
  show "distinct (map local_clone_mode_name local_clone_mode_members)" by (simp add: local_clone_mode_members_def)
qed

definition local_family_op_members :: "local_family_op list" where
  "local_family_op_members =
    [LocalFamilyOp_list,
     LocalFamilyOp_dispose,
     LocalFamilyOp_disband]"

interpretation local_family_op: named_enum local_family_op_name local_family_op_members
proof
  show "e \<in> set local_family_op_members" for e by (cases e) (simp_all add: local_family_op_members_def)
  show "distinct (map local_family_op_name local_family_op_members)" by (simp add: local_family_op_members_def)
qed

definition diff_output_format_members :: "diff_output_format list" where
  "diff_output_format_members =
    [DiffOutputFormat_patch,
     DiffOutputFormat_raw,
     DiffOutputFormat_name_only,
     DiffOutputFormat_name_status,
     DiffOutputFormat_stat,
     DiffOutputFormat_numstat,
     DiffOutputFormat_shortstat,
     DiffOutputFormat_summary,
     DiffOutputFormat_patch_with_raw,
     DiffOutputFormat_patch_with_stat,
     DiffOutputFormat_no_patch]"

interpretation diff_output_format: named_enum diff_output_format_name diff_output_format_members
proof
  show "e \<in> set diff_output_format_members" for e by (cases e) (simp_all add: diff_output_format_members_def)
  show "distinct (map diff_output_format_name diff_output_format_members)" by (simp add: diff_output_format_members_def)
qed

definition diff_manifest_mode_members :: "diff_manifest_mode list" where
  "diff_manifest_mode_members =
    [DiffManifestMode_full,
     DiffManifestMode_any_difference]"

interpretation diff_manifest_mode: named_enum diff_manifest_mode_name diff_manifest_mode_members
proof
  show "e \<in> set diff_manifest_mode_members" for e by (cases e) (simp_all add: diff_manifest_mode_members_def)
  show "distinct (map diff_manifest_mode_name diff_manifest_mode_members)" by (simp add: diff_manifest_mode_members_def)
qed

definition diff_algorithm_members :: "diff_algorithm list" where
  "diff_algorithm_members =
    [DiffAlgorithm_default,
     DiffAlgorithm_myers,
     DiffAlgorithm_minimal,
     DiffAlgorithm_patience]"

interpretation diff_algorithm: named_enum diff_algorithm_name diff_algorithm_members
proof
  show "e \<in> set diff_algorithm_members" for e by (cases e) (simp_all add: diff_algorithm_members_def)
  show "distinct (map diff_algorithm_name diff_algorithm_members)" by (simp add: diff_algorithm_members_def)
qed

definition diff_whitespace_mode_members :: "diff_whitespace_mode list" where
  "diff_whitespace_mode_members =
    [DiffWhitespaceMode_default,
     DiffWhitespaceMode_ignore_all,
     DiffWhitespaceMode_ignore_change,
     DiffWhitespaceMode_ignore_eol,
     DiffWhitespaceMode_ignore_blank_lines]"

interpretation diff_whitespace_mode: named_enum diff_whitespace_mode_name diff_whitespace_mode_members
proof
  show "e \<in> set diff_whitespace_mode_members" for e by (cases e) (simp_all add: diff_whitespace_mode_members_def)
  show "distinct (map diff_whitespace_mode_name diff_whitespace_mode_members)" by (simp add: diff_whitespace_mode_members_def)
qed

definition url_scheme_members :: "url_scheme list" where
  "url_scheme_members =
    [UrlScheme_manifest,
     UrlScheme_ssh,
     UrlScheme_https]"

interpretation url_scheme: named_enum url_scheme_name url_scheme_members
proof
  show "e \<in> set url_scheme_members" for e by (cases e) (simp_all add: url_scheme_members_def)
  show "distinct (map url_scheme_name url_scheme_members)" by (simp add: url_scheme_members_def)
qed

end
