(* ===== verification/Requests.thy ===== *)
theory Requests
  imports Enums
begin

section \<open>The client's request metadata\<close>

text \<open>
  \<^verbatim>\<open>Client.__init__\<close>, \<^verbatim>\<open>Client.meta\<close> and the two adjustments of a finished meta
  (\<open>_merge_policy\<close>, \<open>_single_repo_lifecycle_meta\<close>) of \<^verbatim>\<open>src/gwz/client.py\<close>.

  \<open>meta_kw\<close> is the keyword dictionary the CLI and the API pass on as \<open>**meta\<close>: a field is None
  when the key is absent. For \<open>all_members\<close>, whose presence is tested apart from its value, the
  inner option is the value. \<open>kw_local_source_name\<close> is the one key that is not a parameter of
  \<open>meta\<close>: the family form of merge puts it into the dictionary, and only the merge methods take
  it.
\<close>

subsection \<open>The client object\<close>

record transport_cleanup =
  tc_pending_local_work :: int
  tc_peer_cleanup_confirmed :: bool

record client =
  cl_root :: "string option"
  cl_has_bridge :: bool
  cl_closed :: bool
  cl_max_connections_per_host :: "int option"
  cl_close_report :: "transport_cleanup option"

datatype limit_arg = LimitInt int | LimitBool bool | LimitOther

definition new_client :: "string option \<Rightarrow> bool \<Rightarrow> limit_arg option \<Rightarrow> exn + client" where
  "new_client root has_bridge limit =
     (let bad = Inl (ValueError ''max_connections_per_host must be a positive integer'');
          mk = (\<lambda>n. Inr \<lparr>cl_root = map_option path_str root, cl_has_bridge = has_bridge,
                        cl_closed = False, cl_max_connections_per_host = n,
                        cl_close_report = None\<rparr>)
      in case limit of
           None \<Rightarrow> mk None
         | Some (LimitInt n) \<Rightarrow> if n \<le> 0 then bad else mk (Some n)
         | Some (LimitBool b) \<Rightarrow> bad
         | Some LimitOther \<Rightarrow> bad)"

definition SCHEMA_VERSION :: string where
  "SCHEMA_VERSION = ''gwz.protocol/v0''"

definition DEFAULT_PROGRESS_MIN_INTERVAL_MS :: int where
  "DEFAULT_PROGRESS_MIN_INTERVAL_MS = 100"

record meta_kw =
  kw_request_id :: "string option"
  kw_root :: "string option"
  kw_workspace_id :: "string option"
  kw_all_members :: "bool option option"
  kw_member_ids :: "string list option"
  kw_paths :: "string list option"
  kw_targets :: "string list option"
  kw_exclude_targets :: "string list option"
  kw_dry_run :: "bool option"
  kw_partial :: "bool option"
  kw_destructive :: "bool option"
  kw_sync :: "sync_behavior enum_arg option"
  kw_unsupported_member :: "unsupported_member_behavior enum_arg option"
  kw_remote :: "string option"
  kw_concurrency :: "int option"
  kw_progress_min_interval_ms :: "int option"
  kw_max_connections_per_host :: "int option"
  kw_attribution :: "operation_attribution option"
  kw_transport :: "transport_options option"
  kw_local_source_name :: "string option"

definition no_kw :: meta_kw where
  "no_kw = \<lparr>kw_request_id = None, kw_root = None, kw_workspace_id = None, kw_all_members = None,
            kw_member_ids = None, kw_paths = None, kw_targets = None, kw_exclude_targets = None,
            kw_dry_run = None, kw_partial = None, kw_destructive = None, kw_sync = None,
            kw_unsupported_member = None, kw_remote = None, kw_concurrency = None,
            kw_progress_min_interval_ms = None, kw_max_connections_per_host = None,
            kw_attribution = None, kw_transport = None, kw_local_source_name = None\<rparr>"

subsection \<open>The request identifier\<close>

text \<open>A code point of category Cc: U+0000 to U+001F, U+007F, and U+0080 to U+009F.\<close>

fun has_control :: "string \<Rightarrow> bool" where
  "has_control [] = False"
| "has_control [a] = (byte_of a < 32 \<or> byte_of a = 127)"
| "has_control (a # b # s) =
     (byte_of a < 32 \<or> byte_of a = 127 \<or> (byte_of a = 194 \<and> 128 \<le> byte_of b \<and> byte_of b < 160)
      \<or> has_control (b # s))"

definition check_request_id :: "string \<Rightarrow> exn + unit" where
  "check_request_id s =
     (if s = [] then Inl (invalid_request ''invalid request_id'')
      else if has_surrogate s then Inl UnicodeEncodeError
      else if 128 < length s \<or> has_control s then Inl (invalid_request ''invalid request_id'')
      else Inr ())"

subsection \<open>Selection\<close>

definition selected_list :: "string list option \<Rightarrow> string list" where
  "selected_list v = (case v of None \<Rightarrow> [] | Some xs \<Rightarrow> xs)"

definition flat_opt :: "'a option option \<Rightarrow> 'a option" where
  "flat_opt v = (case v of None \<Rightarrow> None | Some x \<Rightarrow> x)"

definition meta_targets :: "meta_kw \<Rightarrow> string list" where
  "meta_targets kw =
     (let ts = selected_list (kw_targets kw)
      in if flat_opt (kw_all_members kw) = Some True \<and> ''@all'' \<notin> set ts then ''@all'' # ts else ts)"

definition meta_selection :: "meta_kw \<Rightarrow> selection option" where
  "meta_selection kw =
     (let all = flat_opt (kw_all_members kw);
          ids = selected_list (kw_member_ids kw);
          ps = selected_list (kw_paths kw);
          ts = meta_targets kw;
          xs = selected_list (kw_exclude_targets kw)
      in if all \<noteq> None \<or> ids \<noteq> [] \<or> ps \<noteq> [] \<or> ts \<noteq> [] \<or> xs \<noteq> []
         then Some \<lparr>sel_all = all, sel_member_ids = ids, sel_paths = ps, sel_targets = ts,
                    sel_exclude_targets = xs\<rparr>
         else None)"

subsection \<open>Client.meta\<close>

definition meta_policy :: "client \<Rightarrow> meta_kw \<Rightarrow> exn + operation_policy" where
  "meta_policy cl kw =
     bindE (enum_value sync_behavior_name sync_behavior_members (kw_sync kw)) (\<lambda>sync.
     bindE (enum_value unsupported_member_behavior_name unsupported_member_behavior_members
              (kw_unsupported_member kw)) (\<lambda>unsupported.
     Inr \<lparr>pol_partial = (if kw_partial kw = Some True then Some PartialBehavior_partial else None),
          pol_destructive =
            (if kw_destructive kw = Some True then Some DestructiveBehavior_allow else None),
          pol_sync = sync,
          pol_unsupported_member = unsupported,
          pol_remote = kw_remote kw,
          pol_concurrency = kw_concurrency kw,
          pol_progress_min_interval_ms =
            (case kw_progress_min_interval_ms kw of
               None \<Rightarrow> Some DEFAULT_PROGRESS_MIN_INTERVAL_MS | Some n \<Rightarrow> Some n),
          pol_max_connections_per_host =
            (case kw_max_connections_per_host kw of
               None \<Rightarrow> cl_max_connections_per_host cl | Some n \<Rightarrow> Some n),
          pol_max_retries = None\<rparr>))"

definition effective_root :: "client \<Rightarrow> caller_env \<Rightarrow> string \<Rightarrow> meta_kw \<Rightarrow> string option" where
  "effective_root cl env cwd kw =
     (let raw = (case kw_root kw of Some r \<Rightarrow> Some (path_str r) | None \<Rightarrow> cl_root cl)
      in map_option (\<lambda>r. ce_resolve env (if is_absolute r then r else path_join cwd r)) raw)"

definition meta_workspace :: "string option \<Rightarrow> string option \<Rightarrow> exn + workspace_ref option" where
  "meta_workspace root workspace_id =
     (if root = None \<and> workspace_id = None then Inr None
      else case root of
             None \<Rightarrow> Inr (Some \<lparr>wr_root = None, wr_workspace_id = workspace_id\<rparr>)
           | Some r \<Rightarrow> bindE (path_text r ''workspace root'') (\<lambda>t.
               Inr (Some \<lparr>wr_root = Some t, wr_workspace_id = workspace_id\<rparr>)))"

definition client_meta :: "client \<Rightarrow> caller_env \<Rightarrow> meta_kw \<Rightarrow> exn + request_meta" where
  "client_meta cl env kw =
     (if kw_local_source_name kw \<noteq> None
      then Inl (TypeError (''meta() got an unexpected keyword argument '' @ squote ''local_source_name''))
      else
     (let rid = (case kw_request_id kw of None \<Rightarrow> fresh_request_id env | Some s \<Rightarrow> s)
      in
     bindE (check_request_id rid) (\<lambda>_.
     bindE (caller_directory env) (\<lambda>cwd.
     bindE (meta_policy cl kw) (\<lambda>policy.
     bindE (meta_workspace (effective_root cl env cwd kw) (kw_workspace_id kw)) (\<lambda>workspace.
     bindE (path_text cwd ''working directory'') (\<lambda>cwd_text.
     Inr \<lparr>rm_request_id = rid,
          rm_schema_version = SCHEMA_VERSION,
          rm_workspace = workspace,
          rm_selection = meta_selection kw,
          rm_policy = Some policy,
          rm_dry_run = kw_dry_run kw,
          rm_attribution = kw_attribution kw,
          rm_transport = kw_transport kw,
          rm_invocation = Some \<lparr>inv_caller_cwd = cwd_text\<rparr>,
          rm_transport_message = None\<rparr>)))))))"

subsection \<open>Adjustments of a finished meta\<close>

definition policy_is_empty :: "operation_policy \<Rightarrow> bool" where
  "policy_is_empty p \<longleftrightarrow>
     pol_partial p = None \<and> pol_destructive p = None \<and> pol_sync p = None \<and>
     pol_unsupported_member p = None \<and> pol_remote p = None \<and> pol_concurrency p = None \<and>
     pol_progress_min_interval_ms p = None \<and> pol_max_connections_per_host p = None \<and>
     pol_max_retries p = None"

definition merge_policy :: "operation_policy option \<Rightarrow> meta_kw \<Rightarrow> operation_policy option" where
  "merge_policy policy chosen =
     (case policy of
        None \<Rightarrow> None
      | Some p \<Rightarrow>
          (let p1 = (if kw_progress_min_interval_ms chosen = None
                     then p\<lparr>pol_progress_min_interval_ms := None\<rparr> else p);
               p2 = (if kw_max_connections_per_host chosen = None
                     then p1\<lparr>pol_max_connections_per_host := None\<rparr> else p1)
           in if policy_is_empty p2 then None else Some p2))"

definition single_target :: "string \<Rightarrow> selection" where
  "single_target selector =
     \<lparr>sel_all = None, sel_member_ids = [], sel_paths = [], sel_targets = [selector],
      sel_exclude_targets = []\<rparr>"

definition single_repo_lifecycle_meta ::
    "client \<Rightarrow> caller_env \<Rightarrow> string \<Rightarrow> string \<Rightarrow> meta_kw \<Rightarrow> exn + request_meta" where
  "single_repo_lifecycle_meta cl env selector method kw =
     bindE (client_meta cl env kw) (\<lambda>m.
       if rm_selection m \<noteq> None
       then Inl (ValueError (method @ '' operand cannot be combined with explicit selection''))
       else Inr (m\<lparr>rm_selection := Some (single_target selector)\<rparr>))"

definition portable_char :: "char \<Rightarrow> bool" where
  "portable_char c \<longleftrightarrow> byte_of c < 128 \<and> (is_alnum c \<or> c \<in> set ''_-.'')"

definition member_id_ok :: "string \<Rightarrow> bool" where
  "member_id_ok v \<longleftrightarrow>
     starts_with ''mem_'' v \<and> remove_prefix ''mem_'' v \<noteq> [] \<and> list_all portable_char v"

definition member_id_message :: string where
  "member_id_message = ''member id must start with mem_ and contain only portable characters''"

definition validate_member_id :: "string \<Rightarrow> exn + unit" where
  "validate_member_id v = guardE (\<not> member_id_ok v) (ValueError member_id_message)"

subsection \<open>Lemmas\<close>

lemma check_request_id_Inr:
  "check_request_id s = Inr () \<longleftrightarrow>
     s \<noteq> [] \<and> \<not> has_surrogate s \<and> length s \<le> 128 \<and> \<not> has_control s"
  by (auto simp: check_request_id_def)

lemma meta_selection_None:
  "meta_selection kw = None \<longleftrightarrow>
     flat_opt (kw_all_members kw) = None \<and> selected_list (kw_member_ids kw) = [] \<and>
     selected_list (kw_paths kw) = [] \<and> selected_list (kw_targets kw) = [] \<and>
     selected_list (kw_exclude_targets kw) = []"
  by (auto simp: meta_selection_def meta_targets_def Let_def)

lemma meta_targets_all:
  "flat_opt (kw_all_members kw) = Some True \<Longrightarrow> ''@all'' \<in> set (meta_targets kw)"
  by (auto simp: meta_targets_def Let_def)

lemma meta_targets_filter:
  "filter (\<lambda>t. t \<noteq> ''@all'') (meta_targets kw) =
   filter (\<lambda>t. t \<noteq> ''@all'') (selected_list (kw_targets kw))"
  by (simp add: meta_targets_def Let_def)

lemma count_all_targets:
  "count_list (selected_list (kw_targets kw)) ''@all'' \<le> 1 \<Longrightarrow>
   count_list (meta_targets kw) ''@all'' \<le> 1"
  by (auto simp: meta_targets_def Let_def count_list_0_iff)

lemma meta_policy_fields:
  "meta_policy cl kw = Inr p \<Longrightarrow>
     pol_remote p = kw_remote kw \<and> pol_concurrency p = kw_concurrency kw \<and>
     pol_max_retries p = None \<and>
     pol_progress_min_interval_ms p \<noteq> None"
  by (auto simp: meta_policy_def bindE_eq_Inr split: option.splits)

lemma client_meta_Inr:
  assumes "client_meta cl env kw = Inr m"
  shows "check_request_id (rm_request_id m) = Inr ()"
    and "rm_schema_version m = SCHEMA_VERSION"
    and "rm_selection m = meta_selection kw"
    and "\<exists>p. meta_policy cl kw = Inr p \<and> rm_policy m = Some p"
    and "rm_dry_run m = kw_dry_run kw"
    and "rm_transport m = kw_transport kw"
    and "rm_invocation m = Some \<lparr>inv_caller_cwd = ce_resolve env (ce_cwd env)\<rparr>"
    and "rm_transport_message m = None"
    and "kw_local_source_name kw = None"
  using assms
  by (auto simp: client_meta_def Let_def bindE_eq_Inr caller_directory_Inr path_text_Inr
      split: if_splits option.splits)

end
