(* ===== verification/ClientMethods.thy ===== *)
theory ClientMethods
  imports Requests
begin

section \<open>The client's methods as request builders\<close>

text \<open>
  Every operation method of \<^verbatim>\<open>Client\<close> in \<^verbatim>\<open>src/gwz/client.py\<close> builds one request dataclass and
  ends in \<open>_call\<close> or \<open>_stream_call\<close>. The request half is here: a method is a function from its
  arguments to the call it ends in, a \<open>client_action\<close>, or to the exception it raises before
  anything is sent. \<open>ClientCalls\<close> models what the two calls then do. Parameters a method names
  itself cannot also stand in \<open>**meta\<close>: Python refuses the duplicate with a \<open>TypeError\<close>, which
  is \<open>duplicate_kw\<close>.
\<close>

datatype client_action =
    CallAction string request string
  | StreamAction string request string
  | SubmitAction string request string
  | RawCallAction string request string

fun action_request :: "client_action \<Rightarrow> request" where
  "action_request (CallAction m r c) = r"
| "action_request (StreamAction m r c) = r"
| "action_request (SubmitAction m r c) = r"
| "action_request (RawCallAction m r c) = r"

fun action_method :: "client_action \<Rightarrow> string" where
  "action_method (CallAction m r c) = m"
| "action_method (StreamAction m r c) = m"
| "action_method (SubmitAction m r c) = m"
| "action_method (RawCallAction m r c) = m"

definition duplicate_kw :: "string \<Rightarrow> exn" where
  "duplicate_kw name = TypeError (''got multiple values for keyword argument '' @ squote name)"

definition meta_with_root ::
    "client \<Rightarrow> caller_env \<Rightarrow> string option \<Rightarrow> meta_kw \<Rightarrow> exn + request_meta" where
  "meta_with_root cl env root kw =
     (if kw_root kw \<noteq> None then Inl (duplicate_kw ''root'')
      else client_meta cl env (kw\<lparr>kw_root := root\<rparr>))"

subsection \<open>Transport and identity\<close>

definition configure_transport_timeout :: "int \<Rightarrow> exn + client_action" where
  "configure_transport_timeout seconds =
     (if seconds < 0 then Inl (ValueError ''transport timeout cannot be negative'')
      else Inr (RawCallAction ''configure_transport_runtime''
             (TransportRuntimeRq
                \<lparr>transport_runtime_request_server_timeout_ms = min (seconds * 1000) (2 ^ 31 - 1),
                 transport_runtime_request_schema_version = SCHEMA_VERSION\<rparr>)
             ''TransportRuntimeResponse''))"

definition client_remote_identity ::
    "client \<Rightarrow> caller_env \<Rightarrow> string \<Rightarrow> string option \<Rightarrow> bool \<Rightarrow> meta_kw \<Rightarrow> exn + client_action" where
  "client_remote_identity cl env remote key_path unset kw =
     (if kw_remote kw \<noteq> None then Inl (TypeError (''got multiple values for argument '' @ squote ''remote''))
      else if unset \<and> key_path \<noteq> None
      then Inl (ValueError ''identity set and unset are mutually exclusive'')
      else bindE (client_meta cl env kw) (\<lambda>m.
        Inr (CallAction ''remote_identity''
          (RemoteIdentityRq
             \<lparr>remote_identity_request_meta = m,
              remote_identity_request_remote = remote,
              remote_identity_request_op =
                (if unset then RemoteIdentityOp_unset
                 else if key_path \<noteq> None then RemoteIdentityOp_set else RemoteIdentityOp_get),
              remote_identity_request_private_key_path = key_path\<rparr>)
          ''RemoteIdentityResponse'')))"

subsection \<open>Workspaces\<close>

definition client_create_workspace ::
    "client \<Rightarrow> caller_env \<Rightarrow> string option \<Rightarrow> string option \<Rightarrow> meta_kw \<Rightarrow> exn + client_action" where
  "client_create_workspace cl env workspace_root workspace_id kw =
     (if kw_workspace_id kw \<noteq> None then Inl (duplicate_kw ''workspace_id'')
      else
     bindE (case workspace_root of
              Some r \<Rightarrow> Inr (ce_resolve env (path_str r))
            | None \<Rightarrow> (case cl_root cl of Some r \<Rightarrow> Inr r | None \<Rightarrow> caller_directory env)) (\<lambda>root.
     bindE (meta_with_root cl env (Some root) kw) (\<lambda>m.
     Inr (CallAction ''create_workspace''
       (CreateWorkspaceRq
          \<lparr>create_workspace_request_meta = m,
           create_workspace_request_workspace_root = root,
           create_workspace_request_workspace_id = workspace_id\<rparr>)
       ''CreateWorkspaceResponse''))))"

definition init_from_sources_request_of ::
    "client \<Rightarrow> caller_env \<Rightarrow> source_arg list \<Rightarrow> string option \<Rightarrow> materialize_target option \<Rightarrow>
     string option \<Rightarrow> meta_kw \<Rightarrow> exn + request" where
  "init_from_sources_request_of cl env srcs workspace_root target workspace_id kw =
     (if kw_workspace_id kw \<noteq> None then Inl (duplicate_kw ''workspace_id'')
      else
      (let root = (case workspace_root of
                     Some r \<Rightarrow> Some (ce_resolve env (path_str r)) | None \<Rightarrow> cl_root cl)
       in bindE (meta_with_root cl env root kw) (\<lambda>m.
          Inr (InitFromSourcesRq
            \<lparr>init_from_sources_request_meta = m,
             init_from_sources_request_workspace_root = (case root of None \<Rightarrow> [] | Some r \<Rightarrow> r),
             init_from_sources_request_sources = sources srcs,
             init_from_sources_request_target = target,
             init_from_sources_request_workspace_id = workspace_id\<rparr>))))"

definition client_init_from_sources where
  "client_init_from_sources cl env srcs workspace_root target workspace_id kw =
     bindE (init_from_sources_request_of cl env srcs workspace_root target workspace_id kw) (\<lambda>r.
       Inr (CallAction ''init_from_sources'' r ''InitFromSourcesResponse''))"

definition client_init_from_sources_stream where
  "client_init_from_sources_stream cl env srcs workspace_root target workspace_id kw =
     bindE (init_from_sources_request_of cl env srcs workspace_root target workspace_id kw) (\<lambda>r.
       Inr (StreamAction ''init_from_sources'' r ''InitFromSourcesResponse''))"

definition clone_workspace_request_of ::
    "client \<Rightarrow> caller_env \<Rightarrow> string \<Rightarrow> string \<Rightarrow> meta_kw \<Rightarrow> exn + request" where
  "clone_workspace_request_of cl env url target kw =
     bindE (client_meta cl env kw) (\<lambda>m.
       Inr (CloneWorkspaceRq
         \<lparr>clone_workspace_request_meta = m, clone_workspace_request_url = url,
          clone_workspace_request_target = target\<rparr>))"

definition client_clone_workspace where
  "client_clone_workspace cl env url target kw =
     bindE (clone_workspace_request_of cl env url target kw) (\<lambda>r.
       Inr (CallAction ''clone_workspace'' r ''CloneWorkspaceResponse''))"

definition client_clone_workspace_stream where
  "client_clone_workspace_stream cl env url target kw =
     bindE (clone_workspace_request_of cl env url target kw) (\<lambda>r.
       Inr (StreamAction ''clone_workspace'' r ''CloneWorkspaceResponse''))"

definition client_clone_local_workspace ::
    "client \<Rightarrow> caller_env \<Rightarrow> string \<Rightarrow> string option \<Rightarrow> local_clone_mode enum_arg \<Rightarrow>
     string option \<Rightarrow> string option \<Rightarrow> string option \<Rightarrow> int option \<Rightarrow> meta_kw \<Rightarrow>
     exn + client_action" where
  "client_clone_local_workspace cl env name dest mode branch copy_source owner wait_seconds kw =
     bindE (client_meta cl env kw) (\<lambda>m.
     bindE (case mode of EnumMember x \<Rightarrow> Inr x
            | EnumName s \<Rightarrow> enum_lookup local_clone_mode_name local_clone_mode_members s) (\<lambda>md.
     Inr (CallAction ''clone_local_workspace''
       (CloneLocalWorkspaceRq
          \<lparr>clone_local_workspace_request_meta = m,
           clone_local_workspace_request_name = name,
           clone_local_workspace_request_dest = dest,
           clone_local_workspace_request_mode = md,
           clone_local_workspace_request_branch = branch,
           clone_local_workspace_request_copy_source = copy_source,
           clone_local_workspace_request_owner = owner,
           clone_local_workspace_request_wait_seconds = wait_seconds\<rparr>)
       ''CloneLocalWorkspaceResponse'')))"

definition client_local_family ::
    "client \<Rightarrow> caller_env \<Rightarrow> local_family_op enum_arg \<Rightarrow> string option \<Rightarrow> bool option \<Rightarrow>
     string list \<Rightarrow> int option \<Rightarrow> meta_kw \<Rightarrow> exn + client_action" where
  "client_local_family cl env op name keep force_hazards wait_seconds kw =
     bindE (client_meta cl env kw) (\<lambda>m.
     bindE (case op of EnumMember x \<Rightarrow> Inr x
            | EnumName s \<Rightarrow> enum_lookup local_family_op_name local_family_op_members s) (\<lambda>opv.
     Inr (CallAction ''local_family''
       (LocalFamilyRq
          \<lparr>local_family_request_meta = m, local_family_request_op = opv,
           local_family_request_name = name, local_family_request_keep = keep,
           local_family_request_force_hazards = force_hazards,
           local_family_request_wait_seconds = wait_seconds\<rparr>)
       ''LocalFamilyResponse'')))"

subsection \<open>Repositories\<close>

definition clone_repo_member_request_of ::
    "client \<Rightarrow> caller_env \<Rightarrow> string \<Rightarrow> string option \<Rightarrow> string option \<Rightarrow> string option \<Rightarrow> meta_kw \<Rightarrow>
     exn + request" where
  "clone_repo_member_request_of cl env url member_path member_id source_id kw =
     bindE (client_meta cl env kw) (\<lambda>m.
       Inr (CloneRepoMemberRq
         \<lparr>clone_repo_member_request_meta = m,
          clone_repo_member_request_source =
            \<lparr>su_url = url, su_path = member_path, su_remote_name = None, su_branch = None\<rparr>,
          clone_repo_member_request_member_id = member_id,
          clone_repo_member_request_source_id = source_id\<rparr>))"

definition client_clone_repo_member where
  "client_clone_repo_member cl env url member_path member_id source_id kw =
     bindE (clone_repo_member_request_of cl env url member_path member_id source_id kw) (\<lambda>r.
       Inr (CallAction ''clone_repo_member'' r ''CloneRepoMemberResponse''))"

definition client_clone_repo_member_stream where
  "client_clone_repo_member_stream cl env url member_path member_id source_id kw =
     bindE (clone_repo_member_request_of cl env url member_path member_id source_id kw) (\<lambda>r.
       Inr (StreamAction ''clone_repo_member'' r ''CloneRepoMemberResponse''))"

definition client_detach_repo_member :: "client \<Rightarrow> caller_env \<Rightarrow> string \<Rightarrow> meta_kw \<Rightarrow> exn + client_action" where
  "client_detach_repo_member cl env member kw =
     bindE (single_repo_lifecycle_meta cl env member ''detach_repo_member'' kw) (\<lambda>m.
       Inr (CallAction ''detach_repo_member''
         (DetachRepoMemberRq \<lparr>detach_repo_member_request_meta = m\<rparr>) ''DetachRepoMemberResponse''))"

definition client_attach_repo_member :: "client \<Rightarrow> caller_env \<Rightarrow> string \<Rightarrow> meta_kw \<Rightarrow> exn + client_action" where
  "client_attach_repo_member cl env member_id kw =
     bindE (validate_member_id member_id) (\<lambda>_.
     bindE (single_repo_lifecycle_meta cl env member_id ''attach_repo_member'' kw) (\<lambda>m.
       Inr (CallAction ''attach_repo_member''
         (AttachRepoMemberRq \<lparr>attach_repo_member_request_meta = m\<rparr>) ''AttachRepoMemberResponse'')))"

definition client_add_existing_repo ::
    "client \<Rightarrow> caller_env \<Rightarrow> string \<Rightarrow> string option \<Rightarrow> string option \<Rightarrow> string option \<Rightarrow> meta_kw \<Rightarrow>
     exn + client_action" where
  "client_add_existing_repo cl env repository_path member_path member_id source_id kw =
     bindE (client_meta cl env kw) (\<lambda>m.
       Inr (CallAction ''add_existing_repo''
         (AddExistingRepoRq
            \<lparr>add_existing_repo_request_meta = m,
             add_existing_repo_request_repository_path = repository_path,
             add_existing_repo_request_member_path = member_path,
             add_existing_repo_request_member_id = member_id,
             add_existing_repo_request_source_id = source_id\<rparr>)
         ''AddExistingRepoResponse''))"

definition client_create_repo ::
    "client \<Rightarrow> caller_env \<Rightarrow> string \<Rightarrow> string option \<Rightarrow> string option \<Rightarrow> string option \<Rightarrow> meta_kw \<Rightarrow>
     exn + client_action" where
  "client_create_repo cl env member_path initial_branch member_id source_id kw =
     bindE (client_meta cl env kw) (\<lambda>m.
       Inr (CallAction ''create_repo''
         (CreateRepoRq
            \<lparr>create_repo_request_meta = m, create_repo_request_member_path = member_path,
             create_repo_request_initial_branch = initial_branch,
             create_repo_request_member_id = member_id, create_repo_request_source_id = source_id\<rparr>)
         ''CreateRepoResponse''))"

definition client_repo_sync ::
    "client \<Rightarrow> caller_env \<Rightarrow> string option \<Rightarrow> bool option \<Rightarrow> meta_kw \<Rightarrow> exn + client_action" where
  "client_repo_sync cl env member_path private kw =
     (let explicit = (kw_all_members kw \<noteq> None \<or> kw_member_ids kw \<noteq> None \<or> kw_paths kw \<noteq> None \<or>
                      kw_targets kw \<noteq> None \<or> kw_exclude_targets kw \<noteq> None)
      in if member_path \<noteq> None \<and> explicit
         then Inl (ValueError ''repo_sync member_path cannot be combined with explicit selection'')
         else
           (let kw' = (case member_path of None \<Rightarrow> kw | Some p \<Rightarrow> kw\<lparr>kw_paths := Some [p]\<rparr>)
            in bindE (client_meta cl env kw') (\<lambda>m.
              Inr (CallAction ''repo_sync''
                (RepoSyncRq \<lparr>repo_sync_request_meta = m, repo_sync_request_private = private\<rparr>)
                ''RepoSyncResponse''))))"

subsection \<open>Reading\<close>

definition client_status ::
    "client \<Rightarrow> caller_env \<Rightarrow> bool \<Rightarrow> bool option \<Rightarrow> bool option \<Rightarrow>
     status_path_style enum_arg option \<Rightarrow> meta_kw \<Rightarrow> exn + client_action" where
  "client_status cl env combined include_file_changes include_branch_summary path_style kw =
     bindE (client_meta cl env kw) (\<lambda>m.
     bindE (enum_value status_path_style_name status_path_style_members path_style) (\<lambda>ps.
       Inr (CallAction ''status''
         (StatusRq
            \<lparr>streq_meta = m,
             streq_mode = Some (if combined then StatusMode_combined else StatusMode_summary),
             streq_include_file_changes = include_file_changes,
             streq_include_branch_summary = include_branch_summary,
             streq_path_style = ps\<rparr>)
         ''StatusResponse'')))"

definition client_ls :: "client \<Rightarrow> caller_env \<Rightarrow> bool option \<Rightarrow> meta_kw \<Rightarrow> exn + client_action" where
  "client_ls cl env include_unmaterialized kw =
     bindE (client_meta cl env kw) (\<lambda>m.
       Inr (CallAction ''ls''
         (LsRq \<lparr>ls_request_meta = m, ls_request_include_unmaterialized = include_unmaterialized\<rparr>)
         ''LsResponse''))"

definition client_resolve_forall_targets ::
    "client \<Rightarrow> caller_env \<Rightarrow> bool option \<Rightarrow> meta_kw \<Rightarrow> exn + client_action" where
  "client_resolve_forall_targets cl env include_unmaterialized kw =
     bindE (client_meta cl env kw) (\<lambda>m.
       Inr (CallAction ''resolve_forall_targets''
         (LsRq \<lparr>ls_request_meta = m, ls_request_include_unmaterialized = include_unmaterialized\<rparr>)
         ''LsResponse''))"

subsection \<open>Materialize, snapshots and tags\<close>

datatype target_arg = TargetRecord materialize_target | TargetKindArg "materialize_target_kind enum_arg"

fun target_of :: "target_arg \<Rightarrow> string option \<Rightarrow> string option \<Rightarrow> exn + materialize_target" where
  "target_of (TargetRecord t) name commit = Inr t"
| "target_of (TargetKindArg (EnumMember k)) name commit =
     Inr \<lparr>mt_kind = k, mt_name = name, mt_commit = commit\<rparr>"
| "target_of (TargetKindArg (EnumName s)) name commit =
     bindE (enum_lookup materialize_target_kind_name materialize_target_kind_members s) (\<lambda>k.
       Inr \<lparr>mt_kind = k, mt_name = name, mt_commit = commit\<rparr>)"

definition materialize_request_of ::
    "client \<Rightarrow> caller_env \<Rightarrow> target_arg \<Rightarrow> string option \<Rightarrow> string option \<Rightarrow> meta_kw \<Rightarrow>
     exn + request" where
  "materialize_request_of cl env target name commit kw =
     bindE (target_of target name commit) (\<lambda>t.
     bindE (client_meta cl env kw) (\<lambda>m.
       Inr (MaterializeRq \<lparr>materialize_request_meta = m, materialize_request_target = t\<rparr>)))"

definition client_materialize where
  "client_materialize cl env target name commit kw =
     bindE (materialize_request_of cl env target name commit kw) (\<lambda>r.
       Inr (CallAction ''materialize'' r ''MaterializeResponse''))"

definition client_materialize_stream where
  "client_materialize_stream cl env target name commit kw =
     bindE (materialize_request_of cl env target name commit kw) (\<lambda>r.
       Inr (StreamAction ''materialize'' r ''MaterializeResponse''))"

definition client_switch :: "client \<Rightarrow> caller_env \<Rightarrow> string \<Rightarrow> meta_kw \<Rightarrow> exn + client_action" where
  "client_switch cl env branch kw =
     client_materialize cl env (TargetKindArg (EnumName ''branch'')) (Some branch) None kw"

definition client_snapshot ::
    "client \<Rightarrow> caller_env \<Rightarrow> string \<Rightarrow> snapshot_source option \<Rightarrow> string option \<Rightarrow> bool \<Rightarrow> meta_kw \<Rightarrow>
     exn + client_action" where
  "client_snapshot cl env snapshot_id source branch current_branch kw =
     (if source \<noteq> None \<and> (branch \<noteq> None \<or> current_branch)
      then Inl (ValueError ''snapshot source cannot be combined with branch/current_branch'')
      else
        (let src = (if branch \<noteq> None
                    then Some \<lparr>ss_kind = SnapshotSourceKind_branch, ss_branch = branch\<rparr>
                    else if current_branch
                    then Some \<lparr>ss_kind = SnapshotSourceKind_current, ss_branch = None\<rparr>
                    else source)
         in bindE (client_meta cl env kw) (\<lambda>m.
           Inr (CallAction ''snapshot''
             (SnapshotRq \<lparr>snapshot_request_meta = m, snapshot_request_snapshot_id = snapshot_id,
                          snapshot_request_source = src\<rparr>)
             ''SnapshotResponse''))))"

definition client_list_snapshots :: "client \<Rightarrow> caller_env \<Rightarrow> meta_kw \<Rightarrow> exn + client_action" where
  "client_list_snapshots cl env kw =
     bindE (client_meta cl env kw) (\<lambda>m.
       Inr (CallAction ''list_snapshots''
         (ListSnapshotsRq \<lparr>list_snapshots_request_meta = m\<rparr>) ''ListSnapshotsResponse''))"

definition client_tag ::
    "client \<Rightarrow> caller_env \<Rightarrow> string option \<Rightarrow> tag_op enum_arg \<Rightarrow> string option \<Rightarrow> bool option \<Rightarrow>
     string option \<Rightarrow> bool option \<Rightarrow> meta_kw \<Rightarrow> exn + client_action" where
  "client_tag cl env name op message signed remote all kw =
     (if kw_remote kw \<noteq> None then Inl (duplicate_kw ''remote'')
      else
     bindE (client_meta cl env kw) (\<lambda>m.
     bindE (case op of EnumMember x \<Rightarrow> Inr x
            | EnumName s \<Rightarrow> enum_lookup tag_op_name tag_op_members s) (\<lambda>opv.
       Inr (CallAction ''tag''
         (TagRq \<lparr>tag_request_meta = m, tag_request_op = opv, tag_request_name = name,
                 tag_request_message = message, tag_request_signed = signed,
                 tag_request_remote = remote, tag_request_all = all\<rparr>)
         ''TagResponse''))))"

subsection \<open>Commits\<close>

definition client_capture :: "client \<Rightarrow> caller_env \<Rightarrow> meta_kw \<Rightarrow> exn + client_action" where
  "client_capture cl env kw =
     bindE (client_meta cl env kw) (\<lambda>m.
       Inr (CallAction ''capture'' (CaptureRq \<lparr>capture_request_meta = m\<rparr>) ''CaptureResponse''))"

definition client_commit ::
    "client \<Rightarrow> caller_env \<Rightarrow> string \<Rightarrow> bool option \<Rightarrow> bool option \<Rightarrow> meta_kw \<Rightarrow> exn + client_action" where
  "client_commit cl env message all commit_marker kw =
     bindE (client_meta cl env kw) (\<lambda>m.
       Inr (CallAction ''commit''
         (CommitRq \<lparr>commit_request_meta = m, commit_request_message = message,
                    commit_request_all = all, commit_request_commit_marker = commit_marker\<rparr>)
         ''CommitResponse''))"

definition client_stage ::
    "client \<Rightarrow> caller_env \<Rightarrow> string list \<Rightarrow> string option \<Rightarrow> bool option \<Rightarrow> meta_kw \<Rightarrow>
     exn + client_action" where
  "client_stage cl env pathspecs cwd all kw =
     bindE (client_meta cl env kw) (\<lambda>m.
     bindE (case cwd of Some c \<Rightarrow> Inr (ce_resolve env (path_str c))
            | None \<Rightarrow> caller_directory env) (\<lambda>d.
     bindE (path_text d ''stage working directory'') (\<lambda>t.
       Inr (CallAction ''stage''
         (StageRq \<lparr>stage_request_meta = m, stage_request_cwd = t,
                   stage_request_pathspecs = pathspecs, stage_request_all = all\<rparr>)
         ''StageResponse''))))"

subsection \<open>Remotes\<close>

definition pull_head_request_of :: "client \<Rightarrow> caller_env \<Rightarrow> meta_kw \<Rightarrow> exn + request" where
  "pull_head_request_of cl env kw =
     bindE (client_meta cl env kw) (\<lambda>m. Inr (PullHeadRq \<lparr>pull_head_request_meta = m\<rparr>))"

definition client_pull_head where
  "client_pull_head cl env kw =
     bindE (pull_head_request_of cl env kw) (\<lambda>r. Inr (CallAction ''pull_head'' r ''PullHeadResponse''))"

definition client_pull_head_stream where
  "client_pull_head_stream cl env kw =
     bindE (pull_head_request_of cl env kw) (\<lambda>r. Inr (StreamAction ''pull_head'' r ''PullHeadResponse''))"

definition pull_snapshot_request_of ::
    "client \<Rightarrow> caller_env \<Rightarrow> string \<Rightarrow> meta_kw \<Rightarrow> exn + request" where
  "pull_snapshot_request_of cl env snapshot_id kw =
     bindE (client_meta cl env kw) (\<lambda>m.
       Inr (PullSnapshotRq \<lparr>pull_snapshot_request_meta = m,
                            pull_snapshot_request_snapshot_id = snapshot_id\<rparr>))"

definition client_pull_snapshot where
  "client_pull_snapshot cl env snapshot_id kw =
     bindE (pull_snapshot_request_of cl env snapshot_id kw) (\<lambda>r.
       Inr (CallAction ''pull_snapshot'' r ''PullSnapshotResponse''))"

definition client_pull_snapshot_stream where
  "client_pull_snapshot_stream cl env snapshot_id kw =
     bindE (pull_snapshot_request_of cl env snapshot_id kw) (\<lambda>r.
       Inr (StreamAction ''pull_snapshot'' r ''PullSnapshotResponse''))"

definition push_request_of ::
    "client \<Rightarrow> caller_env \<Rightarrow> string option \<Rightarrow> string option \<Rightarrow> remote_check option \<Rightarrow> meta_kw \<Rightarrow>
     exn + request" where
  "push_request_of cl env remote refspec check kw =
     (if kw_remote kw \<noteq> None then Inl (duplicate_kw ''remote'')
      else bindE (client_meta cl env kw) (\<lambda>m.
        Inr (PushRq \<lparr>push_request_meta = m, push_request_remote = remote,
                     push_request_refspec = refspec, push_request_remote_check = check\<rparr>)))"

definition client_push where
  "client_push cl env remote refspec check kw =
     bindE (push_request_of cl env remote refspec check kw) (\<lambda>r.
       Inr (CallAction ''push'' r ''PushResponse''))"

definition client_push_stream where
  "client_push_stream cl env remote refspec check kw =
     bindE (push_request_of cl env remote refspec check kw) (\<lambda>r.
       Inr (StreamAction ''push'' r ''PushResponse''))"

definition fetch_request_of :: "client \<Rightarrow> caller_env \<Rightarrow> meta_kw \<Rightarrow> exn + request" where
  "fetch_request_of cl env kw =
     bindE (client_meta cl env kw) (\<lambda>m. Inr (FetchRq \<lparr>fetch_request_meta = m\<rparr>))"

definition client_fetch where
  "client_fetch cl env kw =
     bindE (fetch_request_of cl env kw) (\<lambda>r. Inr (CallAction ''fetch'' r ''FetchResponse''))"

definition client_fetch_stream where
  "client_fetch_stream cl env kw =
     bindE (fetch_request_of cl env kw) (\<lambda>r. Inr (StreamAction ''fetch'' r ''FetchResponse''))"

subsection \<open>Stashes and branches\<close>

record stash_args =
  sa_op :: "stash_op enum_arg"
  sa_stash_id :: "string option"
  sa_message :: "string option"
  sa_include_untracked :: "bool option"
  sa_include_ignored :: "bool option"
  sa_expanded :: "bool option"
  sa_preserve_index :: "bool option"

definition stash_defaults :: "stash_op \<Rightarrow> stash_args" where
  "stash_defaults op =
     \<lparr>sa_op = EnumMember op, sa_stash_id = None, sa_message = None, sa_include_untracked = None,
      sa_include_ignored = None, sa_expanded = None, sa_preserve_index = None\<rparr>"

definition client_stash :: "client \<Rightarrow> caller_env \<Rightarrow> stash_args \<Rightarrow> meta_kw \<Rightarrow> exn + client_action" where
  "client_stash cl env a kw =
     bindE (client_meta cl env kw) (\<lambda>m.
     bindE (case sa_op a of EnumMember x \<Rightarrow> Inr x
            | EnumName s \<Rightarrow> enum_lookup stash_op_name stash_op_members s) (\<lambda>opv.
       Inr (CallAction ''stash''
         (StashRq \<lparr>stash_request_meta = m, stash_request_op = opv,
                   stash_request_stash_id = sa_stash_id a, stash_request_message = sa_message a,
                   stash_request_include_untracked = sa_include_untracked a,
                   stash_request_include_ignored = sa_include_ignored a,
                   stash_request_expanded = sa_expanded a,
                   stash_request_preserve_index = sa_preserve_index a\<rparr>)
         ''StashResponse'')))"

definition client_branch ::
    "client \<Rightarrow> caller_env \<Rightarrow> string option \<Rightarrow> branch_op enum_arg \<Rightarrow> string option \<Rightarrow> string option \<Rightarrow>
     bool option \<Rightarrow> meta_kw \<Rightarrow> exn + client_action" where
  "client_branch cl env name op start_ref source_ref switch_after_create kw =
     bindE (case op of EnumMember x \<Rightarrow> Inr x
            | EnumName s \<Rightarrow> enum_lookup branch_op_name branch_op_members s) (\<lambda>opv.
     bindE (client_meta cl env kw) (\<lambda>m.
       Inr (CallAction ''branch''
         (BranchRq \<lparr>branch_request_meta = m, branch_request_op = opv, branch_request_name = name,
                    branch_request_start_ref = (if source_ref \<noteq> None then source_ref else start_ref),
                    branch_request_switch_after_create = switch_after_create\<rparr>)
         ''BranchResponse'')))"

subsection \<open>Merge\<close>

record merge_args =
  ma_source_ref :: "string option"
  ma_op :: "merge_op enum_arg"
  ma_merge_id :: "string option"
  ma_mode :: "merge_mode enum_arg option"
  ma_message :: "string option"
  ma_preserve :: "bool option"
  ma_filesystem_strict :: "bool option"
  ma_wait_seconds :: "int option"

definition merge_defaults :: "string option \<Rightarrow> merge_args" where
  "merge_defaults source =
     \<lparr>ma_source_ref = source, ma_op = EnumMember MergeOp_start, ma_merge_id = None, ma_mode = None,
      ma_message = None, ma_preserve = None, ma_filesystem_strict = None, ma_wait_seconds = None\<rparr>"

text \<open>
  \<open>local_source_name\<close> is a parameter of the merge methods, so a dictionary that holds it binds
  that parameter and the rest is the meta.
\<close>

definition merge_request_of ::
    "client \<Rightarrow> caller_env \<Rightarrow> merge_args \<Rightarrow> meta_kw \<Rightarrow> exn + request" where
  "merge_request_of cl env a kw =
     (let rest = kw\<lparr>kw_local_source_name := None\<rparr>
      in
     bindE (client_meta cl env rest) (\<lambda>m.
     bindE (case ma_op a of EnumMember x \<Rightarrow> Inr x
            | EnumName s \<Rightarrow> enum_lookup merge_op_name merge_op_members s) (\<lambda>opv.
     bindE (enum_value merge_mode_name merge_mode_members (ma_mode a)) (\<lambda>mode.
       Inr (MergeRq
         \<lparr>mreq_meta = m\<lparr>rm_policy := merge_policy (rm_policy m) rest\<rparr>,
          mreq_op = opv, mreq_source_ref = ma_source_ref a, mreq_merge_id = ma_merge_id a,
          mreq_mode = mode, mreq_message = ma_message a, mreq_preserve = ma_preserve a,
          mreq_filesystem_strict = ma_filesystem_strict a,
          mreq_local_source_name = kw_local_source_name kw,
          mreq_wait_seconds = ma_wait_seconds a\<rparr>)))))"

definition client_merge where
  "client_merge cl env a kw =
     bindE (merge_request_of cl env a kw) (\<lambda>r. Inr (CallAction ''merge'' r ''MergeResponse''))"

definition client_merge_stream where
  "client_merge_stream cl env a kw =
     bindE (merge_request_of cl env a kw) (\<lambda>r. Inr (SubmitAction ''merge'' r ''MergeResponse''))"

subsection \<open>Diff and log\<close>

record diff_args =
  da_operands :: "string list"
  da_pathspecs :: "string list"
  da_workspace_cwd :: "string option"
  da_cached :: "bool option"
  da_merge_base :: "bool option"
  da_tagged :: "bool option"
  da_output_format :: "diff_output_format enum_arg option"
  da_manifest_mode :: "diff_manifest_mode enum_arg option"
  da_context_lines :: "int option"
  da_interhunk_lines :: "int option"
  da_algorithm :: "diff_algorithm enum_arg option"
  da_whitespace :: "diff_whitespace_mode enum_arg option"
  da_find_renames :: "bool option"
  da_find_copies :: "bool option"
  da_rename_threshold :: "int option"
  da_rename_limit :: "int option"
  da_binary :: "bool option"
  da_text :: "bool option"
  da_full_index :: "bool option"
  da_abbrev :: "int option"
  da_reverse :: "bool option"
  da_null_terminated :: "bool option"
  da_src_prefix :: "string option"
  da_dst_prefix :: "string option"
  da_no_prefix :: "bool option"
  da_line_prefix :: "string option"
  da_ignore_submodules :: "string option"
  da_diff_filter :: "string option"
  da_echo_manifest_entries :: "bool option"
  da_options :: "diff_options option"

definition diff_options_of :: "diff_args \<Rightarrow> exn + diff_options" where
  "diff_options_of a =
     (case da_options a of
        Some x \<Rightarrow> Inr x
      | None \<Rightarrow>
         bindE (enum_value diff_output_format_name diff_output_format_members (da_output_format a)) (\<lambda>fmt.
         bindE (enum_value diff_algorithm_name diff_algorithm_members (da_algorithm a)) (\<lambda>alg.
         bindE (enum_value diff_whitespace_mode_name diff_whitespace_mode_members (da_whitespace a)) (\<lambda>ws.
         bindE (enum_value diff_manifest_mode_name diff_manifest_mode_members (da_manifest_mode a)) (\<lambda>mm.
         Inr \<lparr>dop_output_format = fmt, dop_context_lines = da_context_lines a,
              dop_interhunk_lines = da_interhunk_lines a, dop_algorithm = alg, dop_whitespace = ws,
              dop_find_renames = da_find_renames a, dop_find_copies = da_find_copies a,
              dop_rename_threshold = da_rename_threshold a, dop_rename_limit = da_rename_limit a,
              dop_binary = da_binary a, dop_text = da_text a, dop_full_index = da_full_index a,
              dop_abbrev = da_abbrev a, dop_reverse = da_reverse a,
              dop_null_terminated = da_null_terminated a, dop_src_prefix = da_src_prefix a,
              dop_dst_prefix = da_dst_prefix a, dop_no_prefix = da_no_prefix a,
              dop_line_prefix = da_line_prefix a, dop_ignore_submodules = da_ignore_submodules a,
              dop_diff_filter = da_diff_filter a, dop_manifest_mode = mm,
              dop_echo_manifest_entries = da_echo_manifest_entries a\<rparr>)))))"

definition client_diff :: "client \<Rightarrow> caller_env \<Rightarrow> diff_args \<Rightarrow> meta_kw \<Rightarrow> exn + client_action" where
  "client_diff cl env a kw =
     bindE (diff_options_of a) (\<lambda>opv.
     bindE (client_meta cl env kw) (\<lambda>m.
       Inr (CallAction ''diff''
         (DiffRq \<lparr>diff_request_meta = m, diff_request_workspace_cwd = da_workspace_cwd a,
                  diff_request_operands = da_operands a,
                  diff_request_explicit_pathspecs = da_pathspecs a,
                  diff_request_options = Some opv, diff_request_cached = da_cached a,
                  diff_request_merge_base = da_merge_base a, diff_request_tagged = da_tagged a\<rparr>)
         ''DiffManifestResponse'')))"

definition client_log ::
    "client \<Rightarrow> caller_env \<Rightarrow> string list \<Rightarrow> string list \<Rightarrow> string option \<Rightarrow> log_options \<Rightarrow>
     bool option \<Rightarrow> meta_kw \<Rightarrow> exn + client_action" where
  "client_log cl env operands pathspecs workspace_cwd options tagged kw =
     bindE (client_meta cl env kw) (\<lambda>m.
       Inr (RawCallAction ''log''
         (LogRq \<lparr>log_request_meta = m, log_request_workspace_cwd = workspace_cwd,
                 log_request_operands = operands, log_request_explicit_pathspecs = pathspecs,
                 log_request_options = Some options, log_request_tagged = tagged\<rparr>)
         ''LogResponse''))"

subsection \<open>Every request carries the meta the method was given\<close>

lemmas builder_defs =
  client_remote_identity_def client_create_workspace_def init_from_sources_request_of_def
  client_init_from_sources_def client_init_from_sources_stream_def clone_workspace_request_of_def
  client_clone_workspace_def client_clone_workspace_stream_def client_clone_local_workspace_def
  client_local_family_def clone_repo_member_request_of_def client_clone_repo_member_def
  client_clone_repo_member_stream_def client_add_existing_repo_def client_create_repo_def
  client_status_def client_ls_def client_resolve_forall_targets_def materialize_request_of_def
  client_materialize_def client_materialize_stream_def client_switch_def client_snapshot_def
  client_list_snapshots_def client_tag_def client_capture_def client_commit_def client_stage_def
  pull_head_request_of_def client_pull_head_def client_pull_head_stream_def
  pull_snapshot_request_of_def client_pull_snapshot_def client_pull_snapshot_stream_def
  push_request_of_def client_push_def client_push_stream_def fetch_request_of_def
  client_fetch_def client_fetch_stream_def client_stash_def client_branch_def client_diff_def
  client_log_def

lemma merge_policy_fields:
  assumes "merge_policy (Some p) kw = Some q"
  shows "pol_partial q = pol_partial p" "pol_destructive q = pol_destructive p"
    "pol_sync q = pol_sync p" "pol_unsupported_member q = pol_unsupported_member p"
    "pol_remote q = pol_remote p" "pol_concurrency q = pol_concurrency p"
    "pol_max_retries q = pol_max_retries p"
    "pol_progress_min_interval_ms q =
       (if kw_progress_min_interval_ms kw = None then None else pol_progress_min_interval_ms p)"
    "pol_max_connections_per_host q =
       (if kw_max_connections_per_host kw = None then None else pol_max_connections_per_host p)"
  using assms by (auto simp: merge_policy_def Let_def split: if_splits)

end
