(* ===== verification/Samples.thy ===== *)
theory Samples
  imports ClientMethods
begin

section \<open>Concrete values\<close>

text \<open>
  Small concrete requests, responses and bridges at which the properties of the other theories are
  applied. They model no code.
\<close>

definition sample_env :: caller_env where
  "sample_env = \<lparr>ce_cwd = ''/w'', ce_resolve = (\<lambda>p. p), ce_uuid = ''0f'', ce_getenv = (\<lambda>_. None)\<rparr>"

definition sample_client :: client where
  "sample_client =
     \<lparr>cl_root = Some ''/w/ws'', cl_has_bridge = True, cl_closed = False,
      cl_max_connections_per_host = None, cl_close_report = None\<rparr>"

definition sample_transport :: transport_options where
  "sample_transport =
     \<lparr>topt_default_identity = Some ''/k'', topt_remote_identities = [], topt_url_scheme = None,
      topt_placement = Some TransportPlacement_cli, topt_endpoint_path_base = None\<rparr>"

definition sample_meta :: "transport_options option \<Rightarrow> request_meta" where
  "sample_meta t =
     \<lparr>rm_request_id = ''req_1'', rm_schema_version = ''gwz.protocol/v0'', rm_workspace = None,
      rm_selection = None, rm_policy = None, rm_dry_run = None, rm_attribution = None,
      rm_transport = t, rm_invocation = None, rm_transport_message = None\<rparr>"

definition sample_request :: "transport_options option \<Rightarrow> request" where
  "sample_request t =
     LsRq \<lparr>ls_request_meta = sample_meta t, ls_request_include_unmaterialized = None\<rparr>"

definition sample_response_meta :: "aggregate_status \<Rightarrow> string option \<Rightarrow> response_meta" where
  "sample_response_meta a opid =
     \<lparr>rsm_request_id = ''req_1'', rsm_schema_version = ''gwz.protocol/v0'',
      rsm_action = ActionKind_fetch, rsm_aggregate_status = a, rsm_operation_id = opid,
      rsm_message = None, rsm_attribution = None, rsm_transport = None,
      rsm_transport_message = None\<rparr>"

definition sample_envelope :: "aggregate_status \<Rightarrow> string option \<Rightarrow> response_envelope" where
  "sample_envelope a opid =
     \<lparr>env_meta = sample_response_meta a opid, env_members = [], env_errors = []\<rparr>"

definition sample_response :: "aggregate_status \<Rightarrow> string option \<Rightarrow> response" where
  "sample_response a opid = PlainResponse PushResponse (sample_envelope a opid)"

definition sample_capabilities :: response where
  "sample_capabilities =
     CapabilitiesResp
       \<lparr>tcr_file_identity = True, tcr_exact_agent_identity = False,
        tcr_message_versions = Some [1, 2], tcr_placements = Some [TransportPlacement_cli],
        tcr_schemes = None, tcr_auth_policies = None, tcr_message_limits = None,
        tcr_cancellation = None\<rparr>"

definition sample_result :: "aggregate_status \<Rightarrow> operation_result" where
  "sample_result a =
     \<lparr>opr_operation_id = ''op1'', opr_request_id = ''req_1'', opr_action = ActionKind_fetch,
      opr_aggregate_status = a, opr_started_at_ms = 0, opr_finished_at_ms = 1,
      opr_members = [], opr_errors = [], opr_attribution = None, opr_transport = None\<rparr>"

definition sample_event :: "int \<Rightarrow> operation_event" where
  "sample_event n =
     \<lparr>ev_operation_id = ''op1'', ev_request_id = ''req_1'', ev_sequence = n,
      ev_timestamp_ms = 5, ev_kind = EventKind_operation_started, ev_severity = Severity_info,
      ev_member_id = None, ev_member_path = None, ev_message = None, ev_member = None,
      ev_error = None, ev_attribution = None, ev_progress = None, ev_target_kind = None,
      ev_merge_state = None, ev_merge_member = None,
      ev_artifact_path = None\<rparr>"

lemmas meta_eval = client_meta_def sample_env_def sample_client_def no_kw_def fresh_request_id_def
  check_request_id_def caller_directory_def path_text_def meta_policy_def meta_workspace_def
  effective_root_def meta_selection_def meta_targets_def selected_list_def flat_opt_def Let_def
  byte_of_def is_absolute_def starts_with_def path_str_def SCHEMA_VERSION_def
  DEFAULT_PROGRESS_MIN_INTERVAL_MS_def

lemma sample_meta_accepted: "\<not> isl (client_meta sample_client sample_env no_kw)"
  by (simp add: meta_eval)

lemmas sample_defs = sample_env_def sample_client_def sample_transport_def sample_meta_def
  sample_request_def sample_response_meta_def sample_envelope_def sample_response_def
  sample_capabilities_def sample_result_def sample_event_def

end
