(* ===== verification/RequestFacts.thy ===== *)
theory RequestFacts
  imports Samples
begin

section \<open>What the client's requests carry\<close>

text \<open>
  Properties of the request builders of \<^verbatim>\<open>src/gwz/client.py\<close>: the metadata every request
  carries, the selection, the policy of a merge, and the single-repository operations.
\<close>

lemma client_meta_workspace:
  assumes "client_meta cl env kw = Inr m"
  shows "meta_workspace (effective_root cl env (ce_resolve env (ce_cwd env)) kw) (kw_workspace_id kw) =
      Inr (rm_workspace m)"
  using assms
  by (auto simp: client_meta_def Let_def bindE_eq_Inr caller_directory_Inr path_text_Inr
      split: if_splits)


definition sample_kw :: meta_kw where
  "sample_kw = no_kw\<lparr>kw_all_members := Some (Some True), kw_targets := Some [''app''],
     kw_partial := Some True, kw_max_connections_per_host := Some 4\<rparr>"

definition sample_made_meta :: request_meta where
  "sample_made_meta =
     \<lparr>rm_request_id = ''req_0f'', rm_schema_version = ''gwz.protocol/v0'',
      rm_workspace = Some \<lparr>wr_root = Some ''/w/ws'', wr_workspace_id = None\<rparr>,
      rm_selection = Some \<lparr>sel_all = Some True, sel_member_ids = [], sel_paths = [],
                           sel_targets = [''@all'', ''app''], sel_exclude_targets = []\<rparr>,
      rm_policy = Some \<lparr>pol_partial = Some PartialBehavior_partial, pol_destructive = None, pol_sync = None,
         pol_unsupported_member = None, pol_remote = None, pol_concurrency = None,
         pol_progress_min_interval_ms = Some 100, pol_max_connections_per_host = Some 4,
         pol_max_retries = None\<rparr>,
      rm_dry_run = None, rm_attribution = None, rm_transport = None,
      rm_invocation = Some \<lparr>inv_caller_cwd = ''/w''\<rparr>, rm_transport_message = None\<rparr>"

lemma sample_meta_made: "client_meta sample_client sample_env sample_kw = Inr sample_made_meta"
  by (simp add: meta_eval sample_kw_def sample_made_meta_def)


text \<open>
  The selection is what the caller asked for: it is absent exactly when nothing was selected;
  otherwise it holds the caller's identifiers, paths and exclusions, and the caller's targets in
  order, with \<^verbatim>\<open>@all\<close> put in front once when all members were requested and it was missing.
\<close>

theorem selection_faithful:
  assumes "client_meta cl env kw = Inr m"
  shows "case rm_selection m of
      None \<Rightarrow> flat_opt (kw_all_members kw) = None \<and> selected_list (kw_member_ids kw) = [] \<and>
              selected_list (kw_paths kw) = [] \<and> selected_list (kw_targets kw) = [] \<and>
              selected_list (kw_exclude_targets kw) = []
    | Some s \<Rightarrow>
        sel_all s = flat_opt (kw_all_members kw) \<and>
        sel_member_ids s = selected_list (kw_member_ids kw) \<and>
        sel_paths s = selected_list (kw_paths kw) \<and>
        sel_exclude_targets s = selected_list (kw_exclude_targets kw) \<and>
        sel_targets s =
          (if flat_opt (kw_all_members kw) = Some True \<and> ''@all'' \<notin> set (selected_list (kw_targets kw))
           then [''@all''] else []) @ selected_list (kw_targets kw) \<and>
        (flat_opt (kw_all_members kw) \<noteq> None \<or> sel_member_ids s \<noteq> [] \<or> sel_paths s \<noteq> [] \<or>
         sel_targets s \<noteq> [] \<or> sel_exclude_targets s \<noteq> [])"
proof (cases "rm_selection m")
  case None
  then have "meta_selection kw = None" using client_meta_Inr(3) [OF assms] by simp
  then show ?thesis unfolding None by (simp add: meta_selection_None)
next
  case (Some s)
  then have s: "meta_selection kw = Some s" using client_meta_Inr(3) [OF assms] by simp
  then show ?thesis
    unfolding Some by (auto simp: meta_selection_def meta_targets_def Let_def split: if_splits)
qed

theorem selection_faithful_witness:
  "case rm_selection sample_made_meta of None \<Rightarrow> False | Some s \<Rightarrow> sel_targets s = [''@all'', ''app'']"
  using selection_faithful [OF sample_meta_made]
  by (simp add: sample_made_meta_def sample_kw_def no_kw_def flat_opt_def selected_list_def)

text \<open>
  A merge request carries no default of the client: its policy has a progress interval or a host
  limit only when the caller passed one for this call, keeps every other field of the policy the
  metadata has, and is left out when nothing remains.
\<close>

theorem merge_sends_only_chosen_policy:
  assumes "merge_request_of cl env a kw = Inr (MergeRq q)"
  shows "\<exists>p. meta_policy cl kw = Inr p \<and>
    (let sent = p\<lparr>pol_progress_min_interval_ms := kw_progress_min_interval_ms kw,
                  pol_max_connections_per_host := kw_max_connections_per_host kw\<rparr>
     in rm_policy (mreq_meta q) = (if policy_is_empty sent then None else Some sent))"
proof -
  let ?kw = "kw\<lparr>kw_local_source_name := None\<rparr>"
  obtain m where m: "client_meta cl env ?kw = Inr m"
    "rm_policy (mreq_meta q) = merge_policy (rm_policy m) ?kw"
    using assms by (auto simp: merge_request_of_def Let_def bindE_eq_Inr)
  obtain p where p: "meta_policy cl ?kw = Inr p" "rm_policy m = Some p"
    using client_meta_Inr(4) [OF m(1)] by blast
  then have p': "meta_policy cl kw = Inr p" by (simp add: meta_policy_def)
  have fs: "pol_progress_min_interval_ms p = (case kw_progress_min_interval_ms kw of
        None \<Rightarrow> Some DEFAULT_PROGRESS_MIN_INTERVAL_MS | Some n \<Rightarrow> Some n)"
    "pol_max_connections_per_host p = (case kw_max_connections_per_host kw of
        None \<Rightarrow> cl_max_connections_per_host cl | Some n \<Rightarrow> Some n)"
    using p' by (auto simp: meta_policy_def bindE_eq_Inr)
  then have up: "(if kw_max_connections_per_host kw = None
      then (if kw_progress_min_interval_ms kw = None then p\<lparr>pol_progress_min_interval_ms := None\<rparr>
            else p)\<lparr>pol_max_connections_per_host := None\<rparr>
      else (if kw_progress_min_interval_ms kw = None then p\<lparr>pol_progress_min_interval_ms := None\<rparr>
            else p)) =
      p\<lparr>pol_progress_min_interval_ms := kw_progress_min_interval_ms kw,
        pol_max_connections_per_host := kw_max_connections_per_host kw\<rparr>"
    by (cases p) (auto split: option.splits)
  show ?thesis
    using p' m(2) p(2) up by (auto simp: merge_policy_def Let_def)
qed

theorem merge_sends_only_chosen_policy_witness:
  "\<exists>q. merge_request_of sample_client sample_env (merge_defaults (Some ''topic'')) no_kw = Inr (MergeRq q) \<and>
     rm_policy (mreq_meta q) = None"
proof -
  let ?q = "case merge_request_of sample_client sample_env (merge_defaults (Some ''topic'')) no_kw of
      Inr (MergeRq q) \<Rightarrow> q"
  have r: "merge_request_of sample_client sample_env (merge_defaults (Some ''topic'')) no_kw =
      Inr (MergeRq ?q)"
    by (simp add: merge_request_of_def merge_defaults_def meta_eval)
  from merge_sends_only_chosen_policy [OF r]
  have "rm_policy (mreq_meta ?q) = None"
    by (auto simp: meta_policy_def no_kw_def policy_is_empty_def Let_def bindE_eq_Inr)
  with r show ?thesis by blast
qed

text \<open>
  A single-repository operation acts on one member only: \<open>detach_repo_member\<close> and
  \<open>attach_repo_member\<close> send a selection of exactly the given member, or raise when the caller also
  passed a selection, and an attach is sent only for an identifier of the form mem_ and portable
  characters.
\<close>

theorem lifecycle_single_member:
  shows "(case client_attach_repo_member cl env mid kw of
      Inr a \<Rightarrow> Option.bind (request_meta_of (action_request a)) rm_selection = Some (single_target mid) \<and>
               meta_selection kw = None \<and>
               (\<exists>s. s \<noteq> [] \<and> mid = ''mem_'' @ s \<and> (\<forall>c\<in>set s. portable_char c))
    | Inl e \<Rightarrow> True) \<and>
    (case client_detach_repo_member cl env mid kw of
      Inr a \<Rightarrow> Option.bind (request_meta_of (action_request a)) rm_selection = Some (single_target mid) \<and>
               meta_selection kw = None
    | Inl e \<Rightarrow> True) \<and>
    (meta_selection kw \<noteq> None \<longrightarrow>
       (\<exists>e. client_attach_repo_member cl env mid kw = Inl e) \<and>
       (\<exists>e. client_detach_repo_member cl env mid kw = Inl e))"
proof -
  have l: "rm_selection m = Some (single_target mid) \<and> meta_selection kw = None"
    if "single_repo_lifecycle_meta cl env mid mth kw = Inr m" for mth m
    using that client_meta_Inr(3) by (fastforce simp: single_repo_lifecycle_meta_def bindE_eq_Inr split: if_splits)
  have at: "Option.bind (request_meta_of (action_request a)) rm_selection = Some (single_target mid) \<and>
      meta_selection kw = None \<and> member_id_ok mid"
    if "client_attach_repo_member cl env mid kw = Inr a" for a
    using that l by (auto simp: client_attach_repo_member_def bindE_eq_Inr validate_member_id_def guardE_def
        split: if_splits)
  have de: "Option.bind (request_meta_of (action_request a)) rm_selection = Some (single_target mid) \<and>
      meta_selection kw = None"
    if "client_detach_repo_member cl env mid kw = Inr a" for a
    using that l by (auto simp: client_detach_repo_member_def bindE_eq_Inr)
  have id: "\<exists>s. s \<noteq> [] \<and> mid = ''mem_'' @ s \<and> (\<forall>c\<in>set s. portable_char c)" if "member_id_ok mid"
    using that unfolding member_id_ok_def starts_with_iff
    by (auto simp: list_all_iff remove_prefix_def starts_with_def)
  show ?thesis
    by (cases "client_attach_repo_member cl env mid kw"; cases "client_detach_repo_member cl env mid kw")
      (use at de id in \<open>simp_all\<close>)
qed

theorem lifecycle_single_member_witness:
  "\<exists>e. client_detach_repo_member sample_client sample_env ''app'' sample_kw = Inl e"
proof -
  have "meta_selection sample_kw \<noteq> None" by (simp add: sample_kw_def meta_eval)
  then show ?thesis using lifecycle_single_member by blast
qed

end
