(* ===== verification/Codec.thy ===== *)
theory Codec
  imports Faults
begin

section \<open>The protocol codec\<close>

text \<open>
  \<^verbatim>\<open>src/gwz/protocol/codec.py\<close>: dataclass values to plain wire values and back, driven by the
  schema of the packaged IR, and the look-up of message names by service method.

  Python values are the datatype \<open>pyval\<close>; a dictionary is its list of items in insertion order,
  an object its class name with its fields. The schema (\<open>schema()\<close>, built by the taut package from
  the JSON resource) and the classes of the generated module are the record \<open>codec\<close>, a parameter
  of every function; so are the conversion to a float, \<open>repr\<close> of a value, and the byte format of the taut package.
\<close>

subsection \<open>Values, types, schema\<close>

datatype pyval =
    PyNone
  | PyBool bool
  | PyInt int
  | PyFloat string
  | PyStr string
  | PyBytes string
  | PyList "pyval list"
  | PyTuple "pyval list"
  | PyDict "(pyval \<times> pyval) list"
  | PyObj string "(string \<times> pyval) list"
  | PyEnum string string

datatype type_ref =
    Scalar string
  | EnumRef string
  | MsgRef string
  | ListOf type_ref
  | MapOf type_ref type_ref
  | OtherRef string

datatype role = InRole | OutRole

record service_method =
  sm_name :: string
  sm_role :: role
  sm_streams :: bool
  sm_params :: "(string \<times> type_ref) list"
  sm_output :: "type_ref option"
  sm_events :: "(string \<times> type_ref) list"

datatype generated_item = DataClass "string list" | EnumClass "string list" | OtherClass

record codec =
  cd_messages :: "(string \<times> (string \<times> type_ref) list) list"
  cd_enums :: "(string \<times> (string \<times> int) list) list"
  cd_services :: "(string \<times> service_method list) list"
  cd_generated :: "(string \<times> generated_item) list"
  cd_float :: "pyval \<Rightarrow> exn + pyval"
  cd_repr :: "pyval \<Rightarrow> string"

definition protocol_fault :: "string \<Rightarrow> exn" where
  "protocol_fault m = GwzProtocolError m"

definition orRaise :: "'a option \<Rightarrow> exn \<Rightarrow> exn + 'a" where
  "orRaise v e = (case v of None \<Rightarrow> Inl e | Some x \<Rightarrow> Inr x)"

lemma orRaise_simps [simp]: "orRaise None e = Inl e" "orRaise (Some x) e = Inr x"
  by (simp_all add: orRaise_def)

lemma orRaise_Inr: "orRaise v e = Inr x \<longleftrightarrow> v = Some x"
  by (simp add: orRaise_def split: option.splits)

subsection \<open>Classes and definitions by name\<close>

definition generated_classes :: "codec \<Rightarrow> (string \<times> generated_item) list" where
  "generated_classes cd =
     filter (\<lambda>(n, k). n \<in> fst ` set (cd_messages cd) \<or> n \<in> fst ` set (cd_enums cd)) (cd_generated cd)"

definition generated_class :: "codec \<Rightarrow> string \<Rightarrow> exn + generated_item" where
  "generated_class cd name =
     orRaise (map_of (generated_classes cd) name)
       (protocol_fault (''unsupported generated class: '' @ name))"

definition message_class :: "codec \<Rightarrow> string \<Rightarrow> exn + string list" where
  "message_class cd name =
     (if name \<notin> fst ` set (cd_messages cd)
      then Inl (protocol_fault (''unsupported message: '' @ name))
      else bindE (generated_class cd name) (\<lambda>k.
        case k of
          DataClass flds \<Rightarrow> Inr flds
        | _ \<Rightarrow> Inl (protocol_fault (''generated message is not a dataclass: '' @ name))))"

definition enum_class :: "codec \<Rightarrow> string \<Rightarrow> exn + string list" where
  "enum_class cd name =
     (if name \<notin> fst ` set (cd_enums cd)
      then Inl (protocol_fault (''unsupported enum: '' @ name))
      else bindE (generated_class cd name) (\<lambda>k.
        case k of
          EnumClass members \<Rightarrow> Inr members
        | _ \<Rightarrow> Inl (protocol_fault (''generated enum is not an Enum: '' @ name))))"

definition message_def :: "codec \<Rightarrow> string \<Rightarrow> exn + (string \<times> type_ref) list" where
  "message_def cd name =
     orRaise (map_of (cd_messages cd) name) (protocol_fault (''unsupported message: '' @ name))"

subsection \<open>Service methods\<close>

definition DEFAULT_SERVICE :: string where "DEFAULT_SERVICE = ''GwzCore''"
definition EVENTS_SUBSCRIBE_METHOD :: string where "EVENTS_SUBSCRIBE_METHOD = ''events.subscribe''"
definition OPERATION_RESULT_METHOD :: string where "OPERATION_RESULT_METHOD = ''operation.result''"

definition service_def :: "codec \<Rightarrow> string \<Rightarrow> exn + service_method list" where
  "service_def cd service =
     orRaise (map_of (cd_services cd) service) (protocol_fault (''unsupported service: '' @ service))"

definition service_method_of :: "codec \<Rightarrow> string \<Rightarrow> string \<Rightarrow> exn + service_method" where
  "service_method_of cd name service =
     bindE (service_def cd service) (\<lambda>ms.
       orRaise (find (\<lambda>m. sm_name m = name) ms)
         (protocol_fault (''unsupported service method: '' @ service @ ''.'' @ name)))"

fun msg_name :: "type_ref \<Rightarrow> string option" where
  "msg_name (MsgRef n) = Some n"
| "msg_name _ = None"

fun request_param :: "(string \<times> type_ref) list \<Rightarrow> string option" where
  "request_param [] = None"
| "request_param ((p, t) # ps) =
     (if p = ''request'' \<and> msg_name t \<noteq> None then msg_name t else request_param ps)"

text \<open>A dictionary built in order: a later entry of the same key replaces an earlier one.\<close>

definition dict_of :: "('k \<times> 'v) list \<Rightarrow> 'k \<Rightarrow> 'v option" where
  "dict_of kvs = map_of (rev kvs)"

definition request_message_names :: "codec \<Rightarrow> string \<Rightarrow> exn + (string \<times> string) list" where
  "request_message_names cd service =
     bindE (service_def cd service) (\<lambda>ms.
       Inr (concat (map (\<lambda>m. if sm_role m \<noteq> InRole then []
                             else case request_param (sm_params m) of
                                    None \<Rightarrow> [] | Some n \<Rightarrow> [(sm_name m, n)]) ms)))"

definition response_message_names :: "codec \<Rightarrow> string \<Rightarrow> exn + (string \<times> string) list" where
  "response_message_names cd service =
     bindE (service_def cd service) (\<lambda>ms.
       Inr (concat (map (\<lambda>m. if sm_role m = InRole
                             then (case Option.bind (sm_output m) msg_name of
                                     None \<Rightarrow> [] | Some n \<Rightarrow> [(sm_name m, n)])
                             else []) ms)))"

definition event_message_names :: "codec \<Rightarrow> string \<Rightarrow> exn + (string \<times> string list) list" where
  "event_message_names cd service =
     bindE (service_def cd service) (\<lambda>ms.
       Inr (concat (map (\<lambda>m. if sm_role m \<noteq> OutRole \<or> \<not> sm_streams m then []
                             else (let names = concat (map (\<lambda>(s, t).
                                         case msg_name t of None \<Rightarrow> [] | Some n \<Rightarrow> [n]) (sm_events m))
                                   in if names = [] then [] else [(sm_name m, names)])) ms)))"

definition result_message_names :: "codec \<Rightarrow> string \<Rightarrow> exn + (string \<times> string) list" where
  "result_message_names cd service =
     bindE (service_def cd service) (\<lambda>ms.
       Inr (concat (map (\<lambda>m. if sm_role m = OutRole \<and> \<not> sm_streams m
                             then (case Option.bind (sm_output m) msg_name of
                                     None \<Rightarrow> [] | Some n \<Rightarrow> [(sm_name m, n)])
                             else []) ms)))"

definition request_message_name :: "codec \<Rightarrow> string \<Rightarrow> string \<Rightarrow> exn + string" where
  "request_message_name cd m service =
     bindE (request_message_names cd service) (\<lambda>names.
       orRaise (dict_of names m)
         (protocol_fault (''method has no request message: '' @ service @ ''.'' @ m)))"

definition response_message_name :: "codec \<Rightarrow> string \<Rightarrow> string \<Rightarrow> exn + string" where
  "response_message_name cd m service =
     bindE (response_message_names cd service) (\<lambda>names.
       orRaise (dict_of names m)
         (protocol_fault (''method has no response message: '' @ service @ ''.'' @ m)))"

definition event_message_name :: "codec \<Rightarrow> string \<Rightarrow> string \<Rightarrow> exn + string" where
  "event_message_name cd m service =
     bindE (event_message_names cd service) (\<lambda>table.
     bindE (orRaise (dict_of table m)
         (protocol_fault (''method has no event message: '' @ service @ ''.'' @ m))) (\<lambda>names.
       case names of
         [n] \<Rightarrow> Inr n
       | _ \<Rightarrow> Inl (protocol_fault (''method has '' @ show_nat (length names) @
                '' event messages: '' @ service @ ''.'' @ m))))"

definition result_message_name :: "codec \<Rightarrow> string \<Rightarrow> string \<Rightarrow> exn + string" where
  "result_message_name cd m service =
     bindE (result_message_names cd service) (\<lambda>names.
       orRaise (dict_of names m)
         (protocol_fault (''method has no result message: '' @ service @ ''.'' @ m)))"

subsection \<open>Dataclass values to wire values\<close>

text \<open>A dictionary comprehension: a repeated key keeps its place and takes the later value.\<close>

fun dict_put :: "'k \<Rightarrow> 'v \<Rightarrow> ('k \<times> 'v) list \<Rightarrow> ('k \<times> 'v) list" where
  "dict_put k v [] = [(k, v)]"
| "dict_put k v ((k1, v1) # kvs) = (if k1 = k then (k, v) # kvs else (k1, v1) # dict_put k v kvs)"

definition dict_build :: "('k \<times> 'v) list \<Rightarrow> ('k \<times> 'v) list" where
  "dict_build kvs = foldl (\<lambda>d (k, v). dict_put k v d) [] kvs"

lemma dict_put_fst: "fst ` set (dict_put k v d) = insert k (fst ` set d)"
  by (induction k v d rule: dict_put.induct) auto

lemma dict_put_new: "k \<notin> fst ` set d \<Longrightarrow> dict_put k v d = d @ [(k, v)]"
  by (induction k v d rule: dict_put.induct) auto

lemma dict_put_distinct: "distinct (map fst d) \<Longrightarrow> distinct (map fst (dict_put k v d))"
proof (induction k v d rule: dict_put.induct)
  case (2 k v k1 v1 kvs)
  then show ?case using dict_put_fst [of k v kvs] by auto
qed simp

lemma foldl_dict_distinct:
  "distinct (map fst (d @ kvs)) \<Longrightarrow> foldl (\<lambda>d (k, v). dict_put k v d) d kvs = d @ kvs"
proof (induction kvs arbitrary: d)
  case (Cons a kvs)
  obtain k v where a: "a = (k, v)" by force
  from Cons.prems have "dict_put k v d = d @ [(k, v)]"
    by (intro dict_put_new) (auto simp: a)
  with Cons.IH [of "d @ [(k, v)]"] Cons.prems show ?case by (simp add: a)
qed simp

lemma dict_build_distinct: "distinct (map fst kvs) \<Longrightarrow> dict_build kvs = kvs"
  using foldl_dict_distinct [of "[]" kvs] by (simp add: dict_build_def)

lemma dict_build_set: "set (dict_build kvs) \<subseteq> set kvs \<and> distinct (map fst (dict_build kvs))"
proof (induction kvs rule: rev_induct)
  case (snoc a kvs)
  obtain k v where a: "a = (k, v)" by force
  have "set (dict_put k v d) \<subseteq> insert (k, v) (set d)" for d :: "('a \<times> 'b) list"
    by (induction d) (auto split: if_splits)
  with snoc show ?case by (fastforce simp: dict_build_def a dict_put_distinct)
qed (simp add: dict_build_def)

fun to_wire :: "pyval \<Rightarrow> pyval" where
  "to_wire (PyObj c flds) = PyDict (map (\<lambda>(n, v). (PyStr n, to_wire v)) flds)"
| "to_wire (PyEnum e n) = PyStr n"
| "to_wire (PyList vs) = PyList (map to_wire vs)"
| "to_wire (PyTuple vs) = PyList (map to_wire vs)"
| "to_wire (PyDict kvs) = PyDict (dict_build (map (\<lambda>(k, v). (to_wire k, to_wire v)) kvs))"
| "to_wire v = v"

subsection \<open>Wire values to dataclass values\<close>

fun py_type_name :: "pyval \<Rightarrow> string" where
  "py_type_name PyNone = ''NoneType''"
| "py_type_name (PyBool b) = ''bool''"
| "py_type_name (PyInt i) = ''int''"
| "py_type_name (PyFloat f) = ''float''"
| "py_type_name (PyStr s) = ''str''"
| "py_type_name (PyBytes s) = ''bytes''"
| "py_type_name (PyList vs) = ''list''"
| "py_type_name (PyTuple vs) = ''tuple''"
| "py_type_name (PyDict kvs) = ''dict''"
| "py_type_name (PyObj c fs) = c"
| "py_type_name (PyEnum e n) = e"

text \<open>\<open>cls[name]\<close> and the reverse table of wire numbers, where a later member wins.\<close>

definition enum_by_name :: "codec \<Rightarrow> string \<Rightarrow> string list \<Rightarrow> string \<Rightarrow> pyval option" where
  "enum_by_name cd e members n = (if n \<in> set members then Some (PyEnum e n) else None)"

definition reverse_members :: "codec \<Rightarrow> string \<Rightarrow> int \<Rightarrow> string option" where
  "reverse_members cd e =
     dict_of (map (\<lambda>(n, i). (i, n)) (case map_of (cd_enums cd) e of None \<Rightarrow> [] | Some ms \<Rightarrow> ms))"

definition enum_by_number :: "codec \<Rightarrow> string \<Rightarrow> string list \<Rightarrow> int \<Rightarrow> exn + pyval" where
  "enum_by_number cd e members i =
     orRaise (Option.bind (reverse_members cd e i) (enum_by_name cd e members))
       (protocol_fault (''unsupported '' @ e @ '' enum wire value: '' @ show_int i))"

definition from_wire_enum :: "codec \<Rightarrow> string \<Rightarrow> pyval \<Rightarrow> exn + pyval" where
  "from_wire_enum cd e v =
     bindE (enum_class cd e) (\<lambda>members.
       case v of
         PyEnum e' n \<Rightarrow> if e' = e then Inr v
           else Inl (protocol_fault (''unsupported '' @ e @ '' enum payload: '' @ cd_repr cd v))
       | PyStr n \<Rightarrow> orRaise (enum_by_name cd e members n)
           (protocol_fault (''unsupported '' @ e @ '' enum value: '' @ n))
       | PyInt i \<Rightarrow> enum_by_number cd e members i
       | PyBool b \<Rightarrow> enum_by_number cd e members (if b then 1 else 0)
       | _ \<Rightarrow> Inl (protocol_fault (''unsupported '' @ e @ '' enum payload: '' @ cd_repr cd v)))"

text \<open>\<open>payload.get(name)\<close>; keys compare as Python does, and only strings equal a string.\<close>

fun dict_get :: "(pyval \<times> pyval) list \<Rightarrow> string \<Rightarrow> pyval" where
  "dict_get [] n = PyNone"
| "dict_get ((k, v) # kvs) n = (if k = PyStr n then v else dict_get kvs n)"

lemma dict_get_size: "dict_get kvs n \<noteq> PyNone \<Longrightarrow> size (dict_get kvs n) < size (PyDict kvs)"
  by (induction kvs n rule: dict_get.induct) (auto split: if_splits)

lemma dict_item_size:
  "(k, x) \<in> set kvs \<Longrightarrow> size k < size (PyDict kvs) \<and> size x < size (PyDict kvs)"
  by (induction kvs) auto

lemma list_item_size: "v \<in> set vs \<Longrightarrow> size v < size (PyList vs) \<and> size v < size (PyTuple vs)"
  by (induction vs) auto

text \<open>\<open>cls(**kwargs)\<close>: the keywords must be exactly the fields of the class.\<close>

definition construct :: "string \<Rightarrow> string list \<Rightarrow> (string \<times> pyval) list \<Rightarrow> exn + pyval" where
  "construct c flds kwargs =
     (if set (map fst kwargs) = set flds
      then Inr (PyObj c (map (\<lambda>n. (n, the (dict_of kwargs n))) flds))
      else Inl (TypeError (c @ ''.__init__() arguments'')))"

function from_wire_value :: "codec \<Rightarrow> type_ref \<Rightarrow> pyval \<Rightarrow> exn + pyval" where
  "from_wire_value cd t v =
     (if v = PyNone then Inr PyNone
      else case t of
        Scalar kind \<Rightarrow> if kind = ''float'' then cd_float cd v else Inr v
      | EnumRef e \<Rightarrow> from_wire_enum cd e v
      | MsgRef m \<Rightarrow>
         bindE (message_class cd m) (\<lambda>flds.
           case v of
             PyObj c fs \<Rightarrow> if c = m then Inr v
               else Inl (protocol_fault (''message payload must be a mapping: '' @ m))
           | PyDict kvs \<Rightarrow>
              bindE (message_def cd m) (\<lambda>defs.
              bindE (mapE (\<lambda>(n, ft).
                        if dict_get kvs n = PyNone then Inr (n, PyNone)
                        else bindE (from_wire_value cd ft (dict_get kvs n)) (\<lambda>x. Inr (n, x))) defs)
                (\<lambda>kwargs. construct m flds kwargs))
           | _ \<Rightarrow> Inl (protocol_fault (''message payload must be a mapping: '' @ m)))
      | ListOf et \<Rightarrow>
         (case v of
            PyList vs \<Rightarrow> bindE (mapE (from_wire_value cd et) vs) (\<lambda>xs. Inr (PyList xs))
          | PyTuple vs \<Rightarrow> bindE (mapE (from_wire_value cd et) vs) (\<lambda>xs. Inr (PyList xs))
          | _ \<Rightarrow> Inl (protocol_fault (''list field decoded as '' @ py_type_name v)))
      | MapOf kt vt \<Rightarrow>
         (case v of
            PyDict kvs \<Rightarrow>
              bindE (mapE (\<lambda>(k, x). bindE (from_wire_value cd kt k) (\<lambda>k1.
                             bindE (from_wire_value cd vt x) (\<lambda>x1. Inr (k1, x1)))) kvs)
                (\<lambda>ys. Inr (PyDict (dict_build ys)))
          | _ \<Rightarrow> Inl (protocol_fault (''map field decoded as '' @ py_type_name v)))
      | OtherRef r \<Rightarrow> Inl (protocol_fault (''unsupported IR type reference: '' @ r)))"
  by pat_completeness auto
termination
  by (relation "measure (\<lambda>(cd, t, v). size v)")
    (auto dest: dict_item_size list_item_size simp: dict_get_size simp del: pyval.size)

declare from_wire_value.simps [simp del]

text \<open>\<open>from_wire\<close>: at the top a missing payload is refused, where a field of None stays None.\<close>

definition from_wire :: "codec \<Rightarrow> string \<Rightarrow> pyval \<Rightarrow> exn + pyval" where
  "from_wire cd m p =
     (if p = PyNone
      then bindE (message_class cd m) (\<lambda>_.
             Inl (protocol_fault (''message payload must be a mapping: '' @ m)))
      else from_wire_value cd (MsgRef m) p)"

subsection \<open>Messages as bytes\<close>

definition encode_message ::
    "codec \<Rightarrow> (string \<Rightarrow> pyval \<Rightarrow> exn + string) \<Rightarrow> string \<Rightarrow> pyval \<Rightarrow> exn + string" where
  "encode_message cd enc name v =
     bindE (message_class cd name) (\<lambda>flds.
       case v of
         PyObj c fs \<Rightarrow>
           if c = name then enc name (to_wire v)
           else Inl (protocol_fault (''expected '' @ name @ '' dataclass, got '' @ c))
       | _ \<Rightarrow> Inl (protocol_fault (''expected '' @ name @ '' dataclass, got '' @ py_type_name v)))"

definition decode_message ::
    "codec \<Rightarrow> (string \<Rightarrow> string \<Rightarrow> exn + pyval) \<Rightarrow> string \<Rightarrow> string \<Rightarrow> exn + pyval" where
  "decode_message cd dec name data =
     bindE (message_class cd name) (\<lambda>flds.
       case bindE (dec name data) (from_wire cd name) of
         Inr v \<Rightarrow> Inr v
       | Inl (GwzProtocolError m) \<Rightarrow> Inl (GwzProtocolError m)
       | Inl e \<Rightarrow> Inl (protocol_fault (''failed to decode '' @ name)))"

subsection \<open>Wire forms of a value\<close>

text \<open>
  \<open>wire_form cd t p v\<close>: the payload \<open>p\<close> stands for the value \<open>v\<close> of type \<open>t\<close>. An enum member may
  come by its name or its number, a list as a list or a tuple, and a field that is None may be
  missing.
\<close>

inductive wire_form :: "codec \<Rightarrow> type_ref \<Rightarrow> pyval \<Rightarrow> pyval \<Rightarrow> bool" for cd where
  form_none: "wire_form cd t PyNone PyNone"
| form_scalar: "kind \<noteq> ''float'' \<Longrightarrow> wire_form cd (Scalar kind) p p"
| form_float: "cd_float cd p = Inr v \<Longrightarrow> p \<noteq> PyNone \<Longrightarrow> wire_form cd (Scalar ''float'') p v"
| form_enum_name: "enum_class cd e = Inr ms \<Longrightarrow> n \<in> set ms \<Longrightarrow>
    wire_form cd (EnumRef e) (PyStr n) (PyEnum e n)"
| form_enum_number: "enum_class cd e = Inr ms \<Longrightarrow> n \<in> set ms \<Longrightarrow> reverse_members cd e i = Some n \<Longrightarrow>
    wire_form cd (EnumRef e) (PyInt i) (PyEnum e n)"
| form_msg: "message_class cd m = Inr flds \<Longrightarrow> message_def cd m = Inr defs \<Longrightarrow>
    distinct (map fst defs) \<Longrightarrow> set (map fst defs) = set flds \<Longrightarrow>
    (\<And>n ft. (n, ft) \<in> set defs \<Longrightarrow> wire_form cd ft (dict_get kvs n) (val n)) \<Longrightarrow>
    wire_form cd (MsgRef m) (PyDict kvs) (PyObj m (map (\<lambda>n. (n, val n)) flds))"
| form_list: "list_all2 (wire_form cd t) ps vs \<Longrightarrow> wire_form cd (ListOf t) (PyList ps) (PyList vs)"
| form_tuple: "list_all2 (wire_form cd t) ps vs \<Longrightarrow> wire_form cd (ListOf t) (PyTuple ps) (PyList vs)"
| form_map: "list_all2 (\<lambda>a b. wire_form cd kt (fst a) (fst b) \<and> wire_form cd vt (snd a) (snd b)) kvs xs \<Longrightarrow>
    distinct (map fst xs) \<Longrightarrow> wire_form cd (MapOf kt vt) (PyDict kvs) (PyDict xs)"

lemma mapE_all2: "list_all2 (\<lambda>x y. f x = Inr y) xs ys \<Longrightarrow> mapE f xs = Inr ys"
  by (simp add: mapE_Inr_iff)

lemma dict_of_map_fst:
  assumes "distinct (map fst defs)" and "n \<in> fst ` set defs"
  shows "dict_of (map (\<lambda>(n, ft). (n, val n)) defs) n = Some (val n)"
proof -
  from assms(2) obtain ft where "(n, ft) \<in> set defs" by auto
  then have "(n, val n) \<in> set (rev (map (\<lambda>(n, ft). (n, val n)) defs))" by force
  moreover have "distinct (map fst (rev (map (\<lambda>(n, ft). (n, val n)) defs)))"
    using assms(1) by (simp add: rev_map [symmetric] comp_def case_prod_beta)
  ultimately show ?thesis unfolding dict_of_def by (intro map_of_is_SomeI)
qed

lemma construct_defs:
  assumes "distinct (map fst defs)" and "set (map fst defs) = set flds"
  shows "construct m flds (map (\<lambda>(n, ft). (n, val n)) defs) =
    Inr (PyObj m (map (\<lambda>n. (n, val n)) flds))"
proof -
  have "map (\<lambda>n. (n, the (dict_of (map (\<lambda>(n, ft). (n, val n)) defs) n))) flds =
      map (\<lambda>n. (n, val n)) flds"
    using assms by (intro map_cong) (auto simp: dict_of_map_fst)
  moreover have "set (map fst (map (\<lambda>(n, ft). (n, val n)) defs)) = set flds"
    using assms(2) by (simp add: comp_def case_prod_beta)
  ultimately show ?thesis unfolding construct_def by (simp only: if_True simp_thms)
qed

lemma from_wire_complete: "wire_form cd t p v \<Longrightarrow> from_wire_value cd t p = Inr v"
proof (induction rule: wire_form.induct)
  case (form_msg m flds defs kvs val)
  have "mapE (\<lambda>(n, ft). if dict_get kvs n = PyNone then Inr (n, PyNone)
                   else bindE (from_wire_value cd ft (dict_get kvs n)) (\<lambda>x. Inr (n, x))) defs =
      Inr (map (\<lambda>(n, ft). (n, val n)) defs)"
  proof (rule mapE_total, goal_cases)
    case (1 d)
    then obtain n ft where d: "d = (n, ft)" "(n, ft) \<in> set defs" by (metis prod.exhaust)
    with form_msg have "from_wire_value cd ft (dict_get kvs n) = Inr (val n)" by blast
    then show ?case
      by (auto simp: from_wire_value.simps d(1) split: if_splits)
  qed
  with form_msg show ?case
    by (subst from_wire_value.simps) (simp add: construct_defs)
next
  case (form_list t ps vs)
  then have "mapE (from_wire_value cd t) ps = Inr vs"
    by (intro mapE_all2) (auto elim: list_all2_mono)
  then show ?case by (subst from_wire_value.simps) simp
next
  case (form_tuple t ps vs)
  then have "mapE (from_wire_value cd t) ps = Inr vs"
    by (intro mapE_all2) (auto elim: list_all2_mono)
  then show ?case by (subst from_wire_value.simps) simp
next
  case (form_map kt vt kvs xs)
  then have "mapE (\<lambda>(k, x). bindE (from_wire_value cd kt k) (\<lambda>k1.
                             bindE (from_wire_value cd vt x) (\<lambda>x1. Inr (k1, x1)))) kvs = Inr xs"
    by (intro mapE_all2) (auto elim!: list_all2_mono)
  with form_map show ?case by (subst from_wire_value.simps) (simp add: dict_build_distinct)
qed (auto simp: from_wire_value.simps from_wire_enum_def enum_by_name_def enum_by_number_def)


subsection \<open>Well-typed values\<close>

inductive typed :: "codec \<Rightarrow> type_ref \<Rightarrow> pyval \<Rightarrow> bool" for cd where
  typed_none: "typed cd t PyNone"
| typed_scalar: "kind \<noteq> ''float'' \<Longrightarrow> to_wire v = v \<Longrightarrow> typed cd (Scalar kind) v"
| typed_float: "typed cd (Scalar ''float'') (PyFloat f)"
| typed_enum: "enum_class cd e = Inr ms \<Longrightarrow> n \<in> set ms \<Longrightarrow> typed cd (EnumRef e) (PyEnum e n)"
| typed_msg: "message_class cd m = Inr flds \<Longrightarrow> message_def cd m = Inr defs \<Longrightarrow>
    distinct (map fst defs) \<Longrightarrow> distinct flds \<Longrightarrow> set (map fst defs) = set flds \<Longrightarrow>
    (\<And>n ft. (n, ft) \<in> set defs \<Longrightarrow> typed cd ft (val n)) \<Longrightarrow>
    typed cd (MsgRef m) (PyObj m (map (\<lambda>n. (n, val n)) flds))"
| typed_list: "(\<And>v. v \<in> set vs \<Longrightarrow> typed cd t v) \<Longrightarrow> typed cd (ListOf t) (PyList vs)"
| typed_map: "(\<And>k x. (k, x) \<in> set kvs \<Longrightarrow> typed cd kt k) \<Longrightarrow>
    (\<And>k x. (k, x) \<in> set kvs \<Longrightarrow> typed cd vt x) \<Longrightarrow>
    distinct (map fst kvs) \<Longrightarrow> typed cd (MapOf kt vt) (PyDict kvs)"

text \<open>
  What the functions rely on: \<open>float\<close> gives floats and keeps them, and no class or message
  declares a field twice.
\<close>

definition codec_ok :: "codec \<Rightarrow> bool" where
  "codec_ok cd \<longleftrightarrow>
     (\<forall>v x. cd_float cd v = Inr x \<longrightarrow> (\<exists>f. x = PyFloat f)) \<and>
     (\<forall>f. cd_float cd (PyFloat f) = Inr (PyFloat f)) \<and>
     (\<forall>(m, defs)\<in>set (cd_messages cd). distinct (map fst defs)) \<and>
     (\<forall>(c, k)\<in>set (cd_generated cd). case k of DataClass flds \<Rightarrow> distinct flds | _ \<Rightarrow> True)"

lemma dict_get_fields:
  "n \<in> set flds \<Longrightarrow> dict_get (map (\<lambda>(n, v). (PyStr n, to_wire v)) (map (\<lambda>n. (n, val n)) flds)) n =
     to_wire (val n)"
  by (induction flds) auto

lemma to_wire_form:
  assumes "codec_ok cd"
  shows "typed cd t v \<Longrightarrow> wire_form cd t (to_wire v) v"
proof (induction rule: typed.induct)
  case (typed_float f)
  from assms show ?case by (auto simp: codec_ok_def intro: form_float)
next
  case (typed_msg m flds defs val)
  have "wire_form cd ft (dict_get (map (\<lambda>(n, v). (PyStr n, to_wire v))
      (map (\<lambda>n. (n, val n)) flds)) n) (val n)" if d: "(n, ft) \<in> set defs" for n ft
  proof -
    from d typed_msg(5) have "n \<in> set flds" by force
    with typed_msg(7) [OF d] show ?thesis by (simp only: dict_get_fields)
  qed
  with typed_msg show ?case by (simp add: wire_form.form_msg)
next
  case (typed_list vs t)
  then have "list_all2 (wire_form cd t) (map to_wire vs) vs"
    by (auto simp: list_all2_conv_all_nth)
  then show ?case by (simp add: form_list)
next
  case (typed_map kvs kt vt)
  have inv: "from_wire_value cd kt (to_wire k) = Inr k" if "(k, x) \<in> set kvs" for k x
    using from_wire_complete typed_map.IH(1) [OF that] by blast
  have "inj_on to_wire (fst ` set kvs)"
  proof (rule inj_onI)
    fix k k' assume "k \<in> fst ` set kvs" "k' \<in> fst ` set kvs" "to_wire k = to_wire k'"
    with inv show "k = k'" by (metis (no_types) imageE prod.collapse sum.inject(2))
  qed
  with typed_map.hyps(3) have "distinct (map fst (map (\<lambda>(k, v). (to_wire k, to_wire v)) kvs))"
    by (simp add: comp_def case_prod_beta distinct_map inj_on_def)
  then have b: "dict_build (map (\<lambda>(k, v). (to_wire k, to_wire v)) kvs) =
      map (\<lambda>(k, v). (to_wire k, to_wire v)) kvs"
    by (rule dict_build_distinct)
  have "list_all2 (\<lambda>a b. wire_form cd kt (fst a) (fst b) \<and> wire_form cd vt (snd a) (snd b))
      (map (\<lambda>(k, v). (to_wire k, to_wire v)) kvs) kvs"
    using typed_map.IH
    by (auto simp: list_all2_conv_all_nth case_prod_beta) (metis nth_mem prod.collapse)+
  with typed_map.hyps(3) show ?case by (simp add: b form_map)
qed (auto intro: wire_form.intros)

subsection \<open>What is decoded is well-typed\<close>

text \<open>A payload as a decoder builds it: no dataclass, enum member or tuple inside.\<close>

fun plain :: "pyval \<Rightarrow> bool" where
  "plain (PyObj c fs) = False"
| "plain (PyEnum e n) = False"
| "plain (PyTuple vs) = False"
| "plain (PyList vs) = (\<forall>v\<in>set vs. plain v)"
| "plain (PyDict kvs) = (distinct (map fst kvs) \<and> (\<forall>(k, v)\<in>set kvs. plain k \<and> plain v))"
| "plain _ = True"

lemma plain_to_wire: "plain v \<Longrightarrow> to_wire v = v"
proof (induction v rule: plain.induct)
  case (5 kvs)
  have "map (\<lambda>(k, v). (to_wire k, to_wire v)) kvs = kvs"
    using 5 by (intro map_idI) fastforce
  with 5 show ?case by (simp add: dict_build_distinct)
qed (auto intro: map_idI)

lemma plain_dict_get: "\<forall>(k, v)\<in>set kvs. plain k \<and> plain v \<Longrightarrow> plain (dict_get kvs n)"
  by (induction kvs n rule: dict_get.induct) auto

lemma enum_typed:
  "from_wire_enum cd e v = Inr x \<Longrightarrow> plain v \<Longrightarrow> typed cd (EnumRef e) x"
  by (cases v) (auto simp: from_wire_enum_def enum_by_number_def enum_by_name_def bindE_eq_Inr
      orRaise_Inr bind_eq_Some_conv intro: typed_enum split: if_splits)

lemma message_class_distinct:
  "codec_ok cd \<Longrightarrow> message_class cd m = Inr flds \<Longrightarrow> distinct flds"
  by (force simp: message_class_def generated_class_def generated_classes_def codec_ok_def
      bindE_eq_Inr orRaise_Inr split: if_splits generated_item.splits dest!: map_of_SomeD)

lemma message_def_distinct:
  "codec_ok cd \<Longrightarrow> message_def cd m = Inr defs \<Longrightarrow> distinct (map fst defs)"
  by (force simp: message_def_def codec_ok_def orRaise_Inr dest!: map_of_SomeD)

lemma mapE_keyed:
  "mapE (\<lambda>(n, ft). if c n then Inr (n, z) else bindE (g n ft) (\<lambda>x. Inr (n, x))) defs = Inr kw \<Longrightarrow>
     map fst kw = map fst defs \<and>
     (\<forall>(n, ft)\<in>set defs. \<exists>x. (n, x) \<in> set kw \<and>
        (if c n then Inr (n, z) else bindE (g n ft) (\<lambda>x. Inr (n, x))) = Inr (n, x))"
  by (induction defs arbitrary: kw) (fastforce simp: bindE_eq_Inr split: if_splits)+

lemma from_wire_typed:
  "from_wire_value cd t p = Inr v \<Longrightarrow> plain p \<Longrightarrow> codec_ok cd \<Longrightarrow> typed cd t v"
proof (induction cd t p arbitrary: v rule: from_wire_value.induct)
  case (1 cd t p)
  show ?case
  proof (cases "p = PyNone")
    case True
    with 1(6) show ?thesis by (simp add: from_wire_value.simps typed_none)
  next
    case nn: False
    note run = 1(6) [unfolded from_wire_value.simps [of cd t p], simplified nn if_False]
    show ?thesis
    proof (cases t)
      case (Scalar kind)
      with run 1(7,8) show ?thesis
        by (auto simp: codec_ok_def plain_to_wire split: if_splits intro: typed_float typed_scalar)
    next
      case (EnumRef e)
      with run 1(7) show ?thesis by (auto intro: enum_typed)
    next
      case (OtherRef r)
      with run show ?thesis by simp
    next
      case (ListOf et)
      with run 1(7) obtain vs xs where l: "p = PyList vs" "mapE (from_wire_value cd et) vs = Inr xs"
        "v = PyList xs"
        by (auto simp: bindE_eq_Inr split: pyval.splits)
      have "typed cd et x" if x: "x \<in> set xs" for x
      proof -
        from l(2) x obtain y where "y \<in> set vs" "from_wire_value cd et y = Inr x"
          by (auto simp: mapE_Inr_iff list_all2_conv_all_nth in_set_conv_nth) metis
        with 1(2) [OF nn ListOf l(1)] 1(7,8) l(1) show ?thesis by auto
      qed
      with l(3) ListOf show ?thesis by (simp add: typed_list)
    next
      case (MapOf kt vt)
      with run obtain kvs ys where l: "p = PyDict kvs" "v = PyDict (dict_build ys)"
        "mapE (\<lambda>(k, x). bindE (from_wire_value cd kt k) (\<lambda>k1.
                             bindE (from_wire_value cd vt x) (\<lambda>x1. Inr (k1, x1)))) kvs = Inr ys"
        by (auto simp: bindE_eq_Inr split: pyval.splits)
      have "typed cd kt k \<and> typed cd vt x" if x: "(k, x) \<in> set ys" for k x
      proof -
        from l(3) x obtain k0 x0 where "(k0, x0) \<in> set kvs" "from_wire_value cd kt k0 = Inr k"
          "from_wire_value cd vt x0 = Inr x"
          by (auto simp: mapE_Inr_iff list_all2_conv_all_nth in_set_conv_nth bindE_eq_Inr
              split: prod.splits) (metis Pair_inject nth_mem prod.collapse)
        with 1(4) [OF nn MapOf l(1) _ refl] 1(5) [OF nn MapOf l(1) _ refl] 1(7,8) l(1)
        show ?thesis by auto
      qed
      with l(2) MapOf dict_build_set [of ys] show ?thesis by (auto intro!: typed_map)
    next
      case (MsgRef m)
      with run 1(7) obtain flds kvs defs kwargs where l:
        "message_class cd m = Inr flds" "p = PyDict kvs" "message_def cd m = Inr defs"
        "mapE (\<lambda>(n, ft). if dict_get kvs n = PyNone then Inr (n, PyNone)
                else bindE (from_wire_value cd ft (dict_get kvs n)) (\<lambda>x. Inr (n, x))) defs = Inr kwargs"
        "construct m flds kwargs = Inr v"
        by (cases p) (auto simp: bindE_eq_Inr)
      define val where "val n = the (dict_of kwargs n)" for n
      have d: "distinct (map fst defs)" "distinct flds"
        using 1(8) l(1,3) message_class_distinct message_def_distinct by auto
      have fst_eq: "map fst kwargs = map fst defs"
        using mapE_keyed [OF l(4)] by blast
      have v: "v = PyObj m (map (\<lambda>n. (n, val n)) flds)" "set (map fst defs) = set flds"
        using l(5) fst_eq by (auto simp: construct_def val_def split: if_splits)
      have "typed cd ft (val n)" if n: "(n, ft) \<in> set defs" for n ft
      proof -
        from n l(4) obtain x where x: "(n, x) \<in> set kwargs"
          "(if dict_get kvs n = PyNone then Inr (n, PyNone)
            else bindE (from_wire_value cd ft (dict_get kvs n)) (\<lambda>x. Inr (n, x))) = Inr (n, x)"
          using mapE_keyed [OF l(4)] by auto
        have "val n = x"
          using x(1) d(1) fst_eq unfolding val_def dict_of_def
          by (metis distinct_rev map_of_is_SomeI option.sel rev_map set_rev)
        moreover have "typed cd ft x"
          using 1(1) [OF nn MsgRef l(1,2,3) n refl] x(2) 1(7,8) l(2) plain_dict_get [of kvs n]
          by (auto simp: bindE_eq_Inr typed_none split: if_splits)
        ultimately show ?thesis by simp
      qed
      with v d l(1,3) MsgRef show ?thesis by (auto intro!: typed_msg)
    qed
  qed
qed

subsection \<open>Properties\<close>

definition sample_codec :: codec where
  "sample_codec =
     \<lparr>cd_messages = [(''M'', [(''a'', Scalar ''int''), (''k'', EnumRef ''E''), (''kids'', ListOf (MsgRef ''M''))])],
      cd_enums = [(''E'', [(''lo'', 0), (''hi'', 7)])],
      cd_services = [],
      cd_generated = [(''M'', DataClass [''a'', ''k'', ''kids'']), (''E'', EnumClass [''lo'', ''hi''])],
      cd_float = (\<lambda>v. Inr (case v of PyFloat f \<Rightarrow> PyFloat f | _ \<Rightarrow> PyFloat [])),
      cd_repr = (\<lambda>v. [])\<rparr>"

definition sample_leaf :: pyval where
  "sample_leaf = PyObj ''M'' [(''a'', PyInt 3), (''k'', PyEnum ''E'' ''hi''), (''kids'', PyList [])]"

definition sample_object :: pyval where
  "sample_object = PyObj ''M'' [(''a'', PyNone), (''k'', PyEnum ''E'' ''lo''), (''kids'', PyList [sample_leaf])]"

definition sample_payload :: pyval where
  "sample_payload = PyDict [(PyStr ''k'', PyInt 0),
     (PyStr ''kids'', PyTuple [PyDict [(PyStr ''a'', PyInt 3), (PyStr ''k'', PyInt 7), (PyStr ''kids'', PyList [])]])]"

lemmas sample_codec_simps = sample_codec_def sample_leaf_def sample_object_def sample_payload_def
  message_class_def message_def_def enum_class_def generated_class_def generated_classes_def

lemma sample_codec_ok: "codec_ok sample_codec"
  by (auto simp: codec_ok_def sample_codec_def split: pyval.splits)

lemma typed_msgI:
  assumes "message_class cd m = Inr (map fst fs)" and "message_def cd m = Inr defs"
    and "distinct (map fst defs)" and "map fst fs = map fst defs"
    and "\<And>n ft. (n, ft) \<in> set defs \<Longrightarrow> typed cd ft (the (map_of fs n))"
  shows "typed cd (MsgRef m) (PyObj m fs)"
proof -
  have "map (\<lambda>n. (n, the (map_of fs n))) (map fst fs) = fs"
  proof -
    have "distinct (map fst fs)" using assms(3,4) by simp
    then have "(fst x, the (map_of fs (fst x))) = x" if "x \<in> set fs" for x
      using that by (cases x) simp
    then show ?thesis by (simp add: map_idI)
  qed
  moreover have "typed cd (MsgRef m) (PyObj m (map (\<lambda>n. (n, the (map_of fs n))) (map fst fs)))"
    by (rule typed_msg [OF assms(1,2,3)]) (use assms(3,4,5) in \<open>simp_all\<close>)
  ultimately show ?thesis by (simp only:)
qed

lemma sample_leaf_typed: "typed sample_codec (MsgRef ''M'') sample_leaf"
  unfolding sample_leaf_def
  by (rule typed_msgI) (auto simp: sample_codec_simps intro!: typed_scalar typed_list
      typed_enum [where ms = "[''lo'', ''hi'']"])

lemma sample_object_typed: "typed sample_codec (MsgRef ''M'') sample_object"
  unfolding sample_object_def
  by (rule typed_msgI) (auto simp: sample_codec_def message_class_def message_def_def
      enum_class_def generated_class_def generated_classes_def
      intro!: typed_none typed_list sample_leaf_typed [unfolded sample_codec_def]
      typed_enum [where ms = "[''lo'', ''hi'']"])

text \<open>
  C2: Encode and decode are inverse: a well-typed dataclass value is accepted by
  \<open>encode_message\<close>, what is put on the wire rebuilds it, and \<open>decode_message\<close> rebuilds it from any
  payload that stands for it: enum members by name or by number, lists as lists or tuples, fields
  of None present or missing.
\<close>

theorem codec_roundtrip:
  assumes "codec_ok cd" and "typed cd (MsgRef m) v" and "v \<noteq> PyNone"
    and "enc m (to_wire v) = Inr data" and "dec m data = Inr p"
    and "wire_form cd (MsgRef m) p v"
  shows "encode_message cd enc m v = Inr data \<and> decode_message cd dec m data = Inr v \<and>
    from_wire cd m (to_wire v) = Inr v"
proof -
  obtain flds fs where v: "v = PyObj m fs" "message_class cd m = Inr flds"
    using assms(2,3) by (auto elim: typed.cases)
  have "p \<noteq> PyNone"
    using assms(6,3) by (auto elim: wire_form.cases)
  moreover have "from_wire_value cd (MsgRef m) p = Inr v"
    using from_wire_complete assms(6) by blast
  moreover have "from_wire_value cd (MsgRef m) (to_wire v) = Inr v"
    using from_wire_complete to_wire_form assms(1,2) by blast
  ultimately show ?thesis
    using v assms(4,5) by (simp add: encode_message_def decode_message_def from_wire_def)
qed

theorem codec_roundtrip_witness:
  "decode_message sample_codec (\<lambda>m d. Inr (to_wire sample_object)) ''M'' ''d'' = Inr sample_object \<and>
   encode_message sample_codec (\<lambda>m v. Inr ''d'') ''M'' sample_object = Inr ''d''"
  using codec_roundtrip [OF sample_codec_ok sample_object_typed _ _ _
      to_wire_form [OF sample_codec_ok sample_object_typed],
      where enc = "\<lambda>m v. Inr ''d''" and dec = "\<lambda>m d. Inr (to_wire sample_object)" and data = "''d''"]
  by (simp add: sample_object_def)

text \<open>
  C32: What \<open>decode_message\<close> returns is well-typed for the schema: an instance of the message's
  class with exactly its fields, every enum field a member of its enum, every nested message and
  list decoded in turn, whatever the bytes held.
\<close>

theorem decode_well_typed:
  assumes "codec_ok cd" and "dec m data = Inr p" and "plain p"
    and "decode_message cd dec m data = Inr v"
  shows "typed cd (MsgRef m) v \<and> v \<noteq> PyNone"
proof -
  have p: "p \<noteq> PyNone" "from_wire_value cd (MsgRef m) p = Inr v"
    using assms(2,4)
    by (auto simp: decode_message_def from_wire_def bindE_eq_Inr split: sum.splits exn.splits if_splits)
  then have "v \<noteq> PyNone"
    using assms(3)
    by (cases p) (auto simp: from_wire_value.simps [of cd "MsgRef m"] bindE_eq_Inr construct_def
        split: if_splits)
  with p from_wire_typed assms(1,3) show ?thesis by blast
qed

theorem decode_well_typed_witness:
  "typed sample_codec (MsgRef ''M'') sample_leaf"
proof -
  have "decode_message sample_codec
      (\<lambda>m d. Inr (PyDict [(PyStr ''kids'', PyList []), (PyStr ''k'', PyInt 7), (PyStr ''a'', PyInt 3)]))
      ''M'' ''d'' = Inr sample_leaf"
    by (simp add: decode_message_def sample_codec_simps from_wire_def from_wire_value.simps dict_of_def
        from_wire_enum_def enum_by_number_def enum_by_name_def reverse_members_def construct_def)
  from decode_well_typed [OF sample_codec_ok refl _ this] show ?thesis by simp
qed

text \<open>
  The only exception decoding raises is \<open>GwzProtocolError\<close>, whatever the bytes, the codec of the
  taut package or the constructor raise.
\<close>

theorem decode_error_kind:
  assumes "decode_message cd dec m data = Inl e"
  shows "\<exists>text. e = GwzProtocolError text"
  using assms
  by (auto simp: decode_message_def message_class_def generated_class_def protocol_fault_def
      bindE_eq_Inl orRaise_def split: sum.splits exn.splits if_splits option.splits generated_item.splits)

theorem decode_error_kind_witness:
  "\<exists>text. decode_message sample_codec (\<lambda>m d. Inl (ValueError ''bad'')) ''M'' ''d'' =
     Inl (GwzProtocolError text)"
proof -
  have "decode_message sample_codec (\<lambda>m d. Inl (ValueError ''bad'')) ''M'' ''d'' =
      Inl (GwzProtocolError ''failed to decode M'')"
    by (simp add: decode_message_def sample_codec_simps protocol_fault_def)
  with decode_error_kind [OF this] show ?thesis by auto
qed

end
