(* ===== verification/ClientCalls.thy ===== *)
theory ClientCalls
  imports Samples
begin

section \<open>Calls through the bridge\<close>

text \<open>
  The part of \<^verbatim>\<open>src/gwz/client.py\<close> that talks to a bridge: the transport-capability gate
  (\<open>_require_transport_capability\<close>), unary calls (\<open>_call\<close>), submitted operations with their event
  stream (\<open>_stream_call\<close>, \<open>merge_stream\<close>, \<open>MergeOperationHandle\<close>) and the two cursor loops over
  a server-side log (\<open>diff_output\<close>, \<open>log_output\<close>).

  A bridge is the record of the functions of \<open>CoreBridge\<close>, over a state of its own; the optional
  ones are those the client looks up with \<open>getattr(..., None)\<close>. The world is that state, the flag
  \<open>Client._closed\<close>, and the trace of the calls the client made, which no code reads: it is what the
  properties speak of. An async generator is run together with its consumer, which after each
  item goes on, leaves (\<open>aclose\<close>), or closes the client and then leaves.
\<close>

subsection \<open>Worlds and effects\<close>

datatype bridge_op =
    CallOp string string string request
  | SubmitOp string string string request
  | EventsOp string
  | ResultOp string
  | MergeResponseOp string
  | DiffReadOp string string "int option" int
  | DiffEndOp string string
  | LogReadOp string "int option" int
  | LogReleaseOp string

record 's world =
  w_bridge :: 's
  w_closed :: bool
  w_trace :: "bridge_op list"

type_synonym ('s, 'a) io = "'s world \<Rightarrow> (exn + 'a) \<times> 's world"

definition returnS :: "'a \<Rightarrow> ('s, 'a) io" where
  "returnS x w = (Inr x, w)"

definition raiseS :: "exn \<Rightarrow> ('s, 'a) io" where
  "raiseS e w = (Inl e, w)"

definition bindS :: "('s, 'a) io \<Rightarrow> ('a \<Rightarrow> ('s, 'b) io) \<Rightarrow> ('s, 'b) io" where
  "bindS m f w = (case m w of (Inl e, w1) \<Rightarrow> (Inl e, w1) | (Inr x, w1) \<Rightarrow> f x w1)"

definition liftS :: "exn + 'a \<Rightarrow> ('s, 'a) io" where
  "liftS r w = (r, w)"

text \<open>\<open>try: m except GwzBridgeError as exc: h(exc)\<close>.\<close>

definition catch_bridge :: "('s, 'a) io \<Rightarrow> (exn \<Rightarrow> ('s, 'a) io) \<Rightarrow> ('s, 'a) io" where
  "catch_bridge m h w =
     (case m w of
        (Inl e, w1) \<Rightarrow> if is_bridge_error e then h e w1 else (Inl e, w1)
      | (Inr x, w1) \<Rightarrow> (Inr x, w1))"

text \<open>One foreign call: it is entered into the trace and runs on the bridge's own state.\<close>

definition foreign :: "bridge_op \<Rightarrow> ('s \<Rightarrow> (exn + 'a) \<times> 's) \<Rightarrow> ('s, 'a) io" where
  "foreign opn f w =
     (case f (w_bridge w) of
        (r, s) \<Rightarrow> (r, w\<lparr>w_bridge := s, w_trace := w_trace w @ [opn]\<rparr>))"

record output_read =
  rd_records :: "diff_output_record list"
  rd_next_cursor :: int
  rd_state :: string

record log_read =
  lr_records :: "log_output_record list"
  lr_next_cursor :: int
  lr_state :: string

record 's bridge =
  b_call :: "string \<Rightarrow> string \<Rightarrow> string \<Rightarrow> request \<Rightarrow> 's \<Rightarrow> (exn + response) \<times> 's"
  b_submit :: "(string \<Rightarrow> string \<Rightarrow> string \<Rightarrow> request \<Rightarrow> 's \<Rightarrow> (exn + response) \<times> 's) option"
  b_events :: "string \<Rightarrow> 's \<Rightarrow> (operation_event list \<times> exn option) \<times> 's"
  b_result :: "string \<Rightarrow> 's \<Rightarrow> (exn + operation_result) \<times> 's"
  b_merge_response :: "(string \<Rightarrow> 's \<Rightarrow> (exn + response) \<times> 's) option"
  b_diff_read :: "(string \<Rightarrow> string \<Rightarrow> int option \<Rightarrow> int \<Rightarrow> 's \<Rightarrow> (exn + output_read) \<times> 's) option"
  b_diff_end :: "(string \<Rightarrow> string \<Rightarrow> 's \<Rightarrow> (exn + unit) \<times> 's) option"
  b_log_read :: "(string \<Rightarrow> int option \<Rightarrow> int \<Rightarrow> 's \<Rightarrow> (exn + log_read) \<times> 's) option"
  b_log_release :: "(string \<Rightarrow> 's \<Rightarrow> (exn + unit) \<times> 's) option"

text \<open>The property \<open>Client.bridge\<close>; \<open>_record_bridge\<close> does not look at the closed flag.\<close>

definition open_bridge :: "('s, unit) io" where
  "open_bridge w =
     (if w_closed w then (Inl (invalid_request ''client is closed''), w) else (Inr (), w))"

definition bridge_call ::
    "'s bridge \<Rightarrow> string \<Rightarrow> string \<Rightarrow> string \<Rightarrow> request \<Rightarrow> ('s, response) io" where
  "bridge_call br method rqm rsm r =
     bindS open_bridge (\<lambda>_. foreign (CallOp method rqm rsm r) (b_call br method rqm rsm r))"

subsection \<open>The capability gate\<close>

definition MESSAGE_VERSIONS :: "int list" where
  "MESSAGE_VERSIONS = [2]"

definition wants_identity :: "transport_options \<Rightarrow> bool" where
  "wants_identity t \<longleftrightarrow> topt_default_identity t \<noteq> None \<or> topt_remote_identities t \<noteq> []"

definition wants_cli :: "transport_options \<Rightarrow> bool" where
  "wants_cli t \<longleftrightarrow> topt_placement t = Some TransportPlacement_cli"

definition file_identity_confirmed :: "response \<Rightarrow> bool" where
  "file_identity_confirmed r = (case r of CapabilitiesResp c \<Rightarrow> tcr_file_identity c | _ \<Rightarrow> False)"

definition cli_placement_confirmed :: "response \<Rightarrow> bool" where
  "cli_placement_confirmed r =
     (case r of
        CapabilitiesResp c \<Rightarrow>
          TransportPlacement_cli \<in> set (case tcr_placements c of None \<Rightarrow> [] | Some ps \<Rightarrow> ps) \<and>
          (\<exists>v\<in>set (case tcr_message_versions c of None \<Rightarrow> [] | Some vs \<Rightarrow> vs).
             v \<in> set MESSAGE_VERSIONS)
      | _ \<Rightarrow> False)"

definition unsupported :: "string \<Rightarrow> exn" where
  "unsupported m = GwzBridgeError (bridge_fault m (Some ''UnsupportedOperation''))"

definition capability_request :: request where
  "capability_request =
     TransportCapabilitiesRq \<lparr>transport_capabilities_request_schema_version = SCHEMA_VERSION\<rparr>"

definition capability_op :: bridge_op where
  "capability_op = CallOp ''transport_capabilities'' ''TransportCapabilitiesRequest''
     ''TransportCapabilitiesResponse'' capability_request"

definition require_transport_capability :: "'s bridge \<Rightarrow> request \<Rightarrow> ('s, unit) io" where
  "require_transport_capability br r =
     (case Option.bind (request_meta_of r) rm_transport of
        None \<Rightarrow> returnS ()
      | Some t \<Rightarrow>
         if \<not> (wants_identity t \<or> wants_cli t) then returnS ()
         else
           bindS
             (catch_bridge
               (bridge_call br ''transport_capabilities'' ''TransportCapabilitiesRequest''
                  ''TransportCapabilitiesResponse'' capability_request)
               (\<lambda>exc. raiseS (unsupported
                  (''The installed core cannot confirm '' @
                   (if wants_cli t then ''the cli placement'' else ''explicit SSH identity support'') @
                   ''; update the core before using transport identity or placement options.''))))
             (\<lambda>capabilities.
               if wants_identity t \<and> \<not> file_identity_confirmed capabilities
               then raiseS (unsupported
                 ''The installed core does not support explicit SSH file identity selection.'')
               else if wants_cli t \<and> \<not> cli_placement_confirmed capabilities
               then raiseS (unsupported
                 (''The installed core does not advertise the cli placement with a message version '' @
                  ''this client speaks; it is not sent.''))
               else returnS ()))"

subsection \<open>Unary and streaming calls\<close>

definition call_method :: "'s bridge \<Rightarrow> string \<Rightarrow> request \<Rightarrow> string \<Rightarrow> ('s, response) io" where
  "call_method br method r response_type =
     bindS (require_transport_capability br r) (\<lambda>_.
     bindS (bridge_call br method (request_class r) response_type r) (\<lambda>result.
     bindS (liftS (raise_for_response result)) (\<lambda>_.
     returnS result)))"

definition client_operation_result :: "'s bridge \<Rightarrow> string \<Rightarrow> ('s, operation_result) io" where
  "client_operation_result br opid =
     bindS (foreign (ResultOp opid) (b_result br opid)) (\<lambda>res.
     bindS (liftS (raise_for_response (ResultRecord res))) (\<lambda>_. returnS res))"

text \<open>The accepted response of a streaming call.\<close>

definition stream_start :: "'s bridge \<Rightarrow> string \<Rightarrow> request \<Rightarrow> string \<Rightarrow> ('s, response) io" where
  "stream_start br method r response_type =
     bindS open_bridge (\<lambda>_.
       case b_submit br of
         None \<Rightarrow> call_method br method r response_type
       | Some submit \<Rightarrow>
           bindS (require_transport_capability br r) (\<lambda>_.
           bindS (foreign (SubmitOp method (request_class r) response_type r)
                    (submit method (request_class r) response_type r)) (\<lambda>response.
           bindS (liftS (raise_for_response response)) (\<lambda>_. returnS response))))"

text \<open>
  A drained event stream: the events yielded, then how the generator ended. \<open>stream_call\<close> reads
  the operation's result after its last event, so a failed operation raises there.
\<close>

type_synonym 's drained = "operation_event list \<times> (exn + unit) \<times> 's world"

definition drain_operation :: "'s bridge \<Rightarrow> string \<Rightarrow> 's world \<Rightarrow> 's drained" where
  "drain_operation br opid w =
     (case open_bridge w of
        (Inl e, w1) \<Rightarrow> ([], Inl e, w1)
      | (Inr _, w1) \<Rightarrow>
         (case b_events br opid (w_bridge w1) of
            ((events, fault), s) \<Rightarrow>
              (let w2 = w1\<lparr>w_bridge := s, w_trace := w_trace w1 @ [EventsOp opid]\<rparr>
               in case fault of
                    Some e \<Rightarrow> (events, Inl e, w2)
                  | None \<Rightarrow>
                     (case client_operation_result br opid w2 of
                        (Inl e, w3) \<Rightarrow> (events, Inl e, w3)
                      | (Inr _, w3) \<Rightarrow> (events, Inr (), w3)))))"

definition no_attribute :: "string \<Rightarrow> exn" where
  "no_attribute a = AttributeError (''object has no attribute '' @ squote a)"

definition stream_call ::
    "'s bridge \<Rightarrow> string \<Rightarrow> request \<Rightarrow> string \<Rightarrow> 's world \<Rightarrow> 's drained" where
  "stream_call br method r response_type w =
     (case stream_start br method r response_type w of
        (Inl e, w1) \<Rightarrow> ([], Inl e, w1)
      | (Inr response, w1) \<Rightarrow>
         (case envelope_of response of
            None \<Rightarrow> ([], Inl (no_attribute ''response''), w1)
          | Some _ \<Rightarrow>
             (case Option.bind (meta_of response) rsm_operation_id of
                None \<Rightarrow> ([], Inr (), w1)
              | Some opid \<Rightarrow> drain_operation br opid w1)))"

subsection \<open>Submitted merges\<close>

definition merge_stream :: "'s bridge \<Rightarrow> request \<Rightarrow> ('s, string) io" where
  "merge_stream br r =
     bindS open_bridge (\<lambda>_.
       case b_submit br of
         None \<Rightarrow> raiseS (GwzBridgeError
                   (bridge_fault ''bridge does not support submitted merge operations'' None))
       | Some submit \<Rightarrow>
           bindS (foreign (SubmitOp ''merge'' ''MergeRequest'' ''MergeResponse'' r)
                    (submit ''merge'' ''MergeRequest'' ''MergeResponse'' r)) (\<lambda>accepted.
           bindS (liftS (raise_for_response accepted)) (\<lambda>_.
           case Option.bind (meta_of accepted) rsm_operation_id of
             Some (c # cs) \<Rightarrow> bindS open_bridge (\<lambda>_. returnS (c # cs))
           | _ \<Rightarrow> raiseS (GwzBridgeError
                   (bridge_fault ''submitted merge response is missing operation_id'' None)))))"

definition merge_handle_result :: "'s bridge \<Rightarrow> string \<Rightarrow> ('s, response) io" where
  "merge_handle_result br opid =
     bindS (foreign (ResultOp opid) (b_result br opid)) (\<lambda>result.
       case b_merge_response br of
         None \<Rightarrow> raiseS (GwzBridgeError
                   (bridge_fault ''bridge does not support retained merge responses'' None))
       | Some lookup \<Rightarrow>
           catch_bridge (foreign (MergeResponseOp opid) (lookup opid))
             (\<lambda>e. bindS (liftS (raise_for_response (ResultRecord result))) (\<lambda>_. raiseS e)))"

text \<open>What a client method does with its request, by the kind of method.\<close>

datatype outcome = Answer response | Events "operation_event list" | Handle string

fun run_action :: "'s bridge \<Rightarrow> client_action \<Rightarrow> ('s, outcome) io" where
  "run_action br (CallAction method r rt) =
     bindS (call_method br method r rt) (\<lambda>x. returnS (Answer x))"
| "run_action br (RawCallAction method r rt) =
     bindS (bridge_call br method (request_class r) rt r) (\<lambda>x. returnS (Answer x))"
| "run_action br (StreamAction method r rt) =
     (\<lambda>w. case stream_call br method r rt w of
        (events, Inl e, w1) \<Rightarrow> (Inl e, w1)
      | (events, Inr _, w1) \<Rightarrow> (Inr (Events events), w1))"
| "run_action br (SubmitAction method r rt) =
     bindS (merge_stream br r) (\<lambda>opid. returnS (Handle opid))"

subsection \<open>What a call can do\<close>

definition sample_bridge :: "nat bridge" where
  "sample_bridge =
     \<lparr>b_call = (\<lambda>m rqm rsm r s. (Inr (if m = ''transport_capabilities'' then sample_capabilities
                   else sample_response AggregateStatus_ok (Some ''op1'')), Suc s)),
      b_submit = Some (\<lambda>m rqm rsm r s. (Inr (sample_response AggregateStatus_accepted (Some ''op1'')), Suc s)),
      b_events = (\<lambda>opid s. (([sample_event 0, sample_event 1], None), Suc s)),
      b_result = (\<lambda>opid s. (Inr (sample_result AggregateStatus_ok), Suc s)),
      b_merge_response = Some (\<lambda>opid s. (Inr (sample_response AggregateStatus_ok None), Suc s)),
      b_diff_read = None, b_diff_end = None, b_log_read = None, b_log_release = None\<rparr>"

definition plain_bridge_error :: "string \<Rightarrow> exn" where
  "plain_bridge_error m = GwzBridgeError (bridge_fault m None)"

definition sample_world :: "nat world" where
  "sample_world = \<lparr>w_bridge = 0, w_closed = False, w_trace = []\<rparr>"

lemmas io_defs = returnS_def raiseS_def bindS_def liftS_def catch_bridge_def foreign_def
  open_bridge_def bridge_call_def

text \<open>The gate lets a request through, or refuses it having made at most the capability call.\<close>

definition capability_confirmed :: "'s bridge \<Rightarrow> transport_options \<Rightarrow> 's \<Rightarrow> bool" where
  "capability_confirmed br t s =
     (case b_call br ''transport_capabilities'' ''TransportCapabilitiesRequest''
             ''TransportCapabilitiesResponse'' capability_request s of
        (Inl e, s1) \<Rightarrow> False
      | (Inr c, s1) \<Rightarrow>
          (wants_identity t \<longrightarrow> file_identity_confirmed c) \<and>
          (wants_cli t \<longrightarrow> cli_placement_confirmed c))"

lemma gate_open:
  assumes "require_transport_capability br r w = (Inr u, w1)"
    and "Option.bind (request_meta_of r) rm_transport = Some t"
    and "wants_identity t \<or> wants_cli t"
  shows "capability_confirmed br t (w_bridge w) \<and> w_trace w1 = w_trace w @ [capability_op]"
  using assms
  by (auto simp: require_transport_capability_def io_defs capability_confirmed_def capability_op_def
      split: if_splits prod.splits sum.splits)

lemma gate_shut:
  assumes "require_transport_capability br r w = (Inl e, w1)"
  shows "set (w_trace w1) \<subseteq> set (w_trace w) \<union> {capability_op}"
  using assms
  by (auto simp: require_transport_capability_def io_defs capability_op_def
      split: if_splits prod.splits sum.splits option.splits)


lemmas gate_sample_simps = io_defs require_transport_capability_def sample_bridge_def sample_world_def
  sample_request_def sample_meta_def sample_transport_def wants_identity_def wants_cli_def
  file_identity_confirmed_def cli_placement_confirmed_def sample_capabilities_def
  MESSAGE_VERSIONS_def capability_op_def capability_request_def raise_for_response_def
  response_aggregate_def meta_of_def sample_response_def sample_envelope_def
  sample_response_meta_def SUCCESS_AGGREGATE_STATUS_NAMES_def


text \<open>
  The same for a submitted operation: no request that carries an identity or the cli placement
  is submitted to a core that has not confirmed the option.
\<close>

theorem submit_is_gated:
  assumes "stream_start br method r response_type w = (res, w2)"
    and "Option.bind (request_meta_of r) rm_transport = Some t"
    and "wants_identity t \<or> wants_cli t"
    and "SubmitOp method (request_class r) response_type r \<notin> set (w_trace w)"
    and "SubmitOp method (request_class r) response_type r \<in> set (w_trace w2)"
  shows "capability_confirmed br t (w_bridge w) \<and>
    w_trace w2 = w_trace w @ [capability_op, SubmitOp method (request_class r) response_type r]"
proof -
  obtain g w1 where g: "require_transport_capability br r w = (g, w1)" by fastforce
  show ?thesis
  proof (cases "b_submit br")
    case None
    have "SubmitOp method (request_class r) response_type r \<notin> set (w_trace w2)"
      using assms(1,4) None
        gate_shut [of br r w] gate_open [OF _ assms(2,3), of br w]
      by (auto simp: stream_start_def call_method_def io_defs capability_op_def
          split: if_splits prod.splits sum.splits)
    with assms(5) show ?thesis by blast
  next
    case (Some submit)
    show ?thesis
    proof (cases g)
      case (Inl e)
      with assms g Some gate_shut [of br r w e w1] show ?thesis
        by (auto simp: stream_start_def io_defs capability_op_def split: if_splits)
    next
      case (Inr u)
      with gate_open [OF _ assms(2,3)] g
      have "capability_confirmed br t (w_bridge w)" "w_trace w1 = w_trace w @ [capability_op]"
        by auto
      with Inr g assms Some show ?thesis
        by (auto simp: stream_start_def io_defs capability_op_def
            split: if_splits prod.splits sum.splits)
    qed
  qed
qed

theorem submit_is_gated_witness:
  "capability_confirmed sample_bridge sample_transport (w_bridge sample_world)"
  using submit_is_gated [of sample_bridge "''push''" "sample_request (Some sample_transport)"
      "''PushResponse''" sample_world
      "fst (stream_start sample_bridge ''push'' (sample_request (Some sample_transport))
              ''PushResponse'' sample_world)"
      "snd (stream_start sample_bridge ''push'' (sample_request (Some sample_transport))
              ''PushResponse'' sample_world)" sample_transport]
  by (simp add: gate_sample_simps stream_start_def)

text \<open>
  C31: A streaming call that ends without an exception has delivered, unchanged and in order, the
  events of the operation the accepted response names, and both that response and the operation's
  final result report success; a response without an operation yields no event.
\<close>

theorem stream_call_success:
  assumes "stream_call br method r response_type w = (events, Inr (), w2)"
  shows "\<exists>response w1. stream_start br method r response_type w = (Inr response, w1) \<and>
     raise_for_response response = Inr () \<and>
     (case Option.bind (meta_of response) rsm_operation_id of
        None \<Rightarrow> events = [] \<and> w2 = w1
      | Some opid \<Rightarrow>
          (\<exists>s result s'. b_events br opid (w_bridge w1) = ((events, None), s) \<and>
             b_result br opid s = (Inr result, s') \<and>
             raise_for_response (ResultRecord result) = Inr ()))"
proof -
  obtain x w1 where st: "stream_start br method r response_type w = (x, w1)" by fastforce
  with assms obtain response where x: "x = Inr response"
    by (cases x) (auto simp: stream_call_def)
  have "raise_for_response response = Inr ()"
    using st unfolding x
    by (auto simp: stream_start_def call_method_def io_defs
        split: if_splits prod.splits sum.splits option.splits)
  with assms st x show ?thesis
    by (auto simp: stream_call_def drain_operation_def client_operation_result_def io_defs Let_def
        split: option.splits prod.splits sum.splits if_splits)
qed

theorem stream_call_success_witness:
  "\<exists>response w1. stream_start sample_bridge ''push'' (sample_request None) ''PushResponse'' sample_world =
       (Inr response, w1) \<and> Option.bind (meta_of response) rsm_operation_id = Some ''op1'' \<and>
     (\<exists>s. b_events sample_bridge ''op1'' (w_bridge w1) =
        (([sample_event 0, sample_event 1], None), s))"
proof -
  have run: "stream_call sample_bridge ''push'' (sample_request None) ''PushResponse'' sample_world =
      ([sample_event 0, sample_event 1], Inr (),
       snd (snd (stream_call sample_bridge ''push'' (sample_request None) ''PushResponse'' sample_world)))"
    by (simp add: stream_call_def stream_start_def drain_operation_def client_operation_result_def
        Let_def sample_result_def gate_sample_simps)
  have opid: "Option.bind (meta_of (sample_response AggregateStatus_accepted (Some ''op1'')))
      rsm_operation_id = Some ''op1''"
    by (simp add: stream_call_def stream_start_def drain_operation_def client_operation_result_def
        Let_def sample_result_def gate_sample_simps)
  have st: "fst (stream_start sample_bridge ''push'' (sample_request None) ''PushResponse'' sample_world) =
      Inr (sample_response AggregateStatus_accepted (Some ''op1''))"
    by (simp add: stream_call_def stream_start_def drain_operation_def client_operation_result_def
        Let_def sample_result_def gate_sample_simps)
  show ?thesis
    using stream_call_success [OF run] st opid by (auto split: option.splits)
qed

text \<open>
  \<open>MergeOperationHandle.result\<close> gives the retained response exactly when the bridge has one;
  otherwise, when the operation's result reports a failure, the typed operation error of that
  result is raised in place of the bridge's lookup diagnostic.
\<close>

theorem merge_result_outcome:
  assumes "b_result br opid (w_bridge w) = (Inr result, s1)"
    and "b_merge_response br = Some lookup"
    and "lookup opid s1 = (answer, s2)"
  shows "fst (merge_handle_result br opid w) =
    (case answer of
       Inr response \<Rightarrow> Inr response
     | Inl e \<Rightarrow>
        (if \<not> is_bridge_error e then Inl e
         else case raise_for_response (ResultRecord result) of
                Inl failure \<Rightarrow> Inl failure | Inr _ \<Rightarrow> Inl e))"
  using assms by (auto simp: merge_handle_result_def io_defs split: sum.splits)

theorem merge_result_outcome_witness:
  "fst (merge_handle_result (sample_bridge\<lparr>b_merge_response :=
          Some (\<lambda>opid s. (Inl (plain_bridge_error ''missing''), s)),
          b_result := (\<lambda>opid s. (Inr (sample_result AggregateStatus_failed), s))\<rparr>) ''op1'' sample_world) =
   Inl (GwzOperationError (operation_failure (ResultRecord (sample_result AggregateStatus_failed))
          AggregateStatus_failed))"
  by (subst merge_result_outcome [where result = "sample_result AggregateStatus_failed" and ?s1.0 = "0"
        and lookup = "\<lambda>opid s. (Inl (plain_bridge_error ''missing''), s)"
        and answer = "Inl (plain_bridge_error ''missing'')" and ?s2.0 = "0"])
    (simp_all add: sample_world_def plain_bridge_error_def raise_for_response_def
      response_aggregate_def meta_of_def sample_result_def SUCCESS_AGGREGATE_STATUS_NAMES_def)

end
