(* ===== verification/OutputReaders.thy ===== *)
theory OutputReaders
  imports ClientCalls
begin

section \<open>The cursor loops over diff.output and log.output\<close>

text \<open>
  \<open>Client.diff_output\<close> and \<open>Client.log_output\<close> of \<^verbatim>\<open>src/gwz/client.py\<close>: read a batch at the
  cursor, hand its records to the consumer one by one, advance, and stop on a terminal state. Both
  end the server-side reader in a \<open>finally\<close> block. The loops have no bound of their own, so they
  run on fuel, one unit per read, and None is a run cut short. The contract the two share is the
  locale \<open>cursor_reader\<close>: what a run delivers, what it does to the trace, and that it ends when
  the server makes progress.
\<close>

subsection \<open>Consumers\<close>

datatype consumer_act = GoOn | Leave | CloseAndLeave

datatype ended = Returned | Raised exn | Left

text \<open>\<open>for record in answer.records: yield record\<close>, with the consumer's answer to each record.\<close>

fun feed :: "('r list \<Rightarrow> consumer_act) \<Rightarrow> 'r list \<Rightarrow> 'r list \<Rightarrow> 'r list \<times> consumer_act" where
  "feed consumer seen [] = (seen, GoOn)"
| "feed consumer seen (r # rs) =
     (case consumer (seen @ [r]) of
        GoOn \<Rightarrow> feed consumer (seen @ [r]) rs
      | a \<Rightarrow> (seen @ [r], a))"

lemma feed_prefix: "feed c seen rs = (out, a) \<Longrightarrow> \<exists>ys. out = seen @ ys \<and> prefix ys rs"
  by (induction c seen rs rule: feed.induct)
    (fastforce split: consumer_act.splits simp: prefix_def)+

lemma feed_all:
  "(\<And>xs. prefix xs (seen @ rs) \<Longrightarrow> c xs = GoOn) \<Longrightarrow> feed c seen rs = (seen @ rs, GoOn)"
  by (induction c seen rs rule: feed.induct) (auto simp: prefix_def)

lemma feed_no_close: "(\<And>xs. c xs \<noteq> CloseAndLeave) \<Longrightarrow> feed c seen rs = (out, a) \<Longrightarrow> a \<noteq> CloseAndLeave"
  by (induction rs arbitrary: seen) (auto split: consumer_act.splits)

lemma feed_GoOn: "feed c seen rs = (out, GoOn) \<Longrightarrow> out = seen @ rs"
  by (induction c seen rs rule: feed.induct) (auto split: consumer_act.splits)

subsection \<open>The contract\<close>

datatype verdict = Deliver | Again | Stop | Fail exn

type_synonym ('r, 's) reader_run = "('r list \<times> ended \<times> 's world) option"

definition leave :: "consumer_act \<Rightarrow> 's world \<Rightarrow> 's world" where
  "leave a w = (if a = CloseAndLeave then w\<lparr>w_closed := True\<rparr> else w)"

locale cursor_reader =
  fixes loop :: "nat \<Rightarrow> 'r list \<Rightarrow> int option \<Rightarrow> 's world \<Rightarrow> ('r, 's) reader_run"
    and read :: "int option \<Rightarrow> ('s, 'r list \<times> int \<times> string) io"
    and verdict :: "string \<Rightarrow> verdict"
    and consumer :: "'r list \<Rightarrow> consumer_act"
    and read_op :: "bridge_op \<Rightarrow> bool"
  assumes loop_0: "loop 0 seen cursor w = None"
    and loop_Suc: "loop (Suc n) seen cursor w =
      (case read cursor w of
         (Inl e, w1) \<Rightarrow> Some (seen, Raised e, w1)
       | (Inr (records, next_cursor, state), w1) \<Rightarrow>
          (case verdict state of
             Deliver \<Rightarrow>
               (case feed consumer seen records of
                  (seen1, GoOn) \<Rightarrow> loop n seen1 (Some next_cursor) w1
                | (seen1, a) \<Rightarrow> Some (seen1, Left, leave a w1))
           | Again \<Rightarrow> loop n seen (Some next_cursor) w1
           | Stop \<Rightarrow> Some (seen, Returned, w1)
           | Fail e \<Rightarrow> Some (seen, Raised e, w1)))"
    and read_effect: "read cursor w = (res, w1) \<Longrightarrow>
      w_closed w1 = w_closed w \<and> (\<exists>q. w_trace w1 = w_trace w @ [q] \<and> read_op q)"
begin

lemma loop_mono: "loop n seen cursor w = Some r \<Longrightarrow> n \<le> m \<Longrightarrow> loop m seen cursor w = Some r"
proof (induction n arbitrary: m seen cursor w)
  case 0
  then show ?case by (simp add: loop_0)
next
  case (Suc n)
  then obtain k where k: "m = Suc k" "n \<le> k" by (cases m) auto
  from Suc.prems(1) show ?case unfolding k(1) loop_Suc
    by (auto split: prod.splits sum.splits verdict.splits consumer_act.splits intro: Suc.IH k(2))
qed

lemma loop_prefix: "loop n seen cursor w = Some (out, e, w2) \<Longrightarrow> prefix seen out"
proof (induction n arbitrary: seen cursor w)
  case 0
  then show ?case by (simp add: loop_0)
next
  case (Suc n)
  from Suc.prems show ?case unfolding loop_Suc
    by (auto split: prod.splits sum.splits verdict.splits consumer_act.splits
        dest!: Suc.IH feed_prefix dest: append_prefixD)
qed

lemma loop_trace:
  "loop n seen cursor w = Some (out, e, w2) \<Longrightarrow>
     \<exists>qs. w_trace w2 = w_trace w @ qs \<and> list_all read_op qs"
proof (induction n arbitrary: seen cursor w)
  case 0
  then show ?case by (simp add: loop_0)
next
  case (Suc n)
  obtain res w1 where r: "read cursor w = (res, w1)" by fastforce
  then obtain q where q: "w_trace w1 = w_trace w @ [q]" "read_op q" using read_effect by blast
  have more: "\<exists>qs. w_trace w2 = w_trace w @ qs \<and> list_all read_op qs"
    if l: "loop n s c w1 = Some (out, e, w2)" for s c
  proof -
    from Suc.IH [OF l] obtain qs where "w_trace w2 = w_trace w1 @ qs" "list_all read_op qs" by blast
    then show ?thesis using q by (intro exI [of _ "q # qs"]) simp
  qed
  from Suc.prems q show ?case unfolding loop_Suc r
    by (auto split: prod.splits sum.splits verdict.splits consumer_act.splits
        intro: more simp: leave_def)
qed

lemma loop_closed:
  assumes "\<And>xs. consumer xs \<noteq> CloseAndLeave"
  shows "loop n seen cursor w = Some (out, e, w2) \<Longrightarrow> w_closed w2 = w_closed w"
proof (induction n arbitrary: seen cursor w)
  case 0
  then show ?case by (simp add: loop_0)
next
  case (Suc n)
  obtain res w1 where r: "read cursor w = (res, w1)" by fastforce
  then have c: "w_closed w1 = w_closed w" using read_effect by blast
  from Suc.prems c show ?case unfolding loop_Suc r
    by (auto simp: leave_def split: prod.splits sum.splits verdict.splits consumer_act.splits
        dest: Suc.IH feed_no_close [OF assms])
qed

lemma loop_returned_open:
  "loop n seen cursor w = Some (out, Returned, w2) \<Longrightarrow> \<not> w_closed w \<Longrightarrow> \<not> w_closed w2"
proof (induction n arbitrary: seen cursor w)
  case 0
  then show ?case by (simp add: loop_0)
next
  case (Suc n)
  obtain res w1 where r: "read cursor w = (res, w1)" by fastforce
  then have "\<not> w_closed w1" using read_effect Suc.prems(2) by blast
  with Suc show ?case unfolding loop_Suc r
    by (auto split: prod.splits sum.splits verdict.splits consumer_act.splits)
qed

lemma loop_complete:
  fixes rest :: "int option \<Rightarrow> 's world \<Rightarrow> 'r list" and lag :: "int option \<Rightarrow> 's world \<Rightarrow> nat"
  assumes stay: "\<And>xs. prefix xs whole \<Longrightarrow> consumer xs = GoOn"
    and step: "\<And>cursor w. \<exists>records next state w1.
        read cursor w = (Inr (records, next, state), w1) \<and>
        (case verdict state of
           Deliver \<Rightarrow> records \<noteq> [] \<and> rest cursor w = records @ rest (Some next) w1
         | Again \<Rightarrow> rest (Some next) w1 = rest cursor w \<and> lag (Some next) w1 < lag cursor w
         | Stop \<Rightarrow> rest cursor w = []
         | Fail e \<Rightarrow> False)"
  shows "whole = seen @ rest cursor w \<Longrightarrow> \<exists>n w2. loop n seen cursor w = Some (whole, Returned, w2)"
proof (induction "(length (rest cursor w), lag cursor w)" arbitrary: seen cursor w
    rule: wf_induct_rule [OF wf_lex_prod [OF wf_less_than wf_less_than]])
  case 1
  obtain records nx st w1 where rd: "read cursor w = (Inr (records, nx, st), w1)"
    and v: "case verdict st of
           Deliver \<Rightarrow> records \<noteq> [] \<and> rest cursor w = records @ rest (Some nx) w1
         | Again \<Rightarrow> rest (Some nx) w1 = rest cursor w \<and> lag (Some nx) w1 < lag cursor w
         | Stop \<Rightarrow> rest cursor w = []
         | Fail e \<Rightarrow> False"
    using step by blast
  show ?case
  proof (cases "verdict st")
    case Deliver
    with v 1(2) have a: "records \<noteq> []" "rest cursor w = records @ rest (Some nx) w1"
      "whole = (seen @ records) @ rest (Some nx) w1" by auto
    then obtain n w2 where "loop n (seen @ records) (Some nx) w1 = Some (whole, Returned, w2)"
      using 1(1) [of "Some nx" w1 "seen @ records"] by (auto simp: lex_prod_def)
    moreover have "feed consumer seen records = (seen @ records, GoOn)"
      by (intro feed_all stay) (simp only: a(3) prefix_prefix)
    ultimately have "loop (Suc n) seen cursor w = Some (whole, Returned, w2)"
      using Deliver by (simp add: loop_Suc rd)
    then show ?thesis by blast
  next
    case Again
    with v 1(2) have a: "whole = seen @ rest (Some nx) w1" "rest (Some nx) w1 = rest cursor w"
      "lag (Some nx) w1 < lag cursor w" by auto
    then obtain n w2 where "loop n seen (Some nx) w1 = Some (whole, Returned, w2)"
      using 1(1) [of "Some nx" w1 seen] by (auto simp: lex_prod_def)
    then have "loop (Suc n) seen cursor w = Some (whole, Returned, w2)"
      using Again by (simp add: loop_Suc rd)
    then show ?thesis by blast
  next
    case Stop
    with v 1(2) have "loop (Suc 0) seen cursor w = Some (whole, Returned, w1)"
      by (simp add: loop_Suc rd)
    then show ?thesis by blast
  next
    case (Fail e)
    with v show ?thesis by simp
  qed
qed

end

subsection \<open>diff.output\<close>

definition DIFF_OUTPUT_TERMINAL_STATES :: "string list" where
  "DIFF_OUTPUT_TERMINAL_STATES = [''eof'', ''closed'', ''failed'']"

definition DIFF_OUTPUT_READ_MAX_RECORDS :: int where
  "DIFF_OUTPUT_READ_MAX_RECORDS = 64"

definition LOG_OUTPUT_READ_MAX_RECORDS :: int where
  "LOG_OUTPUT_READ_MAX_RECORDS = 128"

definition plain_fault :: "string \<Rightarrow> exn" where
  "plain_fault m = GwzBridgeError (bridge_fault m None)"

type_synonym 's diff_reader = "string \<Rightarrow> string \<Rightarrow> int option \<Rightarrow> int \<Rightarrow> 's \<Rightarrow> (exn + output_read) \<times> 's"

type_synonym 's log_reader = "string \<Rightarrow> int option \<Rightarrow> int \<Rightarrow> 's \<Rightarrow> (exn + log_read) \<times> 's"

fun diff_output_loop ::
    "'s diff_reader \<Rightarrow> string \<Rightarrow> string \<Rightarrow> (diff_output_record list \<Rightarrow> consumer_act) \<Rightarrow> nat \<Rightarrow>
     diff_output_record list \<Rightarrow> int option \<Rightarrow> 's world \<Rightarrow> (diff_output_record, 's) reader_run" where
  "diff_output_loop bridge_read log_id stream consumer 0 seen cursor w = None"
| "diff_output_loop bridge_read log_id stream consumer (Suc n) seen cursor w =
     (case foreign (DiffReadOp log_id stream cursor DIFF_OUTPUT_READ_MAX_RECORDS)
             (bridge_read log_id stream cursor DIFF_OUTPUT_READ_MAX_RECORDS) w of
        (Inl e, w1) \<Rightarrow> Some (seen, Raised e, w1)
      | (Inr answer, w1) \<Rightarrow>
         if rd_state answer = ''data'' then
           (case feed consumer seen (rd_records answer) of
              (seen1, GoOn) \<Rightarrow>
                diff_output_loop bridge_read log_id stream consumer n seen1
                  (Some (rd_next_cursor answer)) w1
            | (seen1, a) \<Rightarrow> Some (seen1, Left, leave a w1))
         else if rd_state answer = ''expired'' \<or> rd_state answer = ''would_block'' then
           diff_output_loop bridge_read log_id stream consumer n seen
             (Some (rd_next_cursor answer)) w1
         else if rd_state answer \<in> set DIFF_OUTPUT_TERMINAL_STATES then
           (if rd_state answer = ''failed''
            then Some (seen, Raised (plain_fault
                   (''diff.output log '' @ log_id @ '' failed before completion'')), w1)
            else Some (seen, Returned, w1))
         else Some (seen, Raised (plain_fault
                (''diff.output log '' @ log_id @ '' returned unknown state '' @
                 py_repr (rd_state answer))), w1))"

text \<open>A \<open>finally\<close> block: what it raises replaces the outcome of the body.\<close>

definition finallyS :: "('r, 's) reader_run \<Rightarrow> ('s, unit) io \<Rightarrow> ('r, 's) reader_run" where
  "finallyS run cleanup =
     (case run of
        None \<Rightarrow> None
      | Some (seen, e, w) \<Rightarrow>
         (case cleanup w of
            (Inl x, w1) \<Rightarrow> Some (seen, Raised x, w1)
          | (Inr _, w1) \<Rightarrow> Some (seen, e, w1)))"

definition end_diff_stream :: "'s bridge \<Rightarrow> string \<Rightarrow> string \<Rightarrow> ('s, unit) io" where
  "end_diff_stream br log_id stream =
     bindS open_bridge (\<lambda>_.
       case b_diff_end br of
         None \<Rightarrow> returnS ()
       | Some end_stream \<Rightarrow> foreign (DiffEndOp log_id stream) (end_stream log_id stream))"

definition diff_output ::
    "'s bridge \<Rightarrow> string \<Rightarrow> string option \<Rightarrow> string \<Rightarrow> (diff_output_record list \<Rightarrow> consumer_act) \<Rightarrow>
     nat \<Rightarrow> 's world \<Rightarrow> (diff_output_record, 's) reader_run" where
  "diff_output br log_id stream_id fresh consumer n w =
     (let stream = or_else stream_id fresh
      in case open_bridge w of
           (Inl e, w1) \<Rightarrow> Some ([], Raised e, w1)
         | (Inr _, w1) \<Rightarrow>
            (case b_diff_read br of
               None \<Rightarrow> Some ([], Raised (plain_fault
                        ''bridge does not support diff.output log reads''), w1)
             | Some bridge_read \<Rightarrow>
                finallyS (diff_output_loop bridge_read log_id stream consumer n [] None w1)
                  (end_diff_stream br log_id stream)))"

subsection \<open>log.output\<close>

fun log_output_loop ::
    "'s log_reader \<Rightarrow> string \<Rightarrow> (log_output_record list \<Rightarrow> consumer_act) \<Rightarrow> nat \<Rightarrow>
     log_output_record list \<Rightarrow> int option \<Rightarrow> 's world \<Rightarrow> (log_output_record, 's) reader_run" where
  "log_output_loop bridge_read log_id consumer 0 seen cursor w = None"
| "log_output_loop bridge_read log_id consumer (Suc n) seen cursor w =
     (case foreign (LogReadOp log_id cursor LOG_OUTPUT_READ_MAX_RECORDS)
             (bridge_read log_id cursor LOG_OUTPUT_READ_MAX_RECORDS) w of
        (Inl e, w1) \<Rightarrow> Some (seen, Raised e, w1)
      | (Inr answer, w1) \<Rightarrow>
         if lr_state answer = ''data'' then
           (case feed consumer seen (lr_records answer) of
              (seen1, GoOn) \<Rightarrow>
                log_output_loop bridge_read log_id consumer n seen1 (Some (lr_next_cursor answer)) w1
            | (seen1, a) \<Rightarrow> Some (seen1, Left, leave a w1))
         else if lr_state answer = ''eof'' then Some (seen, Returned, w1)
         else Some (seen, Raised (plain_fault
                (''commit-log output '' @ log_id @ '' returned unknown state '' @
                 py_repr (lr_state answer))), w1))"

definition release_log_output :: "'s bridge \<Rightarrow> string \<Rightarrow> ('s, unit) io" where
  "release_log_output br log_id =
     bindS open_bridge (\<lambda>_.
       case b_log_release br of
         None \<Rightarrow> raiseS (plain_fault ''bridge does not support commit-log output release'')
       | Some release \<Rightarrow> foreign (LogReleaseOp log_id) (release log_id))"

definition log_output ::
    "'s bridge \<Rightarrow> string \<Rightarrow> (log_output_record list \<Rightarrow> consumer_act) \<Rightarrow> nat \<Rightarrow> 's world \<Rightarrow>
     (log_output_record, 's) reader_run" where
  "log_output br log_id consumer n w =
     (case open_bridge w of
        (Inl e, w1) \<Rightarrow> Some ([], Raised e, w1)
      | (Inr _, w1) \<Rightarrow>
         (case (b_log_read br, b_log_release br) of
            (Some bridge_read, Some release) \<Rightarrow>
              finallyS (log_output_loop bridge_read log_id consumer n [] None w1)
                (release_log_output br log_id)
          | _ \<Rightarrow> Some ([], Raised (plain_fault
                  ''bridge does not support commit-log output reads''), w1)))"

subsection \<open>Both loops keep the contract\<close>

definition diff_verdict :: "string \<Rightarrow> string \<Rightarrow> verdict" where
  "diff_verdict log_id st =
     (if st = ''data'' then Deliver
      else if st = ''expired'' \<or> st = ''would_block'' then Again
      else if st \<in> set DIFF_OUTPUT_TERMINAL_STATES then
        (if st = ''failed''
         then Fail (plain_fault (''diff.output log '' @ log_id @ '' failed before completion''))
         else Stop)
      else Fail (plain_fault (''diff.output log '' @ log_id @ '' returned unknown state '' @
                 py_repr st)))"

definition log_verdict :: "string \<Rightarrow> string \<Rightarrow> verdict" where
  "log_verdict log_id st =
     (if st = ''data'' then Deliver
      else if st = ''eof'' then Stop
      else Fail (plain_fault (''commit-log output '' @ log_id @ '' returned unknown state '' @
                 py_repr st)))"

definition diff_step :: "'s diff_reader \<Rightarrow> string \<Rightarrow> string \<Rightarrow> int option \<Rightarrow>
    ('s, diff_output_record list \<times> int \<times> string) io" where
  "diff_step rd log_id stream cursor =
     bindS (foreign (DiffReadOp log_id stream cursor DIFF_OUTPUT_READ_MAX_RECORDS)
             (rd log_id stream cursor DIFF_OUTPUT_READ_MAX_RECORDS))
       (\<lambda>a. returnS (rd_records a, rd_next_cursor a, rd_state a))"

definition log_step :: "'s log_reader \<Rightarrow> string \<Rightarrow> int option \<Rightarrow>
    ('s, log_output_record list \<times> int \<times> string) io" where
  "log_step rd log_id cursor =
     bindS (foreign (LogReadOp log_id cursor LOG_OUTPUT_READ_MAX_RECORDS)
             (rd log_id cursor LOG_OUTPUT_READ_MAX_RECORDS))
       (\<lambda>a. returnS (lr_records a, lr_next_cursor a, lr_state a))"

definition is_diff_read :: "string \<Rightarrow> bridge_op \<Rightarrow> bool" where
  "is_diff_read log_id q =
     (case q of DiffReadOp l s c m \<Rightarrow> l = log_id \<and> m = DIFF_OUTPUT_READ_MAX_RECORDS | _ \<Rightarrow> False)"

definition is_log_read :: "string \<Rightarrow> bridge_op \<Rightarrow> bool" where
  "is_log_read log_id q =
     (case q of LogReadOp l c m \<Rightarrow> l = log_id \<and> m = LOG_OUTPUT_READ_MAX_RECORDS | _ \<Rightarrow> False)"

interpretation diff_reader: cursor_reader
  "diff_output_loop rd log_id stream consumer" "diff_step rd log_id stream"
  "diff_verdict log_id" consumer "is_diff_read log_id"
  for rd :: "'s diff_reader" and log_id stream consumer
proof unfold_locales
  fix n seen cursor and w :: "'s world"
  show "diff_output_loop rd log_id stream consumer (Suc n) seen cursor w =
      (case diff_step rd log_id stream cursor w of
         (Inl e, w1) \<Rightarrow> Some (seen, Raised e, w1)
       | (Inr (records, next_cursor, state), w1) \<Rightarrow>
          (case diff_verdict log_id state of
             Deliver \<Rightarrow>
               (case feed consumer seen records of
                  (seen1, GoOn) \<Rightarrow>
                    diff_output_loop rd log_id stream consumer n seen1 (Some next_cursor) w1
                | (seen1, a) \<Rightarrow> Some (seen1, Left, leave a w1))
           | Again \<Rightarrow> diff_output_loop rd log_id stream consumer n seen (Some next_cursor) w1
           | Stop \<Rightarrow> Some (seen, Returned, w1)
           | Fail e \<Rightarrow> Some (seen, Raised e, w1)))"
    by (auto simp: diff_step_def bindS_def returnS_def diff_verdict_def split: prod.splits sum.splits)
qed (auto simp: diff_step_def bindS_def returnS_def foreign_def is_diff_read_def
      split: prod.splits sum.splits)

interpretation log_reader: cursor_reader
  "log_output_loop rd log_id consumer" "log_step rd log_id"
  "log_verdict log_id" consumer "is_log_read log_id"
  for rd :: "'s log_reader" and log_id consumer
proof unfold_locales
  fix n seen cursor and w :: "'s world"
  show "log_output_loop rd log_id consumer (Suc n) seen cursor w =
      (case log_step rd log_id cursor w of
         (Inl e, w1) \<Rightarrow> Some (seen, Raised e, w1)
       | (Inr (records, next_cursor, state), w1) \<Rightarrow>
          (case log_verdict log_id state of
             Deliver \<Rightarrow>
               (case feed consumer seen records of
                  (seen1, GoOn) \<Rightarrow> log_output_loop rd log_id consumer n seen1 (Some next_cursor) w1
                | (seen1, a) \<Rightarrow> Some (seen1, Left, leave a w1))
           | Again \<Rightarrow> log_output_loop rd log_id consumer n seen (Some next_cursor) w1
           | Stop \<Rightarrow> Some (seen, Returned, w1)
           | Fail e \<Rightarrow> Some (seen, Raised e, w1)))"
    by (auto simp: log_step_def bindS_def returnS_def log_verdict_def split: prod.splits sum.splits)
qed (auto simp: log_step_def bindS_def returnS_def foreign_def is_log_read_def
      split: prod.splits sum.splits)

subsection \<open>Released exactly once, delivered completely\<close>

text \<open>A spool of \<open>log\<close> records served in batches of two; the state counts the requests.\<close>

definition sample_log_record :: log_output_record where
  "sample_log_record =
     \<lparr>lor_kind = LogOutputRecordKind_entry, lor_entry = None, lor_degradation = None\<rparr>"

definition spool_read :: "nat \<Rightarrow> nat log_reader" where
  "spool_read len log_id cursor m s =
     (let pos = nat (case cursor of None \<Rightarrow> 0 | Some c \<Rightarrow> c); k = min 2 (len - pos)
      in (Inr \<lparr>lr_records = replicate k sample_log_record, lr_next_cursor = int (pos + k),
              lr_state = (if k = 0 then ''eof'' else ''data'')\<rparr>, Suc s))"

definition spool_bridge :: "nat \<Rightarrow> nat bridge" where
  "spool_bridge len = sample_bridge
     \<lparr>b_log_read := Some (spool_read len), b_log_release := Some (\<lambda>l s. (Inr (), Suc s))\<rparr>"

lemmas reader_eval = log_output_def diff_output_def release_log_output_def end_diff_stream_def io_defs
  finallyS_def open_bridge_def sample_bridge_def sample_world_def eval_nat_numeral Let_def

definition stay :: "'r list \<Rightarrow> consumer_act" where
  "stay seen = GoOn"

lemma log_output_trace:
  assumes "log_output br log_id consumer n w = Some (out, e, w2)"
    and "\<not> w_closed w" and "\<And>xs. consumer xs \<noteq> CloseAndLeave"
    and "b_log_read br \<noteq> None" and "b_log_release br \<noteq> None"
  shows "\<exists>reads. w_trace w2 = w_trace w @ reads @ [LogReleaseOp log_id] \<and>
    list_all (is_log_read log_id) reads"
proof -
  obtain rd rl where br: "b_log_read br = Some rd" "b_log_release br = Some rl"
    using assms(4,5) by blast
  then obtain e1 w1 where l: "log_output_loop rd log_id consumer n [] None w = Some (out, e1, w1)"
    and f: "finallyS (Some (out, e1, w1)) (release_log_output br log_id) = Some (out, e, w2)"
    using assms(1,2)
    by (auto simp: log_output_def open_bridge_def finallyS_def split: option.splits prod.splits sum.splits)
  obtain reads where t: "w_trace w1 = w_trace w @ reads" "list_all (is_log_read log_id) reads"
    using log_reader.loop_trace [OF l] by blast
  have "\<not> w_closed w1"
    using log_reader.loop_closed [OF _ l] assms(2,3) by blast
  with f br have "w_trace w2 = w_trace w1 @ [LogReleaseOp log_id]"
    by (auto simp: finallyS_def release_log_output_def io_defs split: prod.splits sum.splits)
  with t show ?thesis by auto
qed

text \<open>
  C29: Whatever the consumer and the server do, as long as nobody closes the client meanwhile: the
  calls of one \<open>log_output\<close> run are reads of that log in batches of at most 128, followed by one
  release of its spool, also when a read fails, the server answers an unknown state, or the
  consumer leaves early.
\<close>

theorem log_output_released_once:
  assumes "log_output br log_id consumer n w = Some (out, e, w2)"
    and "\<not> w_closed w" and "\<forall>xs. consumer xs \<noteq> CloseAndLeave"
    and "b_log_read br \<noteq> None" and "b_log_release br \<noteq> None"
  shows "\<exists>reads. w_trace w2 = w_trace w @ reads @ [LogReleaseOp log_id] \<and>
    list_all (is_log_read log_id) reads"
  using log_output_trace assms by blast

theorem log_output_released_once_witness:
  "\<exists>reads. w_trace (snd (snd (the (log_output (spool_bridge 3) ''L'' stay 5 sample_world)))) =
       reads @ [LogReleaseOp ''L''] \<and> list_all (is_log_read ''L'') reads"
proof -
  have run: "log_output (spool_bridge 3) ''L'' stay 5 sample_world =
      Some (replicate 3 sample_log_record, Returned,
        snd (snd (the (log_output (spool_bridge 3) ''L'' stay 5 sample_world))))"
    by (simp add: reader_eval stay_def spool_bridge_def spool_read_def)
  show ?thesis
    using log_output_released_once [OF run]
    by (simp add: sample_world_def stay_def spool_bridge_def)
qed

text \<open>What the server of a spool promises, with \<open>rest\<close> the records from a cursor on.\<close>

definition serves_log :: "'s log_reader \<Rightarrow> string \<Rightarrow> (int option \<Rightarrow> log_output_record list) \<Rightarrow> bool" where
  "serves_log rd log_id rest \<longleftrightarrow>
     (\<forall>cursor s. \<exists>a s1. rd log_id cursor LOG_OUTPUT_READ_MAX_RECORDS s = (Inr a, s1) \<and>
        (lr_state a = ''eof'' \<and> rest cursor = [] \<or>
         lr_state a = ''data'' \<and> lr_records a \<noteq> [] \<and>
         rest cursor = lr_records a @ rest (Some (lr_next_cursor a))))"

lemma log_output_runs:
  assumes "\<not> w_closed w" and "b_log_read br = Some rd" and "b_log_release br = Some rl"
    and "\<And>s. fst (rl log_id s) = Inr ()"
    and stay: "\<And>xs. prefix xs (rest None) \<Longrightarrow> consumer xs = GoOn"
    and serves: "serves_log rd log_id rest"
  shows "\<exists>n w2. log_output br log_id consumer n w = Some (rest None, Returned, w2)"
proof -
  have "\<exists>n w2. log_output_loop rd log_id consumer n [] None w = Some (rest None, Returned, w2)"
  proof (rule log_reader.loop_complete [where rest = "\<lambda>c w. rest c" and lag = "\<lambda>c w. 0"])
    show "\<And>xs. prefix xs (rest None) \<Longrightarrow> consumer xs = GoOn" by (rule stay)
    show "rest None = [] @ rest None" by simp
    fix cursor and w :: "'a world"
    obtain a s1 where "rd log_id cursor LOG_OUTPUT_READ_MAX_RECORDS (w_bridge w) = (Inr a, s1)"
      "lr_state a = ''eof'' \<and> rest cursor = [] \<or>
           lr_state a = ''data'' \<and> lr_records a \<noteq> [] \<and>
           rest cursor = lr_records a @ rest (Some (lr_next_cursor a))"
      using serves unfolding serves_log_def by blast
    then show "\<exists>records next state w1.
        log_step rd log_id cursor w = (Inr (records, next, state), w1) \<and>
        (case log_verdict log_id state of
           Deliver \<Rightarrow> records \<noteq> [] \<and> rest cursor = records @ rest (Some next)
         | Again \<Rightarrow> rest (Some next) = rest cursor \<and> (0::nat) < 0
         | Stop \<Rightarrow> rest cursor = []
         | Fail e \<Rightarrow> False)"
      by (auto simp: log_step_def log_verdict_def io_defs)
  qed
  then obtain n w1 where l: "log_output_loop rd log_id consumer n [] None w =
      Some (rest None, Returned, w1)" by auto
  moreover have "\<not> w_closed w1"
    by (rule log_reader.loop_returned_open [OF l assms(1)])
  ultimately have "\<exists>w2. log_output br log_id consumer n w = Some (rest None, Returned, w2)"
    using assms(1-4)
    by (auto simp: log_output_def finallyS_def release_log_output_def io_defs
        split: prod.splits sum.splits) (metis fst_conv sum.distinct(1))+
  then show ?thesis by blast
qed

text \<open>
  C24: Complete delivery: against a server that keeps its part (a data answer is not empty and
  advances over what it returned, end of file comes only after the last record), a run of
  \<open>log_output\<close> with enough fuel returns every record of the spool, in order, and releases it.
\<close>

theorem log_output_complete:
  assumes "\<not> w_closed w" and "b_log_read br = Some rd" and "b_log_release br = Some rl"
    and "\<forall>s. fst (rl log_id s) = Inr ()"
    and "\<forall>xs. consumer xs = GoOn"
    and "serves_log rd log_id rest"
  shows "\<exists>n w2. log_output br log_id consumer n w = Some (rest None, Returned, w2)"
  by (rule log_output_runs) (use assms in auto)

definition spool_rest :: "nat \<Rightarrow> int option \<Rightarrow> log_output_record list" where
  "spool_rest len cursor =
     replicate (len - nat (case cursor of None \<Rightarrow> 0 | Some c \<Rightarrow> c)) sample_log_record"

lemma spool_serves: "serves_log (spool_read len) log_id (spool_rest len)"
  unfolding serves_log_def
proof (intro allI)
  fix cursor :: "int option" and s :: nat
  define pos where "pos = nat (case cursor of None \<Rightarrow> 0 | Some c \<Rightarrow> c)"
  have "min 2 (len - pos) + (len - (pos + min 2 (len - pos))) = len - pos" by auto
  then show "\<exists>a s1. spool_read len log_id cursor LOG_OUTPUT_READ_MAX_RECORDS s = (Inr a, s1) \<and>
      (lr_state a = ''eof'' \<and> spool_rest len cursor = [] \<or>
       lr_state a = ''data'' \<and> lr_records a \<noteq> [] \<and>
       spool_rest len cursor = lr_records a @ spool_rest len (Some (lr_next_cursor a)))"
    by (auto simp: spool_read_def spool_rest_def Let_def replicate_add [symmetric]
        pos_def [symmetric] nat_int_add)
qed

theorem log_output_complete_witness:
  "\<exists>n w2. log_output (spool_bridge 3) ''L'' stay n sample_world =
     Some (replicate 3 sample_log_record, Returned, w2)"
  using log_output_complete [where w = sample_world and br = "spool_bridge 3"
      and rd = "spool_read 3" and rl = "\<lambda>l s. (Inr (), Suc s)" and log_id = "''L''"
      and consumer = stay and rest = "spool_rest 3"] spool_serves [of 3]
  by (simp add: sample_world_def stay_def spool_bridge_def spool_rest_def)

text \<open>
  The same contract for \<open>diff_output\<close>: the calls of one run are reads of that log in batches of
  at most 64, followed by one end of the reader stream, under the caller's stream id.
\<close>

theorem diff_output_ended_once:
  assumes "diff_output br log_id stream_id fresh consumer n w = Some (out, e, w2)"
    and "\<not> w_closed w" and "\<forall>xs. consumer xs \<noteq> CloseAndLeave"
    and "b_diff_read br \<noteq> None" and "b_diff_end br \<noteq> None"
  shows "\<exists>reads. w_trace w2 = w_trace w @ reads @ [DiffEndOp log_id (or_else stream_id fresh)] \<and>
    list_all (is_diff_read log_id) reads"
proof -
  obtain rd en where br: "b_diff_read br = Some rd" "b_diff_end br = Some en"
    using assms(4,5) by blast
  let ?st = "or_else stream_id fresh"
  from br obtain e1 w1 where
      l: "diff_output_loop rd log_id ?st consumer n [] None w = Some (out, e1, w1)"
    and f: "finallyS (Some (out, e1, w1)) (end_diff_stream br log_id ?st) = Some (out, e, w2)"
    using assms(1,2)
    by (auto simp: diff_output_def open_bridge_def finallyS_def Let_def split: option.splits prod.splits sum.splits)
  obtain reads where t: "w_trace w1 = w_trace w @ reads" "list_all (is_diff_read log_id) reads"
    using diff_reader.loop_trace [OF l] by blast
  have "\<not> w_closed w1"
    using diff_reader.loop_closed [OF _ l] assms(2,3) by blast
  with f br have "w_trace w2 = w_trace w1 @ [DiffEndOp log_id ?st]"
    by (auto simp: finallyS_def end_diff_stream_def io_defs split: prod.splits sum.splits)
  with t show ?thesis by auto
qed

definition sample_diff_record :: diff_output_record where
  "sample_diff_record =
     \<lparr>dor_kind = DiffOutputRecordKind_file_started, dor_scope = None, dor_file_id = None,
      dor_entry = None, dor_data = None, dor_stale = None, dor_diagnostic = None\<rparr>"

definition patch_read :: "nat diff_reader" where
  "patch_read log_id stream cursor m s =
     (Inr \<lparr>rd_records = (if s = 1 then [sample_diff_record] else []), rd_next_cursor = 7,
           rd_state = (if s = 0 then ''expired'' else if s = 1 then ''data'' else ''eof'')\<rparr>, Suc s)"

definition patch_bridge :: "nat bridge" where
  "patch_bridge = sample_bridge
     \<lparr>b_diff_read := Some patch_read, b_diff_end := Some (\<lambda>l st s. (Inr (), Suc s))\<rparr>"

theorem diff_output_ended_once_witness:
  "\<exists>reads. w_trace (snd (snd (the (diff_output patch_bridge ''D'' None ''pydiff-1'' stay 4 sample_world)))) =
       reads @ [DiffEndOp ''D'' ''pydiff-1''] \<and> list_all (is_diff_read ''D'') reads"
proof -
  have run: "diff_output patch_bridge ''D'' None ''pydiff-1'' stay 4 sample_world =
      Some ([sample_diff_record], Returned,
        snd (snd (the (diff_output patch_bridge ''D'' None ''pydiff-1'' stay 4 sample_world))))"
    by (simp add: reader_eval stay_def patch_bridge_def patch_read_def DIFF_OUTPUT_TERMINAL_STATES_def)
  show ?thesis
    using diff_output_ended_once [OF run]
    by (simp add: sample_world_def stay_def patch_bridge_def or_else_def truthy_def)
qed

text \<open>What the server of a diff log promises, with \<open>rest\<close> the records still to come.\<close>

definition serves_diff ::
    "'s diff_reader \<Rightarrow> string \<Rightarrow> (int option \<Rightarrow> 's \<Rightarrow> diff_output_record list) \<Rightarrow> (int option \<Rightarrow> 's \<Rightarrow> nat) \<Rightarrow> bool" where
  "serves_diff rd log_id rest lag \<longleftrightarrow>
     (\<forall>stream cursor s. \<exists>a s1. rd log_id stream cursor DIFF_OUTPUT_READ_MAX_RECORDS s = (Inr a, s1) \<and>
        (rd_state a \<in> {''eof'', ''closed''} \<and> rest cursor s = [] \<or>
         rd_state a \<in> {''expired'', ''would_block''} \<and>
           rest (Some (rd_next_cursor a)) s1 = rest cursor s \<and>
           lag (Some (rd_next_cursor a)) s1 < lag cursor s \<or>
         rd_state a = ''data'' \<and> rd_records a \<noteq> [] \<and>
           rest cursor s = rd_records a @ rest (Some (rd_next_cursor a)) s1))"

lemma diff_output_runs:
  assumes "\<not> w_closed w" and "b_diff_read br = Some rd" and "b_diff_end br = Some en"
    and "\<And>stream s. fst (en log_id stream s) = Inr ()"
    and stay: "\<And>xs. prefix xs (rest None (w_bridge w)) \<Longrightarrow> consumer xs = GoOn"
    and serves: "serves_diff rd log_id rest lag"
  shows "\<exists>n w2. diff_output br log_id stream_id fresh consumer n w =
     Some (rest None (w_bridge w), Returned, w2)"
proof -
  let ?st = "or_else stream_id fresh"
  have "\<exists>n w2. diff_output_loop rd log_id ?st consumer n [] None w =
      Some (rest None (w_bridge w), Returned, w2)"
  proof (rule diff_reader.loop_complete [where rest = "\<lambda>c w. rest c (w_bridge w)"
        and lag = "\<lambda>c w. lag c (w_bridge w)"])
    show "\<And>xs. prefix xs (rest None (w_bridge w)) \<Longrightarrow> consumer xs = GoOn" by (rule stay)
    show "rest None (w_bridge w) = [] @ rest None (w_bridge w)" by simp
    fix cursor and w :: "'a world"
    obtain a s1 where
      "rd log_id ?st cursor DIFF_OUTPUT_READ_MAX_RECORDS (w_bridge w) = (Inr a, s1)"
      "rd_state a \<in> {''eof'', ''closed''} \<and> rest cursor (w_bridge w) = [] \<or>
       rd_state a \<in> {''expired'', ''would_block''} \<and>
         rest (Some (rd_next_cursor a)) s1 = rest cursor (w_bridge w) \<and>
         lag (Some (rd_next_cursor a)) s1 < lag cursor (w_bridge w) \<or>
       rd_state a = ''data'' \<and> rd_records a \<noteq> [] \<and>
         rest cursor (w_bridge w) = rd_records a @ rest (Some (rd_next_cursor a)) s1"
      using serves unfolding serves_diff_def by blast
    then show "\<exists>records next state w1.
        diff_step rd log_id ?st cursor w = (Inr (records, next, state), w1) \<and>
        (case diff_verdict log_id state of
           Deliver \<Rightarrow> records \<noteq> [] \<and>
             rest cursor (w_bridge w) = records @ rest (Some next) (w_bridge w1)
         | Again \<Rightarrow> rest (Some next) (w_bridge w1) = rest cursor (w_bridge w) \<and>
             lag (Some next) (w_bridge w1) < lag cursor (w_bridge w)
         | Stop \<Rightarrow> rest cursor (w_bridge w) = []
         | Fail e \<Rightarrow> False)"
      by (auto simp: diff_step_def diff_verdict_def io_defs DIFF_OUTPUT_TERMINAL_STATES_def)
  qed
  then obtain n w1 where l: "diff_output_loop rd log_id ?st consumer n [] None w =
      Some (rest None (w_bridge w), Returned, w1)" by auto
  have "\<exists>e. fst (end_diff_stream br log_id ?st w1) = e \<and> (\<not> w_closed w1 \<longrightarrow> e = Inr ())"
    using assms(3,4) by (auto simp: end_diff_stream_def io_defs split: prod.splits)
      (metis fst_conv)+
  moreover have "\<not> w_closed w1"
    by (rule diff_reader.loop_returned_open [OF l assms(1)])
  ultimately have "\<exists>w2. diff_output br log_id stream_id fresh consumer n w =
      Some (rest None (w_bridge w), Returned, w2)"
    using assms(1,2) l
    by (auto simp: diff_output_def finallyS_def open_bridge_def Let_def
        split: prod.splits sum.splits)
  then show ?thesis by blast
qed

text \<open>
  C30: Complete delivery of a diff: an \<open>expired\<close> or \<open>would_block\<close> answer only moves the cursor. If
  the server makes progress (each such answer brings it closer to its next data, \<open>lag\<close>), a run
  with enough fuel returns all records the log still holds, in order.
\<close>

theorem diff_output_complete:
  assumes "\<not> w_closed w" and "b_diff_read br = Some rd" and "b_diff_end br = Some en"
    and "\<forall>stream s. fst (en log_id stream s) = Inr ()"
    and "\<forall>xs. consumer xs = GoOn"
    and "serves_diff rd log_id rest lag"
  shows "\<exists>n w2. diff_output br log_id stream_id fresh consumer n w =
     Some (rest None (w_bridge w), Returned, w2)"
  by (rule diff_output_runs [where lag = lag]) (use assms in auto)

theorem diff_output_complete_witness:
  "\<exists>n w2. diff_output patch_bridge ''D'' None ''pydiff-1'' stay n sample_world =
     Some ([sample_diff_record], Returned, w2)"
  using diff_output_complete [where w = sample_world and br = patch_bridge
      and rd = patch_read and en = "\<lambda>l st s. (Inr (), Suc s)" and log_id = "''D''"
      and stream_id = None and fresh = "''pydiff-1''" and consumer = stay
      and rest = "\<lambda>c s. if s \<le> 1 then [sample_diff_record] else []"
      and lag = "\<lambda>c s. if s = 0 then 1 else 0"]
  by (simp add: sample_world_def stay_def patch_bridge_def patch_read_def serves_diff_def)

text \<open>
  When the client is closed while its consumer still holds an unfinished \<open>log_output\<close>
  iterator, the \<open>finally\<close> block finds no open bridge: the iterator ends with the error of a closed
  client and the spool is never released. The same happens to the reader stream of a diff.
\<close>

theorem log_output_close_skips_release:
  assumes "log_output br log_id consumer n w = Some (out, e, w2)"
    and "\<not> w_closed w" and "b_log_read br = Some rd" and "b_log_release br \<noteq> None"
    and "fst (rd log_id None LOG_OUTPUT_READ_MAX_RECORDS (w_bridge w)) = Inr a"
    and "lr_state a = ''data''" and "lr_records a = r # rs" and "consumer [r] = CloseAndLeave"
  shows "out = [r] \<and> e = Raised (invalid_request ''client is closed'') \<and> w_closed w2 \<and>
    w_trace w2 = w_trace w @ [LogReadOp log_id None LOG_OUTPUT_READ_MAX_RECORDS]"
  using assms
  by (cases n) (auto simp: log_output_def finallyS_def release_log_output_def io_defs leave_def
      split: prod.splits sum.splits option.splits)

theorem log_output_close_skips_release_witness:
  "snd (the (log_output (spool_bridge 3) ''L'' (\<lambda>xs. CloseAndLeave) 5 sample_world)) =
     (Raised (invalid_request ''client is closed''),
      \<lparr>w_bridge = 1, w_closed = True, w_trace = [LogReadOp ''L'' None LOG_OUTPUT_READ_MAX_RECORDS]\<rparr>)"
proof -
  let ?w = "\<lparr>w_bridge = 1::nat, w_closed = True,
      w_trace = [LogReadOp ''L'' None LOG_OUTPUT_READ_MAX_RECORDS]\<rparr>"
  have run: "log_output (spool_bridge 3) ''L'' (\<lambda>xs. CloseAndLeave) 5 sample_world =
      Some ([sample_log_record], Raised (invalid_request ''client is closed''), ?w)"
    by (simp add: reader_eval spool_bridge_def spool_read_def leave_def)
  have "w_closed ?w"
    using log_output_close_skips_release [OF run, where rd = "spool_read 3"
        and r = sample_log_record and rs = "[sample_log_record]"
        and a = "\<lparr>lr_records = [sample_log_record, sample_log_record], lr_next_cursor = 2,
                  lr_state = ''data''\<rparr>"]
    by (simp add: sample_world_def spool_bridge_def spool_read_def Let_def numeral_2_eq_2)
  with run show ?thesis by simp
qed

end
