(* ===== verification/NativeBridge.thy ===== *)
theory NativeBridge
  imports Codec Requests
begin

section \<open>The bridge to the native core\<close>

text \<open>
  \<open>NativeCoreBridge\<close> of \<^verbatim>\<open>src/gwz/bridge.py\<close>. The native module and its client host are
  compiled code outside the repository: a record of functions over a state of their own, whose
  failures are exceptions of the module. Modelled are the conversion of payloads and exceptions,
  every bridge method, the wait loop of the event stream, awaiting a worker through cancellations,
  and the life cycle of one bridge under concurrent calls and closes, as a step relation.
\<close>

subsection \<open>Payloads and errors\<close>

datatype native_payload =
    NativeBytes string
  | NativeByteArray string
  | NativeMemoryView string
  | NativeOther string

fun bytes_of :: "native_payload \<Rightarrow> string \<Rightarrow> exn + string" where
  "bytes_of (NativeBytes b) m = Inr b"
| "bytes_of (NativeByteArray b) m = Inr b"
| "bytes_of (NativeMemoryView b) m = Inr b"
| "bytes_of (NativeOther t) m =
     Inl (protocol_fault (''native bridge returned '' @ t @ '' for '' @ m @
                          ''; expected bytes-like payload''))"

text \<open>An exception of the native module with the attributes the bridge looks up on it.\<close>

record native_error =
  ne_text :: string
  ne_code :: "string option"
  ne_member_id :: "string option"
  ne_member_path :: "string option"
  ne_target_kind :: "string option"
  ne_detail :: "string option"
  ne_machine_message :: "string option"
  ne_record_context :: "merge_record_compatibility_context option"
  ne_response_meta_cbor :: "native_payload option"
  ne_operation_id :: "string option"

datatype native_exn = RaisedByBridge bridge_error | NativeFault native_error

type_synonym meta_decoder = "string \<Rightarrow> exn + response_meta"

definition native_bridge_error :: "meta_decoder \<Rightarrow> string \<Rightarrow> native_error \<Rightarrow> exn" where
  "native_bridge_error dec_meta pre err =
     (case (case ne_response_meta_cbor err of
              None \<Rightarrow> Inr None
            | Some b \<Rightarrow> bindE (bytes_of b ''ResponseMeta'') (\<lambda>d. bindE (dec_meta d) (\<lambda>m. Inr (Some m)))) of
        Inl e \<Rightarrow> e
      | Inr meta \<Rightarrow>
          GwzBridgeError
            \<lparr>be_message = pre @ '': '' @ ne_text err, be_code = ne_code err,
             be_member_id = ne_member_id err, be_member_path = ne_member_path err,
             be_target_kind = ne_target_kind err, be_detail = ne_detail err,
             be_machine_message = ne_machine_message err,
             be_record_context = ne_record_context err, be_response_meta = meta,
             be_operation_id = ne_operation_id err\<rparr>)"

text \<open>
  \<open>except GwzBridgeError: raise\<close>, \<open>except Exception as exc: raise _native_bridge_error(...)\<close>; the two
  diff methods raise a bridge error with the text alone.
\<close>

definition guard_native :: "meta_decoder \<Rightarrow> string \<Rightarrow> native_exn + 'a \<Rightarrow> exn + 'a" where
  "guard_native dec_meta pre r =
     (case r of
        Inr x \<Rightarrow> Inr x
      | Inl (RaisedByBridge b) \<Rightarrow> Inl (GwzBridgeError b)
      | Inl (NativeFault err) \<Rightarrow> Inl (native_bridge_error dec_meta pre err))"

definition guard_plain :: "string \<Rightarrow> native_exn + 'a \<Rightarrow> exn + 'a" where
  "guard_plain pre r =
     (case r of
        Inr x \<Rightarrow> Inr x
      | Inl (RaisedByBridge b) \<Rightarrow> Inl (GwzBridgeError b)
      | Inl (NativeFault err) \<Rightarrow>
          Inl (GwzBridgeError (bridge_fault (pre @ '': '' @ ne_text err) None)))"

subsection \<open>Waiting for a worker\<close>

text \<open>
  What happens to a task while it is awaited: the caller is cancelled, or the worker ends.
  \<open>await_completion\<close> goes on waiting through cancellations; None is a worker still running.
\<close>

datatype 'a wait_event = CallerCancelled | WorkerDone 'a

fun await_completion :: "'a wait_event list \<Rightarrow> 'a option" where
  "await_completion [] = None"
| "await_completion (WorkerDone r # es) = Some r"
| "await_completion (CallerCancelled # es) = await_completion es"

lemma await_completion_cancels [simp]:
  "await_completion (replicate k CallerCancelled @ [WorkerDone r]) = Some r"
  by (induction k) auto

text \<open>
  \<open>_run_native\<close>: the worker's outcome if it comes before any cancellation; a cancellation before that
  is raised, but only once the worker has ended, whatever its outcome was.
\<close>

fun run_native :: "(native_exn + 'a) wait_event list \<Rightarrow> (exn + (native_exn + 'a)) option" where
  "run_native [] = None"
| "run_native (WorkerDone r # es) = Some (Inr r)"
| "run_native (CallerCancelled # es) =
     (case await_completion es of None \<Rightarrow> None | Some r \<Rightarrow> Some (Inl CancelledError))"

subsection \<open>The bridge methods\<close>

record native_bridge =
  nb_closed :: bool
  nb_close_result :: "transport_cleanup option"

definition new_bridge :: native_bridge where
  "new_bridge = \<lparr>nb_closed = False, nb_close_result = None\<rparr>"

definition ensure_open :: "native_bridge \<Rightarrow> exn + unit" where
  "ensure_open nb = guardE (nb_closed nb) (invalid_request ''client is closed'')"

type_synonym 'h host_entry = "string \<Rightarrow> string \<Rightarrow> string \<Rightarrow> string \<Rightarrow> 'h \<Rightarrow> (native_exn + native_payload) \<times> 'h"

text \<open>
  \<open>call\<close> and \<open>submit\<close> differ in the host entry and the word of the diagnostic. The last argument
  says how many times the caller is cancelled before the worker ends.
\<close>

definition native_entry ::
    "codec \<Rightarrow> (string \<Rightarrow> pyval \<Rightarrow> exn + string) \<Rightarrow> (string \<Rightarrow> string \<Rightarrow> exn + pyval) \<Rightarrow>
     meta_decoder \<Rightarrow> 'h host_entry \<Rightarrow> string \<Rightarrow> native_bridge \<Rightarrow> string \<Rightarrow> string \<Rightarrow> string \<Rightarrow>
     pyval \<Rightarrow> nat \<Rightarrow> 'h \<Rightarrow> (exn + pyval) \<times> 'h" where
  "native_entry cd enc dec dec_meta entry word nb method rqm rsm request cancels h =
     (case bindE (ensure_open nb) (\<lambda>_. encode_message cd enc rqm request) of
        Inl e \<Rightarrow> (Inl e, h)
      | Inr data \<Rightarrow>
         (case entry method rqm rsm data h of
            (r, h1) \<Rightarrow>
              ((case run_native (replicate cancels CallerCancelled @ [WorkerDone r]) of
                  Some (Inr r1) \<Rightarrow>
                    bindE (guard_native dec_meta (''native bridge '' @ word @ '' failed for '' @ method) r1)
                      (\<lambda>payload. bindE (bytes_of payload rsm) (decode_message cd dec rsm))
                | Some (Inl e) \<Rightarrow> Inl e
                | None \<Rightarrow> Inl CancelledError), h1)))"

definition nb_call where
  "nb_call cd enc dec dec_meta entry = native_entry cd enc dec dec_meta entry ''call''"

definition nb_submit where
  "nb_submit cd enc dec dec_meta entry = native_entry cd enc dec dec_meta entry ''submit''"

text \<open>The look-ups by operation, and the two logs, given the outcome of the native function.\<close>

definition nb_operation_result ::
    "codec \<Rightarrow> (string \<Rightarrow> string \<Rightarrow> exn + pyval) \<Rightarrow> meta_decoder \<Rightarrow> string \<Rightarrow>
     native_exn + native_payload \<Rightarrow> exn + pyval" where
  "nb_operation_result cd dec dec_meta opid r =
     bindE (guard_native dec_meta (''native operation result lookup failed for '' @ opid) r) (\<lambda>payload.
     bindE (result_message_name cd OPERATION_RESULT_METHOD DEFAULT_SERVICE) (\<lambda>name.
     bindE (bytes_of payload name) (decode_message cd dec name)))"

definition nb_merge_operation_response ::
    "codec \<Rightarrow> (string \<Rightarrow> string \<Rightarrow> exn + pyval) \<Rightarrow> meta_decoder \<Rightarrow> string \<Rightarrow>
     native_exn + native_payload \<Rightarrow> exn + pyval" where
  "nb_merge_operation_response cd dec dec_meta opid r =
     bindE (guard_native dec_meta (''native merge response lookup failed for '' @ opid) r) (\<lambda>payload.
     bindE (bytes_of payload ''MergeResponse'') (decode_message cd dec ''MergeResponse''))"

definition decode_records ::
    "codec \<Rightarrow> (string \<Rightarrow> string \<Rightarrow> exn + pyval) \<Rightarrow> string \<Rightarrow> native_payload list \<Rightarrow> exn + pyval list" where
  "decode_records cd dec name items =
     mapE (\<lambda>item. bindE (bytes_of item name) (decode_message cd dec name)) items"

definition nb_diff_log_read where
  "nb_diff_log_read cd dec log_id stream_id r =
     bindE (guard_plain (''native diff.output read failed for '' @ log_id @ ''/'' @ stream_id) r)
       (\<lambda>(items, next_cursor :: int, st :: string).
         bindE (decode_records cd dec ''DiffOutputRecord'' items) (\<lambda>records.
           Inr (records, next_cursor, st)))"

definition nb_diff_log_end_stream :: "string \<Rightarrow> string \<Rightarrow> native_exn + unit \<Rightarrow> exn + unit" where
  "nb_diff_log_end_stream log_id stream_id r =
     guard_plain (''native diff.output end_stream failed for '' @ log_id @ ''/'' @ stream_id) r"

definition nb_log_output_read where
  "nb_log_output_read cd dec dec_meta log_id r =
     bindE (guard_native dec_meta (''native log output read failed for '' @ log_id) r)
       (\<lambda>(items, next_cursor :: int, st :: string).
         bindE (decode_records cd dec ''LogOutputRecord'' items) (\<lambda>records.
           Inr (records, next_cursor, st)))"

definition nb_log_output_release :: "meta_decoder \<Rightarrow> string \<Rightarrow> native_exn + unit \<Rightarrow> exn + unit" where
  "nb_log_output_release dec_meta log_id r =
     guard_native dec_meta (''native log output release failed for '' @ log_id) r"

definition cleanup_of :: "int \<times> bool \<Rightarrow> transport_cleanup" where
  "cleanup_of report =
     \<lparr>tc_pending_local_work = fst report, tc_peer_cleanup_confirmed = snd report\<rparr>"

definition nb_cancel_operation ::
    "meta_decoder \<Rightarrow> string \<Rightarrow> native_exn + int \<times> bool \<Rightarrow> exn + transport_cleanup" where
  "nb_cancel_operation dec_meta opid r =
     bindE (guard_native dec_meta (''native cancel failed for '' @ opid) r) (\<lambda>report. Inr (cleanup_of report))"

definition nb_release_operation :: "string \<Rightarrow> exn + unit" where
  "nb_release_operation opid =
     Inl (GwzBridgeError (bridge_fault ''native operation release is unavailable''
            (Some ''UnsupportedOperation'')))"

definition keep_close_report ::
    "native_bridge \<Rightarrow> int \<times> bool \<Rightarrow> transport_cleanup \<times> native_bridge" where
  "keep_close_report nb report =
     (case nb_close_result nb of
        None \<Rightarrow> (cleanup_of report, nb\<lparr>nb_close_result := Some (cleanup_of report)\<rparr>)
      | Some r \<Rightarrow> (r, nb))"

subsection \<open>The life of a bridge\<close>

text \<open>
  Calls and closes of one client interleave on the event loop, and the host's close runs on a
  thread of its own. A step is what happens between two suspensions: a call passes or fails
  \<open>_ensure_open\<close> and reaches its host entry, a close marks the bridge and starts the host's close, a
  worker ends with a report (the close returns the kept one, or, if its caller was cancelled,
  keeps it and raises) or with an exception. The trace lists the calls that reached the host, the
  closes begun and the reports closes returned, in order.
\<close>

datatype life_event =
    CallStarted string
  | CallRefused string
  | CloseBegun
  | CloseReturned transport_cleanup
  | CloseCancelled
  | CloseFailed

record life =
  lf_bridge :: native_bridge
  lf_closing :: nat
  lf_trace :: "life_event list"

definition life_start :: life where
  "life_start = \<lparr>lf_bridge = new_bridge, lf_closing = 0, lf_trace = []\<rparr>"

inductive life_step :: "life \<Rightarrow> life \<Rightarrow> bool" where
  step_call: "ensure_open (lf_bridge s) = Inr () \<Longrightarrow>
    life_step s (s\<lparr>lf_trace := lf_trace s @ [CallStarted method]\<rparr>)"
| step_refuse: "ensure_open (lf_bridge s) = Inl e \<Longrightarrow>
    life_step s (s\<lparr>lf_trace := lf_trace s @ [CallRefused method]\<rparr>)"
| step_close: "life_step s
    (s\<lparr>lf_bridge := (lf_bridge s)\<lparr>nb_closed := True\<rparr>, lf_closing := Suc (lf_closing s),
       lf_trace := lf_trace s @ [CloseBegun]\<rparr>)"
| step_report: "0 < lf_closing s \<Longrightarrow> keep_close_report (lf_bridge s) report = (r, nb) \<Longrightarrow>
    life_step s (s\<lparr>lf_bridge := nb, lf_closing := lf_closing s - 1,
                   lf_trace := lf_trace s @ [CloseReturned r]\<rparr>)"
| step_cancel: "0 < lf_closing s \<Longrightarrow> keep_close_report (lf_bridge s) report = (r, nb) \<Longrightarrow>
    life_step s (s\<lparr>lf_bridge := nb, lf_closing := lf_closing s - 1,
                   lf_trace := lf_trace s @ [CloseCancelled]\<rparr>)"
| step_fail: "0 < lf_closing s \<Longrightarrow>
    life_step s (s\<lparr>lf_closing := lf_closing s - 1, lf_trace := lf_trace s @ [CloseFailed]\<rparr>)"

inductive_cases life_stepE: "life_step s t"

inductive life_reach :: "life \<Rightarrow> bool" where
  reach_start: "life_reach life_start"
| reach_step: "life_reach s \<Longrightarrow> life_step s t \<Longrightarrow> life_reach t"

text \<open>
  The invariant: the bridge is marked closed exactly when a close has begun, no call started after
  that, the kept report never changes, and every report a close returned is the kept one.
\<close>

definition after_first :: "life_event list \<Rightarrow> life_event list" where
  "after_first tr = dropWhile (\<lambda>q. q \<noteq> CloseBegun) tr"

definition life_inv :: "life \<Rightarrow> bool" where
  "life_inv s \<longleftrightarrow>
     (nb_closed (lf_bridge s) \<longleftrightarrow> CloseBegun \<in> set (lf_trace s)) \<and>
     (\<forall>m. CallStarted m \<notin> set (after_first (lf_trace s))) \<and>
     (\<forall>r. CloseReturned r \<in> set (lf_trace s) \<longrightarrow> nb_close_result (lf_bridge s) = Some r)"

lemma after_first_snoc:
  "after_first (tr @ [q]) =
     (if CloseBegun \<in> set tr then after_first tr @ [q] else if q = CloseBegun then [q] else [])"
proof (cases "CloseBegun \<in> set tr")
  case True
  then show ?thesis by (simp add: after_first_def dropWhile_append1)
next
  case False
  then have "dropWhile (\<lambda>q. q \<noteq> CloseBegun) tr = []" by (auto simp: dropWhile_eq_Nil_conv)
  with False show ?thesis by (auto simp: after_first_def dropWhile_append2)
qed

lemma keep_close_report_stable:
  "keep_close_report nb report = (r, nb1) \<Longrightarrow>
     nb_close_result nb1 = Some r \<and> nb_closed nb1 = nb_closed nb \<and>
     (nb_close_result nb \<noteq> None \<longrightarrow> nb1 = nb)"
  by (auto simp: keep_close_report_def split: option.splits)

lemma life_inv_step: "life_step s t \<Longrightarrow> life_inv s \<Longrightarrow> life_inv t"
  by (erule life_stepE)
    (auto simp: life_inv_def after_first_snoc ensure_open_def guardE_def
      dest!: keep_close_report_stable split: if_splits)

lemma life_reach_inv: "life_reach s \<Longrightarrow> life_inv s"
proof (induction rule: life_reach.induct)
  case reach_start
  then show ?case by (simp add: life_inv_def life_start_def new_bridge_def after_first_def)
qed (rule life_inv_step)

subsection \<open>The event stream\<close>

text \<open>
  \<open>subscribe_events\<close>: wait for the events from the next sequence on, decode, skip those seen, yield
  the rest, until the wait reports completion. One unit of fuel per wait. Without \<open>wait_events\<close> the
  module's list of events is decoded and yielded as it is.
\<close>

definition EVENT_WAIT_TIMEOUT_MS :: int where
  "EVENT_WAIT_TIMEOUT_MS = 30000"

type_synonym event_decoder = "native_payload \<Rightarrow> exn + operation_event"

type_synonym 'h event_wait =
  "string \<Rightarrow> int \<Rightarrow> int \<Rightarrow> 'h \<Rightarrow> (native_exn + (native_payload list \<times> bool)) \<times> 'h"

fun take_new :: "event_decoder \<Rightarrow> int \<Rightarrow> native_payload list \<Rightarrow> operation_event list \<times> int \<times> exn option" where
  "take_new dec next_sequence [] = ([], next_sequence, None)"
| "take_new dec next_sequence (item # items) =
     (case dec item of
        Inl e \<Rightarrow> ([], next_sequence, Some e)
      | Inr event \<Rightarrow>
          if ev_sequence event < next_sequence then take_new dec next_sequence items
          else (case take_new dec (ev_sequence event + 1) items of
                  (events, n, fault) \<Rightarrow> (event # events, n, fault)))"

fun wait_loop ::
    "meta_decoder \<Rightarrow> event_decoder \<Rightarrow> 'h event_wait \<Rightarrow> string \<Rightarrow> nat \<Rightarrow> int \<Rightarrow> operation_event list \<Rightarrow>
     'h \<Rightarrow> (operation_event list \<times> (exn + unit) \<times> 'h) option" where
  "wait_loop dec_meta dec wait opid 0 next_sequence seen h = None"
| "wait_loop dec_meta dec wait opid (Suc n) next_sequence seen h =
     (case wait opid next_sequence EVENT_WAIT_TIMEOUT_MS h of
        (r, h1) \<Rightarrow>
         (case guard_native dec_meta (''native event wait failed for '' @ opid) r of
            Inl e \<Rightarrow> Some (seen, Inl e, h1)
          | Inr (items, complete) \<Rightarrow>
             (case take_new dec next_sequence items of
                (events, next1, Some e) \<Rightarrow> Some (seen @ events, Inl e, h1)
              | (events, next1, None) \<Rightarrow>
                 if complete then Some (seen @ events, Inr (), h1)
                 else wait_loop dec_meta dec wait opid n next1 (seen @ events) h1)))"

fun decode_all :: "event_decoder \<Rightarrow> native_payload list \<Rightarrow> operation_event list \<times> (exn + unit)" where
  "decode_all dec [] = ([], Inr ())"
| "decode_all dec (item # items) =
     (case dec item of
        Inl e \<Rightarrow> ([], Inl e)
      | Inr event \<Rightarrow> (case decode_all dec items of (events, r) \<Rightarrow> (event # events, r)))"

definition subscribe_events ::
    "meta_decoder \<Rightarrow> event_decoder \<Rightarrow> 'h event_wait option \<Rightarrow>
     (string \<Rightarrow> 'h \<Rightarrow> (native_exn + native_payload list) \<times> 'h) \<Rightarrow> string \<Rightarrow> nat \<Rightarrow> 'h \<Rightarrow>
     (operation_event list \<times> (exn + unit) \<times> 'h) option" where
  "subscribe_events dec_meta dec wait subscribe opid n h =
     (case wait of
        Some w \<Rightarrow> wait_loop dec_meta dec w opid n 0 [] h
      | None \<Rightarrow>
         (case subscribe opid h of
            (r, h1) \<Rightarrow>
             (case guard_native dec_meta (''native event subscription failed for '' @ opid) r of
                Inl e \<Rightarrow> Some ([], Inl e, h1)
              | Inr items \<Rightarrow> (case decode_all dec items of (events, r1) \<Rightarrow> Some (events, r1, h1)))))"

lemma take_new_sorted:
  "take_new dec k items = (events, k1, fault) \<Longrightarrow>
     k \<le> k1 \<and> sorted_wrt (<) (map ev_sequence events) \<and>
     (\<forall>x\<in>set events. k \<le> ev_sequence x \<and> ev_sequence x < k1)"
proof (induction dec k items arbitrary: events k1 fault rule: take_new.induct)
  case (2 dec k item items)
  show ?case
  proof (cases "dec item")
    case (Inl e)
    with 2(3) show ?thesis by simp
  next
    case (Inr x)
    show ?thesis
    proof (cases "ev_sequence x < k")
      case True
      with 2(1) [OF Inr True] 2(3) Inr show ?thesis by simp
    next
      case False
      obtain es n f where r: "take_new dec (ev_sequence x + 1) items = (es, n, f)"
        by (metis prod.exhaust)
      with 2(3) Inr False have e: "events = x # es" "k1 = n" by auto
      from 2(2) [OF Inr False r] have
        "ev_sequence x + 1 \<le> n" "sorted_wrt (<) (map ev_sequence es)"
        "\<forall>y\<in>set es. ev_sequence x + 1 \<le> ev_sequence y \<and> ev_sequence y < n" by auto
      with e False show ?thesis by force
    qed
  qed
qed simp

lemma wait_loop_sorted:
  "wait_loop dec_meta dec wait opid n k seen h = Some (out, r, h1) \<Longrightarrow>
     sorted_wrt (<) (map ev_sequence seen) \<Longrightarrow> (\<forall>x\<in>set seen. 0 \<le> ev_sequence x \<and> ev_sequence x < k) \<Longrightarrow>
     0 \<le> k \<Longrightarrow> sorted_wrt (<) (map ev_sequence out) \<and> (\<forall>x\<in>set out. 0 \<le> ev_sequence x)"
proof (induction n arbitrary: k seen h)
  case (Suc n)
  obtain res h2 where w: "wait opid k EVENT_WAIT_TIMEOUT_MS h = (res, h2)" by fastforce
  show ?case
  proof (cases "guard_native dec_meta (''native event wait failed for '' @ opid) res")
    case (Inl e)
    with Suc.prems w show ?thesis by auto
  next
    case (Inr a)
    obtain items complete where a: "a = (items, complete)" by fastforce
    obtain events k1 fault where t: "take_new dec k items = (events, k1, fault)"
      by (metis prod.exhaust)
    note so = take_new_sorted [OF t]
    have s2: "sorted_wrt (<) (map ev_sequence (seen @ events))"
      using Suc.prems(2,3) so by (fastforce simp: sorted_wrt_append)
    have b2: "\<forall>x\<in>set (seen @ events). 0 \<le> ev_sequence x \<and> ev_sequence x < k1"
      using Suc.prems(3,4) so by fastforce
    show ?thesis
    proof (cases fault)
      case None
      show ?thesis
      proof (cases complete)
        case True
        with Suc.prems(1) w Inr a t None s2 b2 show ?thesis by auto
      next
        case False
        with Suc.prems(1) w Inr a t None
        have "wait_loop dec_meta dec wait opid n k1 (seen @ events) h2 = Some (out, r, h1)" by simp
        from Suc.IH [OF this s2 b2] Suc.prems(4) so show ?thesis by simp
      qed
    next
      case (Some e)
      with Suc.prems(1) w Inr a t s2 b2 show ?thesis by auto
    qed
  qed
qed simp

text \<open>
  \<open>honest_wait\<close>: a module that holds the events \<open>evs\<close> of one operation. Each wait answers a window
  of the events published so far that leaves out only events before the sequence asked for;
  completion is reported only with everything published; each other answer uses up some of the
  waits the operation still has.
\<close>

definition honest_wait ::
    "event_decoder \<Rightarrow> 'h event_wait \<Rightarrow> string \<Rightarrow> operation_event list \<Rightarrow> ('h \<Rightarrow> nat) \<Rightarrow> bool" where
  "honest_wait dec wait opid evs waits \<longleftrightarrow>
     (\<forall>k t h. \<exists>items complete h1 j p.
        wait opid k t h = (Inr (items, complete), h1) \<and>
        mapE dec items = Inr (drop j (take p evs)) \<and>
        (\<forall>x\<in>set (take j evs). ev_sequence x < k) \<and>
        (if complete then length evs \<le> p else waits h1 < waits h))"

lemma take_new_skip:
  "mapE dec items = Inr es \<Longrightarrow> (\<forall>x\<in>set es. ev_sequence x < k) \<Longrightarrow>
     take_new dec k items = ([], k, None)"
  by (induction items arbitrary: es) (fastforce simp: bindE_eq_Inr)+

lemma take_new_fresh:
  "mapE dec items = Inr es \<Longrightarrow> sorted_wrt (<) (map ev_sequence es) \<Longrightarrow>
     (\<forall>x\<in>set es. k \<le> ev_sequence x) \<Longrightarrow>
     take_new dec k items =
       (es, if es = [] then k else ev_sequence (last es) + 1, None)"
proof (induction items arbitrary: es k)
  case (Cons item items)
  then obtain x xs where e: "dec item = Inr x" "mapE dec items = Inr xs" "es = x # xs"
    by (auto simp: bindE_eq_Inr)
  moreover have "\<forall>y\<in>set xs. ev_sequence x + 1 \<le> ev_sequence y"
    using Cons.prems(2) e(3) by fastforce
  ultimately show ?case using Cons.IH [of xs "ev_sequence x + 1"] Cons.prems by auto
qed simp

lemma take_new_append:
  "mapE dec items = Inr (xs @ ys) \<Longrightarrow> (\<forall>x\<in>set xs. ev_sequence x < k) \<Longrightarrow>
     \<exists>items'. mapE dec items' = Inr ys \<and> take_new dec k items = take_new dec k items'"
proof (induction xs arbitrary: items)
  case (Cons x xs)
  then obtain item rest where "items = item # rest" "dec item = Inr x" "mapE dec rest = Inr (xs @ ys)"
    by (cases items) (auto simp: bindE_eq_Inr)
  with Cons.IH [of rest] Cons.prems(2) show ?case by auto
qed auto

text \<open>After \<open>q\<close> events have been yielded the loop asks for the sequence after the last of them.\<close>

definition next_after :: "operation_event list \<Rightarrow> nat \<Rightarrow> int" where
  "next_after evs q = (if q = 0 then 0 else ev_sequence (evs ! (q - 1)) + 1)"

lemma next_after_split:
  assumes "sorted_wrt (<) (map ev_sequence evs)" and "\<forall>x\<in>set evs. 0 \<le> ev_sequence x"
    and "q \<le> length evs" and "i < length evs"
  shows "ev_sequence (evs ! i) < next_after evs q \<longleftrightarrow> i < q"
proof (cases "q = 0")
  case True
  with assms(2,4) show ?thesis by (auto simp: next_after_def not_less)
next
  case False
  have mono: "ev_sequence (evs ! a) < ev_sequence (evs ! b)" if "a < b" "b < length evs" for a b
    using assms(1) that by (simp add: sorted_wrt_iff_nth_less)
  have lo: "ev_sequence (evs ! i) \<le> ev_sequence (evs ! (q - 1))" if "i < q"
  proof (cases "i = q - 1")
    case False
    with that assms(3) have "i < q - 1" "q - 1 < length evs" by auto
    then show ?thesis using mono less_imp_le by blast
  qed simp
  have hi: "ev_sequence (evs ! (q - 1)) < ev_sequence (evs ! i)" if "\<not> i < q"
    using that False assms(4) by (intro mono) auto
  from False lo hi show ?thesis by (fastforce simp: next_after_def)
qed

lemma window_step:
  assumes so: "sorted_wrt (<) (map ev_sequence evs)" and nn: "\<forall>x\<in>set evs. 0 \<le> ev_sequence x"
    and q: "q \<le> length evs"
    and it: "mapE dec items = Inr (drop j (take p evs))"
    and j: "\<forall>x\<in>set (take j evs). ev_sequence x < next_after evs q"
  shows "take_new dec (next_after evs q) items =
    (drop q (take p evs), next_after evs (max q (min p (length evs))), None)"
proof -
  have jq: "j \<le> q \<or> length evs \<le> q"
  proof (rule ccontr)
    assume "\<not> ?thesis"
    then have "evs ! q \<in> set (take j evs)" "q < length evs"
      by (auto simp: in_set_conv_nth intro!: exI [of _ q])
    with j next_after_split [OF so nn q, of q] show False by blast
  qed
  let ?k = "next_after evs q" and ?T = "take p evs"
  note sp = next_after_split [OF so nn q]
  have dj: "drop j ?T = take (q - j) (drop j ?T) @ drop q ?T"
  proof (cases "j \<le> q")
    case True
    have "drop (q - j) (drop j ?T) = drop q ?T" using True by simp
    then show ?thesis by (metis append_take_drop_id)
  next
    case False
    with jq q have "drop j ?T = []" "drop q ?T = []" by auto
    then show ?thesis by simp
  qed
  have lo: "\<forall>x\<in>set (take (q - j) (drop j ?T)). ev_sequence x < ?k"
  proof
    fix x assume "x \<in> set (take (q - j) (drop j ?T))"
    then obtain i where i: "i < length (take (q - j) (drop j ?T))" "x = take (q - j) (drop j ?T) ! i"
      unfolding in_set_conv_nth by blast
    then have "i < q - j" "j + i < length ?T" "j \<le> length ?T" by auto
    moreover from this i have "x = ?T ! (j + i)" by simp
    ultimately show "ev_sequence x < ?k" using sp [of "j + i"] by auto
  qed
  have hi: "\<forall>x\<in>set (drop q ?T). ?k \<le> ev_sequence x"
  proof
    fix x assume "x \<in> set (drop q ?T)"
    then obtain i where i: "i < length (drop q ?T)" "x = drop q ?T ! i"
      unfolding in_set_conv_nth by blast
    then have "q + i < length ?T" "q \<le> length ?T" by auto
    moreover from this i have "x = ?T ! (q + i)" by simp
    ultimately show "?k \<le> ev_sequence x" using sp [of "q + i"] by auto
  qed
  obtain items' where i': "mapE dec items' = Inr (drop q ?T)"
    "take_new dec ?k items = take_new dec ?k items'"
    using take_new_append [OF _ lo, of dec items "drop q ?T"] it
    by (auto simp only: dj [symmetric])
  have "sorted_wrt (<) (map ev_sequence (drop q ?T))"
    using so by (simp add: sorted_wrt_map sorted_wrt_drop sorted_wrt_take)
  from take_new_fresh [OF i'(1) this hi] i'(2)
  have r: "take_new dec ?k items =
      (drop q ?T, if drop q ?T = [] then ?k else ev_sequence (last (drop q ?T)) + 1, None)"
    by simp
  show ?thesis
  proof (cases "q < min p (length evs)")
    case True
    then have ne: "drop q ?T \<noteq> []" "?T \<noteq> []" by auto
    have "last (drop q ?T) = evs ! (min p (length evs) - 1)"
      using ne by (cases "p \<le> length evs") (auto simp: last_conv_nth min_def)
    note ne = ne this
    with True r ne show ?thesis by (auto simp: next_after_def max_def)
  next
    case False
    then have "drop q ?T = []" "max q (min p (length evs)) = q" by auto
    with r show ?thesis by simp
  qed
qed

text \<open>The loop, having yielded \<open>q\<close> events of an honest module, yields the others and returns.\<close>

lemma wait_loop_honest:
  assumes so: "sorted_wrt (<) (map ev_sequence evs)" and nn: "\<forall>x\<in>set evs. 0 \<le> ev_sequence x"
    and ho: "honest_wait dec wait opid evs waits"
  shows "q \<le> length evs \<Longrightarrow>
    \<exists>n h1. wait_loop dec_meta dec wait opid n (next_after evs q) (take q evs) h = Some (evs, Inr (), h1)"
proof (induction "waits h" arbitrary: h q rule: less_induct)
  case less
  obtain items complete h1 j p where w: "wait opid (next_after evs q) EVENT_WAIT_TIMEOUT_MS h =
      (Inr (items, complete), h1)" "mapE dec items = Inr (drop j (take p evs))"
    "\<forall>x\<in>set (take j evs). ev_sequence x < next_after evs q"
    "if complete then length evs \<le> p else waits h1 < waits h"
    using ho unfolding honest_wait_def by blast
  note t = window_step [OF so nn less.prems w(2,3)]
  let ?q1 = "max q (min p (length evs))"
  have app: "take q evs @ drop q (take p evs) = take ?q1 evs"
  proof (cases "p \<le> q")
    case True
    with less.prems show ?thesis by (simp add: max_def min_def)
  next
    case False
    have "take q evs @ drop q (take p evs) = take p evs"
      using append_take_drop_id [of q "take p evs"] False by (simp add: min_def)
    with False less.prems show ?thesis by (simp add: max_def min_def)
  qed
  show ?case
  proof (cases complete)
    case True
    with w(4) app less.prems have "take q evs @ drop q (take p evs) = evs" by simp
    with True w(1) t have "wait_loop dec_meta dec wait opid (Suc 0) (next_after evs q) (take q evs) h =
        Some (evs, Inr (), h1)" by (simp add: guard_native_def)
    then show ?thesis by blast
  next
    case False
    with w(4) less.hyps [of h1 ?q1] obtain n h2 where
      "wait_loop dec_meta dec wait opid n (next_after evs ?q1) (take ?q1 evs) h1 = Some (evs, Inr (), h2)"
      using less.prems by auto
    with False w(1) t app have "wait_loop dec_meta dec wait opid (Suc n) (next_after evs q) (take q evs) h =
        Some (evs, Inr (), h2)" by (simp add: guard_native_def)
    then show ?thesis by blast
  qed
qed

subsection \<open>Properties\<close>


definition sample_life :: life where
  "sample_life =
     \<lparr>lf_bridge = \<lparr>nb_closed = True, nb_close_result = Some (cleanup_of (2, True))\<rparr>, lf_closing = 0,
      lf_trace = [CallStarted ''fetch'', CloseBegun, CloseBegun, CloseReturned (cleanup_of (2, True)),
                  CloseReturned (cleanup_of (2, True))]\<rparr>"

lemma sample_life_reached: "life_reach sample_life"
proof -
  let ?b = "\<lparr>nb_closed = True, nb_close_result = Some (cleanup_of (2, True))\<rparr>"
  define s1 where "s1 = life_start\<lparr>lf_trace := [CallStarted ''fetch'']\<rparr>"
  define s2 where "s2 = s1\<lparr>lf_bridge := new_bridge\<lparr>nb_closed := True\<rparr>, lf_closing := 1,
      lf_trace := [CallStarted ''fetch'', CloseBegun]\<rparr>"
  define s3 where "s3 = s2\<lparr>lf_closing := 2, lf_trace := [CallStarted ''fetch'', CloseBegun, CloseBegun]\<rparr>"
  define s4 where "s4 = s3\<lparr>lf_bridge := ?b, lf_closing := 1,
      lf_trace := [CallStarted ''fetch'', CloseBegun, CloseBegun, CloseReturned (cleanup_of (2, True))]\<rparr>"
  note ds = s1_def s2_def s3_def s4_def life_start_def new_bridge_def
  have "life_step life_start s1"
    using step_call [of life_start "''fetch''"] by (simp add: ds ensure_open_def guardE_def)
  moreover have "life_step s1 s2" using step_close [of s1] by (simp add: ds)
  moreover have "life_step s2 s3" using step_close [of s2] by (simp add: ds numeral_2_eq_2)
  moreover have "life_step s3 s4"
    using step_report [of s3 "(2, True)" "cleanup_of (2, True)" ?b] by (simp add: ds keep_close_report_def)
  moreover have "life_step s4 sample_life"
    using step_report [of s4 "(0, False)" "cleanup_of (2, True)" ?b]
    by (simp add: ds keep_close_report_def sample_life_def)
  ultimately show ?thesis using reach_start reach_step by metis
qed


text \<open>
  C34: The event stream of a submitted operation is strictly increasing in the sequence number,
  whatever windows the native module answers, also when a wait or a decode fails.
\<close>

theorem events_strictly_increase:
  assumes "subscribe_events dec_meta dec (Some wait) subscribe opid n h = Some (events, r, h1)"
  shows "sorted_wrt (<) (map ev_sequence events) \<and> (\<forall>x\<in>set events. 0 \<le> ev_sequence x)"
  using assms wait_loop_sorted [of dec_meta dec wait opid n 0 "[]" h events r h1]
  by (simp add: subscribe_events_def)

definition blank_event :: "int \<Rightarrow> operation_event" where
  "blank_event n =
     \<lparr>ev_operation_id = ''op1'', ev_request_id = ''req_1'', ev_sequence = n,
      ev_timestamp_ms = 5, ev_kind = EventKind_operation_started, ev_severity = Severity_info,
      ev_member_id = None, ev_member_path = None, ev_message = None, ev_member = None,
      ev_error = None, ev_attribution = None, ev_progress = None, ev_target_kind = None,
      ev_merge_state = None, ev_merge_member = None, ev_artifact_path = None\<rparr>"

definition sample_decode :: event_decoder where
  "sample_decode item = bindE (bytes_of item ''OperationEvent'') (\<lambda>b. Inr (blank_event (int (length b))))"

definition sample_wait :: "nat event_wait" where
  "sample_wait opid k t h =
     (Inr (if h = 1 then ([NativeBytes [], NativeByteArray ''a''], False)
           else ([NativeBytes [], NativeBytes ''a'', NativeMemoryView ''aaa''], True)), h - 1)"

theorem events_strictly_increase_witness:
  "sorted_wrt (<) (map ev_sequence [blank_event 0, blank_event 1, blank_event 3])"
proof -
  have "subscribe_events (\<lambda>d. Inl (ValueError [])) sample_decode (Some sample_wait)
      (\<lambda>opid h. (Inr [], h)) ''op1'' 3 1 = Some ([blank_event 0, blank_event 1, blank_event 3], Inr (), 0)"
    by (simp add: subscribe_events_def sample_wait_def sample_decode_def numeral_3_eq_3 blank_event_def
        guard_native_def)
  from events_strictly_increase [OF this] show ?thesis by blast
qed

text \<open>
  C7: No event is lost or repeated: with a native module that holds the operation's events in
  sequence order and answers windows of them that may overlap (\<open>honest_wait\<close>), the stream with
  enough waits yields exactly those events and then ends normally.
\<close>

theorem events_complete:
  assumes "sorted_wrt (<) (map ev_sequence evs)" and "\<forall>x\<in>set evs. 0 \<le> ev_sequence x"
    and "honest_wait dec wait opid evs waits"
  shows "\<exists>n h1. subscribe_events dec_meta dec (Some wait) subscribe opid n h = Some (evs, Inr (), h1)"
  using wait_loop_honest [OF assms, of 0 dec_meta h] by (simp add: subscribe_events_def next_after_def)

lemma sample_wait_honest:
  "honest_wait sample_decode sample_wait ''op1'' [blank_event 0, blank_event 1, blank_event 3] (\<lambda>h. h)"
  unfolding honest_wait_def
proof (intro allI)
  fix k t :: int and h :: nat
  let ?evs = "[blank_event 0, blank_event 1, blank_event 3]"
  let ?part = "[NativeBytes [], NativeByteArray ''a'']"
  let ?all = "[NativeBytes [], NativeBytes ''a'', NativeMemoryView ''aaa'']"
  have "sample_wait ''op1'' k t h = (Inr (if h = 1 then (?part, False) else (?all, True)), h - 1)"
    "mapE sample_decode ?part = Inr (drop 0 (take 2 ?evs))"
    "mapE sample_decode ?all = Inr (drop 0 (take 3 ?evs))"
    by (simp_all add: sample_wait_def sample_decode_def)
  then show "\<exists>items complete h1 j p. sample_wait ''op1'' k t h = (Inr (items, complete), h1) \<and>
      mapE sample_decode items = Inr (drop j (take p ?evs)) \<and>
      (\<forall>x\<in>set (take j ?evs). ev_sequence x < k) \<and>
      (if complete then length ?evs \<le> p else h1 < h)"
    by (cases "h = 1")
      ((rule exI [of _ ?part], rule exI [of _ False], rule exI [of _ "h - 1"], rule exI [of _ 0],
        rule exI [of _ 2], simp),
       (rule exI [of _ ?all], rule exI [of _ True], rule exI [of _ "h - 1"], rule exI [of _ 0],
        rule exI [of _ 3], simp))
qed

theorem events_complete_witness:
  "\<exists>n h1. subscribe_events (\<lambda>d. Inl (ValueError [])) sample_decode (Some sample_wait)
     (\<lambda>opid h. (Inr [], h)) ''op1'' n 1 =
     Some ([blank_event 0, blank_event 1, blank_event 3], Inr (), h1)"
  using events_complete [OF _ _ sample_wait_honest, of "\<lambda>d. Inl (ValueError [])"
      "\<lambda>opid h. (Inr [], h)" 1]
  by (simp add: blank_event_def)



text \<open>
  The errors of a call: a closed bridge refuses before anything is encoded or run and leaves the
  host untouched; with a byte codec that keeps to gwz errors, every exception a call raises, other
  than a cancellation, is a gwz error.
\<close>

theorem native_entry_errors:
  assumes "native_entry cd enc dec dec_meta entry word nb method rqm rsm request cancels h = (Inl e, h1)"
    and "\<forall>m v x. enc m v = Inl x \<longrightarrow> is_gwz_error x"
    and "\<forall>d x. dec_meta d = Inl x \<longrightarrow> is_gwz_error x"
  shows "(is_gwz_error e \<or> e = CancelledError \<and> 0 < cancels) \<and>
    (nb_closed nb \<longrightarrow> e = invalid_request ''client is closed'' \<and> h1 = h)"
proof (cases "nb_closed nb")
  case True
  with assms(1) show ?thesis
    by (auto simp: native_entry_def ensure_open_def guardE_def invalid_request_def)
next
  case open_nb: False
  show ?thesis
  proof (cases "encode_message cd enc rqm request")
    case (Inl x)
    then have "is_gwz_error x"
      using assms(2)
      by (auto simp: encode_message_def message_class_def generated_class_def protocol_fault_def
          bindE_eq_Inl orRaise_def split: pyval.splits if_splits option.splits generated_item.splits)
    with Inl assms(1) open_nb show ?thesis by (simp add: native_entry_def ensure_open_def guardE_def)
  next
    case (Inr data)
    obtain r h2 where e: "entry method rqm rsm data h = (r, h2)" by fastforce
    show ?thesis
    proof (cases cancels)
      case (Suc k)
      with assms(1) open_nb Inr e show ?thesis
        by (auto simp: native_entry_def ensure_open_def guardE_def)
    next
      case 0
      have g: "is_gwz_error x" if "guard_native dec_meta p r = Inl x" for p x
        using that assms(3)
        by (auto simp: guard_native_def native_bridge_error_def bindE_eq_Inl protocol_fault_def
            split: sum.splits native_exn.splits option.splits elim!: bytes_of.elims)
      have b: "is_gwz_error x" if "bytes_of p m = Inl x" for p m x
        using that by (cases p) (auto simp: protocol_fault_def)
      have d: "is_gwz_error x" if "decode_message cd dec rsm y = Inl x" for x y
        using that by (auto simp: decode_message_def message_class_def generated_class_def
          protocol_fault_def bindE_eq_Inl orRaise_def split: sum.splits exn.splits if_splits
          option.splits generated_item.splits)
      from 0 assms(1) open_nb Inr e g b d show ?thesis
        by (auto simp: native_entry_def ensure_open_def guardE_def bindE_eq_Inl)
    qed
  qed
qed

theorem native_entry_errors_witness:
  "is_gwz_error (invalid_request ''client is closed'')"
proof -
  have "native_entry sample_codec (\<lambda>m v. Inr ''d'') (\<lambda>m d. Inr sample_payload) (\<lambda>d. Inr undefined)
     (\<lambda>m rqm rsm d h. (Inr (NativeBytes d), Suc h)) ''call'' (new_bridge\<lparr>nb_closed := True\<rparr>)
     ''ls'' ''M'' ''M'' sample_leaf 0 0 = (Inl (invalid_request ''client is closed''), 0)"
    by (simp add: native_entry_def ensure_open_def guardE_def)
  from native_entry_errors [OF this] show ?thesis by simp
qed

end
