(* ===== verification/ClientLife.thy ===== *)
theory ClientLife
  imports NativeBridge ClientCalls
begin

section \<open>The life of a client\<close>

text \<open>
  Entering, using and closing a \<open>Client\<close> of \<^verbatim>\<open>src/gwz/client.py\<close>, and the close of the native bridge
  below it. A bridge is a record of what the client asks of it: an operation the bridge does not
  have is None. \<open>native_life\<close> makes such a bridge of \<open>NativeCoreBridge\<close>, whose state is the
  bridge's own with the host's behind it.
\<close>

subsection \<open>The client over any bridge\<close>

record 's life_bridge =
  lb_close :: "('s \<Rightarrow> (exn + transport_cleanup) \<times> 's) option"
  lb_close_report :: "'s \<Rightarrow> transport_cleanup option"
  lb_cancel :: "(string \<Rightarrow> 's \<Rightarrow> (exn + transport_cleanup) \<times> 's) option"
  lb_release :: "(string \<Rightarrow> 's \<Rightarrow> (exn + unit) \<times> 's) option"

text \<open>\<open>__aenter__\<close> and the property \<open>bridge\<close>: a closed client refuses, and a missing bridge is made.\<close>

definition client_bridge :: "exn + unit \<Rightarrow> client \<Rightarrow> exn + client" where
  "client_bridge make_bridge cl =
     (if cl_closed cl then Inl (invalid_request ''client is closed'')
      else if cl_has_bridge cl then Inr cl
      else bindE make_bridge (\<lambda>_. Inr (cl\<lparr>cl_has_bridge := True\<rparr>)))"

definition client_enter :: "exn + unit \<Rightarrow> client \<Rightarrow> exn + client" where
  "client_enter make_bridge cl = client_bridge make_bridge cl"

text \<open>\<open>close\<close>: a cancelled close takes over the report the bridge has by then.\<close>

definition client_close ::
    "'s life_bridge \<Rightarrow> client \<Rightarrow> 's \<Rightarrow> (exn + transport_cleanup option) \<times> client \<times> 's" where
  "client_close lb cl s =
     (let cl1 = cl\<lparr>cl_closed := True\<rparr>
      in if \<not> cl_has_bridge cl then (Inr None, cl1, s)
         else case lb_close lb of
           None \<Rightarrow> (Inr None, cl1, s)
         | Some close \<Rightarrow>
             (case close s of
                (Inr report, s1) \<Rightarrow> (Inr (Some report), cl1\<lparr>cl_close_report := Some report\<rparr>, s1)
              | (Inl e, s1) \<Rightarrow>
                  (Inl e,
                   if e = CancelledError then cl1\<lparr>cl_close_report := lb_close_report lb s1\<rparr> else cl1,
                   s1)))"

definition record_bridge :: "client \<Rightarrow> exn + unit" where
  "record_bridge cl =
     guardE (\<not> cl_has_bridge cl) (invalid_request ''operation is not owned by this client'')"

definition client_cancel_operation ::
    "'s life_bridge \<Rightarrow> client \<Rightarrow> string \<Rightarrow> 's \<Rightarrow> (exn + transport_cleanup) \<times> 's" where
  "client_cancel_operation lb cl opid s =
     (case record_bridge cl of
        Inl e \<Rightarrow> (Inl e, s)
      | Inr _ \<Rightarrow>
         (case lb_cancel lb of
            None \<Rightarrow> (Inl (GwzBridgeError (bridge_fault ''transport cancellation is unavailable''
                             (Some ''UnsupportedOperation''))), s)
          | Some cancel \<Rightarrow> cancel opid s))"

definition client_release_operation ::
    "'s life_bridge \<Rightarrow> client \<Rightarrow> string \<Rightarrow> 's \<Rightarrow> (exn + unit) \<times> 's" where
  "client_release_operation lb cl opid s =
     (case record_bridge cl of
        Inl e \<Rightarrow> (Inl e, s)
      | Inr _ \<Rightarrow>
         (case lb_release lb of
            None \<Rightarrow> (Inl (GwzBridgeError (bridge_fault ''operation release is unavailable''
                             (Some ''UnsupportedOperation''))), s)
          | Some release \<Rightarrow> release opid s))"

subsection \<open>The native bridge\<close>

text \<open>
  \<open>NativeCoreBridge.__init__\<close>, given the import of the extension: a failed import, or the module,
  whose \<open>ClientHost()\<close> may raise. A module that is passed in is used as it is.
\<close>

definition core_load_error :: exn where
  "core_load_error = GwzCoreLoadError (bridge_fault
     ''gwz._gwz_core is not installed yet; pass a custom bridge for tests or build the native gwz-core extension''
     None)"

definition new_native_bridge ::
    "'m option \<Rightarrow> unit + 'm \<Rightarrow> ('m \<Rightarrow> exn + 'h) \<Rightarrow> exn + native_bridge \<times> 'h" where
  "new_native_bridge passed import_core client_host =
     bindE (case passed of
              Some m \<Rightarrow> Inr m
            | None \<Rightarrow> (case import_core of Inl _ \<Rightarrow> Inl core_load_error | Inr m \<Rightarrow> Inr m)) (\<lambda>m.
     bindE (client_host m) (\<lambda>h. Inr (new_bridge, h)))"

text \<open>
  \<open>NativeCoreBridge.close\<close>, when its caller is cancelled \<open>cancels\<close> times before the host's close is
  done: the host's close always runs to its end, and its report is kept.
\<close>

definition native_close ::
    "meta_decoder \<Rightarrow> ('h \<Rightarrow> (native_error + int \<times> bool) \<times> 'h) \<Rightarrow> nat \<Rightarrow> native_bridge \<times> 'h \<Rightarrow>
     (exn + transport_cleanup) \<times> native_bridge \<times> 'h" where
  "native_close dec_meta host_close cancels st =
     (let nb = (fst st)\<lparr>nb_closed := True\<rparr>
      in case host_close (snd st) of
           (Inr report, h1) \<Rightarrow>
             (case keep_close_report nb report of
                (r, nb1) \<Rightarrow> (if cancels = 0 then Inr r else Inl CancelledError, nb1, h1))
         | (Inl err, h1) \<Rightarrow>
             (if cancels = 0 then Inl (native_bridge_error dec_meta ''native client close failed'' err)
              else Inl CancelledError, nb, h1))"

record 'h life_host =
  lh_close :: "'h \<Rightarrow> (native_error + int \<times> bool) \<times> 'h"
  lh_cancel :: "string \<Rightarrow> 'h \<Rightarrow> (native_exn + int \<times> bool) \<times> 'h"

definition native_life :: "meta_decoder \<Rightarrow> 'h life_host \<Rightarrow> nat \<Rightarrow> (native_bridge \<times> 'h) life_bridge" where
  "native_life dec_meta host cancels =
     \<lparr>lb_close = Some (native_close dec_meta (lh_close host) cancels),
      lb_close_report = (\<lambda>st. nb_close_result (fst st)),
      lb_cancel = Some (\<lambda>opid st. case lh_cancel host opid (snd st) of
        (r, h1) \<Rightarrow> (nb_cancel_operation dec_meta opid r, fst st, h1)),
      lb_release = Some (\<lambda>opid st. (nb_release_operation opid, st))\<rparr>"

subsection \<open>Every close leaves the same report\<close>

text \<open>A sequence of closes, each with its cancellations: what each returned, and the client after all.\<close>

fun client_closes ::
    "meta_decoder \<Rightarrow> 'h life_host \<Rightarrow> nat list \<Rightarrow> client \<Rightarrow> native_bridge \<times> 'h \<Rightarrow>
     (exn + transport_cleanup option) list \<times> client \<times> native_bridge \<times> 'h" where
  "client_closes dec_meta host [] cl st = ([], cl, st)"
| "client_closes dec_meta host (k # ks) cl st =
     (case client_close (native_life dec_meta host k) cl st of
        (res, cl1, st1) \<Rightarrow>
          (case client_closes dec_meta host ks cl1 st1 of
             (rs, cl2, st2) \<Rightarrow> (res # rs, cl2, st2)))"

lemma client_close_step:
  assumes "client_close (native_life dec_meta host k) cl st = (res, cl1, st1)" and "cl_has_bridge cl"
  shows "cl_closed cl1" "cl_has_bridge cl1" "nb_closed (fst st1)"
    "nb_close_result (fst st) = Some r \<Longrightarrow> nb_close_result (fst st1) = Some r"
    "res = Inr y \<Longrightarrow> y = nb_close_result (fst st1) \<and> cl_close_report cl1 = y"
    "res \<noteq> Inr None"
    "cl_close_report cl1 = cl_close_report cl \<or> cl_close_report cl1 = nb_close_result (fst st1)"
  using assms
  by (auto simp: client_close_def native_life_def native_close_def keep_close_report_def Let_def
      split: prod.splits sum.splits option.splits if_splits)

lemma client_closes_keep:
  assumes "client_closes dec_meta host ks cl st = (rs, cl1, st1)" and "cl_has_bridge cl"
  shows "(nb_close_result (fst st) = Some r \<longrightarrow> nb_close_result (fst st1) = Some r) \<and>
    (\<forall>y. Inr y \<in> set rs \<longrightarrow> y = nb_close_result (fst st1) \<and> y \<noteq> None) \<and>
    (cl_closed cl \<and> nb_closed (fst st) \<or> ks \<noteq> [] \<longrightarrow> cl_closed cl1 \<and> nb_closed (fst st1))"
  using assms
proof (induction ks arbitrary: cl st rs r)
  case (Cons k ks)
  obtain res cl2 st2 where c: "client_close (native_life dec_meta host k) cl st = (res, cl2, st2)"
    by (metis prod_cases3)
  with Cons.prems obtain rs2 where rs: "rs = res # rs2"
    "client_closes dec_meta host ks cl2 st2 = (rs2, cl1, st1)" by (auto split: prod.splits)
  note step = client_close_step [OF c Cons.prems(2)]
  note IH = Cons.IH [OF rs(2) step(2)]
  have kept: "nb_close_result (fst st) = Some r \<Longrightarrow> nb_close_result (fst st1) = Some r"
    using IH [of r] step(4) by blast
  have first: "y = nb_close_result (fst st1) \<and> y \<noteq> None" if y: "res = Inr y" for y
  proof -
    from step(5) [OF y] step(6) y obtain r2 where "y = Some r2" "nb_close_result (fst st2) = Some r2"
      by (cases y) auto
    with IH [of r2] show ?thesis by simp
  qed
  have shut: "cl_closed cl1 \<and> nb_closed (fst st1)"
    using IH [of r] step(1,3) by blast
  show ?case
    using kept first shut IH [of r] by (auto simp: rs(1))
qed auto

text \<open>
  C19: However often a client with a native bridge is closed, and however often the callers of those
  closes are cancelled, every close that returns returns the same report, the one the bridge keeps;
  after the first the client and the bridge refuse every further call.
\<close>

theorem client_closes_agree:
  assumes "client_closes dec_meta host ks cl st = (rs, cl1, st1)" and "cl_has_bridge cl" and "ks \<noteq> []"
  shows "(\<forall>y. Inr y \<in> set rs \<longrightarrow> y = nb_close_result (fst st1) \<and> y \<noteq> None) \<and>
    client_bridge opener cl1 = Inl (invalid_request ''client is closed'') \<and>
    ensure_open (fst st1) = Inl (invalid_request ''client is closed'')"
  using client_closes_keep [OF assms(1,2)] assms(3)
  by (auto simp: client_bridge_def ensure_open_def guardE_def)

text \<open>A client closed three times, the second time under two cancellations.\<close>

definition sample_life_host :: "unit life_host" where
  "sample_life_host = \<lparr>lh_close = (\<lambda>h. (Inr (2, True), h)), lh_cancel = (\<lambda>_ h. (Inr (0, True), h))\<rparr>"

theorem client_closes_agree_witness:
  "\<exists>rs cl1 st1. client_closes (\<lambda>_. Inl (ValueError ''no metadata'')) sample_life_host [0, 2, 0]
       \<lparr>cl_root = None, cl_has_bridge = True, cl_closed = False, cl_max_connections_per_host = None,
        cl_close_report = None\<rparr> (new_bridge, ()) = (rs, cl1, st1) \<and>
     rs = [Inr (Some (cleanup_of (2, True))), Inl CancelledError, Inr (Some (cleanup_of (2, True)))] \<and>
     nb_close_result (fst st1) = Some (cleanup_of (2, True)) \<and>
     client_bridge (Inr ()) cl1 = Inl (invalid_request ''client is closed'')"
  (is "\<exists>rs cl1 st1. ?run = _ \<and> _")
proof -
  obtain rs cl1 st1 where run: "?run = (rs, cl1, st1)" by (metis prod_cases3)
  moreover from run have "rs = [Inr (Some (cleanup_of (2, True))), Inl CancelledError,
      Inr (Some (cleanup_of (2, True)))] \<and> nb_close_result (fst st1) = Some (cleanup_of (2, True))"
    by (auto simp: client_close_def native_life_def native_close_def keep_close_report_def Let_def
        sample_life_host_def new_bridge_def)
  moreover from client_closes_agree [OF run] have
    "client_bridge (Inr ()) cl1 = Inl (invalid_request ''client is closed'')" by simp
  ultimately show ?thesis by blast
qed

end
