(* ===== verification/CliShared.thy ===== *)
theory CliShared
  imports RequestFacts
begin

section \<open>Shared parts of the command line\<close>

text \<open>
  \<^verbatim>\<open>src/gwz/cli_shared.py\<close>: the global options, which may stand before the command, after it or
  after a nested command, and their merge into one set; the raw-argument scans for \<^verbatim>\<open>diff\<close> and
  \<^verbatim>\<open>log\<close>; the URL scheme; the metadata keywords the options become; and the exit codes. The
  argument parser itself is Python's argparse. A parsed namespace is a record; what the parser
  stores for one position of the global options is a \<open>global_layer\<close>, an attribute being None when
  it is missing or None.
\<close>

subsection \<open>The options\<close>

definition GLOBAL_BOOL_OPTIONS :: "string list" where
  "GLOBAL_BOOL_OPTIONS =
     [''--all'', ''--dry-run'', ''--partial'', ''--force'', ''--json'', ''--jsonl'', ''--verbose'']"

definition GLOBAL_VALUE_OPTIONS :: "string list" where
  "GLOBAL_VALUE_OPTIONS =
     [''--identity'', ''--remote-identity'', ''--root'', ''--target'', ''--member'', ''--no-target'',
      ''--no-member'', ''--member-path'', ''--no-member-path'', ''--sync'', ''--remote'', ''--jobs'',
      ''--max-per-host'', ''--progress-interval'', ''--ssh-timeout'']"

definition GLOBAL_SINGLETON_OPTIONS :: "string list" where
  "GLOBAL_SINGLETON_OPTIONS =
     [''--identity'', ''--root'', ''--all'', ''--dry-run'', ''--partial'', ''--force'', ''--sync'',
      ''--remote'', ''--jobs'', ''--max-per-host'', ''--progress-interval'', ''--json'', ''--jsonl'',
      ''--verbose'', ''--ssh-timeout'']"

record global_layer =
  gl_targets :: "string list option"
  gl_exclude_targets :: "string list option"
  gl_member_paths :: "string list option"
  gl_remote_identities :: "remote_ssh_identity list option"
  gl_all_members :: "bool option"
  gl_dry_run :: "bool option"
  gl_partial :: "bool option"
  gl_destructive :: "bool option"
  gl_json :: "bool option"
  gl_jsonl :: "bool option"
  gl_verbose :: "bool option"
  gl_identity :: "string option"
  gl_root :: "string option"
  gl_sync :: "string option"
  gl_remote :: "string option"
  gl_jobs :: "int option"
  gl_max_connections_per_host :: "int option"
  gl_progress_min_interval_ms :: "int option"
  gl_ssh_timeout :: "int option"

definition no_layer :: global_layer where
  "no_layer =
     \<lparr>gl_targets = None, gl_exclude_targets = None, gl_member_paths = None,
      gl_remote_identities = None, gl_all_members = None, gl_dry_run = None, gl_partial = None,
      gl_destructive = None, gl_json = None, gl_jsonl = None, gl_verbose = None,
      gl_identity = None, gl_root = None, gl_sync = None, gl_remote = None, gl_jobs = None,
      gl_max_connections_per_host = None, gl_progress_min_interval_ms = None,
      gl_ssh_timeout = None\<rparr>"

record global_options =
  go_targets :: "string list"
  go_exclude_targets :: "string list"
  go_member_paths :: "string list"
  go_remote_identities :: "remote_ssh_identity list"
  go_all_members :: bool
  go_dry_run :: bool
  go_partial :: bool
  go_destructive :: bool
  go_json :: bool
  go_jsonl :: bool
  go_verbose :: bool
  go_identity :: "string option"
  go_root :: "string option"
  go_sync :: "string option"
  go_remote :: "string option"
  go_jobs :: "int option"
  go_max_connections_per_host :: "int option"
  go_progress_min_interval_ms :: "int option"
  go_ssh_timeout :: "int option"

text \<open>
  \<open>normalize_global_options\<close>, over the layers in the order bare name, \<^verbatim>\<open>_cmd_\<close>, \<^verbatim>\<open>_nested_\<close>: lists are
  concatenated, flags or-ed, and of a scalar the last value given wins.
\<close>

definition merge_list :: "('a list option) list \<Rightarrow> 'a list" where
  "merge_list vs = concat (map (\<lambda>v. case v of None \<Rightarrow> [] | Some xs \<Rightarrow> xs) vs)"

definition merge_bool :: "bool option list \<Rightarrow> bool" where
  "merge_bool vs = foldl (\<lambda>b v. b \<or> v = Some True) False vs"

fun override_scalar :: "'a option \<Rightarrow> 'a option list \<Rightarrow> 'a option" where
  "override_scalar x [] = x"
| "override_scalar x (None # vs) = override_scalar x vs"
| "override_scalar x (Some a # vs) = override_scalar (Some a) vs"

definition merge_scalar :: "'a option list \<Rightarrow> 'a option" where
  "merge_scalar vs = override_scalar None vs"

definition normalize_global_options :: "global_layer list \<Rightarrow> global_options" where
  "normalize_global_options ls =
     \<lparr>go_targets = merge_list (map gl_targets ls),
      go_exclude_targets = merge_list (map gl_exclude_targets ls),
      go_member_paths = merge_list (map gl_member_paths ls),
      go_remote_identities = merge_list (map gl_remote_identities ls),
      go_all_members = merge_bool (map gl_all_members ls),
      go_dry_run = merge_bool (map gl_dry_run ls),
      go_partial = merge_bool (map gl_partial ls),
      go_destructive = merge_bool (map gl_destructive ls),
      go_json = merge_bool (map gl_json ls),
      go_jsonl = merge_bool (map gl_jsonl ls),
      go_verbose = merge_bool (map gl_verbose ls),
      go_identity = merge_scalar (map gl_identity ls),
      go_root = merge_scalar (map gl_root ls),
      go_sync = merge_scalar (map gl_sync ls),
      go_remote = merge_scalar (map gl_remote ls),
      go_jobs = merge_scalar (map gl_jobs ls),
      go_max_connections_per_host = merge_scalar (map gl_max_connections_per_host ls),
      go_progress_min_interval_ms = merge_scalar (map gl_progress_min_interval_ms ls),
      go_ssh_timeout = merge_scalar (map gl_ssh_timeout ls)\<rparr>"

lemma merge_list_None [simp]: "merge_list (None # vs) = merge_list vs" "merge_list [] = []"
  by (simp_all add: merge_list_def)

lemma merge_list_append: "merge_list (us @ vs) = merge_list us @ merge_list vs"
  by (simp add: merge_list_def)

lemma merge_bool_iff: "merge_bool vs \<longleftrightarrow> Some True \<in> set vs"
proof -
  have "foldl (\<lambda>b v. b \<or> v = Some True) b vs \<longleftrightarrow> b \<or> Some True \<in> set vs" for b
    by (induction vs arbitrary: b) auto
  then show ?thesis by (simp add: merge_bool_def)
qed

lemma override_scalar_from:
  "override_scalar x vs = (case override_scalar None vs of None \<Rightarrow> x | Some a \<Rightarrow> Some a)"
proof (induction x vs rule: override_scalar.induct)
  case (3 x a vs)
  then show ?case by (cases "override_scalar None vs") auto
qed auto

lemma override_scalar_append: "override_scalar x (us @ vs) = override_scalar (override_scalar x us) vs"
  by (induction x us rule: override_scalar.induct) auto

lemma merge_scalar_append:
  "merge_scalar (us @ vs) = (case merge_scalar vs of None \<Rightarrow> merge_scalar us | Some a \<Rightarrow> Some a)"
  unfolding merge_scalar_def override_scalar_append by (rule override_scalar_from)

lemma merge_scalar_None [simp]: "merge_scalar (None # vs) = merge_scalar vs" "merge_scalar [] = None"
  by (simp_all add: merge_scalar_def)

subsection \<open>Scans of the raw arguments\<close>

text \<open>\<open>_top_level_command_index\<close>: the position of the first token that is not a global option.\<close>

function command_index_from :: "string list \<Rightarrow> nat \<Rightarrow> nat option" where
  "command_index_from raw index =
     (if index < length raw then
        (let token = raw ! index
         in if token = ''--'' then None
            else if token = ''-V'' \<or> token = ''--version'' then None
            else if starts_with ''--'' token then
              (case partition_at CHR 0x3D token of
                 (option, has_inline_value, v) \<Rightarrow>
                   if option \<in> set GLOBAL_VALUE_OPTIONS
                   then command_index_from raw (index + (if has_inline_value then 1 else 2))
                   else if option \<in> set GLOBAL_BOOL_OPTIONS then command_index_from raw (index + 1)
                   else Some index)
            else Some index)
      else None)"
  by pat_completeness auto
termination
  by (relation "measure (\<lambda>(raw, index). length raw - index)") (auto split: if_splits)

declare command_index_from.simps [simp del]

definition top_level_command_index :: "string list \<Rightarrow> nat option" where
  "top_level_command_index raw = command_index_from raw 0"

definition pathspecs_from_raw_args :: "string list \<Rightarrow> string \<Rightarrow> string list" where
  "pathspecs_from_raw_args raw command =
     (case top_level_command_index raw of
        None \<Rightarrow> []
      | Some i \<Rightarrow>
         if raw ! i \<noteq> command then []
         else (case find_index_from ''--'' raw (i + 1) of
                 None \<Rightarrow> []
               | Some k \<Rightarrow> drop (k + 1) raw))"

text \<open>\<open>normalize_command_pathspecs\<close> on the operands argparse collected: new operands and pathspecs.\<close>

definition normalize_command_pathspecs ::
    "string \<Rightarrow> string list \<Rightarrow> string list \<Rightarrow> string list \<times> string list" where
  "normalize_command_pathspecs command operands raw =
     (let pathspecs = pathspecs_from_raw_args raw command
      in if pathspecs = [] then (operands, [])
         else if drop (length operands - length pathspecs) operands = pathspecs
         then (take (length operands - length pathspecs) operands, pathspecs)
         else (operands, pathspecs))"

fun repeated_option :: "string list \<Rightarrow> string list \<Rightarrow> string option" where
  "repeated_option seen [] = None"
| "repeated_option seen (token # tokens) =
     (let option = fst (partition_at CHR 0x3D token)
      in if option \<notin> set GLOBAL_SINGLETON_OPTIONS then repeated_option seen tokens
         else if option \<in> set seen then Some option
         else repeated_option (option # seen) tokens)"

definition reject_repeated_log_global_singletons :: "string list \<Rightarrow> exn + unit" where
  "reject_repeated_log_global_singletons raw =
     (case top_level_command_index raw of
        None \<Rightarrow> Inr ()
      | Some i \<Rightarrow>
         if raw ! i \<noteq> ''log'' then Inr ()
         else (let stop = (case find_index_from ''--'' raw (i + 1) of None \<Rightarrow> length raw | Some k \<Rightarrow> k)
               in case repeated_option [] (take stop raw) of
                    None \<Rightarrow> Inr ()
                  | Some option \<Rightarrow>
                      Inl (ParserError (''argument '' @ option @ '': cannot be used multiple times''))))"

subsection \<open>Validation\<close>

definition usage_error :: "string \<Rightarrow> exn" where
  "usage_error m = CliUsageError m None"

text \<open>\<open>repo_sync_path\<close> is the member path of \<^verbatim>\<open>gwz repo sync\<close>, None for every other command.\<close>

definition validate_args :: "global_options \<Rightarrow> string option \<Rightarrow> exn + unit" where
  "validate_args g repo_sync_path =
     (if go_json g \<and> go_jsonl g then Inl (usage_error ''--json and --jsonl are mutually exclusive'')
      else if truthy repo_sync_path \<and>
              (go_all_members g \<or> go_targets g \<noteq> [] \<or> go_exclude_targets g \<noteq> [] \<or>
               go_member_paths g \<noteq> [])
      then Inl (usage_error ''repo sync member path cannot be combined with global selection'')
      else Inr ())"

definition remote_identity_argument :: "string \<Rightarrow> exn + remote_ssh_identity" where
  "remote_identity_argument v =
     (case partition_at CHR 0x3D v of
        (remote, found, path) \<Rightarrow>
          if \<not> found then Inl (ArgumentTypeError ''expected NAME=PATH for --remote-identity'')
          else Inr \<lparr>rsi_remote = remote, rsi_private_key_path = path\<rparr>)"

definition int_of_text :: "string \<Rightarrow> exn + int" where
  "int_of_text v =
     (case parse_int v of
        None \<Rightarrow> Inl (ValueError (''invalid literal for int() with base 10: '' @ py_repr v))
      | Some n \<Rightarrow> Inr n)"

definition positive_int :: "string \<Rightarrow> exn + int" where
  "positive_int v =
     bindE (int_of_text v) (\<lambda>n.
       if n \<le> 0 then Inl (ArgumentTypeError ''must be greater than zero'') else Inr n)"

definition non_negative_int :: "string \<Rightarrow> exn + int" where
  "non_negative_int v =
     bindE (int_of_text v) (\<lambda>n.
       if n < 0 then Inl (ArgumentTypeError ''must be zero or greater'') else Inr n)"

subsection \<open>The URL scheme\<close>

definition URL_SCHEME_ENV :: string where "URL_SCHEME_ENV = ''GWZ_URL_SCHEME''"

definition URL_SCHEME_CHOICES :: "string list" where
  "URL_SCHEME_CHOICES = [''manifest'', ''ssh'', ''https'']"

definition url_scheme_from_text :: "string \<Rightarrow> url_scheme option" where
  "url_scheme_from_text v =
     (let name = lower (strip v)
      in if name \<notin> set URL_SCHEME_CHOICES then None
         else (case enum_lookup url_scheme_name url_scheme_members name of
                 Inl e \<Rightarrow> None | Inr s \<Rightarrow> Some s))"

text \<open>The outer option is \<open>hasattr(args, "url_scheme")\<close>, the inner one the flag.\<close>

definition requested_url_scheme ::
    "string option option \<Rightarrow> (string \<Rightarrow> string option) \<Rightarrow> exn + url_scheme option" where
  "requested_url_scheme attr getenv =
     (case attr of
        None \<Rightarrow> Inr None
      | Some (Some flag) \<Rightarrow>
          bindE (enum_lookup url_scheme_name url_scheme_members flag) (\<lambda>s. Inr (Some s))
      | Some None \<Rightarrow>
         (case getenv URL_SCHEME_ENV of
            None \<Rightarrow> Inr None
          | Some v \<Rightarrow>
             if strip v = [] then Inr None
             else (case url_scheme_from_text v of
                     None \<Rightarrow> Inl (usage_error
                       (URL_SCHEME_ENV @ '' must be manifest, ssh or https, not '' @ [CHR 0x22] @ strip v @ [CHR 0x22]))
                   | Some s \<Rightarrow> Inr (Some s))))"

subsection \<open>Metadata keywords\<close>

definition some_if :: "bool \<Rightarrow> 'a \<Rightarrow> 'a option" where
  "some_if b x = (if b then Some x else None)"

lemma some_if_simps [simp]: "some_if True x = Some x" "some_if False x = None"
  by (simp_all add: some_if_def)

definition meta_kwargs ::
    "global_options \<Rightarrow> string option option \<Rightarrow> (string \<Rightarrow> string option) \<Rightarrow> exn + meta_kw" where
  "meta_kwargs g url_attr getenv =
     bindE (requested_url_scheme url_attr getenv) (\<lambda>url_scheme.
     bindE (case go_sync g of
              None \<Rightarrow> Inr None
            | Some s \<Rightarrow> bindE (enum_lookup sync_behavior_name sync_behavior_members
                                (replace_char CHR ''-'' CHR ''_'' s)) (\<lambda>b. Inr (Some (EnumMember b))))
       (\<lambda>sync.
     Inr (no_kw
       \<lparr>kw_transport := some_if
            (go_identity g \<noteq> None \<or> go_remote_identities g \<noteq> [] \<or> url_scheme \<noteq> None)
            \<lparr>topt_default_identity = go_identity g, topt_remote_identities = go_remote_identities g,
             topt_url_scheme = url_scheme, topt_placement = None, topt_endpoint_path_base = None\<rparr>,
        kw_all_members := some_if (go_all_members g) (Some True),
        kw_targets := some_if (go_targets g \<noteq> []) (go_targets g),
        kw_exclude_targets := some_if (go_exclude_targets g \<noteq> []) (go_exclude_targets g),
        kw_paths := some_if (go_member_paths g \<noteq> []) (go_member_paths g),
        kw_dry_run := some_if (go_dry_run g) True,
        kw_partial := some_if (go_partial g) True,
        kw_destructive := some_if (go_destructive g) True,
        kw_sync := sync,
        kw_remote := go_remote g,
        kw_concurrency := go_jobs g,
        kw_max_connections_per_host := go_max_connections_per_host g,
        kw_progress_min_interval_ms := go_progress_min_interval_ms g\<rparr>)))"

subsection \<open>Exit codes\<close>

definition exit_code_for_error :: "exn \<Rightarrow> int" where
  "exit_code_for_error e = (case e of CliUsageError m c \<Rightarrow> 2 | _ \<Rightarrow> 1)"

definition CLI_EXIT_CODES :: "(string \<times> int) list" where
  "CLI_EXIT_CODES =
     [(''accepted'', 0), (''ok'', 0), (''noop'', 0), (''dirty'', 0), (''partial'', 1),
      (''failed'', 1), (''conflicted'', 1), (''rejected'', 2)]"

definition exit_code_for_status :: "aggregate_status \<Rightarrow> int" where
  "exit_code_for_status a =
     (case map_of CLI_EXIT_CODES (aggregate_status_name a) of None \<Rightarrow> 1 | Some n \<Rightarrow> n)"

definition exit_code_for_response :: "response \<Rightarrow> int" where
  "exit_code_for_response r =
     (case map_option rsm_aggregate_status (meta_of r) of
        None \<Rightarrow> 0
      | Some a \<Rightarrow> exit_code_for_status a)"

definition is_broken_pipe :: "os_error \<Rightarrow> bool" where
  "is_broken_pipe e \<longleftrightarrow>
     os_broken_pipe e \<or> os_errno e = Some 32 \<or> os_winerror e \<in> {Some 109, Some 232}"

subsection \<open>Where global options may stand\<close>

text \<open>Two layers that give no attribute twice, flags apart.\<close>

definition one_given :: "'a option \<Rightarrow> 'a option \<Rightarrow> bool" where
  "one_given a b \<longleftrightarrow> a = None \<or> b = None"

definition layers_disjoint :: "global_layer \<Rightarrow> global_layer \<Rightarrow> bool" where
  "layers_disjoint a b \<longleftrightarrow>
     one_given (gl_targets a) (gl_targets b) \<and>
     one_given (gl_exclude_targets a) (gl_exclude_targets b) \<and>
     one_given (gl_member_paths a) (gl_member_paths b) \<and>
     one_given (gl_remote_identities a) (gl_remote_identities b) \<and>
     one_given (gl_identity a) (gl_identity b) \<and> one_given (gl_root a) (gl_root b) \<and>
     one_given (gl_sync a) (gl_sync b) \<and> one_given (gl_remote a) (gl_remote b) \<and>
     one_given (gl_jobs a) (gl_jobs b) \<and>
     one_given (gl_max_connections_per_host a) (gl_max_connections_per_host b) \<and>
     one_given (gl_progress_min_interval_ms a) (gl_progress_min_interval_ms b) \<and>
     one_given (gl_ssh_timeout a) (gl_ssh_timeout b)"

lemma merge_list_swap:
  "one_given a b \<Longrightarrow> merge_list (us @ a # b # vs) = merge_list (us @ b # a # vs)"
  by (auto simp: one_given_def merge_list_append merge_list_def)

lemma merge_bool_swap: "merge_bool (us @ a # b # vs) = merge_bool (us @ b # a # vs)"
  by (auto simp: merge_bool_iff)

lemma merge_scalar_swap:
  assumes "one_given a b"
  shows "merge_scalar (us @ a # b # vs) = merge_scalar (us @ b # a # vs)"
proof -
  have "merge_scalar (a # b # vs) = merge_scalar (b # a # vs)"
    using assms by (cases a; cases b) (auto simp: one_given_def merge_scalar_def)
  then show ?thesis by (simp add: merge_scalar_append)
qed


definition sample_layer :: global_layer where
  "sample_layer = no_layer\<lparr>gl_root := Some ''/w'', gl_targets := Some [''app'']\<rparr>"


subsection \<open>Finding the command\<close>

definition option_of :: "string \<Rightarrow> string" where
  "option_of token = fst (partition_at CHR 0x3D token)"

definition has_inline :: "string \<Rightarrow> bool" where
  "has_inline token = fst (snd (partition_at CHR 0x3D token))"

definition global_token :: "string \<Rightarrow> bool" where
  "global_token t \<longleftrightarrow> starts_with ''--'' t \<and> t \<noteq> ''--'' \<and> t \<noteq> ''--version''"

text \<open>A sequence of whole global options, each with its value where it takes one.\<close>

inductive global_tokens :: "string list \<Rightarrow> bool" where
  gt_nil: "global_tokens []"
| gt_flag: "global_token t \<Longrightarrow> option_of t \<in> set GLOBAL_BOOL_OPTIONS \<Longrightarrow> global_tokens ts \<Longrightarrow>
    global_tokens (t # ts)"
| gt_inline: "global_token t \<Longrightarrow> option_of t \<in> set GLOBAL_VALUE_OPTIONS \<Longrightarrow> has_inline t \<Longrightarrow>
    global_tokens ts \<Longrightarrow> global_tokens (t # ts)"
| gt_value: "global_token t \<Longrightarrow> option_of t \<in> set GLOBAL_VALUE_OPTIONS \<Longrightarrow> \<not> has_inline t \<Longrightarrow>
    global_tokens ts \<Longrightarrow> global_tokens (t # v # ts)"

inductive_cases global_tokens_ConsE: "global_tokens (t # ts)"

definition command_token :: "string \<Rightarrow> bool" where
  "command_token t \<longleftrightarrow> t \<noteq> ''--'' \<and> t \<noteq> ''-V'' \<and> t \<noteq> ''--version'' \<and>
     \<not> (starts_with ''--'' t \<and> option_of t \<in> set GLOBAL_VALUE_OPTIONS \<union> set GLOBAL_BOOL_OPTIONS)"

lemma option_sets_disjoint: "x \<in> set GLOBAL_BOOL_OPTIONS \<Longrightarrow> x \<notin> set GLOBAL_VALUE_OPTIONS"
  by (auto simp: GLOBAL_BOOL_OPTIONS_def GLOBAL_VALUE_OPTIONS_def)

lemma command_index_step:
  "command_index_from raw i =
     (if i < length raw then
        (let t = raw ! i
         in if \<not> command_token t \<and> global_token t then
              command_index_from raw
                (i + (if option_of t \<in> set GLOBAL_VALUE_OPTIONS \<and> \<not> has_inline t then 2 else 1))
            else if command_token t then Some i else None)
      else None)"
  by (subst command_index_from.simps)
    (auto simp: Let_def command_token_def global_token_def option_of_def has_inline_def
      starts_with_def split: prod.splits)

lemma not_command_global:
  "\<not> command_token t \<Longrightarrow> global_token t \<Longrightarrow>
     option_of t \<in> set GLOBAL_VALUE_OPTIONS \<or> option_of t \<in> set GLOBAL_BOOL_OPTIONS"
  by (auto simp: command_token_def global_token_def starts_with_def)

lemma command_index_sound:
  "command_index_from raw i = Some k \<Longrightarrow>
     i \<le> k \<and> k < length raw \<and> command_token (raw ! k) \<and> global_tokens (take (k - i) (drop i raw))"
proof (induction "length raw - i" arbitrary: i rule: less_induct)
  case less
  show ?case
  proof (cases "i < length raw")
    case False
    with less.prems show ?thesis by (simp add: command_index_step [of raw i])
  next
    case True
    let ?t = "raw ! i"
    have d: "drop i raw = ?t # drop (Suc i) raw" by (simp add: Cons_nth_drop_Suc True)
    show ?thesis
    proof (cases "\<not> command_token ?t \<and> global_token ?t")
      case False
      with less.prems True show ?thesis
        by (auto simp: command_index_step [of raw i] Let_def gt_nil split: if_splits)
    next
      case g: True
      show ?thesis
      proof (cases "option_of ?t \<in> set GLOBAL_VALUE_OPTIONS \<and> \<not> has_inline ?t")
        case True
        with less.prems \<open>i < length raw\<close> g have r: "command_index_from raw (Suc (Suc i)) = Some k"
          by (simp add: command_index_step [of raw i] Let_def)
        from less.hyps [OF _ r] \<open>i < length raw\<close> have
          h: "Suc (Suc i) \<le> k" "k < length raw" "command_token (raw ! k)"
             "global_tokens (take (k - Suc (Suc i)) (drop (Suc (Suc i)) raw))" by auto
        have "drop (Suc i) raw = raw ! Suc i # drop (Suc (Suc i)) raw"
          using h(1,2) by (simp add: Cons_nth_drop_Suc)
        moreover have "k - i = Suc (Suc (k - Suc (Suc i)))" using h(1) by simp
        ultimately show ?thesis
          using h d g True by (simp add: gt_value)
      next
        case False
        with less.prems \<open>i < length raw\<close> g have r: "command_index_from raw (Suc i) = Some k"
          by (simp add: command_index_step [of raw i] Let_def)
        from less.hyps [OF _ r] \<open>i < length raw\<close> have
          h: "Suc i \<le> k" "k < length raw" "command_token (raw ! k)"
             "global_tokens (take (k - Suc i) (drop (Suc i) raw))" by auto
        have "k - i = Suc (k - Suc i)" using h(1) by simp
        with h d g False not_command_global [of ?t] show ?thesis
          by (auto intro: gt_flag gt_inline)
      qed
    qed
  qed
qed

lemma command_index_complete:
  "global_tokens gs \<Longrightarrow> command_token t \<Longrightarrow>
     command_index_from (pre @ gs @ t # rest) (length pre) = Some (length pre + length gs)"
proof (induction arbitrary: pre rule: global_tokens.induct)
  case gt_nil
  then show ?case by (simp add: command_index_step [of _ "length pre"] Let_def nth_append)
next
  case (gt_flag u ts)
  then have "\<not> command_token u" by (auto simp: command_token_def global_token_def)
  with gt_flag gt_flag.IH [of "pre @ [u]"] option_sets_disjoint [of "option_of u"] show ?case
    by (simp add: command_index_step [of _ "length pre"] Let_def)
next
  case (gt_inline u ts)
  then have "\<not> command_token u" by (auto simp: command_token_def global_token_def)
  with gt_inline gt_inline.IH [of "pre @ [u]"] show ?case
    by (simp add: command_index_step [of _ "length pre"] Let_def)
next
  case (gt_value u ts v)
  then have "\<not> command_token u" by (auto simp: command_token_def global_token_def)
  with gt_value gt_value.IH [of "pre @ [u, v]"] show ?case
    by (simp add: command_index_step [of _ "length pre"] Let_def)
qed

text \<open>
  The scan finds the command exactly: it answers position \<open>i\<close> if and only if the tokens before
  \<open>i\<close> are whole global options and the token at \<open>i\<close> is none, nor a separator or a version request.
\<close>

theorem command_index_exact:
  "top_level_command_index raw = Some i \<longleftrightarrow>
     i < length raw \<and> global_tokens (take i raw) \<and> command_token (raw ! i)"
proof
  assume "top_level_command_index raw = Some i"
  then show "i < length raw \<and> global_tokens (take i raw) \<and> command_token (raw ! i)"
    using command_index_sound [of raw 0 i] by (simp add: top_level_command_index_def)
next
  assume a: "i < length raw \<and> global_tokens (take i raw) \<and> command_token (raw ! i)"
  then have "raw = [] @ take i raw @ raw ! i # drop (Suc i) raw"
    by (simp add: id_take_nth_drop)
  with a command_index_complete [of "take i raw" "raw ! i" "[]" "drop (Suc i) raw"]
  show "top_level_command_index raw = Some i"
    by (simp add: top_level_command_index_def)
qed

text \<open>
  C40: Operands and pathspecs are told apart by the first separator after the command: for \<^verbatim>\<open>diff\<close> and
  \<^verbatim>\<open>log\<close>, wherever global options stand, the arguments after it become the pathspecs, and the
  operands keep exactly the others.
\<close>

theorem pathspecs_split_exactly:
  assumes "global_tokens gs" and "command = ''diff'' \<or> command = ''log''"
    and "''--'' \<notin> set xs"
  shows "normalize_command_pathspecs command (ops @ ps) (gs @ command # xs @ ''--'' # ps) = (ops, ps)"
proof -
  have "command_token command"
    using assms(2) by (auto simp: command_token_def starts_with_def)
  then have i: "top_level_command_index (gs @ command # xs @ ''--'' # ps) = Some (length gs)"
    using command_index_complete [OF assms(1), of command "[]"] by (simp add: top_level_command_index_def)
  have "find_index_from ''--'' (gs @ command # xs @ ''--'' # ps) (length gs + 1) =
      Some (length gs + 1 + length xs)"
    using find_index_append [OF assms(3), of ps] by (simp add: find_index_from_def)
  then have "pathspecs_from_raw_args (gs @ command # xs @ ''--'' # ps) command = ps"
    using i by (simp add: pathspecs_from_raw_args_def)
  then show ?thesis by (simp add: normalize_command_pathspecs_def Let_def)
qed

theorem pathspecs_split_exactly_witness:
  "normalize_command_pathspecs ''log'' [''HEAD'', ''src'', ''docs'']
     [''--json'', ''--root'', ''log'', ''log'', ''HEAD'', ''--'', ''src'', ''docs''] = ([''HEAD''], [''src'', ''docs''])"
proof -
  have "global_tokens [''--json'', ''--root'', ''log'']"
    by (intro gt_flag gt_value gt_nil)
      (simp_all add: global_token_def option_of_def has_inline_def starts_with_def
        GLOBAL_BOOL_OPTIONS_def GLOBAL_VALUE_OPTIONS_def)
  from pathspecs_split_exactly [OF this, of "''log''" "[''HEAD'']" "[''HEAD'']" "[''src'', ''docs'']"]
  show ?thesis by simp
qed

lemma repeated_option_None:
  "repeated_option seen tokens = None \<longleftrightarrow>
     distinct (filter (\<lambda>x. x \<in> set GLOBAL_SINGLETON_OPTIONS) (map option_of tokens)) \<and>
     set seen \<inter> set (filter (\<lambda>x. x \<in> set GLOBAL_SINGLETON_OPTIONS) (map option_of tokens)) = {}"
  by (induction seen tokens rule: repeated_option.induct) (auto simp: Let_def option_of_def)

text \<open>
  \<^verbatim>\<open>log\<close> refuses a repeated single-valued global option, and nothing else: before the separator no
  such option, with or without an inline value, may be named twice; other commands and the
  arguments after the separator are not looked at.
\<close>

theorem repeated_singletons_refused:
  "reject_repeated_log_global_singletons raw = Inr () \<longleftrightarrow>
     (case top_level_command_index raw of
        None \<Rightarrow> True
      | Some i \<Rightarrow> if raw ! i = ''log''
          then distinct (filter (\<lambda>x. x \<in> set GLOBAL_SINGLETON_OPTIONS) (map option_of
            (take (Suc i) raw @ takeWhile (\<lambda>t. t \<noteq> ''--'') (drop (Suc i) raw))))
          else True)"
proof (cases "top_level_command_index raw")
  case None
  then show ?thesis by (simp add: reject_repeated_log_global_singletons_def)
next
  case (Some i)
  let ?rest = "drop (Suc i) raw"
  have i: "i < length raw"
    using Some command_index_sound [of raw 0 i] by (simp add: top_level_command_index_def)
  have pre: "take (case find_index_from ''--'' raw (i + 1) of None \<Rightarrow> length raw | Some k \<Rightarrow> k) raw =
      take (Suc i) raw @ takeWhile (\<lambda>t. t \<noteq> ''--'') ?rest"
  proof (cases "find_index ''--'' ?rest")
    case None
    then have "''--'' \<notin> set ?rest" by (simp add: find_index_None)
    then have "takeWhile (\<lambda>t. t \<noteq> ''--'') ?rest = ?rest" by (auto simp: takeWhile_eq_all_conv)
    then have "take (Suc i) raw @ takeWhile (\<lambda>t. t \<noteq> ''--'') ?rest = raw"
      by (simp only: append_take_drop_id)
    with None show ?thesis by (simp add: find_index_from_def)
  next
    case k: (Some k)
    then have n: "''--'' \<notin> set (take k ?rest)" by (rule find_index_Some [THEN conjunct2, THEN conjunct2])
    note sp = find_index_split [OF k]
    have "takeWhile (\<lambda>t. t \<noteq> ''--'') ?rest = take k ?rest"
      by (subst sp, subst takeWhile_append2) (use n in auto)
    moreover have "take (Suc (i + k)) raw = take (Suc i) raw @ take k ?rest"
      using take_add [of "Suc i" k raw] by simp
    ultimately show ?thesis using k by (simp add: find_index_from_def)
  qed
  let ?scan = "take (Suc i) raw @ takeWhile (\<lambda>t. t \<noteq> ''--'') ?rest"
  have "repeated_option [] ?scan = None \<longleftrightarrow>
      distinct (filter (\<lambda>x. x \<in> set GLOBAL_SINGLETON_OPTIONS) (map option_of ?scan))"
    by (simp add: repeated_option_None)
  moreover have "reject_repeated_log_global_singletons raw = Inr () \<longleftrightarrow>
      raw ! i \<noteq> ''log'' \<or> repeated_option [] ?scan = None"
    unfolding reject_repeated_log_global_singletons_def Some Let_def option.case pre
    by (cases "repeated_option [] ?scan") auto
  ultimately show ?thesis using Some by simp
qed

subsection \<open>Scheme, metadata and exit codes\<close>

lemma url_scheme_names: "url_scheme_name s \<in> set URL_SCHEME_CHOICES"
  by (cases s) (simp_all add: URL_SCHEME_CHOICES_def)

lemma url_scheme_from_text_Some:
  "url_scheme_from_text v = Some s \<longleftrightarrow> lower (strip v) = url_scheme_name s"
  using url_scheme_names [of s] url_scheme.lookup_name [of s]
  by (auto simp: url_scheme_from_text_def Let_def split: sum.splits dest: enum_lookup_Inr)

text \<open>
  The scheme an invocation asks for: a command without the flag never asks for one, whatever the
  environment holds; a flag wins over the variable; without a flag the variable counts, trimmed
  and in any case of letters, blank being unset; and a value that names no scheme is a usage error.
\<close>

theorem url_scheme_precedence:
  "requested_url_scheme None getenv = Inr None \<and>
   requested_url_scheme (Some (Some (url_scheme_name s))) getenv = Inr (Some s) \<and>
   (requested_url_scheme (Some None) getenv = Inr (Some s) \<longleftrightarrow>
      (\<exists>v. getenv ''GWZ_URL_SCHEME'' = Some v \<and> lower (strip v) = url_scheme_name s)) \<and>
   (requested_url_scheme (Some None) getenv = Inr None \<longleftrightarrow>
      (\<forall>v. getenv ''GWZ_URL_SCHEME'' = Some v \<longrightarrow> strip v = [])) \<and>
   (requested_url_scheme (Some None) getenv = Inl e \<longrightarrow> exit_code_for_error e = 2)"
proof -
  have ne: "lower [] \<noteq> url_scheme_name u" for u
    by (cases u) (auto simp: lower_def)
  have no: "url_scheme_from_text v = None \<longleftrightarrow> (\<forall>u. lower (strip v) \<noteq> url_scheme_name u)" for v
    using url_scheme_from_text_Some [of v] by (metis option.exhaust option.distinct(1))
  show ?thesis
  proof (cases "getenv ''GWZ_URL_SCHEME''")
    case None
    then show ?thesis
      by (simp add: requested_url_scheme_def URL_SCHEME_ENV_def url_scheme.lookup_name)
  next
    case (Some v)
    show ?thesis
    proof (cases "url_scheme_from_text v")
      case None
      with Some no [of v] ne show ?thesis
        by (auto simp: requested_url_scheme_def URL_SCHEME_ENV_def url_scheme.lookup_name
            exit_code_for_error_def usage_error_def)
    next
      case (Some t)
      then have "lower (strip v) = url_scheme_name t" by (simp add: url_scheme_from_text_Some)
      with Some \<open>getenv _ = Some v\<close> ne show ?thesis
        by (auto simp: requested_url_scheme_def URL_SCHEME_ENV_def url_scheme.lookup_name
            url_scheme.name_inj)
    qed
  qed
qed

text \<open>
  The two readings of a response agree but for one status: the command line exits 0 on
  exactly the responses the Python API accepts, and on \<^verbatim>\<open>dirty\<close>, which the API raises on; a
  refusal exits 2 and every other failure 1.
\<close>

theorem exit_codes_agree_with_api:
  assumes "envelope_of r = Some e"
  shows "(exit_code_for_response r = 0 \<longleftrightarrow>
      raise_for_response r = Inr () \<or> rsm_aggregate_status (env_meta e) = AggregateStatus_dirty) \<and>
    (exit_code_for_response r = 2 \<longleftrightarrow> rsm_aggregate_status (env_meta e) = AggregateStatus_rejected) \<and>
    exit_code_for_response r \<in> {0, 1, 2}"
  using assms
  by (cases "rsm_aggregate_status (env_meta e)")
    (simp_all add: exit_code_for_response_def exit_code_for_status_def CLI_EXIT_CODES_def
      raise_for_response_Inr response_aggregate_def meta_of_def)

theorem exit_codes_agree_with_api_witness:
  "exit_code_for_response (sample_response AggregateStatus_dirty None) = 0"
  using exit_codes_agree_with_api [of "sample_response AggregateStatus_dirty None"
      "sample_envelope AggregateStatus_dirty None"]
  by (simp add: sample_response_def sample_envelope_def sample_response_meta_def)

lemma meta_kwargs_fields:
  assumes "meta_kwargs g attr getenv = Inr kw"
  shows "\<exists>u. requested_url_scheme attr getenv = Inr u \<and> kw_transport kw = some_if
            (go_identity g \<noteq> None \<or> go_remote_identities g \<noteq> [] \<or> u \<noteq> None)
            \<lparr>topt_default_identity = go_identity g, topt_remote_identities = go_remote_identities g,
             topt_url_scheme = u, topt_placement = None, topt_endpoint_path_base = None\<rparr>"
    and "kw_all_members kw = some_if (go_all_members g) (Some True)"
    and "kw_targets kw = some_if (go_targets g \<noteq> []) (go_targets g)"
    and "kw_exclude_targets kw = some_if (go_exclude_targets g \<noteq> []) (go_exclude_targets g)"
    and "kw_paths kw = some_if (go_member_paths g \<noteq> []) (go_member_paths g)"
    and "kw_dry_run kw = some_if (go_dry_run g) True"
    and "kw_partial kw = some_if (go_partial g) True"
    and "kw_destructive kw = some_if (go_destructive g) True"
    and "(case go_sync g of None \<Rightarrow> Inr None
          | Some s \<Rightarrow> bindE (enum_lookup sync_behavior_name sync_behavior_members
                        (replace_char CHR ''-'' CHR ''_'' s)) (\<lambda>b. Inr (Some (EnumMember b)))) =
          Inr (kw_sync kw)"
    and "kw_remote kw = go_remote g" and "kw_concurrency kw = go_jobs g"
    and "kw_root kw = None" and "kw_member_ids kw = None" and "kw_local_source_name kw = None"
  using assms by (auto simp: meta_kwargs_def bindE_eq_Inr no_kw_def)

lemma options_policy:
  assumes "meta_kwargs g attr getenv = Inr kw" and "meta_policy cl kw = Inr p"
  shows "pol_remote p = go_remote g" and "pol_concurrency p = go_jobs g"
    and "pol_partial p = Some PartialBehavior_partial \<longleftrightarrow> go_partial g"
    and "pol_destructive p = Some DestructiveBehavior_allow \<longleftrightarrow> go_destructive g"
    and "(case go_sync g of None \<Rightarrow> pol_sync p = None
       | Some s \<Rightarrow> map_option sync_behavior_name (pol_sync p) = Some (replace_char CHR ''-'' CHR ''_'' s))"
proof -
  note kw = meta_kwargs_fields [OF assms(1)]
  show "pol_remote p = go_remote g" "pol_concurrency p = go_jobs g"
    "pol_partial p = Some PartialBehavior_partial \<longleftrightarrow> go_partial g"
    "pol_destructive p = Some DestructiveBehavior_allow \<longleftrightarrow> go_destructive g"
    using assms(2) kw(7,8,10,11) by (auto simp: meta_policy_def bindE_eq_Inr some_if_def split: if_splits)
  show "case go_sync g of None \<Rightarrow> pol_sync p = None
       | Some s \<Rightarrow> map_option sync_behavior_name (pol_sync p) = Some (replace_char CHR ''-'' CHR ''_'' s)"
  proof (cases "go_sync g")
    case None
    then show ?thesis using assms(2) kw(9) by (auto simp: meta_policy_def bindE_eq_Inr)
  next
    case (Some s)
    then obtain b where b: "enum_lookup sync_behavior_name sync_behavior_members
          (replace_char CHR ''-'' CHR ''_'' s) = Inr b" "kw_sync kw = Some (EnumMember b)"
      using kw(9) by (auto simp: bindE_eq_Inr)
    then show ?thesis using assms(2) Some
      by (auto simp: meta_policy_def bindE_eq_Inr dest: enum_lookup_Inr)
  qed
qed

lemma options_selection:
  assumes "meta_kwargs g attr getenv = Inr kw"
  shows "(meta_selection kw = None \<longleftrightarrow> \<not> go_all_members g \<and> go_targets g = [] \<and>
         go_exclude_targets g = [] \<and> go_member_paths g = [])"
    and "(case meta_selection kw of None \<Rightarrow> True | Some sel \<Rightarrow>
         sel_exclude_targets sel = go_exclude_targets g \<and> sel_paths sel = go_member_paths g \<and>
         set (sel_targets sel) = set (go_targets g) \<union> (if go_all_members g then {''@all''} else {}))"
proof -
  note kw = meta_kwargs_fields [OF assms]
  show "meta_selection kw = None \<longleftrightarrow> \<not> go_all_members g \<and> go_targets g = [] \<and>
         go_exclude_targets g = [] \<and> go_member_paths g = []"
    using kw(2-5,13) by (auto simp: meta_selection_None some_if_def flat_opt_def selected_list_def)
  show "case meta_selection kw of None \<Rightarrow> True | Some sel \<Rightarrow>
         sel_exclude_targets sel = go_exclude_targets g \<and> sel_paths sel = go_member_paths g \<and>
         set (sel_targets sel) = set (go_targets g) \<union> (if go_all_members g then {''@all''} else {})"
    using kw(2-5,13) by (auto simp: meta_selection_def meta_targets_def Let_def some_if_def
        flat_opt_def selected_list_def split: option.splits if_splits)
qed


definition sample_options :: global_options where
  "sample_options =
     normalize_global_options [no_layer, sample_layer\<lparr>gl_sync := Some ''ff-only'', gl_partial := Some True\<rparr>]"

lemmas options_eval = normalize_global_options_def no_layer_def merge_bool_def merge_scalar_def
  merge_list_def meta_kwargs_def requested_url_scheme_def

definition sample_options_kw :: meta_kw where
  "sample_options_kw = no_kw\<lparr>kw_targets := Some [''app''], kw_partial := Some True,
     kw_sync := Some (EnumMember SyncBehavior_ff_only)\<rparr>"


end
