(* ===== verification/CliOptions.thy ===== *)
theory CliOptions
  imports CliShared
begin

section \<open>The option tables and the parsers built from them\<close>

text \<open>
  The declarations of the command line: \<open>add_global_options\<close> of \<^verbatim>\<open>src/gwz/cli_shared.py\<close> and the
  \<open>configure_*\<close> functions of the command modules, as lists of the arguments they declare, and
  \<open>build_parser\<close> of \<^verbatim>\<open>src/gwz/cli.py\<close>. Of argparse it models what the declarations rely on: the name
  an argument is stored under, the refusal of an option string that is already taken, and the
  conflict handler \<^verbatim>\<open>resolve\<close>, which takes the option string away from its first owner. Help texts
  and metavariables are left out.
\<close>

subsection \<open>Arguments\<close>

datatype arg_action =
    StoreValue | StoreTrue | StoreConst bool | AppendValue | OptionalValueAction
  | StoreOnce | StoreTrueOnce | ShowVersion | ShowHelp

datatype arg_nargs = OneArg | OptionalArg | ManyArgs | RemainderArgs

datatype arg_type = AnyText | PositiveInt | NonNegativeInt | NonNegativeI64 | RemoteIdentity

datatype arg_default = Suppressed | DefaultNone | DefaultFalse | DefaultList | DefaultText string

record arg_spec =
  as_flags :: "string list"
  as_dest :: string
  as_action :: arg_action
  as_nargs :: arg_nargs
  as_type :: arg_type
  as_choices :: "string list option"
  as_const :: "string option"
  as_default :: arg_default
  as_required :: bool

text \<open>
  The name argparse derives from the option strings: the first long one, or else the first, without
  its dashes and with underscores.
\<close>

definition dest_of_flags :: "string list \<Rightarrow> string" where
  "dest_of_flags flags =
     (let long = filter (starts_with ''--'') flags;
          flag = (case long @ flags of [] \<Rightarrow> [] | f # fs \<Rightarrow> f)
      in replace_char CHR ''-'' CHR ''_'' (dropWhile (\<lambda>c. c = CHR ''-'') flag))"

definition named_option :: "string list \<Rightarrow> arg_spec" where
  "named_option flags =
     \<lparr>as_flags = flags, as_dest = dest_of_flags flags, as_action = StoreValue, as_nargs = OneArg,
      as_type = AnyText, as_choices = None, as_const = None, as_default = DefaultNone,
      as_required = False\<rparr>"

definition switch_option :: "string list \<Rightarrow> arg_spec" where
  "switch_option flags = (named_option flags)\<lparr>as_action := StoreTrue, as_default := DefaultFalse\<rparr>"

definition operand_arg :: "string \<Rightarrow> arg_nargs \<Rightarrow> arg_spec" where
  "operand_arg name n =
     (named_option [])\<lparr>as_dest := name, as_nargs := n,
        as_required := (n = OneArg)\<rparr>"

definition is_operand :: "arg_spec \<Rightarrow> bool" where
  "is_operand a \<longleftrightarrow> as_flags a = []"

subsection \<open>Parsers\<close>

text \<open>
  A parser's arguments in the order they were added, its conflict handler, whether long options may
  be abbreviated, the option strings of each group of mutually exclusive arguments, and the
  attributes of \<open>set_defaults\<close>.
\<close>

record flat_parser =
  fp_actions :: "arg_spec list"
  fp_resolve :: bool
  fp_abbrev :: bool
  fp_groups :: "string list list"
  fp_defaults :: "string list"

datatype arg_fault = ArgumentError string | MissingCommand string

definition all_flags :: "arg_spec list \<Rightarrow> string list" where
  "all_flags actions = concat (map as_flags actions)"

definition conflicts :: "flat_parser \<Rightarrow> arg_spec \<Rightarrow> string list" where
  "conflicts p a = filter (\<lambda>f. f \<in> set (all_flags (fp_actions p))) (as_flags a)"

text \<open>An action that loses its last option string is removed; an operand has none to lose.\<close>

definition without_flags :: "string list \<Rightarrow> arg_spec list \<Rightarrow> arg_spec list" where
  "without_flags taken actions =
     concat (map (\<lambda>a. if is_operand a then [a]
                       else (let left = filter (\<lambda>f. f \<notin> set taken) (as_flags a)
                             in if left = [] then [] else [a\<lparr>as_flags := left\<rparr>])) actions)"

definition add_argument :: "flat_parser \<Rightarrow> arg_spec \<Rightarrow> arg_fault + flat_parser" where
  "add_argument p a =
     (if conflicts p a = [] then Inr (p\<lparr>fp_actions := fp_actions p @ [a]\<rparr>)
      else if fp_resolve p
      then Inr (p\<lparr>fp_actions := without_flags (conflicts p a) (fp_actions p) @ [a]\<rparr>)
      else Inl (ArgumentError (''argument '' @ join ''/'' (as_flags a) @ '': conflicting option string'' @
             (if length (conflicts p a) = 1 then [] else ''s'') @ '': '' @ join '', '' (conflicts p a))))"

fun add_arguments :: "arg_spec list \<Rightarrow> flat_parser \<Rightarrow> arg_fault + flat_parser" where
  "add_arguments [] p = Inr p"
| "add_arguments (a # as) p = bindE (add_argument p a) (add_arguments as)"

definition exclusive_group :: "arg_spec list \<Rightarrow> flat_parser \<Rightarrow> arg_fault + flat_parser" where
  "exclusive_group as p =
     bindE (add_arguments as p) (\<lambda>q. Inr (q\<lparr>fp_groups := fp_groups q @ [all_flags as]\<rparr>))"

definition set_defaults :: "string list \<Rightarrow> flat_parser \<Rightarrow> arg_fault + flat_parser" where
  "set_defaults dests p = Inr (p\<lparr>fp_defaults := fp_defaults p @ dests\<rparr>)"

definition help_option :: arg_spec where
  "help_option = (named_option [''-h'', ''--help''])\<lparr>as_action := ShowHelp, as_default := Suppressed\<rparr>"

text \<open>\<open>ArgumentParser(...)\<close>: the help option, then the arguments of the parents.\<close>

definition argument_parser :: "bool \<Rightarrow> bool \<Rightarrow> arg_spec list \<Rightarrow> arg_fault + flat_parser" where
  "argument_parser resolve abbrev parents =
     add_arguments (help_option # parents)
       \<lparr>fp_actions = [], fp_resolve = resolve, fp_abbrev = abbrev, fp_groups = [], fp_defaults = []\<rparr>"

text \<open>A command's parser, or a group of subcommands under a name of its own.\<close>

datatype cli_parser =
    CommandParser flat_parser
  | GroupParser flat_parser string "(string \<times> flat_parser) list"

subsection \<open>The global options\<close>

definition add_global_options :: "string \<Rightarrow> bool \<Rightarrow> arg_spec list" where
  "add_global_options dest_prefix defaults =
     (let list_default = (if defaults then DefaultList else Suppressed);
          bool_default = (if defaults then DefaultFalse else Suppressed);
          scalar_default = (if defaults then DefaultNone else Suppressed);
          scalar = (\<lambda>flags dest. (named_option flags)
            \<lparr>as_dest := dest_prefix @ dest, as_default := scalar_default\<rparr>);
          many = (\<lambda>flags dest. (named_option flags)
            \<lparr>as_dest := dest_prefix @ dest, as_action := AppendValue, as_default := list_default\<rparr>);
          switch = (\<lambda>flags dest. (switch_option flags)
            \<lparr>as_dest := dest_prefix @ dest, as_default := bool_default\<rparr>)
      in [scalar [''--root''] ''root'',
          many [''--target'', ''--member''] ''targets'',
          many [''--no-target'', ''--no-member''] ''exclude_targets'',
          many [''--member-path''] ''member_paths'',
          many [''--no-member-path''] ''exclude_targets'',
          switch [''--all''] ''all_members'',
          switch [''--dry-run''] ''dry_run'',
          switch [''--partial''] ''partial'',
          switch [''--force''] ''destructive'',
          (scalar [''--sync''] ''sync'')
            \<lparr>as_choices := Some [''fetch-only'', ''ff-only'', ''merge'', ''rebase'', ''reset'',
                                ''driver-selected'']\<rparr>,
          scalar [''--remote''] ''remote'',
          scalar [''--identity''] ''identity'',
          (many [''--remote-identity''] ''remote_identities'')\<lparr>as_type := RemoteIdentity\<rparr>,
          (scalar [''--jobs''] ''jobs'')\<lparr>as_type := PositiveInt\<rparr>,
          (scalar [''--max-per-host''] ''max_connections_per_host'')\<lparr>as_type := PositiveInt\<rparr>,
          (scalar [''--progress-interval''] ''progress_min_interval_ms'')
            \<lparr>as_type := NonNegativeInt\<rparr>,
          switch [''--json''] ''json'',
          switch [''--jsonl''] ''jsonl'',
          switch [''--verbose''] ''verbose'',
          (scalar [''--ssh-timeout''] ''ssh_timeout'')\<lparr>as_type := NonNegativeInt\<rparr>])"

text \<open>The arguments of \<open>global_options_parent(dest_prefix)\<close>.\<close>

definition global_options_parent :: "string \<Rightarrow> arg_spec list" where
  "global_options_parent dest_prefix = add_global_options dest_prefix False"

definition url_scheme_option :: arg_spec where
  "url_scheme_option = (named_option [''--url-scheme''])\<lparr>as_choices := Some URL_SCHEME_CHOICES\<rparr>"

subsection \<open>The commands' own arguments\<close>

type_synonym configure = "flat_parser \<Rightarrow> arg_fault + flat_parser"

definition status_arguments :: "arg_spec list" where
  "status_arguments =
     [switch_option [''--combined''], switch_option [''--no-combined''], switch_option [''--porcelain''],
      switch_option [''--no-files''], switch_option [''--no-branches'']]"

definition configure_status :: configure where
  "configure_status = add_arguments status_arguments"

definition ls_arguments :: "arg_spec list" where
  "ls_arguments =
     [switch_option [''--local''], switch_option [''--unmaterialized''],
      switch_option [''--materialized-only'']]"

definition configure_ls :: configure where
  "configure_ls = add_arguments ls_arguments"

definition init_arguments :: "arg_spec list" where
  "init_arguments =
     [operand_arg ''urls'' ManyArgs, (named_option [''--path''])\<lparr>as_default := DefaultText []\<rparr>]"

definition configure_init :: configure where
  "configure_init = add_arguments init_arguments"

definition add_identity_options :: "arg_spec list" where
  "add_identity_options = [named_option [''--member-id''], named_option [''--source-id'']]"

definition materialize_targets :: "arg_spec list" where
  "materialize_targets =
     [switch_option [''--lock''], switch_option [''--head''], named_option [''--snapshot''],
      named_option [''--tag''], named_option [''--switch'']]"

definition configure_materialize :: configure where
  "configure_materialize p =
     bindE (exclusive_group materialize_targets p)
       (add_arguments [url_scheme_option])"

definition snapshot_arguments :: "arg_spec list" where
  "snapshot_arguments =
     [operand_arg ''name'' OptionalArg, switch_option [''--list''],
      (named_option [''--branch''])\<lparr>as_action := OptionalValueAction, as_nargs := OptionalArg\<rparr>]"

definition configure_snapshot :: configure where
  "configure_snapshot = add_arguments snapshot_arguments"

definition tag_actions :: "arg_spec list" where
  "tag_actions =
     [switch_option [''--list''], switch_option [''--delete''], switch_option [''--push''],
      switch_option [''--fetch'']]"

definition tag_arguments :: "arg_spec list" where
  "tag_arguments =
     [operand_arg ''name'' OptionalArg, named_option [''-m'', ''--message''],
      (switch_option [''-s'', ''--sign''])\<lparr>as_dest := ''signed''\<rparr>]"

definition configure_tag :: configure where
  "configure_tag p =
     bindE (exclusive_group tag_actions p) (add_arguments tag_arguments)"

definition stage_arguments :: "arg_spec list" where
  "stage_arguments =
     [operand_arg ''pathspecs'' ManyArgs,
      (switch_option [''-A'', ''--all''])\<lparr>as_dest := ''stage_all''\<rparr>]"

definition configure_stage :: configure where
  "configure_stage = add_arguments stage_arguments"

definition commit_arguments :: "arg_spec list" where
  "commit_arguments =
     [(named_option [''-m'', ''--message''])\<lparr>as_required := True\<rparr>,
      (switch_option [''-a'', ''--all''])\<lparr>as_dest := ''commit_all''\<rparr>]"

definition commit_markers :: "arg_spec list" where
  "commit_markers =
     [switch_option [''--commit-marker''], switch_option [''--no-commit-marker'']]"

definition configure_commit :: configure where
  "configure_commit p =
     bindE (add_arguments commit_arguments p) (exclusive_group commit_markers)"

definition pull_targets :: "arg_spec list" where
  "pull_targets =
     [switch_option [''--head''], named_option [''--snapshot'']]"

definition configure_pull :: configure where
  "configure_pull = exclusive_group pull_targets"

definition push_arguments :: "arg_spec list" where
  "push_arguments =
     [switch_option [''--check-remotes'']]"

definition configure_push :: configure where
  "configure_push = add_arguments push_arguments"

definition branch_arguments :: "arg_spec list" where
  "branch_arguments =
     [switch_option [''--list''], named_option [''--create''],
      (named_option [''--from''])\<lparr>as_dest := ''start_ref''\<rparr>, switch_option [''--switch''],
      named_option [''--delete''], named_option [''--merge'']]"

definition configure_branch :: configure where
  "configure_branch = add_arguments branch_arguments"

definition forall_arguments :: "arg_spec list" where
  "forall_arguments =
     [(named_option [''-c'', ''--command-string''])\<lparr>as_dest := ''command_string''\<rparr>,
      switch_option [''--no-banner''], operand_arg ''tokens'' RemainderArgs]"

definition configure_forall :: configure where
  "configure_forall = add_arguments forall_arguments"

definition clone_arguments :: "arg_spec list" where
  "clone_arguments =
     [operand_arg ''url'' OneArg, operand_arg ''directory'' OptionalArg, url_scheme_option]"

definition configure_clone :: configure where
  "configure_clone = add_arguments clone_arguments"

definition diff_arguments :: "arg_spec list" where
  "diff_arguments =
     [(switch_option [''--cached'', ''--staged''])\<lparr>as_dest := ''cached''\<rparr>,
      switch_option [''--merge-base''], switch_option [''--tagged''],
      (named_option [''-M'', ''--find-renames''])\<lparr>as_nargs := OptionalArg, as_const := Some []\<rparr>,
      switch_option [''--no-renames''],
      switch_option [''--stat''], switch_option [''--numstat''], switch_option [''--shortstat''],
      switch_option [''--summary''], switch_option [''--name-only''], switch_option [''--name-status''],
      switch_option [''--raw''],
      (switch_option [''-z''])\<lparr>as_dest := ''null_terminated''\<rparr>,
      (named_option [''-U'', ''--unified''])\<lparr>as_type := NonNegativeInt\<rparr>,
      (named_option [''--inter-hunk-context''])\<lparr>as_type := NonNegativeInt\<rparr>,
      switch_option [''--binary''], switch_option [''--text''],
      (switch_option [''-w''])\<lparr>as_dest := ''ignore_all_space''\<rparr>,
      (switch_option [''-b''])\<lparr>as_dest := ''ignore_space_change''\<rparr>,
      switch_option [''--ignore-space-at-eol''], switch_option [''--ignore-blank-lines''],
      named_option [''--src-prefix''], named_option [''--dst-prefix''], switch_option [''--no-prefix''],
      named_option [''--line-prefix''],
      switch_option [''--exit-code''], switch_option [''--quiet''], switch_option [''--no-pager''],
      operand_arg ''operands'' ManyArgs]"

definition configure_diff :: configure where
  "configure_diff p =
     bindE (add_arguments diff_arguments p) (set_defaults [''pathspecs''])"

definition once_option :: "string list \<Rightarrow> arg_spec" where
  "once_option flags = (named_option flags)\<lparr>as_action := StoreOnce\<rparr>"

definition true_once_option :: "string list \<Rightarrow> arg_spec" where
  "true_once_option flags =
     (named_option flags)\<lparr>as_action := StoreTrueOnce, as_default := DefaultFalse\<rparr>"

text \<open>\<open>configure_log\<close> also forbids abbreviations.\<close>

definition log_limits :: "arg_spec list" where
  "log_limits =
     [(once_option [''-n''])\<lparr>as_dest := ''max_entries'', as_type := NonNegativeI64\<rparr>,
      true_once_option [''--no-limit'']]"

definition log_arguments :: "arg_spec list" where
  "log_arguments =
     [once_option [''--since''], once_option [''--until''], once_option [''--author''],
      once_option [''--grep''], true_once_option [''--no-merges''],
      true_once_option [''--first-parent''], true_once_option [''--strict''],
      true_once_option [''--no-coalesce''], true_once_option [''--body''],
      true_once_option [''--full''], true_once_option [''--tagged''],
      (once_option [''--color''])
          \<lparr>as_choices := Some [''always'', ''never'', ''auto''], as_default := DefaultText ''auto''\<rparr>,
      operand_arg ''operands'' ManyArgs]"

definition configure_log :: configure where
  "configure_log p =
     bindE (exclusive_group log_limits (p\<lparr>fp_abbrev := False\<rparr>)) (\<lambda>q.
     bindE (add_arguments log_arguments q) (set_defaults [''pathspecs'']))"

definition merge_arguments :: "arg_spec list" where
  "merge_arguments =
     [operand_arg ''source'' OptionalArg,
      (switch_option [''--continue''])\<lparr>as_dest := ''resume''\<rparr>, switch_option [''--abort''],
      (named_option [''--status''])\<lparr>as_nargs := OptionalArg, as_const := Some []\<rparr>,
      switch_option [''--preserve''],
      (named_option [''--gc''])\<lparr>as_nargs := OptionalArg, as_const := Some []\<rparr>,
      switch_option [''--ff-only''], switch_option [''--no-ff''],
      switch_option [''--filesystem-strict''], named_option [''-m'', ''--message'']]"

definition configure_merge :: configure where
  "configure_merge = add_arguments merge_arguments"

definition merge_remote_arguments :: "arg_spec list" where
  "merge_remote_arguments =
     [(named_option [''--remote''])\<lparr>as_dest := ''_cmd_remote'', as_default := Suppressed\<rparr>]"

definition configure_merge_remote :: configure where
  "configure_merge_remote = add_arguments merge_remote_arguments"

definition local_clone_arguments :: "arg_spec list" where
  "local_clone_arguments =
     [operand_arg ''name'' OneArg, operand_arg ''dest'' OptionalArg, switch_option [''--verbatim''],
      switch_option [''--clean''], switch_option [''--bare''],
      (named_option [''-b''])\<lparr>as_dest := ''branch''\<rparr>,
      (named_option [''--from''])\<lparr>as_dest := ''from_source''\<rparr>]"

definition configure_local_clone :: configure where
  "configure_local_clone = add_arguments local_clone_arguments"

subsection \<open>Commands with subcommands\<close>

text \<open>
  A subcommand's parser takes the global options under the prefix \<^verbatim>\<open>_nested_\<close>. The subcommands of
  \<^verbatim>\<open>repo\<close> and of \<^verbatim>\<open>stash\<close> share the argument objects of one parent; the lemmas
  \<open>repo_keeps\<close> and \<open>stash_keeps\<close> show that none of them takes an option string of it away, so that
  sharing and copying agree.
\<close>

definition subcommand :: "bool \<Rightarrow> bool \<Rightarrow> string \<Rightarrow> configure \<Rightarrow> arg_fault + string \<times> flat_parser" where
  "subcommand resolve abbrev name configure =
     bindE (argument_parser resolve abbrev (global_options_parent ''_nested_'')) (\<lambda>p.
     bindE (configure p) (\<lambda>q. Inr (name, q)))"

fun subcommands ::
    "bool \<Rightarrow> bool \<Rightarrow> (string \<times> configure) list \<Rightarrow> arg_fault + (string \<times> flat_parser) list" where
  "subcommands resolve abbrev [] = Inr []"
| "subcommands resolve abbrev ((name, configure) # rest) =
     bindE (subcommand resolve abbrev name configure) (\<lambda>s.
     bindE (subcommands resolve abbrev rest) (\<lambda>ss. Inr (s # ss)))"

definition auth_commands :: "(string \<times> configure) list" where
  "auth_commands =
     [(''identity'', \<lambda>p.
        bindE (add_arguments [operand_arg ''remote_name'' OneArg] p)
          (exclusive_group
             [(named_option [''--set''])\<lparr>as_dest := ''key_path''\<rparr>, switch_option [''--unset'']]))]"

definition repo_commands :: "(string \<times> configure) list" where
  "repo_commands =
     [(''add'', add_arguments (operand_arg ''repo_path'' OneArg # add_identity_options)),
      (''clone'', add_arguments
         (operand_arg ''url'' OneArg # operand_arg ''member_path'' OptionalArg # add_identity_options)),
      (''create'', add_arguments (operand_arg ''member_path'' OneArg # add_identity_options)),
      (''detach'', add_arguments [operand_arg ''member'' OneArg]),
      (''attach'', add_arguments [operand_arg ''member_id'' OneArg]),
      (''sync'', \<lambda>p. bindE (add_arguments [operand_arg ''member_path'' OptionalArg] p)
         (exclusive_group
            [(named_option [''--private''])\<lparr>as_dest := ''private'', as_action := StoreConst True\<rparr>,
             (named_option [''--public''])\<lparr>as_dest := ''private'', as_action := StoreConst False\<rparr>]))]"

definition stash_commands :: "(string \<times> configure) list" where
  "stash_commands =
     [(''push'', add_arguments
         [(switch_option [''-u''])\<lparr>as_dest := ''include_untracked''\<rparr>,
          (switch_option [''-a''])\<lparr>as_dest := ''include_ignored''\<rparr>,
          named_option [''-m'', ''--message'']]),
      (''list'', add_arguments [switch_option [''--expanded'']]),
      (''apply'', add_arguments [operand_arg ''stash_id'' OptionalArg]),
      (''pop'', add_arguments [operand_arg ''stash_id'' OptionalArg]),
      (''drop'', add_arguments [operand_arg ''stash_id'' OneArg])]"

definition local_commands :: "(string \<times> configure) list" where
  "local_commands =
     [(''clone'', configure_local_clone),
      (''list'', Inr),
      (''dispose'', add_arguments
         [operand_arg ''name'' OneArg, switch_option [''--keep''],
          (named_option [''--force''])\<lparr>as_nargs := OptionalArg, as_const := Some []\<rparr>]),
      (''disband'', Inr)]"

definition configure_auth :: "flat_parser \<Rightarrow> arg_fault + cli_parser" where
  "configure_auth p = bindE (subcommands False False auth_commands) (\<lambda>ss. Inr (GroupParser p ''auth_command'' ss))"

definition configure_repo :: "flat_parser \<Rightarrow> arg_fault + cli_parser" where
  "configure_repo p = bindE (subcommands True True repo_commands) (\<lambda>ss. Inr (GroupParser p ''repo_command'' ss))"

definition configure_stash :: "flat_parser \<Rightarrow> arg_fault + cli_parser" where
  "configure_stash p = bindE (subcommands True True stash_commands) (\<lambda>ss. Inr (GroupParser p ''stash_command'' ss))"

definition configure_local :: "flat_parser \<Rightarrow> arg_fault + cli_parser" where
  "configure_local p = bindE (subcommands True True local_commands) (\<lambda>ss. Inr (GroupParser p ''local_command'' ss))"

subsection \<open>The registry\<close>

text \<open>The handler of a command: the function of that name, or one wrapped by \<open>wrap_merge\<close>.\<close>

datatype handler_ref = HandlerFun string | WrapMerge handler_ref

record command_spec =
  cs_name :: string
  cs_handler :: handler_ref
  cs_configure :: "(flat_parser \<Rightarrow> arg_fault + cli_parser) option"

definition plain_command :: "string \<Rightarrow> string \<Rightarrow> configure \<Rightarrow> command_spec" where
  "plain_command name handler configure =
     \<lparr>cs_name = name, cs_handler = HandlerFun handler,
      cs_configure = Some (\<lambda>p. bindE (configure p) (\<lambda>q. Inr (CommandParser q)))\<rparr>"

definition bare_command :: "string \<Rightarrow> string \<Rightarrow> command_spec" where
  "bare_command name handler =
     \<lparr>cs_name = name, cs_handler = HandlerFun handler, cs_configure = None\<rparr>"

definition group_command ::
    "string \<Rightarrow> string \<Rightarrow> (flat_parser \<Rightarrow> arg_fault + cli_parser) \<Rightarrow> command_spec" where
  "group_command name handler configure =
     \<lparr>cs_name = name, cs_handler = HandlerFun handler, cs_configure = Some configure\<rparr>"

definition read_commands :: "command_spec list" where
  "read_commands =
     [group_command ''auth'' ''handle_auth'' configure_auth,
      plain_command ''status'' ''handle_status'' configure_status,
      plain_command ''ls'' ''handle_ls'' configure_ls,
      plain_command ''init'' ''handle_init'' configure_init,
      group_command ''repo'' ''handle_repo'' configure_repo]"

definition diff_commands :: "command_spec list" where
  "diff_commands = [plain_command ''diff'' ''handle_diff'' configure_diff]"

definition log_commands :: "command_spec list" where
  "log_commands = [plain_command ''log'' ''handle_log'' configure_log]"

definition mutation_commands :: "command_spec list" where
  "mutation_commands =
     [plain_command ''materialize'' ''handle_materialize'' configure_materialize,
      plain_command ''snapshot'' ''handle_snapshot'' configure_snapshot,
      plain_command ''tag'' ''handle_tag'' configure_tag,
      bare_command ''capture'' ''handle_capture'',
      plain_command ''add'' ''handle_stage'' configure_stage,
      plain_command ''commit'' ''handle_commit'' configure_commit,
      plain_command ''pull'' ''handle_pull'' configure_pull,
      plain_command ''push'' ''handle_push'' configure_push,
      bare_command ''fetch'' ''handle_fetch'']"

definition branch_stash_commands :: "command_spec list" where
  "branch_stash_commands =
     [plain_command ''branch'' ''handle_branch'' configure_branch,
      group_command ''stash'' ''handle_stash'' configure_stash]"

definition merge_commands :: "command_spec list" where
  "merge_commands = [plain_command ''merge'' ''handle_merge'' configure_merge]"

definition forall_clone_commands :: "command_spec list" where
  "forall_clone_commands =
     [plain_command ''forall'' ''handle_forall'' configure_forall,
      plain_command ''clone'' ''handle_clone'' configure_clone]"

text \<open>
  \<open>extend_command\<close>: the first command of that name gets the further arguments behind its own
  (\<open>_chain_configure\<close>) and the wrapped handler.
\<close>

definition chain_configure ::
    "(flat_parser \<Rightarrow> arg_fault + cli_parser) option \<Rightarrow> configure \<Rightarrow>
     (flat_parser \<Rightarrow> arg_fault + cli_parser) option" where
  "chain_configure base extra =
     Some (\<lambda>p. case base of
                 None \<Rightarrow> bindE (extra p) (\<lambda>q. Inr (CommandParser q))
               | Some b \<Rightarrow> bindE (b p) (\<lambda>c.
                   case c of
                     CommandParser q \<Rightarrow> bindE (extra q) (\<lambda>r. Inr (CommandParser r))
                   | GroupParser q dest subs \<Rightarrow> bindE (extra q) (\<lambda>r. Inr (GroupParser r dest subs))))"

fun extend_command ::
    "command_spec list \<Rightarrow> string \<Rightarrow> configure \<Rightarrow> (handler_ref \<Rightarrow> handler_ref) \<Rightarrow>
     arg_fault + command_spec list" where
  "extend_command [] name configure wrap = Inl (MissingCommand name)"
| "extend_command (spec # specs) name configure wrap =
     (if cs_name spec \<noteq> name
      then bindE (extend_command specs name configure wrap) (\<lambda>rest. Inr (spec # rest))
      else Inr (spec\<lparr>cs_configure := chain_configure (cs_configure spec) configure,
                    cs_handler := wrap (cs_handler spec)\<rparr> # specs))"

definition register_local_family :: "command_spec list \<Rightarrow> arg_fault + command_spec list" where
  "register_local_family specs =
     extend_command (specs @ [group_command ''local'' ''handle_local'' configure_local])
       ''merge'' configure_merge_remote WrapMerge"

definition register_commands :: "arg_fault + command_spec list" where
  "register_commands =
     register_local_family (read_commands @ diff_commands @ log_commands @ mutation_commands @
       branch_stash_commands @ merge_commands @ forall_clone_commands)"

subsection \<open>The whole parser\<close>

text \<open>\<open>CommandRegistry.attach_to\<close> with the global options of prefix \<^verbatim>\<open>_cmd_\<close> as the parent.\<close>

definition attach_command :: "command_spec \<Rightarrow> arg_fault + string \<times> handler_ref \<times> cli_parser" where
  "attach_command spec =
     bindE (argument_parser True True (global_options_parent ''_cmd_'')) (\<lambda>p.
     bindE (case cs_configure spec of None \<Rightarrow> Inr (CommandParser p) | Some configure \<Rightarrow> configure p)
       (\<lambda>c. Inr (cs_name spec, cs_handler spec, c)))"

definition version_option :: arg_spec where
  "version_option =
     (named_option [''-V'', ''--version''])\<lparr>as_action := ShowVersion, as_default := Suppressed\<rparr>"

record top_parser =
  tp_options :: flat_parser
  tp_commands :: "(string \<times> handler_ref \<times> cli_parser) list"

definition build_parser :: "arg_fault + top_parser" where
  "build_parser =
     bindE (argument_parser False False []) (\<lambda>p0.
     bindE (add_arguments (add_global_options [] True @ [version_option]) p0) (\<lambda>p.
     bindE register_commands (\<lambda>specs.
     bindE (mapE attach_command specs) (\<lambda>commands.
       Inr \<lparr>tp_options = p, tp_commands = commands\<rparr>))))"

subsection \<open>What the parsers make of the global options\<close>

text \<open>
  For each global option, its option strings and its attribute. \<open>lost_globals\<close> are the option strings
  a parser with the given prefix does not read into that attribute, and \<open>foreign_writes\<close> the
  attributes of global options that another argument of the parser writes to.
\<close>

definition global_table :: "(string list \<times> string) list" where
  "global_table = map (\<lambda>a. (as_flags a, as_dest a)) (global_options_parent [])"

definition reads_as :: "flat_parser \<Rightarrow> string \<Rightarrow> string option" where
  "reads_as p f = map_option as_dest (find (\<lambda>b. f \<in> set (as_flags b)) (fp_actions p))"

definition lost_globals :: "(string list \<times> string) list \<Rightarrow> string \<Rightarrow> flat_parser \<Rightarrow> string list" where
  "lost_globals table dest_prefix p =
     concat (map (\<lambda>(fs, d). filter (\<lambda>f. reads_as p f \<noteq> Some (dest_prefix @ d)) fs) table)"

definition foreign_writes :: "(string list \<times> string) list \<Rightarrow> flat_parser \<Rightarrow> string list" where
  "foreign_writes table p =
     filter (\<lambda>d. d \<in> set (map snd table))
       (map (\<lambda>b. remove_prefix ''_nested_'' (remove_prefix ''_cmd_'' (as_dest b)))
         (filter (\<lambda>b. \<not> list_ex (\<lambda>(fs, d). as_flags b = fs) table) (fp_actions p)))"

definition clear_flags :: "(string list \<times> string) list \<Rightarrow> flat_parser \<Rightarrow> bool" where
  "clear_flags table p \<longleftrightarrow> distinct (all_flags (fp_actions p)) \<and> foreign_writes table p = []"

text \<open>
  A command's report: the global options it lost, its subcommands with those each of them lost, and
  whether all option strings are distinct and no foreign argument writes to a global attribute.
\<close>

fun parser_report ::
    "(string list \<times> string) list \<Rightarrow> cli_parser \<Rightarrow> string list \<times> (string \<times> string list) list \<times> bool" where
  "parser_report table (CommandParser p) = (lost_globals table ''_cmd_'' p, [], clear_flags table p)"
| "parser_report table (GroupParser p dest subs) =
     (lost_globals table ''_cmd_'' p, map (\<lambda>(n, q). (n, lost_globals table ''_nested_'' q)) subs,
      clear_flags table p \<and> list_all (\<lambda>(n, q). clear_flags table q) subs)"

definition command_report ::
    "(string list \<times> string) list \<Rightarrow> command_spec \<Rightarrow> (string \<times> handler_ref \<times> string list \<times> (string \<times> string list) list \<times> bool) option" where
  "command_report table spec =
     (case attach_command spec of
        Inl x \<Rightarrow> None
      | Inr (n, h, c) \<Rightarrow> Some (n, h, parser_report table c))"

definition leaf_report ::
    "string \<Rightarrow> string \<Rightarrow> string list \<Rightarrow>
     (string \<times> handler_ref \<times> string list \<times> (string \<times> string list) list \<times> bool) option" where
  "leaf_report name handler lost = Some (name, HandlerFun handler, lost, [], True)"

subsection \<open>Building a parser whose arguments do not meet\<close>

lemma add_arguments_fresh:
  assumes "distinct (all_flags own)" and "set (all_flags own) \<inter> set (all_flags (fp_actions p)) = {}"
  shows "add_arguments own p = Inr (p\<lparr>fp_actions := fp_actions p @ own\<rparr>)"
  using assms
proof (induction own arbitrary: p)
  case (Cons a own)
  then have "conflicts p a = []" by (auto simp: conflicts_def all_flags_def filter_empty_conv)
  moreover have "add_arguments own (p\<lparr>fp_actions := fp_actions p @ [a]\<rparr>) =
      Inr (p\<lparr>fp_actions := (fp_actions p @ [a]) @ own\<rparr>)"
    using Cons.prems by (subst Cons.IH) (auto simp: all_flags_def)
  ultimately show ?case by (simp add: add_argument_def)
qed simp

text \<open>\<open>f\<close> adds the arguments \<open>own\<close> to every parser that has none of their option strings.\<close>

definition adds :: "configure \<Rightarrow> arg_spec list \<Rightarrow> bool" where
  "adds f own \<longleftrightarrow>
     (\<forall>p. distinct (all_flags own) \<and> set (all_flags own) \<inter> set (all_flags (fp_actions p)) = {} \<longrightarrow>
        (\<exists>q. f p = Inr q \<and> fp_actions q = fp_actions p @ own))"

lemma adds_arguments [intro]: "adds (add_arguments own) own"
  by (simp add: adds_def add_arguments_fresh)

lemma adds_group [intro]: "adds (exclusive_group own) own"
  by (simp add: adds_def exclusive_group_def add_arguments_fresh)

lemma adds_defaults [intro]: "adds (set_defaults ds) []"
  by (simp add: adds_def set_defaults_def)

lemma adds_nothing [intro]: "adds Inr []"
  by (simp add: adds_def)

lemma adds_then [intro]:
  assumes "adds f own" and "adds g further"
  shows "adds (\<lambda>p. bindE (f p) g) (own @ further)"
  unfolding adds_def
proof (intro allI impI, elim conjE)
  fix p :: flat_parser
  assume d: "distinct (all_flags (own @ further))"
    and disj: "set (all_flags (own @ further)) \<inter> set (all_flags (fp_actions p)) = {}"
  then have "distinct (all_flags own)" "distinct (all_flags further)"
    "set (all_flags own) \<inter> set (all_flags (fp_actions p)) = {}"
    and further: "set (all_flags further) \<inter> set (all_flags (fp_actions p @ own)) = {}"
    by (auto simp: all_flags_def)
  with assms(1) obtain q where q: "f p = Inr q" "fp_actions q = fp_actions p @ own"
    by (auto simp: adds_def)
  with assms(2) \<open>distinct (all_flags further)\<close> further obtain r where
    "g q = Inr r" "fp_actions r = (fp_actions p @ own) @ further"
    by (force simp: adds_def)
  with q show "\<exists>q. bindE (f p) g = Inr q \<and> fp_actions q = fp_actions p @ own @ further" by simp
qed

lemma configures_add:
  "adds configure_status status_arguments" "adds configure_ls ls_arguments"
  "adds configure_init init_arguments" "adds configure_snapshot snapshot_arguments"
  "adds configure_push push_arguments" "adds configure_branch branch_arguments"
  "adds configure_forall forall_arguments" "adds configure_clone clone_arguments"
  "adds configure_local_clone local_clone_arguments" "adds configure_pull pull_targets"
  "adds configure_materialize (materialize_targets @ [url_scheme_option])"
  "adds configure_tag (tag_actions @ tag_arguments)"
  "adds configure_diff (diff_arguments @ [])"
  unfolding configure_diff_def [abs_def]
  by (auto simp: fun_eq_iff configure_status_def configure_ls_def configure_init_def configure_snapshot_def
      configure_push_def configure_branch_def configure_forall_def configure_clone_def
      configure_local_clone_def configure_pull_def configure_materialize_def [abs_def]
      configure_tag_def [abs_def] simp del: append_Nil2)

text \<open>
  Arguments that may be added to a parser with the global options: none of their option strings and
  none of their attributes is one of a global option.
\<close>

definition apart :: "string list \<Rightarrow> string list \<Rightarrow> arg_spec list \<Rightarrow> bool" where
  "apart flags attributes own \<longleftrightarrow>
     distinct (all_flags own) \<and> list_all (\<lambda>f. f \<notin> set flags) (all_flags own) \<and>
     list_all (\<lambda>a. remove_prefix ''_nested_'' (remove_prefix ''_cmd_'' (as_dest a)) \<notin> set attributes) own"

definition base_flags :: "string list" where
  "base_flags = all_flags (help_option # global_options_parent [])"

definition global_attributes :: "string list" where
  "global_attributes = map snd global_table"

definition own_arguments :: "arg_spec list list" where
  "own_arguments =
     [[], [operand_arg ''remote_name'' OneArg] @
        [(named_option [''--set''])\<lparr>as_dest := ''key_path''\<rparr>, switch_option [''--unset'']],
      status_arguments, ls_arguments, init_arguments,
      operand_arg ''repo_path'' OneArg # add_identity_options,
      operand_arg ''url'' OneArg # operand_arg ''member_path'' OptionalArg # add_identity_options,
      operand_arg ''member_path'' OneArg # add_identity_options,
      [operand_arg ''member'' OneArg], [operand_arg ''member_id'' OneArg],
      [operand_arg ''member_path'' OptionalArg] @
        [(named_option [''--private''])\<lparr>as_dest := ''private'', as_action := StoreConst True\<rparr>,
         (named_option [''--public''])\<lparr>as_dest := ''private'', as_action := StoreConst False\<rparr>],
      diff_arguments @ [], log_limits @ log_arguments @ [],
      materialize_targets @ [url_scheme_option], snapshot_arguments, tag_actions @ tag_arguments,
      pull_targets, push_arguments, branch_arguments,
      [(switch_option [''-u''])\<lparr>as_dest := ''include_untracked''\<rparr>,
       (switch_option [''-a''])\<lparr>as_dest := ''include_ignored''\<rparr>, named_option [''-m'', ''--message'']],
      [switch_option [''--expanded'']], [operand_arg ''stash_id'' OptionalArg],
      [operand_arg ''stash_id'' OneArg], forall_arguments, clone_arguments, local_clone_arguments,
      merge_arguments]"

lemma own_arguments_apart: "list_all (apart base_flags global_attributes) own_arguments"
  by code_simp

lemma parent_flags: "all_flags (help_option # global_options_parent dest_prefix) = base_flags"
  by (simp add: base_flags_def global_options_parent_def add_global_options_def all_flags_def
      named_option_def switch_option_def)

lemma base_flags_distinct: "distinct base_flags"
  by code_simp

lemma parent_prefixed:
  "global_options_parent dest_prefix =
     map (\<lambda>a. a\<lparr>as_dest := dest_prefix @ as_dest a\<rparr>) (global_options_parent [])"
  by (simp add: global_options_parent_def add_global_options_def named_option_def switch_option_def Let_def)

lemma help_not_global: "remove_prefix ''_nested_'' (remove_prefix ''_cmd_'' (as_dest help_option)) \<notin> set global_attributes"
  by code_simp

lemma argument_parser_base:
  "argument_parser resolve abbrev (global_options_parent dest_prefix) =
     Inr \<lparr>fp_actions = help_option # global_options_parent dest_prefix, fp_resolve = resolve,
          fp_abbrev = abbrev, fp_groups = [], fp_defaults = []\<rparr>"
  unfolding argument_parser_def
  by (subst add_arguments_fresh) (simp_all only: parent_flags base_flags_distinct, simp_all add: all_flags_def)

lemma find_flag:
  "distinct (all_flags as) \<Longrightarrow> b \<in> set as \<Longrightarrow> f \<in> set (as_flags b) \<Longrightarrow>
     find (\<lambda>b. f \<in> set (as_flags b)) as = Some b"
  by (induction as) (auto simp: all_flags_def)

lemma apart_parser:
  assumes own: "apart base_flags global_attributes own"
    and q: "fp_actions q = (help_option # global_options_parent dest_prefix) @ own"
  shows "lost_globals global_table dest_prefix q = [] \<and> clear_flags global_table q"
proof
  have dist: "distinct (all_flags (fp_actions q))"
  proof -
    have "all_flags (fp_actions q) = base_flags @ all_flags own"
      unfolding q parent_flags [symmetric, of dest_prefix] by (simp add: all_flags_def)
    with own base_flags_distinct show ?thesis by (auto simp: apart_def list_all_iff)
  qed
  have "reads_as q f = Some (dest_prefix @ d)" if row: "(fs, d) \<in> set global_table" and f: "f \<in> set fs" for fs d f
  proof -
    obtain a where a: "a \<in> set (global_options_parent [])" "fs = as_flags a" "d = as_dest a"
      using row by (auto simp: global_table_def)
    let ?b = "a\<lparr>as_dest := dest_prefix @ as_dest a\<rparr>"
    have "?b \<in> set (fp_actions q)" using a(1) by (auto simp: q parent_prefixed [of dest_prefix])
    from find_flag [OF dist this, of f] f a show ?thesis by (simp add: reads_as_def)
  qed
  then show "lost_globals global_table dest_prefix q = []"
    by (auto simp: lost_globals_def filter_empty_conv)
  have glob: "list_ex (\<lambda>(fs, d). as_flags b = fs) global_table" if "b \<in> set (global_options_parent dest_prefix)" for b
    using that by (auto simp: parent_prefixed [of dest_prefix] global_table_def list_ex_iff)
  have "foreign_writes global_table q = []"
    using own glob help_not_global
    by (auto simp: foreign_writes_def filter_empty_conv q apart_def list_all_iff global_attributes_def)
  with dist show "clear_flags global_table q" by (simp add: clear_flags_def)
qed

text \<open>So a configuration of such arguments succeeds and leaves the global options as they are.\<close>

lemma adds_apart:
  assumes "adds f own" and "apart base_flags global_attributes own"
    and "fp_actions p = help_option # global_options_parent dest_prefix"
  obtains q where "f p = Inr q" "lost_globals global_table dest_prefix q = []" "clear_flags global_table q"
proof -
  have "set (all_flags own) \<inter> set (all_flags (fp_actions p)) = {}" "distinct (all_flags own)"
    using assms(2,3) parent_flags [of dest_prefix] by (auto simp: apart_def list_all_iff)
  with assms(1,3) obtain q where "f p = Inr q"
    "fp_actions q = (help_option # global_options_parent dest_prefix) @ own"
    by (force simp: adds_def)
  with apart_parser assms(2) that show ?thesis by blast
qed

lemma plain_apart:
  assumes "adds f own" and "apart base_flags global_attributes own"
  shows "command_report global_table (plain_command name handler f) = leaf_report name handler []"
proof -
  let ?p = "\<lparr>fp_actions = help_option # global_options_parent ''_cmd_'', fp_resolve = True,
      fp_abbrev = True, fp_groups = [], fp_defaults = []\<rparr>"
  obtain q where "f ?p = Inr q" "lost_globals global_table ''_cmd_'' q = []" "clear_flags global_table q"
    by (rule adds_apart [OF assms, of ?p "''_cmd_''"]) auto
  then show ?thesis
    by (simp add: command_report_def attach_command_def argument_parser_base plain_command_def leaf_report_def)
qed

lemma bare_apart:
  "command_report global_table (bare_command name handler) = leaf_report name handler []"
proof -
  have "apart base_flags global_attributes []" by (simp add: apart_def all_flags_def)
  from apart_parser [OF this, of "\<lparr>fp_actions = help_option # global_options_parent ''_cmd_'',
      fp_resolve = True, fp_abbrev = True, fp_groups = [], fp_defaults = []\<rparr>" "''_cmd_''"]
  show ?thesis
    by (simp add: command_report_def attach_command_def argument_parser_base bare_command_def leaf_report_def)
qed

lemma subcommand_apart:
  assumes "adds f own" and "apart base_flags global_attributes own"
  obtains q where "subcommand resolve abbrev name f = Inr (name, q)"
    "lost_globals global_table ''_nested_'' q = []" "clear_flags global_table q"
proof -
  let ?p = "\<lparr>fp_actions = help_option # global_options_parent ''_nested_'', fp_resolve = resolve,
      fp_abbrev = abbrev, fp_groups = [], fp_defaults = []\<rparr>"
  obtain q where "f ?p = Inr q" "lost_globals global_table ''_nested_'' q = []" "clear_flags global_table q"
    by (rule adds_apart [OF assms, of ?p "''_nested_''"]) auto
  with that show ?thesis by (simp add: subcommand_def argument_parser_base)
qed

definition keeps_globals :: "configure \<Rightarrow> bool" where
  "keeps_globals f \<longleftrightarrow> (\<exists>own. adds f own \<and> apart base_flags global_attributes own)"

lemma keeps_globalsI: "apart base_flags global_attributes own \<Longrightarrow> adds f own \<Longrightarrow> keeps_globals f"
  by (auto simp: keeps_globals_def)

lemma subcommands_apart:
  assumes "list_all (\<lambda>(n, f). keeps_globals f) cs"
  shows "\<exists>ss. subcommands resolve abbrev cs = Inr ss \<and>
    map (\<lambda>(n, q). (n, lost_globals global_table ''_nested_'' q)) ss = map (\<lambda>(n, f). (n, [])) cs \<and>
    list_all (\<lambda>(n, q). clear_flags global_table q) ss"
  using assms
proof (induction cs)
  case (Cons c cs)
  obtain n f where c: "c = (n, f)" by fastforce
  with Cons.prems obtain own where "adds f own" "apart base_flags global_attributes own"
    by (auto simp: keeps_globals_def)
  from subcommand_apart [OF this, of resolve abbrev n] obtain q where
    "subcommand resolve abbrev n f = Inr (n, q)"
    "lost_globals global_table ''_nested_'' q = []" "clear_flags global_table q" by metis
  with Cons c show ?case by force
qed simp

lemma group_report:
  assumes "configure = (\<lambda>p. bindE ss (\<lambda>subs. Inr (GroupParser p dest subs)))" and "ss = Inr subs"
    and "list_all (\<lambda>(n, q). clear_flags global_table q) subs"
  shows "command_report global_table (group_command name handler configure) =
    Some (name, HandlerFun handler, [], map (\<lambda>(n, q). (n, lost_globals global_table ''_nested_'' q)) subs, True)"
proof -
  have "apart base_flags global_attributes []" by (simp add: apart_def all_flags_def)
  from apart_parser [OF this, of "\<lparr>fp_actions = help_option # global_options_parent ''_cmd_'',
      fp_resolve = True, fp_abbrev = True, fp_groups = [], fp_defaults = []\<rparr>" "''_cmd_''"] assms
  show ?thesis
    by (simp add: command_report_def attach_command_def argument_parser_base group_command_def)
qed

lemma adds_log: "adds configure_log (log_limits @ log_arguments @ [])"
proof -
  have "adds (\<lambda>p. exclusive_group log_limits (p\<lparr>fp_abbrev := False\<rparr>)) log_limits"
    by (simp add: adds_def exclusive_group_def add_arguments_fresh)
  from adds_then [OF this adds_then [OF adds_arguments adds_defaults]] show ?thesis
    by (simp add: configure_log_def [abs_def])
qed

lemma own_apart: "own \<in> set own_arguments \<Longrightarrow> apart base_flags global_attributes own"
  using own_arguments_apart by (auto simp: list_all_iff)

lemmas keeps = own_apart [THEN keeps_globalsI]

lemma auth_keeps: "list_all (\<lambda>(n, f). keeps_globals f) auth_commands"
  by (auto simp: auth_commands_def own_arguments_def simp del: add_arguments.simps intro!: keeps [OF _ adds_then [OF adds_arguments adds_group]])

lemma repo_keeps: "list_all (\<lambda>(n, f). keeps_globals f) repo_commands"
  by (auto simp: repo_commands_def own_arguments_def simp del: add_arguments.simps
      intro!: keeps [OF _ adds_then [OF adds_arguments adds_group]] keeps [OF _ adds_arguments])

lemma stash_keeps: "list_all (\<lambda>(n, f). keeps_globals f) stash_commands"
  by (auto simp: stash_commands_def own_arguments_def simp del: add_arguments.simps intro!: keeps [OF _ adds_arguments])

lemma group_reports:
  "command_report global_table (group_command ''auth'' ''handle_auth'' configure_auth) =
     Some (''auth'', HandlerFun ''handle_auth'', [], [(''identity'', [])], True)"
  "command_report global_table (group_command ''repo'' ''handle_repo'' configure_repo) =
     Some (''repo'', HandlerFun ''handle_repo'', [],
       [(''add'', []), (''clone'', []), (''create'', []), (''detach'', []), (''attach'', []), (''sync'', [])], True)"
  "command_report global_table (group_command ''stash'' ''handle_stash'' configure_stash) =
     Some (''stash'', HandlerFun ''handle_stash'', [],
       [(''push'', []), (''list'', []), (''apply'', []), (''pop'', []), (''drop'', [])], True)"
  using subcommands_apart [OF auth_keeps, of False False] group_report [OF configure_auth_def [abs_def, THEN meta_eq_to_obj_eq]]
    subcommands_apart [OF repo_keeps, of True True] group_report [OF configure_repo_def [abs_def, THEN meta_eq_to_obj_eq]]
    subcommands_apart [OF stash_keeps, of True True] group_report [OF configure_stash_def [abs_def, THEN meta_eq_to_obj_eq]]
  by (auto simp: auth_commands_def repo_commands_def stash_commands_def)

lemma local_report:
  "command_report global_table (group_command ''local'' ''handle_local'' configure_local) =
     Some (''local'', HandlerFun ''handle_local'', [],
       [(''clone'', []), (''list'', []), (''dispose'', [''--force'']), (''disband'', [])], True)"
proof -
  have keep: "keeps_globals configure_local_clone" "keeps_globals Inr"
    by (auto simp: own_arguments_def configure_local_clone_def intro!: keeps [OF _ adds_arguments]
        keeps [OF _ adds_nothing] simp del: add_arguments.simps)
  have "case subcommand True True ''dispose'' (snd (local_commands ! 2)) of
      Inl x \<Rightarrow> False
    | Inr (n, q) \<Rightarrow> n = ''dispose'' \<and> lost_globals global_table ''_nested_'' q = [''--force''] \<and>
        clear_flags global_table q"
    by code_simp
  then obtain q where q: "subcommand True True ''dispose'' (snd (local_commands ! 2)) = Inr (''dispose'', q)"
    "lost_globals global_table ''_nested_'' q = [''--force'']" "clear_flags global_table q"
    by (auto split: sum.splits)
  from subcommands_apart [of "[(''clone'', configure_local_clone), (''list'', Inr)]" True True]
    subcommands_apart [of "[(''disband'', Inr)]" True True] keep q
    group_report [OF configure_local_def [abs_def, THEN meta_eq_to_obj_eq]]
  show ?thesis
    by (fastforce simp: local_commands_def bindE_eq_Inr)
qed

lemma taken_reports:
  "command_report global_table (plain_command ''add'' ''handle_stage'' configure_stage) =
     leaf_report ''add'' ''handle_stage'' [''--all'']"
  "command_report global_table (plain_command ''commit'' ''handle_commit'' configure_commit) =
     leaf_report ''commit'' ''handle_commit'' [''--all'']"
  "command_report global_table
     ((plain_command ''merge'' ''handle_merge'' configure_merge)
        \<lparr>cs_configure := chain_configure (cs_configure (plain_command ''merge'' ''handle_merge'' configure_merge))
           configure_merge_remote, cs_handler := WrapMerge (HandlerFun ''handle_merge'')\<rparr>) =
     Some (''merge'', WrapMerge (HandlerFun ''handle_merge''), [], [], True)"
  by code_simp+

definition all_specs :: "command_spec list" where
  "all_specs =
     read_commands @ diff_commands @ log_commands @ mutation_commands @ branch_stash_commands @
     [(plain_command ''merge'' ''handle_merge'' configure_merge)
        \<lparr>cs_configure := chain_configure (cs_configure (plain_command ''merge'' ''handle_merge'' configure_merge))
           configure_merge_remote, cs_handler := WrapMerge (HandlerFun ''handle_merge'')\<rparr>] @
     forall_clone_commands @ [group_command ''local'' ''handle_local'' configure_local]"

lemma registered: "register_commands = Inr all_specs"
  by (simp add: register_commands_def register_local_family_def all_specs_def read_commands_def
      diff_commands_def log_commands_def mutation_commands_def branch_stash_commands_def
      merge_commands_def forall_clone_commands_def plain_command_def bare_command_def group_command_def)

lemma leaf_reports:
  "adds f own \<Longrightarrow> own \<in> set own_arguments \<Longrightarrow>
     command_report global_table (plain_command name handler f) = leaf_report name handler []"
  by (rule plain_apart [OF _ own_apart])

definition expected_reports ::
    "(string \<times> handler_ref \<times> string list \<times> (string \<times> string list) list \<times> bool) option list" where
  "expected_reports =
     [Some (''auth'', HandlerFun ''handle_auth'', [], [(''identity'', [])], True),
      leaf_report ''status'' ''handle_status'' [], leaf_report ''ls'' ''handle_ls'' [],
      leaf_report ''init'' ''handle_init'' [],
      Some (''repo'', HandlerFun ''handle_repo'', [],
        [(''add'', []), (''clone'', []), (''create'', []), (''detach'', []), (''attach'', []),
         (''sync'', [])], True),
      leaf_report ''diff'' ''handle_diff'' [], leaf_report ''log'' ''handle_log'' [],
      leaf_report ''materialize'' ''handle_materialize'' [],
      leaf_report ''snapshot'' ''handle_snapshot'' [], leaf_report ''tag'' ''handle_tag'' [],
      leaf_report ''capture'' ''handle_capture'' [], leaf_report ''add'' ''handle_stage'' [''--all''],
      leaf_report ''commit'' ''handle_commit'' [''--all''], leaf_report ''pull'' ''handle_pull'' [],
      leaf_report ''push'' ''handle_push'' [], leaf_report ''fetch'' ''handle_fetch'' [],
      leaf_report ''branch'' ''handle_branch'' [],
      Some (''stash'', HandlerFun ''handle_stash'', [],
        [(''push'', []), (''list'', []), (''apply'', []), (''pop'', []), (''drop'', [])], True),
      Some (''merge'', WrapMerge (HandlerFun ''handle_merge''), [], [], True),
      leaf_report ''forall'' ''handle_forall'' [], leaf_report ''clone'' ''handle_clone'' [],
      Some (''local'', HandlerFun ''handle_local'', [],
        [(''clone'', []), (''list'', []), (''dispose'', [''--force'']), (''disband'', [])], True)]"

lemma reports: "map (command_report global_table) all_specs = expected_reports"
proof -
  note plain = configures_add [THEN leaf_reports] adds_log [THEN leaf_reports]
  show ?thesis
    by (simp only: all_specs_def read_commands_def diff_commands_def log_commands_def
        mutation_commands_def branch_stash_commands_def forall_clone_commands_def
        expected_reports_def append.simps list.map group_reports local_report taken_reports bare_apart)
      (simp add: plain own_arguments_def)
qed

lemma report_attached:
  "command_report table spec = Some r \<Longrightarrow> \<exists>c. attach_command spec = Inr (cs_name spec, cs_handler spec, c)"
  by (auto simp: command_report_def attach_command_def bindE_eq_Inr split: sum.splits)

lemma mapE_reports:
  assumes "map (command_report table) specs = map Some rs"
  shows "\<exists>cs. mapE attach_command specs = Inr cs \<and>
    map (\<lambda>(n, h, c). (n, h, parser_report table c)) cs = rs"
  using assms
proof (induction specs arbitrary: rs)
  case (Cons spec specs)
  then obtain r rs' where rs: "rs = r # rs'" "command_report table spec = Some r"
    "map (command_report table) specs = map Some rs'" by (cases rs) auto
  with Cons.IH obtain cs where "mapE attach_command specs = Inr cs"
    "map (\<lambda>(n, h, c). (n, h, parser_report table c)) cs = rs'" by blast
  with rs show ?case by (auto simp: command_report_def split: sum.splits)
qed simp

definition promised_reports :: "(string \<times> handler_ref \<times> string list \<times> (string \<times> string list) list \<times> bool) list" where
  "promised_reports = map the expected_reports"

lemma top_options:
  "add_arguments (add_global_options [] True @ [version_option])
     \<lparr>fp_actions = [help_option], fp_resolve = False, fp_abbrev = False, fp_groups = [], fp_defaults = []\<rparr> =
   Inr \<lparr>fp_actions = help_option # add_global_options [] True @ [version_option], fp_resolve = False,
        fp_abbrev = False, fp_groups = [], fp_defaults = []\<rparr>"
  "distinct (all_flags (help_option # add_global_options [] True @ [version_option]))"
proof -
  have all: "all_flags (help_option # add_global_options [] True @ [version_option]) =
      base_flags @ [''-V'', ''--version'']"
    by (simp add: base_flags_def global_options_parent_def add_global_options_def all_flags_def
        named_option_def switch_option_def version_option_def)
  have "distinct (base_flags @ [''-V'', ''--version''])" by code_simp
  with all show d: "distinct (all_flags (help_option # add_global_options [] True @ [version_option]))" by simp
  then show "add_arguments (add_global_options [] True @ [version_option])
     \<lparr>fp_actions = [help_option], fp_resolve = False, fp_abbrev = False, fp_groups = [], fp_defaults = []\<rparr> =
   Inr \<lparr>fp_actions = help_option # add_global_options [] True @ [version_option], fp_resolve = False,
        fp_abbrev = False, fp_groups = [], fp_defaults = []\<rparr>"
    by (subst add_arguments_fresh) (auto simp: all_flags_def)
qed

definition top_flat :: flat_parser where
  "top_flat =
     \<lparr>fp_actions = help_option # add_global_options [] True @ [version_option], fp_resolve = False,
      fp_abbrev = False, fp_groups = [], fp_defaults = []\<rparr>"

lemma built:
  "\<exists>cs. build_parser = Inr \<lparr>tp_options = top_flat, tp_commands = cs\<rparr> \<and>
     map (\<lambda>(n, h, c). (n, h, parser_report global_table c)) cs = promised_reports"
proof -
  have some: "expected_reports = map Some promised_reports"
    by (simp add: promised_reports_def expected_reports_def leaf_report_def)
  from mapE_reports [OF reports [unfolded some]] obtain cs where
    cs: "mapE attach_command all_specs = Inr cs"
    "map (\<lambda>(n, h, c). (n, h, parser_report global_table c)) cs = promised_reports" by blast
  have "argument_parser False False [] = Inr \<lparr>fp_actions = [help_option], fp_resolve = False,
      fp_abbrev = False, fp_groups = [], fp_defaults = []\<rparr>"
    by (simp add: argument_parser_def add_argument_def conflicts_def all_flags_def)
  with cs top_options show ?thesis
    by (simp add: build_parser_def registered top_flat_def)
qed

definition command_names :: "string list" where
  "command_names = map fst promised_reports"

lemma built_names:
  assumes "build_parser = Inr tp"
  shows "tp_options tp = top_flat" "map fst (tp_commands tp) = command_names"
proof -
  obtain cs where cs: "build_parser = Inr \<lparr>tp_options = top_flat, tp_commands = cs\<rparr>"
    "map (\<lambda>(n, h, c). (n, h, parser_report global_table c)) cs = promised_reports" using built by blast
  have tp: "tp = \<lparr>tp_options = top_flat, tp_commands = cs\<rparr>"
    using cs(1) assms by (metis sum.inject(2))
  then show "tp_options tp = top_flat" by simp
  have "map fst (tp_commands tp) = map fst (map (\<lambda>(n, h, c). (n, h, parser_report global_table c)) cs)"
    using tp by (simp add: case_prod_unfold)
  with cs(2) show "map fst (tp_commands tp) = command_names" by (simp add: command_names_def)
qed

text \<open>
  C17: The command line can be built, and the global options mean the same everywhere: no declaration
  is refused by argparse; all option strings of a parser are distinct; no argument of a command writes
  to the attribute of a global option; and in the parser of every command and subcommand each global
  option is still read into its own attribute, but for \<^verbatim>\<open>--all\<close> of \<^verbatim>\<open>add\<close> and \<^verbatim>\<open>commit\<close> and \<^verbatim>\<open>--force\<close> of
  \<^verbatim>\<open>local dispose\<close>, which they redefine. \<^verbatim>\<open>merge\<close> alone runs under the family's wrapper.
\<close>

theorem option_tables_consistent:
  "\<exists>tp. build_parser = Inr tp \<and>
     distinct (all_flags (fp_actions (tp_options tp))) \<and>
     map (\<lambda>(n, h, c). (n, h, parser_report global_table c)) (tp_commands tp) =
       [(''auth'', HandlerFun ''handle_auth'', [], [(''identity'', [])], True),
        (''status'', HandlerFun ''handle_status'', [], [], True),
        (''ls'', HandlerFun ''handle_ls'', [], [], True),
        (''init'', HandlerFun ''handle_init'', [], [], True),
        (''repo'', HandlerFun ''handle_repo'', [],
          [(''add'', []), (''clone'', []), (''create'', []), (''detach'', []), (''attach'', []),
           (''sync'', [])], True),
        (''diff'', HandlerFun ''handle_diff'', [], [], True),
        (''log'', HandlerFun ''handle_log'', [], [], True),
        (''materialize'', HandlerFun ''handle_materialize'', [], [], True),
        (''snapshot'', HandlerFun ''handle_snapshot'', [], [], True),
        (''tag'', HandlerFun ''handle_tag'', [], [], True),
        (''capture'', HandlerFun ''handle_capture'', [], [], True),
        (''add'', HandlerFun ''handle_stage'', [''--all''], [], True),
        (''commit'', HandlerFun ''handle_commit'', [''--all''], [], True),
        (''pull'', HandlerFun ''handle_pull'', [], [], True),
        (''push'', HandlerFun ''handle_push'', [], [], True),
        (''fetch'', HandlerFun ''handle_fetch'', [], [], True),
        (''branch'', HandlerFun ''handle_branch'', [], [], True),
        (''stash'', HandlerFun ''handle_stash'', [],
          [(''push'', []), (''list'', []), (''apply'', []), (''pop'', []), (''drop'', [])], True),
        (''merge'', WrapMerge (HandlerFun ''handle_merge''), [], [], True),
        (''forall'', HandlerFun ''handle_forall'', [], [], True),
        (''clone'', HandlerFun ''handle_clone'', [], [], True),
        (''local'', HandlerFun ''handle_local'', [],
          [(''clone'', []), (''list'', []), (''dispose'', [''--force'']), (''disband'', [])], True)]"
  using built top_options(2)
  by (auto simp: top_flat_def promised_reports_def expected_reports_def leaf_report_def)

end
