(* ===== verification/CliParse.thy ===== *)
theory CliParse
  imports CliOptions
begin

section \<open>The raw scan against argparse\<close>

text \<open>
  \<^verbatim>\<open>src/gwz/cli_shared.py\<close> looks for the command in the raw arguments by a scan of its own, with its own
  tables of the global options. Here the part of argparse that does the same for the top parser of
  \<open>build_parser\<close> is modelled: the classification of an argument, the options with their values, and
  the choice of the command, up to the point where the command's own parser takes over.
\<close>

subsection \<open>The parse up to the command\<close>

text \<open>
  The class of an argument (\<open>_parse_optional\<close>, without abbreviations): an operand, a known option with
  the value written behind it, or an unknown option. A single-dash argument whose first two
  characters are a known short option carries the rest as its value.
\<close>

datatype arg_class = Operand | KnownOption arg_spec "string option" | UnknownOption

definition negative_number :: "string \<Rightarrow> bool" where
  "negative_number s \<longleftrightarrow>
     (let body = drop 1 s; whole = takeWhile (\<lambda>c. c \<noteq> CHR ''.'') body;
          fraction = drop (length whole + 1) body
      in list_all is_digit whole \<and>
         (if CHR ''.'' \<in> set body then fraction \<noteq> [] \<and> list_all is_digit fraction else whole \<noteq> []))"

definition option_for :: "flat_parser \<Rightarrow> string \<Rightarrow> arg_spec option" where
  "option_for p f = find (\<lambda>a. f \<in> set (as_flags a)) (fp_actions p)"

definition classify_arg :: "flat_parser \<Rightarrow> string \<Rightarrow> arg_class" where
  "classify_arg p arg =
     (if \<not> starts_with ''-'' arg then Operand
      else case option_for p arg of
        Some a \<Rightarrow> KnownOption a None
      | None \<Rightarrow>
          if length arg = 1 then Operand
          else (case partition_at CHR ''='' arg of
                  (flag, has_value, v) \<Rightarrow>
                    (case (if has_value then option_for p flag else None) of
                       Some a \<Rightarrow> KnownOption a (Some v)
                     | None \<Rightarrow>
                         (case (if starts_with ''--'' arg then None else option_for p (take 2 arg)) of
                            Some a \<Rightarrow> KnownOption a (Some (drop 2 arg))
                          | None \<Rightarrow>
                              if negative_number arg \<or> CHR '' '' \<in> set arg then Operand
                              else UnknownOption))))"

text \<open>What an option stores: None when its value is refused, which ends the program.\<close>

definition ok_value :: "exn + 'a \<Rightarrow> 'a option" where
  "ok_value r = (case r of Inl e \<Rightarrow> None | Inr x \<Rightarrow> Some x)"

definition appended :: "'a list option \<Rightarrow> 'a \<Rightarrow> 'a list option" where
  "appended xs x = Some ((case xs of None \<Rightarrow> [] | Some ys \<Rightarrow> ys) @ [x])"

definition store_switch :: "string \<Rightarrow> global_layer \<Rightarrow> global_layer option" where
  "store_switch dest l =
     (if dest = ''all_members'' then Some (l\<lparr>gl_all_members := Some True\<rparr>)
      else if dest = ''dry_run'' then Some (l\<lparr>gl_dry_run := Some True\<rparr>)
      else if dest = ''partial'' then Some (l\<lparr>gl_partial := Some True\<rparr>)
      else if dest = ''destructive'' then Some (l\<lparr>gl_destructive := Some True\<rparr>)
      else if dest = ''json'' then Some (l\<lparr>gl_json := Some True\<rparr>)
      else if dest = ''jsonl'' then Some (l\<lparr>gl_jsonl := Some True\<rparr>)
      else if dest = ''verbose'' then Some (l\<lparr>gl_verbose := Some True\<rparr>)
      else None)"

definition store_value :: "arg_spec \<Rightarrow> string \<Rightarrow> global_layer \<Rightarrow> global_layer option" where
  "store_value a v l =
     (if (case as_choices a of None \<Rightarrow> False | Some cs \<Rightarrow> v \<notin> set cs) then None
      else if as_dest a = ''root'' then Some (l\<lparr>gl_root := Some v\<rparr>)
      else if as_dest a = ''targets'' then Some (l\<lparr>gl_targets := appended (gl_targets l) v\<rparr>)
      else if as_dest a = ''exclude_targets''
      then Some (l\<lparr>gl_exclude_targets := appended (gl_exclude_targets l) v\<rparr>)
      else if as_dest a = ''member_paths'' then Some (l\<lparr>gl_member_paths := appended (gl_member_paths l) v\<rparr>)
      else if as_dest a = ''sync'' then Some (l\<lparr>gl_sync := Some v\<rparr>)
      else if as_dest a = ''remote'' then Some (l\<lparr>gl_remote := Some v\<rparr>)
      else if as_dest a = ''identity'' then Some (l\<lparr>gl_identity := Some v\<rparr>)
      else if as_dest a = ''remote_identities''
      then map_option (\<lambda>i. l\<lparr>gl_remote_identities := appended (gl_remote_identities l) i\<rparr>)
             (ok_value (remote_identity_argument v))
      else if as_dest a = ''jobs''
      then map_option (\<lambda>n. l\<lparr>gl_jobs := Some n\<rparr>) (ok_value (positive_int v))
      else if as_dest a = ''max_connections_per_host''
      then map_option (\<lambda>n. l\<lparr>gl_max_connections_per_host := Some n\<rparr>) (ok_value (positive_int v))
      else if as_dest a = ''progress_min_interval_ms''
      then map_option (\<lambda>n. l\<lparr>gl_progress_min_interval_ms := Some n\<rparr>) (ok_value (non_negative_int v))
      else if as_dest a = ''ssh_timeout''
      then map_option (\<lambda>n. l\<lparr>gl_ssh_timeout := Some n\<rparr>) (ok_value (non_negative_int v))
      else None)"

text \<open>
  One option: the options stored and the arguments left. A switch takes no value; the value of
  another option is written behind it or is the next argument, which must be an operand.
\<close>

definition take_option ::
    "flat_parser \<Rightarrow> arg_spec \<Rightarrow> string option \<Rightarrow> global_layer \<Rightarrow> string list \<Rightarrow>
     (global_layer \<times> string list) option" where
  "take_option p a given l args =
     (if as_action a = StoreTrue
      then if given \<noteq> None then None else map_option (\<lambda>l1. (l1, args)) (store_switch (as_dest a) l)
      else if as_action a = StoreValue \<or> as_action a = AppendValue
      then (case given of
              Some v \<Rightarrow> map_option (\<lambda>l1. (l1, args)) (store_value a v l)
            | None \<Rightarrow>
                (case args of
                   [] \<Rightarrow> None
                 | v # rest \<Rightarrow>
                     if v = ''--'' \<or> classify_arg p v \<noteq> Operand then None
                     else map_option (\<lambda>l1. (l1, rest)) (store_value a v l)))
      else None)"

lemma take_option_length: "take_option p a given l args = Some (l1, rest) \<Longrightarrow> length rest \<le> length args"
  by (auto simp: take_option_def split: if_splits option.splits list.splits)

text \<open>
  The arguments from the left until the command is found: the global options stored, the command
  and its arguments. None is a run that ends here, by the help, the version or an error; an unknown
  option is kept aside by argparse and ends the run later. What argparse makes of a separator before the
  command depends on its version and is the parameter \<open>separator\<close>.
\<close>

function parse_top ::
    "flat_parser \<Rightarrow> string list \<Rightarrow> (global_layer \<Rightarrow> string list \<Rightarrow> (global_layer \<times> string \<times> string list) option) \<Rightarrow>
     global_layer \<Rightarrow> string list \<Rightarrow> (global_layer \<times> string \<times> string list) option" where
  "parse_top p commands separator l [] = None"
| "parse_top p commands separator l (arg # args) =
     (if arg = ''--'' then separator l args
      else case classify_arg p arg of
        Operand \<Rightarrow> if arg \<in> set commands then Some (l, arg, args) else None
      | UnknownOption \<Rightarrow> None
      | KnownOption a given \<Rightarrow>
         (case take_option p a given l args of
            None \<Rightarrow> None
          | Some (l1, rest) \<Rightarrow> parse_top p commands separator l1 rest))"
  by pat_completeness auto
termination
  by (relation "measure (\<lambda>(p, commands, separator, l, args). length args)")
    (auto dest: take_option_length)

declare parse_top.simps(2) [simp del]

subsection \<open>The tables agree\<close>

definition flags_with :: "(arg_action \<Rightarrow> bool) \<Rightarrow> flat_parser \<Rightarrow> string list" where
  "flags_with P p = all_flags (filter (\<lambda>a. P (as_action a)) (fp_actions p))"

lemma top_flags:
  "set (flags_with (\<lambda>x. x = StoreTrue) top_flat) = set GLOBAL_BOOL_OPTIONS"
  "set (flags_with (\<lambda>x. x = StoreValue \<or> x = AppendValue) top_flat) = set GLOBAL_VALUE_OPTIONS"
  "set (flags_with (\<lambda>x. x = StoreTrue \<or> x = StoreValue) top_flat) = set GLOBAL_SINGLETON_OPTIONS"
  by code_simp+

text \<open>
  The tables of the raw scan are those of the parser: the options the scan takes for switches, for
  options with a value and for options that may be given once are the global options argparse knows as
  such.
\<close>

theorem scan_tables_match_parser:
  assumes "build_parser = Inr tp"
  shows "set GLOBAL_BOOL_OPTIONS = set (flags_with (\<lambda>x. x = StoreTrue) (tp_options tp)) \<and>
    set GLOBAL_VALUE_OPTIONS =
      set (flags_with (\<lambda>x. x = StoreValue \<or> x = AppendValue) (tp_options tp)) \<and>
    set GLOBAL_SINGLETON_OPTIONS =
      set (flags_with (\<lambda>x. x = StoreTrue \<or> x = StoreValue) (tp_options tp))"
  using top_flags built_names(1) [OF assms] by simp

theorem scan_tables_match_parser_witness:
  "set GLOBAL_VALUE_OPTIONS =
     set (flags_with (\<lambda>x. x = StoreValue \<or> x = AppendValue) (tp_options (projr build_parser)))"
proof -
  have "build_parser = Inr (projr build_parser)" using built by (metis sum.sel(2))
  from scan_tables_match_parser [OF this] show ?thesis by simp
qed

subsection \<open>The scan finds the command argparse runs\<close>

lemma option_for_flag:
  assumes "option_for top_flat f = Some a"
  shows "as_action a = StoreTrue \<Longrightarrow> f \<in> set GLOBAL_BOOL_OPTIONS"
    and "as_action a = StoreValue \<or> as_action a = AppendValue \<Longrightarrow> f \<in> set GLOBAL_VALUE_OPTIONS"
proof -
  have a: "a \<in> set (fp_actions top_flat)" "f \<in> set (as_flags a)"
    using assms unfolding option_for_def find_Some_iff by auto
  show "f \<in> set GLOBAL_BOOL_OPTIONS" if "as_action a = StoreTrue"
    unfolding top_flags(1) [symmetric] using a that by (auto simp: flags_with_def all_flags_def)
  show "f \<in> set GLOBAL_VALUE_OPTIONS" if "as_action a = StoreValue \<or> as_action a = AppendValue"
    unfolding top_flags(2) [symmetric] using a that by (auto simp: flags_with_def all_flags_def)
qed

lemma global_flag_shape:
  assumes "f \<in> set GLOBAL_BOOL_OPTIONS \<union> set GLOBAL_VALUE_OPTIONS"
  shows "starts_with ''--'' f" "f \<noteq> ''--''" "f \<noteq> ''--version''" "CHR ''='' \<notin> set f"
  using assms by (auto simp: GLOBAL_BOOL_OPTIONS_def GLOBAL_VALUE_OPTIONS_def starts_with_def)

lemma partition_at_absent: "c \<notin> set s \<Longrightarrow> partition_at c s = (s, False, [])"
  by (induction s) auto

lemma known_option:
  assumes "classify_arg top_flat arg = KnownOption a given"
    and "as_action a = StoreTrue \<or> as_action a = StoreValue \<or> as_action a = AppendValue"
  shows "global_token arg \<and> (given \<noteq> None \<longleftrightarrow> has_inline arg) \<and>
    (as_action a = StoreTrue \<longrightarrow> option_of arg \<in> set GLOBAL_BOOL_OPTIONS) \<and>
    (as_action a \<noteq> StoreTrue \<longrightarrow> option_of arg \<in> set GLOBAL_VALUE_OPTIONS)"
proof -
  have global: "f \<in> set GLOBAL_BOOL_OPTIONS \<union> set GLOBAL_VALUE_OPTIONS"
    if "option_for top_flat f = Some a" for f
    using option_for_flag [OF that] assms(2) by auto
  obtain flag has v where part: "partition_at CHR ''='' arg = (flag, has, v)" by (metis prod_cases3)
  consider (whole) "option_for top_flat arg = Some a" "given = None"
    | (inline) "has" "option_for top_flat flag = Some a" "given = Some v"
    | (short) "\<not> starts_with ''--'' arg" "option_for top_flat (take 2 arg) = Some a"
    using assms(1) part by (auto simp: classify_arg_def split: if_splits option.splits)
  then show ?thesis
  proof cases
    case whole
    note shape = global_flag_shape [OF global [OF whole(1)]]
    then have "partition_at CHR 0x3D arg = (arg, False, [])" using partition_at_absent by simp
    with whole shape option_for_flag [OF whole(1)] assms(2) show ?thesis
      by (auto simp: global_token_def has_inline_def option_of_def)
  next
    case inline
    note shape = global_flag_shape [OF global [OF inline(2)]]
    from part inline(1) have "partition_at CHR ''='' arg = (flag, True, v)" by simp
    then have arg: "arg = flag @ CHR ''='' # v" using partition_at_found by blast
    then have "starts_with ''--'' arg" "arg \<noteq> ''--''" "arg \<noteq> ''--version''"
      using shape by (auto simp: starts_with_iff append_eq_Cons_conv)
    with inline part option_for_flag [OF inline(2)] assms(2) show ?thesis
      by (auto simp: global_token_def has_inline_def option_of_def)
  next
    case short
    from global_flag_shape(1) [OF global [OF short(2)]] short(1) show ?thesis
      by (auto simp: starts_with_def min_def split: if_splits)
  qed
qed

lemma command_names_plain:
  "list_all (\<lambda>c. \<not> starts_with ''-'' c) command_names"
  by (simp add: command_names_def promised_reports_def expected_reports_def leaf_report_def starts_with_def)

lemma command_name_token: "c \<in> set command_names \<Longrightarrow> command_token c"
  using command_names_plain by (cases c) (auto simp: list_all_iff command_token_def starts_with_def)

lemma parse_top_tokens:
  "parse_top top_flat command_names separator l raw = Some (l1, cmd, rest) \<Longrightarrow>
     (\<exists>gs. raw = gs @ cmd # rest \<and> global_tokens gs \<and> cmd \<in> set command_names) \<or>
     (\<exists>gs post l0. raw = gs @ ''--'' # post \<and> global_tokens gs \<and> separator l0 post = Some (l1, cmd, rest))"
proof (induction "length raw" arbitrary: raw l rule: less_induct)
  case less
  obtain arg args where raw: "raw = arg # args" using less.prems by (cases raw) auto
  show ?case
  proof (cases "arg = ''--''")
    case True
    with less.prems raw show ?thesis by (force simp: parse_top.simps(2) intro: gt_nil)
  next
    case False
    show ?thesis
    proof (cases "classify_arg top_flat arg")
      case Operand
      with less.prems raw False show ?thesis
        by (force simp: parse_top.simps(2) intro: gt_nil split: if_splits)
    next
      case UnknownOption
      with less.prems raw False show ?thesis by (simp add: parse_top.simps(2))
    next
      case (KnownOption a given)
      with less.prems raw False obtain l2 left where
        step: "take_option top_flat a given l args = Some (l2, left)"
        "parse_top top_flat command_names separator l2 left = Some (l1, cmd, rest)"
        by (auto simp: parse_top.simps(2) split: option.splits)
      from less.hyps [OF _ step(2)] take_option_length [OF step(1)] raw
      have IH: "(\<exists>gs. left = gs @ cmd # rest \<and> global_tokens gs \<and> cmd \<in> set command_names) \<or>
        (\<exists>gs post l0. left = gs @ ''--'' # post \<and> global_tokens gs \<and> separator l0 post = Some (l1, cmd, rest))"
        by auto
      have act: "as_action a = StoreTrue \<or> as_action a = StoreValue \<or> as_action a = AppendValue"
        using step(1) by (auto simp: take_option_def split: if_splits)
      note known = known_option [OF KnownOption act]
      have "\<exists>pre. raw = pre @ left \<and> (\<forall>gs. global_tokens gs \<longrightarrow> global_tokens (pre @ gs))"
      proof (cases "as_action a \<noteq> StoreTrue \<and> given = None")
        case True
        with step(1) obtain v where "args = v # left"
          by (auto simp: take_option_def split: if_splits list.splits)
        with raw True known have "raw = [arg, v] @ left \<and>
            (\<forall>gs. global_tokens gs \<longrightarrow> global_tokens ([arg, v] @ gs))"
          by (auto intro: gt_value)
        then show ?thesis by blast
      next
        case False
        with step(1) act have "args = left"
          by (auto simp: take_option_def split: if_splits option.splits)
        with raw False known have "raw = [arg] @ left \<and>
            (\<forall>gs. global_tokens gs \<longrightarrow> global_tokens ([arg] @ gs))"
          by (auto intro: gt_flag gt_inline)
        then show ?thesis by blast
      qed
      with IH show ?thesis by (metis append.assoc)
    qed
  qed
qed

text \<open>
  C18: The scan and argparse find the same command: whenever argparse runs a command, the raw scan
  answers its position, and what argparse leaves to the command is all behind it, unless a
  separator came before the command.
\<close>

theorem scan_agrees_with_argparse:
  assumes "build_parser = Inr tp"
    and "parse_top (tp_options tp) (map fst (tp_commands tp)) separator l raw = Some (l1, cmd, rest)"
  shows "(\<exists>i. top_level_command_index raw = Some i \<and> raw ! i = cmd \<and> rest = drop (Suc i) raw) \<or>
    (\<exists>gs post l0. raw = gs @ ''--'' # post \<and> global_tokens gs \<and>
       separator l0 post = Some (l1, cmd, rest))"
proof -
  from assms parse_top_tokens have
    "(\<exists>gs. raw = gs @ cmd # rest \<and> global_tokens gs \<and> cmd \<in> set command_names) \<or>
     (\<exists>gs post l0. raw = gs @ ''--'' # post \<and> global_tokens gs \<and> separator l0 post = Some (l1, cmd, rest))"
    by (simp add: built_names [OF assms(1)])
  then show ?thesis
  proof
    assume "\<exists>gs. raw = gs @ cmd # rest \<and> global_tokens gs \<and> cmd \<in> set command_names"
    then obtain gs where gs: "raw = gs @ cmd # rest" "global_tokens gs" "cmd \<in> set command_names" by blast
    from command_index_complete [OF gs(2) command_name_token [OF gs(3)], of "[]" rest] gs(1)
    have "top_level_command_index raw = Some (length gs)" by (simp add: top_level_command_index_def)
    with gs(1) show ?thesis by auto
  qed blast
qed

theorem scan_agrees_with_argparse_witness:
  "\<exists>i. top_level_command_index [''--root'', ''/w'', ''--json'', ''log'', ''--'', ''src''] = Some i \<and>
     [''--root'', ''/w'', ''--json'', ''log'', ''--'', ''src''] ! i = ''log''"
proof -
  let ?raw = "[''--root'', ''/w'', ''--json'', ''log'', ''--'', ''src'']"
  have b: "build_parser = Inr (projr build_parser)" using built by (metis sum.sel(2))
  have "\<exists>l1. parse_top top_flat command_names (\<lambda>l post. None) no_layer ?raw = Some (l1, ''log'', [''--'', ''src''])"
    by (simp add: parse_top.simps(2) classify_arg_def option_for_def top_flat_def help_option_def
        add_global_options_def named_option_def switch_option_def take_option_def store_value_def
        store_switch_def starts_with_def command_names_def promised_reports_def expected_reports_def
        leaf_report_def)
  with built_names [OF b] obtain l1 where
    "parse_top (tp_options (projr build_parser)) (map fst (tp_commands (projr build_parser)))
       (\<lambda>l post. None) no_layer ?raw = Some (l1, ''log'', [''--'', ''src''])" by auto
  from scan_agrees_with_argparse [OF b this] show ?thesis by auto
qed

end
