(* ===== verification/Terminal.thy ===== *)
theory Terminal
  imports Faults
begin

section \<open>The process's output streams\<close>

text \<open>
  Standard output and standard error as a state of their own: a write takes effect as a whole or
  fails with the operating system's error. \<open>tm_silence\<close> is \<open>_silence_broken_stdout\<close> of
  \<^verbatim>\<open>src/gwz/cli_shared.py\<close>, \<open>tm_tty\<close> whether standard output is a terminal. What the package
  writes is \<open>put\<close>: a text that UTF-8 cannot encode is refused before anything is written.
\<close>

datatype channel = Stdout | Stderr

record 't terminal =
  tm_write :: "channel \<Rightarrow> string \<Rightarrow> 't \<Rightarrow> os_error option \<times> 't"
  tm_silence :: "'t \<Rightarrow> 't"
  tm_tty :: bool

definition put_bytes :: "'t terminal \<Rightarrow> channel \<Rightarrow> string \<Rightarrow> 't \<Rightarrow> (exn + unit) \<times> 't" where
  "put_bytes tm ch bytes t =
     (case tm_write tm ch bytes t of
        (None, t1) \<Rightarrow> (Inr (), t1)
      | (Some e, t1) \<Rightarrow> (Inl (OSFault e), t1))"

definition put_text :: "'t terminal \<Rightarrow> channel \<Rightarrow> string \<Rightarrow> 't \<Rightarrow> (exn + unit) \<times> 't" where
  "put_text tm ch text t =
     (if has_surrogate text then (Inl UnicodeEncodeError, t) else put_bytes tm ch text t)"

text \<open>
  \<open>print\<close> to standard error, whose error handler is \<open>backslashreplace\<close>: a surrogate is written as its
  escape.
\<close>

fun escape_surrogates :: "string \<Rightarrow> string" where
  "escape_surrogates (a # b # c # s) =
     (if byte_of a = 237 \<and> 160 \<le> byte_of b \<and> byte_of b < 192
      then [CHR 0x5C, CHR ''u''] @ hex4 (surrogate_code a b c) @ escape_surrogates s
      else a # escape_surrogates (b # c # s))"
| "escape_surrogates s = s"

definition put_stderr :: "'t terminal \<Rightarrow> string \<Rightarrow> 't \<Rightarrow> (exn + unit) \<times> 't" where
  "put_stderr tm text t = put_bytes tm Stderr (escape_surrogates text) t"

fun print_lines :: "('t \<Rightarrow> string \<Rightarrow> (exn + unit) \<times> 't) \<Rightarrow> string list \<Rightarrow> 't \<Rightarrow> (exn + unit) \<times> 't" where
  "print_lines put [] t = (Inr (), t)"
| "print_lines put (line # rows) t =
     (case put t (line @ [CHR 0x0A]) of
        (Inl e, t1) \<Rightarrow> (Inl e, t1)
      | (Inr _, t1) \<Rightarrow> print_lines put rows t1)"

text \<open>Two streams that never fail: what has been written to each.\<close>

definition buffers :: "bool \<Rightarrow> (string \<times> string) terminal" where
  "buffers tty =
     \<lparr>tm_write = (\<lambda>ch text (out, err).
        (None, case ch of Stdout \<Rightarrow> (out @ text, err) | Stderr \<Rightarrow> (out, err @ text))),
      tm_silence = (\<lambda>t. t), tm_tty = tty\<rparr>"

lemma put_bytes_buffers [simp]:
  "put_bytes (buffers tty) Stdout text (out, err) = (Inr (), (out @ text, err))"
  "put_bytes (buffers tty) Stderr text (out, err) = (Inr (), (out, err @ text))"
  by (simp_all add: put_bytes_def buffers_def)

lemma put_text_buffers:
  "\<not> has_surrogate text \<Longrightarrow> put_text (buffers tty) Stdout text (out, err) = (Inr (), (out @ text, err))"
  "\<not> has_surrogate text \<Longrightarrow> put_text (buffers tty) Stderr text (out, err) = (Inr (), (out, err @ text))"
  by (simp_all add: put_text_def)

lemma escape_surrogates_none: "\<not> has_surrogate s \<Longrightarrow> escape_surrogates s = s"
  by (induction s rule: escape_surrogates.induct) auto

lemma put_stderr_buffers:
  "put_stderr (buffers tty) text (out, err) = (Inr (), (out, err @ escape_surrogates text))"
  by (simp add: put_stderr_def)

lemma ascii_no_surrogate: "list_all (\<lambda>c. byte_of c < 128) s \<Longrightarrow> \<not> has_surrogate s"
  by (induction s rule: has_surrogate.induct) auto

end
