(* ===== verification/CliLocal.thy ===== *)
theory CliLocal
  imports CliShared ClientCalls Terminal
begin

section \<open>forall and clone\<close>

text \<open>
  \<^verbatim>\<open>src/gwz/cli_local.py\<close>: \<^verbatim>\<open>gwz forall\<close>, which runs a command in each selected member, and
  \<^verbatim>\<open>gwz clone\<close>. Running a process is a parameter, \<open>runner\<close>, over a state of the outside world: it
  is given the command, the directory and the variables added to the environment, and answers a
  return code or the text of an \<open>OSError\<close>.
\<close>

subsection \<open>The forall command line\<close>

definition no_command :: exn where
  "no_command = usage_error (''no command (use `-- <cmd>` or `-c <string>`)'')"

definition is_command_flag :: "string \<Rightarrow> bool" where
  "is_command_flag t \<longleftrightarrow> t = ''-c'' \<or> t = ''--command-string''"

definition command_flag_indices :: "string list \<Rightarrow> nat list" where
  "command_flag_indices tokens = filter (\<lambda>i. is_command_flag (tokens ! i)) [0..<length tokens]"

definition forall_invocation ::
    "string list \<Rightarrow> string option \<Rightarrow> exn + (string list \<times> exec_mode \<times> string list)" where
  "forall_invocation tokens command_string =
     (case command_string of
        Some c \<Rightarrow>
          if ''--'' \<in> set tokens
          then Inl (usage_error ''use either `-c <string>` or `-- <cmd>`, not both'')
          else Inr (tokens, ExecMode_shell, [c])
      | None \<Rightarrow>
         (case find_index ''--'' tokens of
            Some i \<Rightarrow>
              (let command = drop (i + 1) tokens
               in if command \<noteq> [] then Inr (take i tokens, ExecMode_argv, command) else Inl no_command)
          | None \<Rightarrow>
             (case command_flag_indices tokens of
                [] \<Rightarrow> Inl no_command
              | [i] \<Rightarrow>
                  if i + 1 \<ge> length tokens
                  then Inl (usage_error (tokens ! i @ '' requires a command string''))
                  else if i + 2 < length tokens
                  then Inl (usage_error (tokens ! i @ '' accepts exactly one command string''))
                  else Inr (take i tokens, ExecMode_shell, [tokens ! (i + 1)])
              | _ \<Rightarrow> Inl (usage_error ''-c accepts exactly one command string''))))"

subsection \<open>Running the command\<close>

datatype run_command = ShellCommand string | ArgvCommand "string list"

record run_request =
  rq_command :: run_command
  rq_cwd :: string
  rq_env :: "(string \<times> string) list"

type_synonym 'w runner = "run_request \<Rightarrow> 'w \<Rightarrow> (string + int) \<times> 'w"

definition member_env :: "string \<Rightarrow> member_entry \<Rightarrow> (string \<times> string) list" where
  "member_env root m =
     [(''GWZ_MEMBER_ID'', me_id m), (''GWZ_MEMBER_PATH'', me_path m),
      (''GWZ_MEMBER_ABSPATH'', me_abspath m), (''GWZ_ROOT'', root),
      (''GWZ_TARGET_KIND'', if me_target_kind m = Some TargetKind_root then ''root'' else ''member'')]"

definition spawn_failure :: "member_entry \<Rightarrow> string \<Rightarrow> exec_result" where
  "spawn_failure m message =
     \<lparr>xr_id = me_id m, xr_path = me_path m, xr_exit_code = None, xr_signal = None,
      xr_spawn_error = Some message\<rparr>"

definition completed_result :: "member_entry \<Rightarrow> int \<Rightarrow> exec_result" where
  "completed_result m code =
     \<lparr>xr_id = me_id m, xr_path = me_path m,
      xr_exit_code = (if 0 \<le> code then Some code else None),
      xr_signal = (if code < 0 then Some (- code) else None), xr_spawn_error = None\<rparr>"

definition run_command_for :: "exec_mode \<Rightarrow> string list \<Rightarrow> member_entry \<Rightarrow> run_command" where
  "run_command_for mode command m =
     (if mode = ExecMode_shell then ShellCommand (hd command)
      else ArgvCommand (map (\<lambda>part. replace_sub ''{@}'' (me_path m) part) command))"

definition run_one ::
    "'w runner \<Rightarrow> exec_mode \<Rightarrow> string list \<Rightarrow> string \<Rightarrow> member_entry \<Rightarrow> 'w \<Rightarrow> exec_result \<times> 'w" where
  "run_one runner mode command root m w =
     (case run_command_for mode command m of
        ArgvCommand [] \<Rightarrow> (spawn_failure m ''empty command'', w)
      | c \<Rightarrow>
         (case runner \<lparr>rq_command = c, rq_cwd = me_abspath m, rq_env = member_env root m\<rparr> w of
            (Inl message, w1) \<Rightarrow> (spawn_failure m message, w1)
          | (Inr code, w1) \<Rightarrow> (completed_result m code, w1)))"

definition result_ok :: "exec_result \<Rightarrow> bool" where
  "result_ok r \<longleftrightarrow> xr_exit_code r = Some 0 \<and> xr_signal r = None \<and> xr_spawn_error r = None"

text \<open>
  The members one after the other. \<open>announce\<close> writes a member's banner, which may fail, and shares
  the world with the runs.
\<close>

fun run_forall ::
    "(member_entry \<Rightarrow> 'w \<Rightarrow> (exn + unit) \<times> 'w) \<Rightarrow> 'w runner \<Rightarrow> exec_mode \<Rightarrow> string list \<Rightarrow> string \<Rightarrow>
     bool \<Rightarrow> member_entry list \<Rightarrow> 'w \<Rightarrow> (exn + exec_result list) \<times> 'w" where
  "run_forall announce runner mode command root continue_on_fail [] w = (Inr [], w)"
| "run_forall announce runner mode command root continue_on_fail (m # ms) w =
     (case announce m w of
        (Inl e, w1) \<Rightarrow> (Inl e, w1)
      | (Inr _, w1) \<Rightarrow>
         (case run_one runner mode command root m w1 of
            (r, w2) \<Rightarrow>
              if \<not> continue_on_fail \<and> \<not> result_ok r then (Inr [r], w2)
              else (case run_forall announce runner mode command root continue_on_fail ms w2 of
                      (Inl e, w3) \<Rightarrow> (Inl e, w3)
                    | (Inr rs, w3) \<Rightarrow> (Inr (r # rs), w3))))"

definition banner :: "'t terminal \<Rightarrow> bool \<Rightarrow> member_entry \<Rightarrow> 't \<Rightarrow> (exn + unit) \<times> 't" where
  "banner tm no_banner m t =
     (if no_banner then (Inr (), t)
      else put_stderr tm (''=== '' @ me_path m @ '' ==='' @ [CHR 0x0A]) t)"

definition workspace_root :: "string option \<Rightarrow> client \<Rightarrow> caller_env \<Rightarrow> exn + string" where
  "workspace_root root cl env =
     (case or_opt root (cl_root cl) of
        Some r \<Rightarrow> Inr r
      | None \<Rightarrow> caller_directory env)"

text \<open>
  \<open>handle_forall\<close> in two parts: the request that resolves the targets, and what is done with the
  listed members. \<open>listed\<close> is \<open>listed.members\<close>.
\<close>

definition forall_targets_kw :: "string list \<Rightarrow> meta_kw \<Rightarrow> meta_kw" where
  "forall_targets_kw projects kw =
     (if projects = [] then kw
      else kw\<lparr>kw_targets := Some (selected_list (kw_targets kw) @ projects)\<rparr>)"

definition forall_resolve ::
    "client \<Rightarrow> caller_env \<Rightarrow> global_options \<Rightarrow> string list \<Rightarrow> string option \<Rightarrow> meta_kw \<Rightarrow>
     exn + ((string list \<times> exec_mode \<times> string list) \<times> client_action)" where
  "forall_resolve cl env g tokens command_string kw =
     (if go_json g \<or> go_jsonl g then Inl (usage_error ''forall does not support --json/--jsonl'')
      else bindE (forall_invocation tokens command_string) (\<lambda>inv.
           bindE (client_resolve_forall_targets cl env (Some False) (forall_targets_kw (fst inv) kw))
             (\<lambda>act. Inr (inv, act))))"

definition forall_message :: "bool \<Rightarrow> string list \<Rightarrow> member_entry list \<Rightarrow> bool \<Rightarrow> string" where
  "forall_message dry command listed ok =
     (if dry then ''dry run: ['' @ join '', '' (map py_repr command) @ ''] in '' @
                  join '', '' (map me_path listed)
      else if ok then ''ok'' else ''one or more member commands failed'')"

definition exec_answer ::
    "bool \<Rightarrow> string list \<Rightarrow> member_entry list \<Rightarrow> exec_result list \<Rightarrow> request_meta \<Rightarrow> exec_response" where
  "exec_answer dry command listed results m =
     \<lparr>exec_response_response =
        \<lparr>env_meta =
          \<lparr>rsm_request_id = rm_request_id m, rsm_schema_version = rm_schema_version m,
           rsm_action = ActionKind_forall,
           rsm_aggregate_status =
             (if list_all result_ok results then AggregateStatus_ok else AggregateStatus_failed),
           rsm_operation_id = None,
           rsm_message = Some (forall_message dry command listed (list_all result_ok results)),
           rsm_attribution = rm_attribution m, rsm_transport = None, rsm_transport_message = None\<rparr>,
         env_members = [], env_errors = []\<rparr>,
      exec_response_results = Some results\<rparr>"

definition forall_finish ::
    "(member_entry \<Rightarrow> 'w \<Rightarrow> (exn + unit) \<times> 'w) \<Rightarrow> 'w runner \<Rightarrow> client \<Rightarrow> caller_env \<Rightarrow> string option \<Rightarrow>
     exec_mode \<Rightarrow> string list \<Rightarrow> meta_kw \<Rightarrow> member_entry list \<Rightarrow> 'w \<Rightarrow> (exn + exec_response) \<times> 'w" where
  "forall_finish announce runner cl env root mode command kw listed w =
     (let dry = (kw_dry_run kw = Some True)
      in case (if dry then (Inr [], w)
               else case workspace_root root cl env of
                      Inl e \<Rightarrow> (Inl e, w)
                    | Inr base \<Rightarrow>
                        run_forall announce runner mode command base (kw_partial kw = Some True) listed w) of
           (Inl e, w1) \<Rightarrow> (Inl e, w1)
         | (Inr results, w1) \<Rightarrow>
             (bindE (client_meta cl env kw) (\<lambda>m. Inr (exec_answer dry command listed results m)), w1))"

text \<open>\<open>_filter_members\<close>: the first member with that id or path, each member once.\<close>

fun filter_members_from ::
    "member_entry list \<Rightarrow> member_entry list \<Rightarrow> string list \<Rightarrow> exn + member_entry list" where
  "filter_members_from members selected [] = Inr selected"
| "filter_members_from members selected (project # projects) =
     (case find (\<lambda>c. me_id c = project \<or> me_path c = project) members of
        None \<Rightarrow> Inl (usage_error (''unknown project '' @ squote project @
                  '' (not a member id or path)''))
      | Some m \<Rightarrow>
          filter_members_from members
            (if list_all (\<lambda>x. me_id x \<noteq> me_id m) selected then selected @ [m] else selected) projects)"

definition filter_members :: "member_entry list \<Rightarrow> string list \<Rightarrow> exn + member_entry list" where
  "filter_members members projects =
     (if projects = [] then Inr members else filter_members_from members [] projects)"

subsection \<open>clone\<close>

definition repo_name_from_url :: "string \<Rightarrow> exn + string" where
  "repo_name_from_url url =
     (let trimmed = rstrip_set [CHR ''/'', CHR 0x5C] url;
          parts = split_on CHR ''/'' (replace_char CHR '':'' CHR ''/'' (replace_char CHR 0x5C CHR ''/'' trimmed));
          segment = (case filter (\<lambda>p. p \<noteq> []) (rev parts) of [] \<Rightarrow> trimmed | p # _ \<Rightarrow> p);
          name = remove_suffix ''.git'' segment
      in if name = [] then Inl (usage_error ''source URL does not include a repository name'')
         else Inr name)"

definition handle_clone ::
    "client \<Rightarrow> caller_env \<Rightarrow> global_options \<Rightarrow> string \<Rightarrow> string option \<Rightarrow> meta_kw \<Rightarrow> exn + client_action" where
  "handle_clone cl env g url directory kw =
     (if kw_dry_run kw = Some True then Inl (usage_error ''--dry-run is not supported for clone'')
      else bindE (if truthy directory then Inr (the directory) else repo_name_from_url url) (\<lambda>target.
        if go_json g \<or> go_jsonl g then client_clone_workspace cl env url target kw
        else client_clone_workspace_stream cl env url target kw))"

definition response_envelope_from_result :: "operation_result \<Rightarrow> response_envelope" where
  "response_envelope_from_result r =
     \<lparr>env_meta =
       \<lparr>rsm_request_id = opr_request_id r, rsm_schema_version = ''gwz.protocol/v0'',
        rsm_action = opr_action r, rsm_aggregate_status = opr_aggregate_status r,
        rsm_operation_id = Some (opr_operation_id r), rsm_message = None,
        rsm_attribution = opr_attribution r, rsm_transport = None, rsm_transport_message = None\<rparr>,
      env_members = opr_members r, env_errors = opr_errors r\<rparr>"

text \<open>The line \<open>render_clone_event\<close> writes to standard error, if it writes one.\<close>

definition int_or_zero :: "int option \<Rightarrow> int" where
  "int_or_zero v = (case v of None \<Rightarrow> 0 | Some i \<Rightarrow> i)"

definition event_target :: "operation_event \<Rightarrow> string" where
  "event_target ev =
     (if truthy (ev_member_path ev) then the (ev_member_path ev)
      else if truthy (ev_member_id ev) then the (ev_member_id ev) else ''workspace'')"

definition progress_parts :: "git_transfer_progress \<Rightarrow> string list" where
  "progress_parts p =
     [replace_char CHR ''_'' CHR ''-'' (git_progress_phase_name (gtp_phase p))] @
     (if int_or_zero (gtp_total_objects p) \<noteq> 0
      then [show_int (int_or_zero (gtp_received_objects p)) @ ''/'' @
            show_int (int_or_zero (gtp_total_objects p)) @ '' objects'']
      else []) @
     (if int_or_zero (gtp_received_bytes p) \<noteq> 0
      then [show_int (int_or_zero (gtp_received_bytes p)) @ '' bytes''] else [])"

definition clone_event_line :: "operation_event \<Rightarrow> string option" where
  "clone_event_line ev =
     (if (ev_severity ev = Severity_warn \<or> ev_severity ev = Severity_error) \<and> truthy (ev_message ev)
      then Some ((if ev_severity ev = Severity_warn then ''warning'' else ''error'') @ '': '' @
                 the (ev_message ev))
      else
        (case ev_kind ev of
           EventKind_member_started \<Rightarrow> Some (event_target ev @ '': started'')
         | EventKind_member_finished \<Rightarrow> Some (event_target ev @ '': finished'')
         | EventKind_member_progress \<Rightarrow>
             map_option (\<lambda>p. event_target ev @ '': '' @ join '' '' (progress_parts p)) (ev_progress ev)
         | _ \<Rightarrow> None))"

text \<open>
  The events of an operation as they are shown: \<open>rows\<close> are the lines the events print. A line that
  cannot be written ends the stream, and nothing more is asked of the bridge.
\<close>

definition watch_events ::
    "'s bridge \<Rightarrow> ('t \<Rightarrow> string \<Rightarrow> (exn + unit) \<times> 't) \<Rightarrow> (operation_event list \<Rightarrow> string list) \<Rightarrow> string \<Rightarrow>
     's world \<Rightarrow> 't \<Rightarrow> (exn + operation_event list) \<times> 's world \<times> 't" where
  "watch_events br put rows opid w t =
     (case b_events br opid (w_bridge w) of
        ((events, fault), s) \<Rightarrow>
          (let w1 = w\<lparr>w_bridge := s, w_trace := w_trace w @ [EventsOp opid]\<rparr>
           in case print_lines put (rows events) t of
                (Inl e, t1) \<Rightarrow> (Inl e, w1, t1)
              | (Inr _, t1) \<Rightarrow>
                  (case fault of Some e \<Rightarrow> (Inl e, w1, t1) | None \<Rightarrow> (Inr events, w1, t1))))"

definition clone_rows :: "operation_event list \<Rightarrow> string list" where
  "clone_rows events = List.map_filter clone_event_line events"

text \<open>
  The rest of \<open>handle_clone\<close>: the stream of \<open>_stream_call\<close> with its events shown, then the response
  built from the retained result of the operation the last event named.
\<close>

definition stream_answer ::
    "string \<Rightarrow> plain_class \<Rightarrow> 's bridge \<Rightarrow> operation_event list \<Rightarrow> ('s, response) io" where
  "stream_answer no_event cls br events =
     (if events = [] then raiseS (GwzBridgeError (bridge_fault no_event None))
      else bindS (client_operation_result br (ev_operation_id (last events))) (\<lambda>result.
             returnS (PlainResponse cls (response_envelope_from_result result))))"

definition show_stream ::
    "string \<Rightarrow> plain_class \<Rightarrow> 's bridge \<Rightarrow> 't terminal \<Rightarrow> string \<Rightarrow> request \<Rightarrow> string \<Rightarrow> 's world \<Rightarrow> 't \<Rightarrow>
     (exn + response) \<times> 's world \<times> 't" where
  "show_stream no_event cls br tm method r response_type w t =
     (case stream_start br method r response_type w of
        (Inl e, w1) \<Rightarrow> (Inl e, w1, t)
      | (Inr response, w1) \<Rightarrow>
         (case (envelope_of response, Option.bind (meta_of response) rsm_operation_id) of
            (None, _) \<Rightarrow> (Inl (no_attribute ''response''), w1, t)
          | (Some _, None) \<Rightarrow> (case stream_answer no_event cls br [] w1 of (res, w2) \<Rightarrow> (res, w2, t))
          | (Some _, Some opid) \<Rightarrow>
             (case open_bridge w1 of
                (Inl e, w2) \<Rightarrow> (Inl e, w2, t)
              | (Inr _, w2) \<Rightarrow>
                 (case watch_events br (\<lambda>t line. put_stderr tm line t) clone_rows opid w2 t of
                    (Inl e, w3, t1) \<Rightarrow> (Inl e, w3, t1)
                  | (Inr events, w3, t1) \<Rightarrow>
                     (case bindS (client_operation_result br opid)
                             (\<lambda>_. stream_answer no_event cls br events) w3 of
                        (res, w4) \<Rightarrow> (res, w4, t1))))))"

definition clone_stream ::
    "'s bridge \<Rightarrow> 't terminal \<Rightarrow> string \<Rightarrow> request \<Rightarrow> string \<Rightarrow> 's world \<Rightarrow> 't \<Rightarrow>
     (exn + response) \<times> 's world \<times> 't" where
  "clone_stream = show_stream ''clone stream completed without an operation event'' CloneWorkspaceResponse"

subsection \<open>What forall runs\<close>

lemma run_one_member:
  "run_one runner mode command root m w = (r, w1) \<Longrightarrow> xr_id r = me_id m \<and> xr_path r = me_path m"
  by (auto simp: run_one_def spawn_failure_def completed_result_def
      split: run_command.splits list.splits prod.splits sum.splits)

definition ran_world ::
    "(member_entry \<Rightarrow> 'w \<Rightarrow> (exn + unit) \<times> 'w) \<Rightarrow> 'w runner \<Rightarrow> exec_mode \<Rightarrow> string list \<Rightarrow> string \<Rightarrow>
     member_entry list \<Rightarrow> 'w \<Rightarrow> 'w" where
  "ran_world announce runner mode command root ms w =
     fold (\<lambda>m v. snd (run_one runner mode command root m (snd (announce m v)))) ms w"

lemma run_forall_spec:
  "run_forall announce runner mode command root go ms w = (Inr rs, w1) \<Longrightarrow>
     length rs \<le> length ms \<and>
     w1 = ran_world announce runner mode command root (take (length rs) ms) w \<and>
     map (\<lambda>r. (xr_id r, xr_path r)) rs = map (\<lambda>m. (me_id m, me_path m)) (take (length rs) ms) \<and>
     (\<not> go \<longrightarrow> list_all result_ok (butlast rs)) \<and>
     (length rs < length ms \<longrightarrow> \<not> go \<and> rs \<noteq> [] \<and> \<not> result_ok (last rs))"
proof (induction ms arbitrary: w rs w1)
  case Nil
  then show ?case by (simp add: ran_world_def)
next
  case (Cons m ms)
  obtain v0 where say: "announce m w = (Inr (), v0)"
    using Cons.prems by (auto split: prod.splits sum.splits)
  obtain r v where one: "run_one runner mode command root m v0 = (r, v)" by fastforce
  note mem = run_one_member [OF one]
  let ?stop = "\<not> go \<and> \<not> result_ok r"
  show ?case
  proof (cases ?stop)
    case True
    then show ?thesis using Cons.prems mem one say by (auto simp: ran_world_def)
  next
    case False
    then obtain qs where rest: "run_forall announce runner mode command root go ms v = (Inr qs, w1)"
      and eqs: "rs = r # qs"
      using Cons.prems by (auto simp: say one split: prod.splits sum.splits)
    show ?thesis unfolding eqs using Cons.IH [OF rest] False mem one say by (auto simp: ran_world_def)
  qed
qed

text \<open>
  Forall runs the command in the listed members one after the other, in their order: the
  results are those of a prefix of the members, and the world is the one their banners and runs
  left. Without \<^verbatim>\<open>--partial\<close> every run but the last succeeded; members are left out only behind a run
  that failed, and never with \<^verbatim>\<open>--partial\<close>.
\<close>

theorem forall_runs_prefix:
  assumes "run_forall announce runner mode command root go ms w = (Inr rs, w1)"
  shows "(\<exists>ran rest. ms = ran @ rest \<and>
            map (\<lambda>r. (xr_id r, xr_path r)) rs = map (\<lambda>m. (me_id m, me_path m)) ran \<and>
            w1 = ran_world announce runner mode command root ran w \<and>
            (rest \<noteq> [] \<longrightarrow> \<not> go \<and> rs \<noteq> [] \<and> \<not> result_ok (last rs))) \<and>
         (\<not> go \<longrightarrow> list_all result_ok (butlast rs))"
proof -
  note sp = run_forall_spec [OF assms]
  have "ms = take (length rs) ms @ drop (length rs) ms" by simp
  moreover have "drop (length rs) ms \<noteq> [] \<longrightarrow> \<not> go \<and> rs \<noteq> [] \<and> \<not> result_ok (last rs)"
    using sp by (simp add: not_le)
  ultimately show ?thesis using sp by blast
qed

definition sample_member :: "string \<Rightarrow> member_entry" where
  "sample_member p =
     \<lparr>me_id = ''mem_'' @ p, me_path = p, me_abspath = ''/ws/'' @ p, me_materialized = True,
      me_target_kind = None, me_note = None\<rparr>"

text \<open>
  A world that logs banners and the directories commands were started in; the command fails in
  \<^verbatim>\<open>/ws/b\<close>.
\<close>

definition sample_runner :: "string list runner" where
  "sample_runner q w = (Inr (if rq_cwd q = ''/ws/b'' then 1 else 0), w @ [rq_cwd q])"

definition sample_banner :: "member_entry \<Rightarrow> string list \<Rightarrow> (exn + unit) \<times> string list" where
  "sample_banner m w = (Inr (), w @ [''=== '' @ me_path m])"

lemma all_ok_complete:
  assumes "run_forall announce runner mode command root go ms w = (Inr rs, w1)"
  shows "list_all result_ok rs \<longleftrightarrow>
     map (\<lambda>r. (xr_id r, xr_path r)) rs = map (\<lambda>m. (me_id m, me_path m)) ms \<and> list_all result_ok rs"
proof
  note sp = run_forall_spec [OF assms]
  assume ok: "list_all result_ok rs"
  have "\<not> length rs < length ms"
  proof
    assume "length rs < length ms"
    with sp have "rs \<noteq> [] \<and> \<not> result_ok (last rs)" by simp
    with ok show False using last_in_set [of rs] by (auto simp: list_all_iff)
  qed
  with sp ok show "map (\<lambda>r. (xr_id r, xr_path r)) rs = map (\<lambda>m. (me_id m, me_path m)) ms \<and>
      list_all result_ok rs"
    by simp
qed simp

lemma all_ok_iff:
  "list_all result_ok rs \<longleftrightarrow> list_all (\<lambda>r. xr_exit_code r = Some 0 \<and> xr_signal r = None) rs \<and>
     list_all (\<lambda>r. xr_spawn_error r = None) rs"
  by (auto simp: result_ok_def list_all_iff)

lemma exec_answer_fields:
  "exec_response_results (exec_answer dry command listed results m) = Some results"
  "rsm_aggregate_status (env_meta (exec_response_response (exec_answer dry command listed results m))) =
     (if list_all result_ok results then AggregateStatus_ok else AggregateStatus_failed)"
  by (simp_all add: exec_answer_def)


lemma forall_sample_runs:
  "\<exists>resp w1. forall_finish sample_banner sample_runner sample_client sample_env None ExecMode_shell
      [''make''] no_kw [sample_member ''a'', sample_member ''b''] [] = (Inr resp, w1) \<and>
    rsm_aggregate_status (env_meta (exec_response_response resp)) = AggregateStatus_failed"
proof -
  let ?out = "forall_finish sample_banner sample_runner sample_client sample_env None ExecMode_shell
      [''make''] no_kw [sample_member ''a'', sample_member ''b''] []"
  have "case ?out of (Inr resp, w1) \<Rightarrow>
      rsm_aggregate_status (env_meta (exec_response_response resp)) = AggregateStatus_failed
      | (Inl e, w1) \<Rightarrow> False"
    using sample_meta_accepted
    by (cases "client_meta sample_client sample_env no_kw")
      (simp_all add: forall_finish_def sample_banner_def sample_runner_def sample_member_def run_one_def
        result_ok_def exec_answer_fields workspace_root_def or_opt_def sample_client_def no_kw_def
        run_command_for_def completed_result_def)
  then show ?thesis by (cases ?out) (auto split: sum.splits)
qed


subsection \<open>Reading the command line\<close>

lemma command_flag_indices_single:
  assumes "command_flag_indices tokens = [i]"
  shows "i < length tokens" "is_command_flag (tokens ! i)"
    "\<And>j. j < length tokens \<Longrightarrow> is_command_flag (tokens ! j) \<Longrightarrow> j = i"
proof -
  have "set (command_flag_indices tokens) = {j. j < length tokens \<and> is_command_flag (tokens ! j)}"
    by (auto simp: command_flag_indices_def)
  with assms have s: "{j. j < length tokens \<and> is_command_flag (tokens ! j)} = {i}" by simp
  then show "i < length tokens" "is_command_flag (tokens ! i)"
    "\<And>j. j < length tokens \<Longrightarrow> is_command_flag (tokens ! j) \<Longrightarrow> j = i"
    by blast+
qed

lemma command_flag_indices_split:
  assumes "is_command_flag flag" "\<not> is_command_flag c" "list_all (\<lambda>t. \<not> is_command_flag t) ps"
  shows "command_flag_indices (ps @ [flag, c]) = [length ps]"
proof -
  have "filter (\<lambda>i. is_command_flag ((ps @ [flag, c]) ! i)) [0..<length ps] = []"
    using assms(3) by (auto simp: filter_empty_conv nth_append list_all_length)
  then show ?thesis
    using assms(1,2) by (simp add: command_flag_indices_def nth_append)
qed

lemma two_left:
  assumes "i + 1 < length xs" "\<not> i + 2 < length xs"
  shows "xs = take i xs @ [xs ! i, xs ! (i + 1)]"
proof -
  have "drop i xs = xs ! i # xs ! (i + 1) # drop (i + 2) xs"
    using assms(1) by (simp add: Cons_nth_drop_Suc)
  then show ?thesis using assms(2) append_take_drop_id [of i xs] by simp
qed

lemma trailing_flag_iff:
  "(\<exists>i. command_flag_indices tokens = [i] \<and> i + 1 < length tokens \<and> \<not> i + 2 < length tokens \<and>
      projects = take i tokens \<and> command = [tokens ! (i + 1)]) \<longleftrightarrow>
   (\<exists>flag c. is_command_flag flag \<and> \<not> is_command_flag c \<and>
      list_all (\<lambda>t. \<not> is_command_flag t) projects \<and> tokens = projects @ [flag, c] \<and> command = [c])"
    (is "?L \<longleftrightarrow> ?R")
proof
  assume ?L
  then obtain i where one: "command_flag_indices tokens = [i]"
    and len: "i + 1 < length tokens" "\<not> i + 2 < length tokens"
    and eqs: "projects = take i tokens" "command = [tokens ! (i + 1)]" by blast
  note f = command_flag_indices_single [OF one]
  have "\<not> is_command_flag (tokens ! (i + 1))" using f(3) len(1) by fastforce
  moreover have "list_all (\<lambda>t. \<not> is_command_flag t) (take i tokens)"
    using f(1) by (auto simp: list_all_iff in_set_conv_nth) (metis f(3) less_trans nat_neq_iff)
  ultimately show ?R using f(2) two_left [OF len] eqs by blast
next
  assume ?R
  then show ?L using command_flag_indices_split by (fastforce simp: nth_append)
qed

text \<open>
  \<open>_forall_invocation\<close> accepts exactly three shapes, and splits each without loss: a
  \<open>-c\<close> option that argparse read (then no \<open>--\<close> may follow); projects, the first \<open>--\<close> and a
  non-empty argument vector, in which later \<open>--\<close> belong to the command; or projects, one trailing
  \<open>-c\<close> or \<open>--command-string\<close> and its string. Every other command line is a usage error.
\<close>

theorem forall_invocation_exact:
  "forall_invocation tokens command_string = Inr (projects, mode, command) \<longleftrightarrow>
     (case command_string of
        Some c \<Rightarrow> ''--'' \<notin> set tokens \<and> projects = tokens \<and> mode = ExecMode_shell \<and> command = [c]
      | None \<Rightarrow>
          (if ''--'' \<in> set tokens
           then mode = ExecMode_argv \<and> command \<noteq> [] \<and> ''--'' \<notin> set projects \<and>
                tokens = projects @ ''--'' # command
           else mode = ExecMode_shell \<and>
                (\<exists>flag c. is_command_flag flag \<and> \<not> is_command_flag c \<and>
                   list_all (\<lambda>t. \<not> is_command_flag t) projects \<and>
                   tokens = projects @ [flag, c] \<and> command = [c])))"
proof (cases command_string)
  case (Some c)
  then show ?thesis by (auto simp: forall_invocation_def)
next
  case None
  show ?thesis
  proof (cases "find_index ''--'' tokens")
    case (Some i)
    then have sp: "tokens = take i tokens @ ''--'' # drop (Suc i) tokens"
        "''--'' \<notin> set (take i tokens)" "''--'' \<in> set tokens"
      using find_index_split [OF Some] find_index_Some [OF Some] by (auto simp: in_set_conv_nth)
    have uniq: "projects = take i tokens \<and> command = drop (Suc i) tokens"
      if "tokens = projects @ ''--'' # command" "''--'' \<notin> set projects"
    proof -
      have "find_index ''--'' tokens = Some (length projects)"
        using find_index_append [OF that(2)] that(1) by simp
      with Some that(1) show ?thesis by simp
    qed
    show ?thesis using None Some sp uniq by (auto simp: forall_invocation_def Let_def)
  next
    case no: None
    then have nd: "''--'' \<notin> set tokens" by (simp add: find_index_None)
    have "forall_invocation tokens None = Inr (projects, mode, command) \<longleftrightarrow>
        mode = ExecMode_shell \<and> (\<exists>i. command_flag_indices tokens = [i] \<and> i + 1 < length tokens \<and>
          \<not> i + 2 < length tokens \<and> projects = take i tokens \<and> command = [tokens ! (i + 1)])"
      using no by (auto simp: forall_invocation_def split: list.splits)
    from this [unfolded trailing_flag_iff] show ?thesis using None nd by simp
  qed
qed

subsection \<open>The directory of a clone\<close>

lemma split_on_snoc: "c \<notin> set b \<Longrightarrow> split_on c (a @ c # b) = split_on c a @ [b]"
proof (induction a)
  case Nil
  have "c \<notin> set b \<Longrightarrow> split_on c b = [b]" by (induction b) auto
  with Nil show ?case by simp
next
  case (Cons x a)
  then show ?case by (cases "split_on c a") auto
qed

lemma rstrip_set_tail:
  assumes "last s \<notin> set cs" "s \<noteq> []" "set t \<subseteq> set cs"
  shows "rstrip_set cs (s @ t) = s"
proof -
  have "dropWhile (\<lambda>c. c \<in> set cs) (rev t @ rev s) = rev s"
    using assms by (subst dropWhile_append2) (auto simp: dropWhile_eq_self_iff hd_rev)
  then show ?thesis by (simp add: rstrip_set_def)
qed

text \<open>The separators of a clone URL, and the text that names a repository.\<close>

definition url_separator :: "char \<Rightarrow> bool" where
  "url_separator c \<longleftrightarrow> c = CHR ''/'' \<or> c = CHR 0x5C \<or> c = CHR '':''"

text \<open>
  The default directory of a clone is the last component of the URL: whatever stands before
  the last \<open>/\<close>, \<open>\\<close> or \<open>:\<close>, with or without one \<^verbatim>\<open>.git\<close> and any run of trailing slashes or
  backslashes, the name comes out as written.
\<close>

theorem repo_name_of_url:
  assumes "name \<noteq> []" "list_all (\<lambda>c. \<not> url_separator c) name" "url_separator sep"
    and "ending = ''.git'' \<or> ending = [] \<and> \<not> ends_with ''.git'' name"
    and "set slashes \<subseteq> {CHR ''/'', CHR 0x5C}"
  shows "repo_name_from_url (before @ sep # name @ ending @ slashes) = Inr name"
proof -
  let ?norm = "\<lambda>s. replace_char CHR '':'' CHR ''/'' (replace_char CHR 0x5C CHR ''/'' s)"
  let ?seg = "name @ ending"
  have seg: "list_all (\<lambda>c. \<not> url_separator c) ?seg" "?seg \<noteq> []"
    using assms(1,2,4) by (auto simp: url_separator_def)
  then have "last (before @ sep # ?seg) \<notin> set [CHR ''/'', CHR 0x5C]"
    using last_in_set [of ?seg] by (auto simp: list_all_iff url_separator_def)
  then have trim: "rstrip_set [CHR ''/'', CHR 0x5C] (before @ sep # name @ ending @ slashes) =
      before @ sep # ?seg"
    using rstrip_set_tail [of "before @ sep # ?seg" "[CHR ''/'', CHR 0x5C]" slashes] assms(5) by simp
  have same: "?norm ?seg = ?seg"
    using seg(1) by (auto simp: replace_char_def list_all_iff url_separator_def map_idI)
  have "?norm (before @ sep # ?seg) = ?norm before @ CHR ''/'' # ?seg"
    using same assms(3) by (auto simp: replace_char_def url_separator_def)
  moreover have "CHR ''/'' \<notin> set ?seg" using seg(1) by (auto simp: list_all_iff url_separator_def)
  ultimately have parts: "split_on CHR ''/'' (?norm (before @ sep # ?seg)) =
      split_on CHR ''/'' (?norm before) @ [?seg]"
    using split_on_snoc by simp
  have "remove_suffix ''.git'' ?seg = name"
    using assms(4) by (auto simp: remove_suffix_def ends_with_iff)
  then show ?thesis
    using seg(2) assms(1) by (simp add: repo_name_from_url_def trim parts Let_def)
qed

theorem repo_name_of_url_witness:
  "repo_name_from_url ''git@host:team/app.git/'' = Inr ''app''"
proof -
  have eq: "''git@host:team/app.git/'' = ''git@host:team'' @ CHR ''/'' # ''app'' @ ''.git'' @ ''/''"
    by simp
  show ?thesis unfolding eq
    by (rule repo_name_of_url) (simp_all add: url_separator_def)
qed

text \<open>A URL of colons only has no component, and is taken whole.\<close>

lemma repo_name_of_colons: "repo_name_from_url '':'' = Inr '':''"
  by (simp add: repo_name_from_url_def rstrip_set_def Let_def replace_char_def remove_suffix_def
      ends_with_def)

end
