(* ===== verification/CliCommands.thy ===== *)
theory CliCommands
  imports CliLocal
begin

section \<open>The request-only commands\<close>

text \<open>
  \<^verbatim>\<open>src/gwz/cli_read.py\<close>, \<^verbatim>\<open>src/gwz/cli_mutation.py\<close> and \<^verbatim>\<open>src/gwz/cli_branch_stash.py\<close>: commands
  whose handler checks its options and makes one client call. A handler is a function from its
  parsed options and the metadata keywords to the exception it raises or the client action it
  performs; the sub-command of \<^verbatim>\<open>repo\<close> and \<^verbatim>\<open>stash\<close> with its options is one datatype.
\<close>

subsection \<open>auth, status, ls, init\<close>

definition handle_auth ::
    "client \<Rightarrow> caller_env \<Rightarrow> string \<Rightarrow> string option \<Rightarrow> bool \<Rightarrow> meta_kw \<Rightarrow> exn + client_action" where
  "handle_auth cl env remote_name key_path unset kw =
     client_remote_identity cl env remote_name key_path unset kw"

record status_cli =
  sc_combined :: bool
  sc_no_combined :: bool
  sc_porcelain :: bool
  sc_no_files :: bool
  sc_no_branches :: bool

definition handle_status ::
    "client \<Rightarrow> caller_env \<Rightarrow> global_options \<Rightarrow> status_cli \<Rightarrow> meta_kw \<Rightarrow> exn + client_action" where
  "handle_status cl env g a kw =
     (if sc_porcelain a \<and> (go_json g \<or> go_jsonl g)
      then Inl (usage_error ''--porcelain cannot be combined with --json or --jsonl'')
      else if sc_porcelain a \<and> sc_no_combined a
      then Inl (usage_error ''--porcelain cannot be combined with --no-combined'')
      else if sc_combined a \<and> sc_no_combined a
      then Inl (usage_error ''--combined and --no-combined are mutually exclusive'')
      else if sc_no_files a \<and> sc_no_branches a
      then Inl (usage_error ''--no-files and --no-branches cannot both be supplied'')
      else client_status cl env (\<not> sc_no_combined a) (some_if (sc_no_files a) False)
             (some_if (sc_no_branches a) False) None kw)"

definition handle_ls ::
    "client \<Rightarrow> caller_env \<Rightarrow> bool \<Rightarrow> bool \<Rightarrow> meta_kw \<Rightarrow> exn + client_action" where
  "handle_ls cl env unmaterialized materialized_only kw =
     (if unmaterialized \<and> materialized_only
      then Inl (usage_error ''--unmaterialized and --materialized-only are mutually exclusive'')
      else client_ls cl env (Some (if unmaterialized then True else \<not> materialized_only)) kw)"

definition handle_init ::
    "client \<Rightarrow> caller_env \<Rightarrow> global_options \<Rightarrow> string list \<Rightarrow> string \<Rightarrow> meta_kw \<Rightarrow> exn + client_action" where
  "handle_init cl env g urls path kw =
     (if urls \<noteq> [] then client_init_from_sources cl env (map SourceText urls) (Some path) None None kw
      else client_create_workspace cl env (if path \<noteq> [] then Some path else go_root g) None kw)"

subsection \<open>repo\<close>

datatype repo_cli =
    RepoAdd string "string option" "string option"
  | RepoClone string "string option" "string option" "string option"
  | RepoCreate string "string option" "string option"
  | RepoDetach string
  | RepoAttach string
  | RepoSync "string option" "bool option"

definition reject_repo_operand_with_selection :: "string \<Rightarrow> meta_kw \<Rightarrow> exn + unit" where
  "reject_repo_operand_with_selection command kw =
     guardE (kw_all_members kw \<noteq> None \<or> kw_member_ids kw \<noteq> None \<or> kw_paths kw \<noteq> None \<or>
             kw_targets kw \<noteq> None \<or> kw_exclude_targets kw \<noteq> None)
       (usage_error (command @ '' member cannot be combined with global selection''))"

definition cli_validate_member_id :: "string \<Rightarrow> exn + unit" where
  "cli_validate_member_id v = guardE (\<not> member_id_ok v) (usage_error member_id_message)"

definition handle_repo_clone ::
    "client \<Rightarrow> caller_env \<Rightarrow> global_options \<Rightarrow> string \<Rightarrow> string option \<Rightarrow> string option \<Rightarrow>
     string option \<Rightarrow> meta_kw \<Rightarrow> exn + client_action" where
  "handle_repo_clone cl env g url member_path member_id source_id kw =
     (if go_json g \<or> go_jsonl g \<or> kw_dry_run kw = Some True
      then client_clone_repo_member cl env url member_path member_id source_id kw
      else client_clone_repo_member_stream cl env url member_path member_id source_id kw)"

definition repo_clone_stream ::
    "'s bridge \<Rightarrow> 't terminal \<Rightarrow> string \<Rightarrow> request \<Rightarrow> string \<Rightarrow> 's world \<Rightarrow> 't \<Rightarrow>
     (exn + response) \<times> 's world \<times> 't" where
  "repo_clone_stream =
     show_stream ''repo clone stream completed without an operation event'' CloneRepoMemberResponse"

fun handle_repo ::
    "client \<Rightarrow> caller_env \<Rightarrow> global_options \<Rightarrow> repo_cli \<Rightarrow> meta_kw \<Rightarrow> exn + client_action" where
  "handle_repo cl env g (RepoAdd path mid sid) kw = client_add_existing_repo cl env path None mid sid kw"
| "handle_repo cl env g (RepoClone url path mid sid) kw = handle_repo_clone cl env g url path mid sid kw"
| "handle_repo cl env g (RepoCreate path mid sid) kw = client_create_repo cl env path None mid sid kw"
| "handle_repo cl env g (RepoDetach member) kw =
     bindE (reject_repo_operand_with_selection ''repo detach'' kw) (\<lambda>_.
       client_detach_repo_member cl env member kw)"
| "handle_repo cl env g (RepoAttach mid) kw =
     bindE (cli_validate_member_id mid) (\<lambda>_.
     bindE (reject_repo_operand_with_selection ''repo attach'' kw) (\<lambda>_.
       client_attach_repo_member cl env mid kw))"
| "handle_repo cl env g (RepoSync path private) kw =
     (if truthy path \<and> (kw_all_members kw \<noteq> None \<or> kw_member_ids kw \<noteq> None \<or> kw_paths kw \<noteq> None)
      then Inl (usage_error ''repo sync member path cannot be combined with global selection'')
      else client_repo_sync cl env path private kw)"

subsection \<open>materialize, snapshot, tag\<close>

record materialize_cli =
  mz_head :: bool
  mz_snapshot :: "string option"
  mz_tag :: "string option"
  mz_switch :: "string option"

definition materialize_kind :: "string \<Rightarrow> target_arg" where
  "materialize_kind k = TargetKindArg (EnumName k)"

definition handle_materialize ::
    "client \<Rightarrow> caller_env \<Rightarrow> materialize_cli \<Rightarrow> meta_kw \<Rightarrow> exn + client_action" where
  "handle_materialize cl env a kw =
     (if mz_head a then client_materialize cl env (materialize_kind ''head'') None None kw
      else if truthy (mz_snapshot a)
      then client_materialize cl env (materialize_kind ''snapshot'') (mz_snapshot a) None kw
      else if truthy (mz_tag a)
      then client_materialize cl env (materialize_kind ''tag'') (mz_tag a) None kw
      else if truthy (mz_switch a)
      then client_materialize cl env (materialize_kind ''branch'') (mz_switch a) None kw
      else client_materialize cl env (materialize_kind ''lock'') None None kw)"

text \<open>\<open>OptionalValueAction\<close>: \<^verbatim>\<open>--branch\<close> alone stores True, with a value the value.\<close>

datatype branch_value = NoBranch | CurrentBranch | NamedBranch string

fun optional_value :: "string option option \<Rightarrow> branch_value" where
  "optional_value None = NoBranch"
| "optional_value (Some None) = CurrentBranch"
| "optional_value (Some (Some b)) = NamedBranch b"

fun snapshot_source_of :: "branch_value \<Rightarrow> snapshot_source option" where
  "snapshot_source_of NoBranch = None"
| "snapshot_source_of CurrentBranch = Some \<lparr>ss_kind = SnapshotSourceKind_current, ss_branch = None\<rparr>"
| "snapshot_source_of (NamedBranch b) = Some \<lparr>ss_kind = SnapshotSourceKind_branch, ss_branch = Some b\<rparr>"

definition handle_snapshot ::
    "client \<Rightarrow> caller_env \<Rightarrow> string option \<Rightarrow> bool \<Rightarrow> branch_value \<Rightarrow> meta_kw \<Rightarrow> exn + client_action" where
  "handle_snapshot cl env name list_flag branch kw =
     (if list_flag \<or> name = None then
        (if branch \<noteq> NoBranch
         then Inl (usage_error ''--branch requires a snapshot name and cannot be combined with --list'')
         else client_list_snapshots cl env kw)
      else client_snapshot cl env (the name) (snapshot_source_of branch) None False kw)"

record tag_cli =
  tg_list :: bool
  tg_delete :: bool
  tg_push :: bool
  tg_fetch :: bool
  tg_name :: "string option"
  tg_message :: "string option"
  tg_signed :: bool

definition tag_op_of :: "tag_cli \<Rightarrow> tag_op" where
  "tag_op_of a =
     (if tg_push a then TagOp_push
      else if tg_fetch a then TagOp_fetch
      else if tg_delete a then TagOp_delete
      else if tg_list a \<or> tg_name a = None then TagOp_list
      else TagOp_create)"

text \<open>\<open>_meta_without(meta, "remote")\<close>.\<close>

definition without_remote :: "meta_kw \<Rightarrow> meta_kw" where
  "without_remote kw = kw\<lparr>kw_remote := None\<rparr>"

definition handle_tag :: "client \<Rightarrow> caller_env \<Rightarrow> tag_cli \<Rightarrow> meta_kw \<Rightarrow> exn + client_action" where
  "handle_tag cl env a kw =
     client_tag cl env (tg_name a) (EnumMember (tag_op_of a)) (tg_message a)
       (some_if (tg_signed a) True) (kw_remote kw) None (without_remote kw)"

subsection \<open>capture, add, commit, pull, push, fetch\<close>

definition handle_capture :: "client \<Rightarrow> caller_env \<Rightarrow> meta_kw \<Rightarrow> exn + client_action" where
  "handle_capture cl env kw = client_capture cl env kw"

definition handle_stage ::
    "client \<Rightarrow> caller_env \<Rightarrow> string list \<Rightarrow> bool \<Rightarrow> meta_kw \<Rightarrow> exn + client_action" where
  "handle_stage cl env pathspecs stage_all kw =
     bindE (caller_directory env) (\<lambda>cwd.
       client_stage cl env pathspecs (Some cwd) (some_if stage_all True) kw)"

definition commit_marker_of :: "bool \<Rightarrow> bool \<Rightarrow> bool option" where
  "commit_marker_of marker no_marker =
     (if marker then Some True else if no_marker then Some False else None)"

definition handle_commit ::
    "client \<Rightarrow> caller_env \<Rightarrow> string \<Rightarrow> bool \<Rightarrow> bool \<Rightarrow> bool \<Rightarrow> meta_kw \<Rightarrow> exn + client_action" where
  "handle_commit cl env message commit_all marker no_marker kw =
     client_commit cl env message (some_if commit_all True) (commit_marker_of marker no_marker) kw"

definition handle_pull :: "client \<Rightarrow> caller_env \<Rightarrow> string option \<Rightarrow> meta_kw \<Rightarrow> exn + client_action" where
  "handle_pull cl env snapshot kw =
     (if truthy snapshot then client_pull_snapshot cl env (the snapshot) kw
      else client_pull_head cl env kw)"

definition handle_push :: "client \<Rightarrow> caller_env \<Rightarrow> bool \<Rightarrow> meta_kw \<Rightarrow> exn + client_action" where
  "handle_push cl env check_remotes kw =
     client_push cl env (kw_remote kw) None (some_if check_remotes RemoteCheck_always) (without_remote kw)"

definition handle_fetch :: "client \<Rightarrow> caller_env \<Rightarrow> meta_kw \<Rightarrow> exn + client_action" where
  "handle_fetch cl env kw = client_fetch cl env kw"

subsection \<open>branch and stash\<close>

record branch_cli =
  bc_list :: bool
  bc_create :: "string option"
  bc_start_ref :: "string option"
  bc_switch :: bool
  bc_delete :: "string option"
  bc_merge :: "string option"

definition branch_guards :: "branch_cli \<Rightarrow> exn + unit" where
  "branch_guards a =
     (if 1 < length (filter (\<lambda>b. b)
               [bc_list a, bc_create a \<noteq> None, bc_delete a \<noteq> None, bc_merge a \<noteq> None])
      then Inl (usage_error ''branch accepts only one of --list, --create, --delete, or --merge'')
      else if bc_switch a \<and> bc_create a = None then Inl (usage_error ''--switch requires --create'')
      else if bc_start_ref a \<noteq> None \<and> bc_create a = None
      then Inl (usage_error ''--from requires --create'')
      else Inr ())"

definition handle_branch :: "client \<Rightarrow> caller_env \<Rightarrow> branch_cli \<Rightarrow> meta_kw \<Rightarrow> exn + client_action" where
  "handle_branch cl env a kw =
     bindE (branch_guards a) (\<lambda>_.
       if bc_create a \<noteq> None
       then client_branch cl env (bc_create a) (EnumMember BranchOp_create)
              (Some (if truthy (bc_start_ref a) then the (bc_start_ref a) else ''HEAD'')) None
              (some_if (bc_switch a) True) kw
       else if bc_delete a \<noteq> None
       then client_branch cl env (bc_delete a) (EnumMember BranchOp_delete) None None None kw
       else if bc_merge a \<noteq> None then client_merge cl env (merge_defaults (bc_merge a)) kw
       else client_branch cl env None (EnumMember BranchOp_list) None None None kw)"

datatype stash_cli =
    StashPush bool bool "string option"
  | StashList bool
  | StashApply "string option"
  | StashPop "string option"
  | StashDrop string

fun stash_args_of :: "stash_cli \<Rightarrow> stash_args" where
  "stash_args_of (StashPush u i message) =
     (stash_defaults StashOp_push)
       \<lparr>sa_message := message, sa_include_untracked := some_if u True,
        sa_include_ignored := some_if i True\<rparr>"
| "stash_args_of (StashList e) =
     (stash_defaults StashOp_list)\<lparr>sa_expanded := some_if e True\<rparr>"
| "stash_args_of (StashApply s) = (stash_defaults StashOp_apply)\<lparr>sa_stash_id := s\<rparr>"
| "stash_args_of (StashPop s) = (stash_defaults StashOp_pop)\<lparr>sa_stash_id := s\<rparr>"
| "stash_args_of (StashDrop s) = (stash_defaults StashOp_drop)\<lparr>sa_stash_id := Some s\<rparr>"

definition handle_stash :: "client \<Rightarrow> caller_env \<Rightarrow> stash_cli \<Rightarrow> meta_kw \<Rightarrow> exn + client_action" where
  "handle_stash cl env c kw =
     (case c of
        StashPush u i message \<Rightarrow>
          if u \<and> i then Inl (usage_error ''-u and -a are mutually exclusive'')
          else client_stash cl env (stash_args_of c) kw
      | _ \<Rightarrow> client_stash cl env (stash_args_of c) kw)"

end
