(* ===== verification/CliMerge.thy ===== *)
theory CliMerge
  imports CliShared
begin

section \<open>The merge and local-family commands\<close>

text \<open>
  \<^verbatim>\<open>src/gwz/cli_merge.py\<close> and \<^verbatim>\<open>src/gwz/cli_local_family.py\<close>: the guards of the two commands, the
  request each form sends, how a merge is driven (plain call, or submitted with its events as
  JSON lines or as diagnostics), and the table of a family listing. A handler is a function from
  its arguments and the metadata keywords to an exception or to the client action it performs.
\<close>

definition invalid_usage :: "string \<Rightarrow> exn" where
  "invalid_usage m = CliUsageError m (Some ''InvalidRequest'')"

subsection \<open>merge\<close>

record merge_cli =
  mc_source :: "string option"
  mc_resume :: bool
  mc_abort :: bool
  mc_status :: "string option"
  mc_gc :: "string option"
  mc_preserve :: bool
  mc_ff_only :: bool
  mc_no_ff :: bool
  mc_filesystem_strict :: bool
  mc_message :: "string option"

definition lifecycle_ops :: "merge_cli \<Rightarrow> nat" where
  "lifecycle_ops a =
     sum_list (map (\<lambda>b. if b then 1 else 0)
       [mc_resume a, mc_abort a, mc_status a \<noteq> None, mc_gc a \<noteq> None])"

definition merge_op_of :: "merge_cli \<Rightarrow> merge_op" where
  "merge_op_of a =
     (if mc_resume a then MergeOp_resume
      else if mc_abort a then MergeOp_abort
      else if mc_status a \<noteq> None then MergeOp_status
      else if mc_gc a \<noteq> None then MergeOp_gc
      else MergeOp_start)"

definition merge_mode_of :: "merge_cli \<Rightarrow> merge_mode option" where
  "merge_mode_of a =
     (if mc_ff_only a then Some MergeMode_ff_only
      else if mc_no_ff a then Some MergeMode_no_ff else None)"

definition merge_guards :: "merge_cli \<Rightarrow> exn + unit" where
  "merge_guards a =
     (if lifecycle_ops a > 1 then Inl (invalid_usage ''merge accepts only one lifecycle operation'')
      else if mc_ff_only a \<and> mc_no_ff a
      then Inl (invalid_usage ''--ff-only and --no-ff are mutually exclusive'')
      else if mc_filesystem_strict a \<and> lifecycle_ops a > 0
      then Inl (invalid_usage ''--filesystem-strict is accepted only when starting a merge'')
      else Inr ())"

definition some_text :: "string option \<Rightarrow> string option" where
  "some_text v = (if truthy v then v else None)"

definition merge_cli_args :: "merge_cli \<Rightarrow> merge_args" where
  "merge_cli_args a =
     \<lparr>ma_source_ref = mc_source a, ma_op = EnumMember (merge_op_of a),
      ma_merge_id = or_opt (mc_status a) (some_text (mc_gc a)),
      ma_mode = map_option EnumMember (merge_mode_of a), ma_message = mc_message a,
      ma_preserve = some_if (mc_preserve a) True,
      ma_filesystem_strict = some_if (mc_filesystem_strict a) True,
      ma_wait_seconds = None\<rparr>"

datatype merge_drive = PlainMerge | JsonlMerge | EchoMerge

text \<open>\<open>human\<close> is \<open>_human_output(args)\<close>.\<close>

definition human_output :: "global_options \<Rightarrow> bool \<Rightarrow> bool" where
  "human_output g porcelain \<longleftrightarrow> \<not> (go_json g \<or> go_jsonl g \<or> porcelain)"

definition merge_drive_of :: "global_options \<Rightarrow> merge_drive" where
  "merge_drive_of g =
     (if go_jsonl g then JsonlMerge else if \<not> human_output g False then PlainMerge else EchoMerge)"

definition handle_merge ::
    "client \<Rightarrow> caller_env \<Rightarrow> global_options \<Rightarrow> merge_cli \<Rightarrow> meta_kw \<Rightarrow> exn + merge_drive \<times> client_action" where
  "handle_merge cl env g a kw =
     bindE (merge_guards a) (\<lambda>_.
     bindE (case merge_drive_of g of
              PlainMerge \<Rightarrow> client_merge cl env (merge_cli_args a) kw
            | _ \<Rightarrow> client_merge_stream cl env (merge_cli_args a) kw) (\<lambda>act.
       Inr (merge_drive_of g, act)))"

text \<open>The family form: \<open>wrap_merge\<close> around the handler.\<close>

definition reject_non_start_family_merge :: "merge_cli \<Rightarrow> exn + unit" where
  "reject_non_start_family_merge a =
     guardE (mc_resume a \<or> mc_abort a \<or> mc_status a \<noteq> None \<or> mc_gc a \<noteq> None)
       (invalid_usage ''merge --remote <name> is accepted only when starting a merge'')"

definition wrapped_merge ::
    "client \<Rightarrow> caller_env \<Rightarrow> global_options \<Rightarrow> merge_cli \<Rightarrow> meta_kw \<Rightarrow> exn + merge_drive \<times> client_action" where
  "wrapped_merge cl env g a kw =
     (case go_remote g of
        None \<Rightarrow> handle_merge cl env g a kw
      | Some name \<Rightarrow>
          bindE (reject_non_start_family_merge a) (\<lambda>_.
            handle_merge cl env g a (kw\<lparr>kw_remote := None, kw_local_source_name := Some name\<rparr>)))"

subsection \<open>Diagnostics of a streamed merge\<close>

definition diagnostic_line :: "operation_event \<Rightarrow> string option" where
  "diagnostic_line ev =
     (if ev_kind ev \<noteq> EventKind_diagnostic \<or> \<not> truthy (ev_message ev) then None
      else if ev_severity ev = Severity_warn then Some (''warning: '' @ the (ev_message ev))
      else if ev_severity ev = Severity_error then Some (''error: '' @ the (ev_message ev))
      else None)"

text \<open>\<open>DiagnosticEcho.line_for\<close> with the set of printed lines, and the lines a stream prints.\<close>

definition line_for :: "string list \<Rightarrow> operation_event \<Rightarrow> string option \<times> string list" where
  "line_for printed ev =
     (case diagnostic_line ev of
        None \<Rightarrow> (None, printed)
      | Some line \<Rightarrow> if line \<in> set printed then (None, printed) else (Some line, line # printed))"

fun echo_events :: "string list \<Rightarrow> operation_event list \<Rightarrow> string list" where
  "echo_events printed [] = []"
| "echo_events printed (ev # evs) =
     (case line_for printed ev of
        (None, p) \<Rightarrow> echo_events p evs
      | (Some line, p) \<Rightarrow> line # echo_events p evs)"

subsection \<open>local clone, list, dispose, disband\<close>

record local_cli =
  lc_name :: string
  lc_dest :: "string option"
  lc_verbatim :: bool
  lc_clean :: bool
  lc_bare :: bool
  lc_branch :: "string option"
  lc_from_source :: "string option"
  lc_keep :: bool
  lc_force :: "string option"

definition local_clone_mode_of :: "local_cli \<Rightarrow> exn + local_clone_mode" where
  "local_clone_mode_of a =
     (if lc_verbatim a \<and> lc_clean a
      then Inl (invalid_usage ''--verbatim and --clean are mutually exclusive'')
      else if lc_verbatim a \<and> lc_bare a
      then Inl (invalid_usage ''--verbatim and --bare are mutually exclusive (--bare implies --clean)'')
      else if lc_bare a then Inr LocalCloneMode_bare
      else if lc_clean a then Inr LocalCloneMode_clean
      else Inr LocalCloneMode_verbatim)"

definition handle_local_clone :: "client \<Rightarrow> caller_env \<Rightarrow> local_cli \<Rightarrow> meta_kw \<Rightarrow> exn + client_action" where
  "handle_local_clone cl env a kw =
     (if lc_name a = [] then Inl (invalid_usage ''local clone <name> must not be empty'')
      else bindE (local_clone_mode_of a) (\<lambda>mode.
        if lc_branch a \<noteq> None \<and> mode = LocalCloneMode_verbatim
        then Inl (invalid_usage ''-b <branch> is accepted only with --clean or --bare'')
        else if lc_from_source a = Some []
        then Inl (invalid_usage ''--from <name|path> must not be empty'')
        else client_clone_local_workspace cl env (lc_name a) (lc_dest a) (EnumMember mode)
               (lc_branch a) (lc_from_source a) None None kw))"

definition HAZARD_NAMES :: "string list" where
  "HAZARD_NAMES = [''open-merge'', ''dirty'', ''unpreserved-history'']"

definition BARE_FORCE_REFUSAL :: string where
  "BARE_FORCE_REFUSAL =
     ''local dispose --force requires one or more hazard names ('' @ join '', '' HAZARD_NAMES @ '')''"

definition force_hazards :: "global_options \<Rightarrow> local_cli \<Rightarrow> exn + string list" where
  "force_hazards g a =
     (case lc_force a of
        None \<Rightarrow> if go_destructive g then Inl (invalid_usage BARE_FORCE_REFUSAL) else Inr []
      | Some raw \<Rightarrow>
         (let names = split_on CHR '','' raw
          in if \<not> list_all (\<lambda>n. n \<noteq> []) names then Inl (invalid_usage BARE_FORCE_REFUSAL)
             else Inr names))"

definition handle_local ::
    "client \<Rightarrow> caller_env \<Rightarrow> global_options \<Rightarrow> string \<Rightarrow> local_cli \<Rightarrow> meta_kw \<Rightarrow> exn + client_action" where
  "handle_local cl env g command a kw =
     (if command = ''clone'' then handle_local_clone cl env a kw
      else if command = ''list''
      then client_local_family cl env (EnumMember LocalFamilyOp_list) None None [] None kw
      else if command = ''disband''
      then client_local_family cl env (EnumMember LocalFamilyOp_disband) None None [] None kw
      else if command = ''dispose'' then
        bindE (force_hazards g a) (\<lambda>hazards.
          if lc_keep a \<and> hazards \<noteq> []
          then Inl (invalid_usage ''local dispose --keep cannot be combined with --force'')
          else client_local_family cl env (EnumMember LocalFamilyOp_dispose) (Some (lc_name a))
                 (some_if (lc_keep a) True) hazards None kw)
      else Inl (AssertionError command))"

subsection \<open>The family listing\<close>

definition is_family_listing :: "response \<Rightarrow> bool" where
  "is_family_listing r =
     (case r of FamilyResp f \<Rightarrow> local_family_response_members f \<noteq> [] | _ \<Rightarrow> False)"

fun agreeing_observation :: "local_member_state \<Rightarrow> local_observed_state" where
  "agreeing_observation LocalMemberState_creating = LocalObservedState_incomplete"
| "agreeing_observation LocalMemberState_ready = LocalObservedState_ready"
| "agreeing_observation LocalMemberState_disposing = LocalObservedState_interrupted_disposal"

definition state_cell :: "local_family_member_entry \<Rightarrow> string" where
  "state_cell e =
     (if agreeing_observation (lfm_recorded_state e) = lfm_observed_state e
      then local_observed_state_name (lfm_observed_state e)
      else local_member_state_name (lfm_recorded_state e) @ ''/'' @
           local_observed_state_name (lfm_observed_state e))"

text \<open>\<open>os.path.join\<close> and \<open>os.path.normpath\<close> on POSIX.\<close>

definition os_path_join :: "string \<Rightarrow> string \<Rightarrow> string" where
  "os_path_join a b =
     (if starts_with ''/'' b then b
      else if a = [] \<or> ends_with ''/'' a then a @ b else a @ ''/'' @ b)"

fun norm_components :: "bool \<Rightarrow> string list \<Rightarrow> string list \<Rightarrow> string list" where
  "norm_components rooted done [] = rev done"
| "norm_components rooted done (c # cs) =
     (if c = [] \<or> c = ''.'' then norm_components rooted done cs
      else if c \<noteq> ''..'' \<or> (\<not> rooted \<and> done = []) \<or> (done \<noteq> [] \<and> hd done = ''..'')
      then norm_components rooted (c # done) cs
      else norm_components rooted (tl done) cs)"

definition normpath :: "string \<Rightarrow> string" where
  "normpath s =
     (if s = [] then ''.''
      else (let body = path_root s @ join ''/'' (norm_components (path_root s \<noteq> []) [] (split_on CHR ''/'' s))
            in if body = [] then ''.'' else body))"

definition member_display_path :: "string option \<Rightarrow> string \<Rightarrow> string" where
  "member_display_path root_path path =
     (if truthy root_path then normpath (os_path_join (the root_path) path) else path)"

type_synonym family_cells = "string \<times> string \<times> string \<times> string option \<times> string \<times> string option"

definition family_row :: "string option \<Rightarrow> local_family_member_entry \<Rightarrow> family_cells" where
  "family_row root_path e =
     (lfm_name e, local_member_kind_name (lfm_kind e), state_cell e, lfm_owner e,
      member_display_path root_path (lfm_path e), lfm_last_error e)"

definition NO_OWNER :: string where "NO_OWNER = ''-''"

definition column_width :: "(family_cells \<Rightarrow> string) \<Rightarrow> family_cells list \<Rightarrow> nat" where
  "column_width f rows = Max (set (map (\<lambda>r. ulen (f r)) rows)) + 2"

definition row_name :: "family_cells \<Rightarrow> string" where "row_name r = fst r"
definition row_kind :: "family_cells \<Rightarrow> string" where "row_kind r = fst (snd r)"
definition row_state :: "family_cells \<Rightarrow> string" where "row_state r = fst (snd (snd r))"
definition row_owner :: "family_cells \<Rightarrow> string" where
  "row_owner r = or_else (fst (snd (snd (snd r)))) NO_OWNER"
definition row_path :: "family_cells \<Rightarrow> string" where "row_path r = fst (snd (snd (snd (snd r))))"
definition row_error :: "family_cells \<Rightarrow> string option" where "row_error r = snd (snd (snd (snd (snd r))))"

definition row_head :: "family_cells list \<Rightarrow> family_cells \<Rightarrow> string" where
  "row_head rows r =
     ljust (column_width row_name rows) (row_name r) @
     ljust (column_width row_kind rows) (row_kind r) @
     ljust (column_width row_state rows) (row_state r) @
     (if \<exists>q\<in>set rows. fst (snd (snd (snd q))) \<noteq> None
      then ljust (column_width row_owner rows) (row_owner r) else [])"

definition row_lines :: "family_cells list \<Rightarrow> family_cells \<Rightarrow> string list" where
  "row_lines rows r =
     (row_head rows r @ row_path r) #
     (if truthy (row_error r) then [''  last error: '' @ the (row_error r)] else [])"

definition render_family_listing :: "local_family_response \<Rightarrow> string" where
  "render_family_listing f =
     (let rows = map (family_row (local_family_response_root_path f)) (local_family_response_members f)
      in if rows = [] then [] else join [CHR 0x0A] (concat (map (row_lines rows) rows)))"

subsection \<open>Properties of the merge command\<close>

lemma meta_kwargs_remote:
  "meta_kwargs g attr getenv = Inr kw \<Longrightarrow> kw_remote kw = go_remote g \<and> kw_local_source_name kw = None"
  by (auto simp: meta_kwargs_def bindE_eq_Inr no_kw_def)

lemma merge_request_fields:
  assumes "merge_request_of cl env ma kw = Inr r"
  shows "\<exists>q opv. r = MergeRq q \<and> mreq_local_source_name q = kw_local_source_name kw \<and>
    (\<forall>x. ma_op ma = EnumMember x \<longrightarrow> mreq_op q = x) \<and>
    mreq_filesystem_strict q = ma_filesystem_strict ma \<and>
    (case rm_policy (mreq_meta q) of None \<Rightarrow> True | Some p \<Rightarrow> pol_remote p = kw_remote kw)"
proof -
  let ?kw = "kw\<lparr>kw_local_source_name := None\<rparr>"
  obtain m opv mode where m: "client_meta cl env ?kw = Inr m"
    "(case ma_op ma of EnumMember x \<Rightarrow> Inr x
      | EnumName s \<Rightarrow> enum_lookup merge_op_name merge_op_members s) = Inr opv"
    "r = MergeRq
         \<lparr>mreq_meta = m\<lparr>rm_policy := merge_policy (rm_policy m) ?kw\<rparr>,
          mreq_op = opv, mreq_source_ref = ma_source_ref ma, mreq_merge_id = ma_merge_id ma,
          mreq_mode = mode, mreq_message = ma_message ma, mreq_preserve = ma_preserve ma,
          mreq_filesystem_strict = ma_filesystem_strict ma,
          mreq_local_source_name = kw_local_source_name kw,
          mreq_wait_seconds = ma_wait_seconds ma\<rparr>"
    using assms by (auto simp: merge_request_of_def Let_def bindE_eq_Inr)
  obtain p where p: "meta_policy cl ?kw = Inr p" "rm_policy m = Some p"
    using client_meta_Inr(4) [OF m(1)] by blast
  have "case merge_policy (Some p) ?kw of None \<Rightarrow> True | Some q \<Rightarrow> pol_remote q = kw_remote kw"
    using meta_policy_fields [OF p(1)] merge_policy_fields(5) [of p ?kw] by (auto split: option.splits)
  with m p(2) show ?thesis by (auto split: enum_arg.splits)
qed

lemma handle_merge_request:
  assumes "handle_merge cl env g a kw = Inr (d, act)"
  shows "merge_guards a = Inr () \<and> merge_request_of cl env (merge_cli_args a) kw = Inr (action_request act)"
  using assms
  by (auto simp: handle_merge_def bindE_eq_Inr client_merge_def client_merge_stream_def
      split: merge_drive.splits)

lemma merge_op_start: "merge_op_of a = MergeOp_start \<longleftrightarrow> lifecycle_ops a = 0"
  by (auto simp: merge_op_of_def lifecycle_ops_def)


definition sample_merge :: merge_cli where
  "sample_merge = \<lparr>mc_source = Some ''topic'', mc_resume = False, mc_abort = False, mc_status = None,
     mc_gc = None, mc_preserve = False, mc_ff_only = True, mc_no_ff = False,
     mc_filesystem_strict = True, mc_message = None\<rparr>"

definition sample_family_options :: global_options where
  "sample_family_options = normalize_global_options [no_layer\<lparr>gl_remote := Some ''dev-A''\<rparr>]"


text \<open>
  The refusals of \<^verbatim>\<open>gwz merge\<close>: two lifecycle operations, both fast-forward flags, the strict check
  or a family source beside a lifecycle operation are each a usage error with the code
  InvalidRequest, raised before any request is built, and no other arguments are refused.
\<close>

definition merge_refusal :: "global_options \<Rightarrow> merge_cli \<Rightarrow> exn + unit" where
  "merge_refusal g a =
     bindE (if go_remote g = None then Inr () else reject_non_start_family_merge a) (\<lambda>_. merge_guards a)"

theorem merge_command_refusals:
  "if lifecycle_ops a > 1 \<or> mc_ff_only a \<and> mc_no_ff a \<or>
      lifecycle_ops a > 0 \<and> (mc_filesystem_strict a \<or> (\<exists>name. go_remote g = Some name))
   then \<exists>m. merge_refusal g a = Inl (CliUsageError m (Some ''InvalidRequest'')) \<and>
            wrapped_merge cl env g a kw = Inl (CliUsageError m (Some ''InvalidRequest''))
   else merge_refusal g a = Inr ()"
proof -
  have l: "lifecycle_ops a > 0 \<longleftrightarrow> mc_resume a \<or> mc_abort a \<or> mc_status a \<noteq> None \<or> mc_gc a \<noteq> None"
    by (auto simp: lifecycle_ops_def)
  have w: "wrapped_merge cl env g a kw = Inl e" if "merge_refusal g a = Inl e" for e
    using that by (cases "go_remote g")
      (auto simp: merge_refusal_def wrapped_merge_def handle_merge_def bindE_eq_Inl)
  show ?thesis
  proof (cases "merge_refusal g a")
    case (Inl e)
    then have "\<exists>m. e = CliUsageError m (Some ''InvalidRequest'')"
      by (auto simp: merge_refusal_def merge_guards_def reject_non_start_family_merge_def invalid_usage_def
          bindE_eq_Inl guardE_def split: if_splits)
    moreover have "lifecycle_ops a > 1 \<or> mc_ff_only a \<and> mc_no_ff a \<or>
      lifecycle_ops a > 0 \<and> (mc_filesystem_strict a \<or> go_remote g \<noteq> None)"
      using Inl l by (auto simp: merge_refusal_def merge_guards_def reject_non_start_family_merge_def
          bindE_eq_Inl guardE_def split: if_splits)
    ultimately show ?thesis using Inl w [OF Inl] by auto
  next
    case (Inr u)
    then have "\<not> (lifecycle_ops a > 1 \<or> mc_ff_only a \<and> mc_no_ff a \<or>
      lifecycle_ops a > 0 \<and> (mc_filesystem_strict a \<or> go_remote g \<noteq> None))"
      using l by (auto simp: merge_refusal_def merge_guards_def reject_non_start_family_merge_def
          bindE_eq_Inr guardE_def split: if_splits)
    with Inr show ?thesis by simp
  qed
qed

lemma echo_events_spec:
  "distinct (echo_events printed evs) \<and> set (echo_events printed evs) \<inter> set printed = {} \<and>
   set (echo_events printed evs) = {l. \<exists>ev\<in>set evs. diagnostic_line ev = Some l} - set printed \<and>
   subseq (echo_events printed evs) (concat (map (\<lambda>ev. case diagnostic_line ev of None \<Rightarrow> [] | Some l \<Rightarrow> [l]) evs))"
proof (induction evs arbitrary: printed)
  case (Cons ev evs)
  show ?case
  proof (cases "diagnostic_line ev")
    case None
    with Cons [of printed] show ?thesis by (auto simp: line_for_def)
  next
    case (Some l)
    show ?thesis
    proof (cases "l \<in> set printed")
      case True
      with Cons [of printed] Some show ?thesis
        by (auto simp: line_for_def intro: subseq_Cons')
    next
      case False
      with Cons [of "l # printed"] Some show ?thesis
        by (auto simp: line_for_def)
    qed
  qed
qed simp

text \<open>
  A person sees each diagnostic of a streamed merge once: the lines printed are exactly the
  warning and error messages of the event stream, each distinct line once, in the order of the
  stream.
\<close>

theorem diagnostics_once_in_order:
  "distinct (echo_events [] evs) \<and>
   set (echo_events [] evs) =
     {l. \<exists>ev\<in>set evs. ev_kind ev = EventKind_diagnostic \<and> truthy (ev_message ev) \<and>
           (ev_severity ev = Severity_warn \<and> l = ''warning: '' @ the (ev_message ev) \<or>
            ev_severity ev = Severity_error \<and> l = ''error: '' @ the (ev_message ev))} \<and>
   subseq (echo_events [] evs)
     (concat (map (\<lambda>ev. case diagnostic_line ev of None \<Rightarrow> [] | Some l \<Rightarrow> [l]) evs))"
proof -
  have "{l. \<exists>ev\<in>set evs. diagnostic_line ev = Some l} =
      {l. \<exists>ev\<in>set evs. ev_kind ev = EventKind_diagnostic \<and> truthy (ev_message ev) \<and>
           (ev_severity ev = Severity_warn \<and> l = ''warning: '' @ the (ev_message ev) \<or>
            ev_severity ev = Severity_error \<and> l = ''error: '' @ the (ev_message ev))}"
    by (fastforce simp: diagnostic_line_def split: if_splits)
  with echo_events_spec [of "[]" evs] show ?thesis by simp
qed

subsection \<open>Properties of the local commands\<close>

text \<open>
  A dispose waiver is sent as typed: the hazard names in the request, joined by commas, are the
  token the operator gave, none of them empty; without the option no hazard is waived, and a bare
  or global \<^verbatim>\<open>--force\<close> is refused, as is \<^verbatim>\<open>--keep\<close> beside a waiver.
\<close>

theorem dispose_hazards_verbatim:
  assumes "handle_local cl env g ''dispose'' a kw = Inr act"
  shows "\<exists>q. action_request act = LocalFamilyRq q \<and> local_family_request_op q = LocalFamilyOp_dispose \<and>
    local_family_request_name q = Some (lc_name a) \<and>
    (case lc_force a of
       None \<Rightarrow> local_family_request_force_hazards q = [] \<and> \<not> go_destructive g
     | Some raw \<Rightarrow>
         join '','' (local_family_request_force_hazards q) = raw \<and>
         local_family_request_force_hazards q \<noteq> [] \<and>
         (\<forall>n\<in>set (local_family_request_force_hazards q). n \<noteq> [] \<and> CHR '','' \<notin> set n) \<and>
         local_family_request_keep q = None)"
  using assms join_split_on [of "CHR '',''"] split_on_no_sep [of _ "CHR '',''"]
  by (auto simp: handle_local_def bindE_eq_Inr force_hazards_def Let_def client_local_family_def
      list_all_iff some_if_def split: option.splits if_splits)

definition sample_dispose :: local_cli where
  "sample_dispose = \<lparr>lc_name = ''dev-A'', lc_dest = None, lc_verbatim = False, lc_clean = False,
     lc_bare = False, lc_branch = None, lc_from_source = None, lc_keep = False,
     lc_force = Some ''dirty,open-merge''\<rparr>"

text \<open>
  A local clone is sent only for a well-formed request: a name, a mode the flags agree on (bare
  implies clean, verbatim excludes both), a branch only for a clean or bare clone, and no empty
  source; everything else is a usage error with the code InvalidRequest or an error of the metadata.
\<close>

theorem local_clone_well_formed:
  "(\<forall>act. handle_local cl env g ''clone'' a kw = Inr act \<longrightarrow>
     (\<exists>q. action_request act = CloneLocalWorkspaceRq q \<and>
        clone_local_workspace_request_name q = lc_name a \<and> lc_name a \<noteq> [] \<and>
        clone_local_workspace_request_copy_source q = lc_from_source a \<and> lc_from_source a \<noteq> Some [] \<and>
        clone_local_workspace_request_branch q = lc_branch a \<and>
        (lc_branch a \<noteq> None \<longrightarrow> clone_local_workspace_request_mode q \<noteq> LocalCloneMode_verbatim) \<and>
        (lc_verbatim a \<longrightarrow> \<not> lc_clean a \<and> \<not> lc_bare a) \<and>
        clone_local_workspace_request_mode q =
          (if lc_bare a then LocalCloneMode_bare else if lc_clean a then LocalCloneMode_clean
           else LocalCloneMode_verbatim))) \<and>
   (\<forall>e. handle_local cl env g ''clone'' a kw = Inl e \<longrightarrow>
      (\<exists>m. e = CliUsageError m (Some ''InvalidRequest'')) \<or> client_meta cl env kw = Inl e)"
  by (auto simp: handle_local_def handle_local_clone_def local_clone_mode_of_def invalid_usage_def
      client_clone_local_workspace_def bindE_eq_Inr bindE_eq_Inl split: if_splits)

subsection \<open>The listing is a table\<close>

lemma column_width_fits: "r \<in> set rows \<Longrightarrow> ulen (f r) + 2 \<le> column_width f rows"
  by (simp add: column_width_def)

lemma ulen_row_head:
  assumes "r \<in> set rows"
  shows "ulen (row_head rows r) = column_width row_name rows + column_width row_kind rows +
    column_width row_state rows +
    (if \<exists>q\<in>set rows. fst (snd (snd (snd q))) \<noteq> None then column_width row_owner rows else 0)"
proof -
  have "ulen (ljust (column_width f rows) (f r)) = column_width f rows" for f
    using column_width_fits [OF assms, of f] by (intro ulen_ljust) simp
  then show ?thesis by (simp add: row_head_def)
qed

text \<open>
  The listing is a table: it is one line per family member, in the response's order, a recorded
  error on a line of its own after it; the path starts at the same column in every row, and each
  cell is followed by at least two blanks, so no cell runs into the next.
\<close>

theorem family_listing_table:
  fixes f :: local_family_response
  defines "rows \<equiv> map (family_row (local_family_response_root_path f)) (local_family_response_members f)"
  shows "(rows \<noteq> [] \<longrightarrow> render_family_listing f = join [CHR 0x0A] (concat (map (row_lines rows) rows))) \<and>
    (\<exists>w. \<forall>r\<in>set rows. \<exists>pre. hd (row_lines rows r) = pre @ row_path r \<and> ulen pre = w) \<and>
    (\<forall>r\<in>set rows. ulen (row_name r) + 2 \<le> column_width row_name rows \<and>
       ulen (row_kind r) + 2 \<le> column_width row_kind rows \<and>
       ulen (row_state r) + 2 \<le> column_width row_state rows \<and>
       ulen (row_owner r) + 2 \<le> column_width row_owner rows) \<and>
    (\<forall>r\<in>set rows. length (row_lines rows r) = (if truthy (row_error r) then 2 else 1))"
proof -
  have "\<exists>w. \<forall>r\<in>set rows. \<exists>pre. hd (row_lines rows r) = pre @ row_path r \<and> ulen pre = w"
    by (intro exI [of _ "column_width row_name rows + column_width row_kind rows +
        column_width row_state rows +
        (if \<exists>q\<in>set rows. fst (snd (snd (snd q))) \<noteq> None then column_width row_owner rows else 0)"])
      (use ulen_row_head in \<open>auto simp: row_lines_def\<close>)
  then show ?thesis
    using column_width_fits by (auto simp: render_family_listing_def rows_def Let_def row_lines_def)
qed

definition sample_family :: local_family_response where
  "sample_family =
     \<lparr>local_family_response_response = sample_envelope AggregateStatus_ok None,
      local_family_response_members =
        [\<lparr>lfm_name = ''root'', lfm_kind = LocalMemberKind_checkout,
          lfm_recorded_state = LocalMemberState_ready, lfm_observed_state = LocalObservedState_ready,
          lfm_path = ''.'', lfm_last_error = None, lfm_owner = None\<rparr>,
         \<lparr>lfm_name = ''dev-A'', lfm_kind = LocalMemberKind_bare,
          lfm_recorded_state = LocalMemberState_creating, lfm_observed_state = LocalObservedState_missing,
          lfm_path = ''../gwz-dev-A'', lfm_last_error = Some ''disk full'', lfm_owner = Some ''tok''\<rparr>],
      local_family_response_root_path = Some ''/src/gwz''\<rparr>"

end
