(* ===== verification/Json.thy ===== *)
theory Json
  imports Faults
begin

section \<open>JSON text\<close>

text \<open>
  What the package uses of Python's \<^verbatim>\<open>json.dumps\<close>: values are null, booleans, integers, strings,
  lists and dictionaries with string keys; keys are sorted; the item and key separators are
  \<^verbatim>\<open>", "\<close> and \<^verbatim>\<open>": "\<close>, or \<^verbatim>\<open>","\<close> and \<^verbatim>\<open>":"\<close> for the log records, which also keep characters beyond
  ASCII (\<^verbatim>\<open>ensure_ascii=False\<close>). Sorting by the bytes of UTF-8 is sorting by code points.
\<close>

datatype json =
    JNull
  | JBool bool
  | JInt int
  | JStr string
  | JList "json list"
  | JObj "(string \<times> json) list"

subsection \<open>Strings\<close>

text \<open>The code points of a text: one to four bytes each, a lone surrogate as its three bytes.\<close>

fun code_points :: "string \<Rightarrow> nat list" where
  "code_points (a # b # c # d # s) =
     (if byte_of a < 128 then byte_of a # code_points (b # c # d # s)
      else if byte_of a < 224 then ((byte_of a - 192) * 64 + (byte_of b - 128)) # code_points (c # d # s)
      else if byte_of a < 240
      then ((byte_of a - 224) * 4096 + (byte_of b - 128) * 64 + (byte_of c - 128)) # code_points (d # s)
      else ((byte_of a - 240) * 262144 + (byte_of b - 128) * 4096 + (byte_of c - 128) * 64 +
            (byte_of d - 128)) # code_points s)"
| "code_points [a, b, c] =
     (if byte_of a < 128 then byte_of a # code_points [b, c]
      else if byte_of a < 224 then ((byte_of a - 192) * 64 + (byte_of b - 128)) # code_points [c]
      else [(byte_of a - 224) * 4096 + (byte_of b - 128) * 64 + (byte_of c - 128)])"
| "code_points [a, b] =
     (if byte_of a < 128 then byte_of a # code_points [b]
      else [(byte_of a - 192) * 64 + (byte_of b - 128)])"
| "code_points [a] = [byte_of a]"
| "code_points [] = []"

definition hex_escape :: "nat \<Rightarrow> string" where
  "hex_escape n = [CHR 0x5C, CHR ''u''] @ hex4 n"

text \<open>The short escapes, by code point.\<close>

definition short_escape :: "nat \<Rightarrow> string option" where
  "short_escape n =
     (if n = 34 then Some [CHR 0x5C, CHR 0x22]
      else if n = 92 then Some [CHR 0x5C, CHR 0x5C]
      else if n = 10 then Some [CHR 0x5C, CHR ''n'']
      else if n = 13 then Some [CHR 0x5C, CHR ''r'']
      else if n = 9 then Some [CHR 0x5C, CHR ''t'']
      else if n = 8 then Some [CHR 0x5C, CHR ''b'']
      else if n = 12 then Some [CHR 0x5C, CHR ''f'']
      else None)"

definition escape_ascii :: "nat \<Rightarrow> string" where
  "escape_ascii n =
     (case short_escape n of
        Some e \<Rightarrow> e
      | None \<Rightarrow>
          if 32 \<le> n \<and> n < 127 then [char_of n]
          else if n < 65536 then hex_escape n
          else hex_escape (55296 + ((n - 65536) div 1024) mod 1024) @
               hex_escape (56320 + (n - 65536) mod 1024))"

definition escape_plain :: "char \<Rightarrow> string" where
  "escape_plain c =
     (case short_escape (byte_of c) of
        Some e \<Rightarrow> e
      | None \<Rightarrow> if byte_of c < 32 then hex_escape (byte_of c) else [c])"

definition json_string :: "bool \<Rightarrow> string \<Rightarrow> string" where
  "json_string ensure_ascii s =
     [CHR 0x22] @
     (if ensure_ascii then concat (map escape_ascii (code_points s)) else concat (map escape_plain s)) @
     [CHR 0x22]"

subsection \<open>Values\<close>

fun dumps :: "bool \<Rightarrow> string \<Rightarrow> string \<Rightarrow> json \<Rightarrow> string" where
  "dumps a isep ksep JNull = ''null''"
| "dumps a isep ksep (JBool b) = (if b then ''true'' else ''false'')"
| "dumps a isep ksep (JInt i) = show_int i"
| "dumps a isep ksep (JStr s) = json_string a s"
| "dumps a isep ksep (JList vs) = ''['' @ join isep (map (dumps a isep ksep) vs) @ '']''"
| "dumps a isep ksep (JObj kvs) =
     [CHR 0x7B] @
     join isep (map (\<lambda>(k, t). json_string a k @ ksep @ t)
       (sort_key fst (map (\<lambda>(k, v). (k, dumps a isep ksep v)) kvs))) @
     [CHR 0x7D]"

text \<open>\<open>json.dumps(value, sort_keys=True)\<close>, and the form of the log records.\<close>

definition dumps_default :: "json \<Rightarrow> string" where
  "dumps_default v = dumps True '', '' '': '' v"

definition dumps_compact :: "json \<Rightarrow> string" where
  "dumps_compact v = dumps False '','' '':'' v"

definition jopt :: "('a \<Rightarrow> json) \<Rightarrow> 'a option \<Rightarrow> json" where
  "jopt f v = (case v of None \<Rightarrow> JNull | Some x \<Rightarrow> f x)"

lemma jopt_simps [simp]: "jopt f None = JNull" "jopt f (Some x) = f x"
  by (simp_all add: jopt_def)

subsection \<open>A document is one line\<close>

definition printable :: "char \<Rightarrow> bool" where
  "printable c \<longleftrightarrow> 32 \<le> byte_of c \<and> byte_of c < 127"

definition no_control :: "char \<Rightarrow> bool" where
  "no_control c \<longleftrightarrow> 32 \<le> byte_of c"

lemma join_list_all: "list_all P sep \<Longrightarrow> list_all (list_all P) ss \<Longrightarrow> list_all P (join sep ss)"
  by (induction sep ss rule: join.induct) auto

lemma sort_key_list_all: "list_all P (sort_key f xs) = list_all P xs"
  by (simp add: list_all_iff)

lemma concat_list_all: "list_all P (concat xss) = list_all (list_all P) xss"
  by (auto simp: list_all_iff)

lemma byte_of_char_of: "n < 256 \<Longrightarrow> byte_of (char_of n) = n"
  by (simp add: byte_of_def)

lemma hex_digit_printable: "d < 16 \<Longrightarrow> printable (hex_digit d)"
  by (auto simp: hex_digit_def printable_def byte_of_char_of)

lemma hex4_printable: "list_all printable (hex4 n)"
  by (simp add: hex4_def hex2_def hex_digit_printable)

lemma printable_consts [simp]:
  "printable (CHR 0x22)" "printable (CHR 0x5C)" "printable (CHR ''u'')" "printable (CHR 0x7B)"
  "printable (CHR 0x7D)"
  by (simp_all add: printable_def byte_of_def)

lemma short_escape_printable: "short_escape n = Some e \<Longrightarrow> list_all printable e"
  by (auto simp: short_escape_def printable_def byte_of_def split: if_splits)

lemma hex_escape_printable: "list_all printable (hex_escape n)"
  by (simp add: hex_escape_def hex4_printable)

lemma escape_ascii_printable: "list_all printable (escape_ascii n)"
proof (cases "short_escape n")
  case None
  have "printable (char_of n)" if "32 \<le> n" "n < 127"
    using that by (simp add: printable_def byte_of_char_of)
  with None show ?thesis by (simp add: escape_ascii_def hex_escape_printable)
next
  case (Some e)
  then show ?thesis using short_escape_printable by (simp add: escape_ascii_def)
qed

lemma printable_no_control: "list_all printable s \<Longrightarrow> list_all no_control s"
  by (auto simp: list_all_iff printable_def no_control_def)

lemma escape_plain_no_control: "list_all no_control (escape_plain c)"
proof (cases "short_escape (byte_of c)")
  case None
  then show ?thesis using hex_escape_printable printable_no_control
    by (simp add: escape_plain_def) (simp add: no_control_def)
next
  case (Some e)
  then show ?thesis using short_escape_printable printable_no_control by (simp add: escape_plain_def)
qed

lemma show_nat_printable: "list_all printable (show_nat n)"
  using show_nat_digits [of _ n] by (force simp: list_all_iff printable_def is_digit_def)

lemma show_int_printable: "list_all printable (show_int i)"
  by (simp add: show_int_def show_nat_printable) (simp add: printable_def byte_of_def)

lemma json_string_printable: "list_all printable (json_string True s)"
  by (simp add: json_string_def concat_list_all list_all_iff [of "list_all printable"]
      escape_ascii_printable)

lemma json_string_no_control: "list_all no_control (json_string a s)"
proof (cases a)
  case True
  then show ?thesis using json_string_printable printable_no_control by auto
next
  case False
  then show ?thesis
    by (simp add: json_string_def concat_list_all list_all_iff [of "list_all no_control"]
        escape_plain_no_control) (simp add: no_control_def byte_of_def)
qed

lemma dumps_all:
  assumes str: "\<And>s. list_all P (json_string a s)" and seps: "list_all P isep" "list_all P ksep"
    and print: "\<And>s. list_all printable s \<Longrightarrow> list_all P s"
  shows "list_all P (dumps a isep ksep v)"
proof (induction v)
  case (JInt i)
  then show ?case using print show_int_printable by simp
next
  case (JStr s)
  then show ?case using str by simp
next
  case (JList vs)
  have b: "list_all P ''[''" "list_all P '']''"
    by (rule print, simp add: printable_def byte_of_def)+
  from JList have "list_all (list_all P) (map (dumps a isep ksep) vs)" by (simp add: list_all_iff)
  with join_list_all [OF seps(1)] b show ?case by simp
next
  case (JObj kvs)
  have b: "list_all P [CHR 0x7B]" "list_all P [CHR 0x7D]" by (rule print, simp)+
  let ?items = "map (\<lambda>(k, v). (k, dumps a isep ksep v)) kvs"
  have "list_all (\<lambda>(k, t). list_all P t) (sort_key fst ?items)"
    unfolding sort_key_list_all using JObj by (fastforce simp: list_all_iff)
  then have "list_all (list_all P) (map (\<lambda>(k, t). json_string a k @ ksep @ t) (sort_key fst ?items))"
    using str seps(2) by (fastforce simp: list_all_iff)
  from join_list_all [OF seps(1) this] b show ?case by simp
next
  case JNull
  show ?case by (rule print) (simp add: printable_def byte_of_def)
next
  case (JBool b)
  show ?case by (rule print) (simp add: printable_def byte_of_def)
qed

text \<open>
  A JSON document is one line of text: the default form is printable ASCII only, whatever the
  strings in it, and the compact form of the log records has no control character, so no newline
  of a message or a path can split a JSONL record.
\<close>

lemma dumps_default_printable: "list_all printable (dumps_default v)"
  unfolding dumps_default_def
  by (rule dumps_all) (simp_all add: json_string_printable, simp_all add: printable_def byte_of_def)

lemma dumps_compact_no_control: "list_all no_control (dumps_compact v)"
  unfolding dumps_compact_def
  by (rule dumps_all) (simp_all add: json_string_no_control printable_no_control,
      simp_all add: no_control_def byte_of_def)

lemma json_one_line: "CHR 0x0A \<notin> set (dumps_default v)" "CHR 0x0A \<notin> set (dumps_compact v)"
  using dumps_default_printable [of v] dumps_compact_no_control [of v]
  by (auto simp: list_all_iff printable_def no_control_def byte_of_def)

lemma printable_ascii: "list_all printable s \<Longrightarrow> list_all (\<lambda>c. byte_of c < 128) s"
  by (auto simp: list_all_iff printable_def)

end
