(* ===== verification/Calendar.thy ===== *)
theory Calendar
  imports Prelude
begin

section \<open>The calendar of commit dates\<close>

text \<open>
  \<open>_civil_from_days\<close> of \<^verbatim>\<open>src/gwz/cli_render_parts/log.py\<close>: year, month and day of a number of days
  since 1970-01-01, for any integer, by divisions over a 400-year era that starts on the first of
  March. Its specification is the Gregorian calendar by rules.
\<close>

definition civil_from_days :: "int \<Rightarrow> int \<times> int \<times> int" where
  "civil_from_days days_since_epoch =
     (let shifted = days_since_epoch + 719468;
          era = shifted div 146097;
          day_of_era = shifted - era * 146097;
          year_of_era = (day_of_era - day_of_era div 1460 + day_of_era div 36524
                         - day_of_era div 146096) div 365;
          year = year_of_era + era * 400;
          day_of_year = day_of_era - (365 * year_of_era + year_of_era div 4 - year_of_era div 100);
          month_prime = (5 * day_of_year + 2) div 153;
          day = day_of_year - (153 * month_prime + 2) div 5 + 1;
          month = month_prime + (if month_prime < 10 then 3 else - 9)
      in (year + (if month \<le> 2 then 1 else 0), month, day))"

text \<open>The Gregorian calendar by its rules: leap years, the lengths of the months, the next day.\<close>

definition leap_year :: "int \<Rightarrow> bool" where
  "leap_year y \<longleftrightarrow> y mod 4 = 0 \<and> (y mod 100 \<noteq> 0 \<or> y mod 400 = 0)"

definition month_length :: "int \<Rightarrow> int \<Rightarrow> int" where
  "month_length y m =
     (if m = 2 then if leap_year y then 29 else 28
      else if m \<in> {4, 6, 9, 11} then 30 else 31)"

definition next_day :: "int \<times> int \<times> int \<Rightarrow> int \<times> int \<times> int" where
  "next_day date =
     (case date of (y, m, d) \<Rightarrow>
        if d < month_length y m then (y, m, d + 1)
        else if m < 12 then (y, m + 1, 1)
        else (y + 1, 1, 1))"

subsection \<open>The divisions\<close>

text \<open>
  The split of a day of the 400-year era (starting on the first of March) into centuries, cycles
  of four years, years and days.
\<close>

lemma era_split:
  fixes n :: int
  assumes "0 \<le> n" "n \<le> 146096"
  obtains c q t s where "n = 36524 * c + 1461 * q + 365 * t + s" "0 \<le> c" "c \<le> 3"
    "0 \<le> q" "q \<le> 24" "0 \<le> t" "t \<le> 3" "0 \<le> s" "s \<le> 365" "s = 365 \<Longrightarrow> t = 3 \<and> (q < 24 \<or> c = 3)"
proof -
  define c where "c = min 3 (n div 36524)"
  define r where "r = n - 36524 * c"
  have c: "0 \<le> c" "c \<le> 3" "0 \<le> r" "r \<le> 36524" "r = 36524 \<longrightarrow> c = 3"
    using assms by (auto simp: c_def r_def min_def)
  define q where "q = r div 1461"
  define k where "k = r mod 1461"
  have r: "r = 1461 * q + k" "0 \<le> k" "k \<le> 1460" by (auto simp: q_def k_def)
  have q: "0 \<le> q" "q \<le> 24" "q = 24 \<longrightarrow> k < 1460 \<or> c = 3" using c r by auto
  define t where "t = min 3 (k div 365)"
  define s where "s = k - 365 * t"
  have t: "0 \<le> t" "t \<le> 3" "0 \<le> s" "s \<le> 365" "s = 365 \<longrightarrow> t = 3 \<and> k = 1460"
    using r by (auto simp: t_def s_def min_def)
  have n: "n = 36524 * c + 1461 * q + 365 * t + s" using r(1) by (simp add: r_def s_def)
  have last: "s = 365 \<Longrightarrow> t = 3 \<and> (q < 24 \<or> c = 3)"
    using t(5) q by (cases "q < 24") auto
  show thesis by (rule that [OF n c(1,2) q(1,2) t(1-4) last])
qed

lemma year_of_era:
  fixes c q t s :: int
  assumes "0 \<le> c" "c \<le> 3" "0 \<le> q" "q \<le> 24" "0 \<le> t" "t \<le> 3" "0 \<le> s" "s \<le> 365"
    "s = 365 \<Longrightarrow> t = 3 \<and> (q < 24 \<or> c = 3)"
    and n: "n = 36524 * c + 1461 * q + 365 * t + s"
  shows "(n - n div 1460 + n div 36524 - n div 146096) div 365 = 100 * c + 4 * q + t"
proof -
  define v where "v = 24 * c + q + 365 * t + s"
  define d where "d = v div 1460"
  have v: "0 \<le> v" "v \<le> 1556" unfolding v_def using assms by linarith+
  then have d: "d = (if v < 1460 then 0 else 1)" unfolding d_def by (simp add: int_div_pos_eq [of v 1460 1 "v - 1460"])
  have "n = v + 1460 * (25 * c + q)" using n by (simp add: v_def)
  then have a: "n div 1460 = 25 * c + q + d"
    unfolding d_def by simp
  have e: "n div 36524 - n div 146096 = c"
  proof (cases "n = 146096")
    case True
    then have "c = 3" using assms by linarith
    with True show ?thesis by simp
  next
    case False
    define w where "w = 1461 * q + 365 * t + s"
    have w: "0 \<le> w" "w < 36524" "n = w + 36524 * c"
      unfolding w_def using assms False by linarith+
    then have "n div 36524 = c" by simp
    moreover have "0 \<le> n" "n < 146096" using w assms(1,2) False by linarith+
    then have "n div 146096 = 0" by simp
    ultimately show ?thesis by simp
  qed
  have "0 \<le> s - d \<and> s - d < 365"
  proof (cases "s = 365")
    case True
    then have "v \<ge> 1460" using assms unfolding v_def by linarith
    with True d show ?thesis by simp
  next
    case False
    have "v \<ge> 1460 \<Longrightarrow> 1 \<le> s" using assms unfolding v_def by linarith
    with False assms d show ?thesis by auto
  qed
  moreover have "n - n div 1460 + n div 36524 - n div 146096 = 365 * (100 * c + 4 * q + t) + (s - d)"
    using a e n by simp
  ultimately show ?thesis by (intro int_div_pos_eq [where r = "s - d"]) simp_all
qed

subsection \<open>Years that start in March\<close>

definition march_days :: "int \<Rightarrow> int" where
  "march_days y = 365 * y + y div 4 - y div 100 + y div 400"

definition march_valid :: "int \<Rightarrow> int \<Rightarrow> bool" where
  "march_valid y s \<longleftrightarrow> 0 \<le> s \<and> s \<le> (if leap_year (y + 1) then 365 else 364)"

definition from_march :: "int \<Rightarrow> int \<Rightarrow> int \<times> int \<times> int" where
  "from_march y s =
     (let mp = (5 * s + 2) div 153; m = mp + (if mp < 10 then 3 else - 9)
      in (y + (if m \<le> 2 then 1 else 0), m, s - (153 * mp + 2) div 5 + 1))"

lemma div_step:
  assumes "0 < k"
  shows "(x + 1) div k = x div k + (if (x + 1) mod k = 0 then 1 else (0::int))"
proof (cases "x mod k + 1 = k")
  case True
  have "x + 1 = k * (x div k) + (x mod k + 1)" by simp
  then have "x + 1 = k * (x div k + 1)" unfolding True by (simp add: distrib_left)
  then have "(x + 1) div k = x div k + 1" "(x + 1) mod k = 0" using assms by simp_all
  then show ?thesis by simp
next
  case False
  have b: "0 \<le> x mod k" "x mod k < k" using assms by simp_all
  have e: "x + 1 = k * (x div k) + (x mod k + 1)" by simp
  have "(x + 1) div k = x div k" by (rule int_div_pos_eq [OF e]) (use b False in linarith)+
  moreover have "(x + 1) mod k = x mod k + 1"
    by (rule int_mod_pos_eq [OF e]) (use b False in linarith)+
  ultimately show ?thesis using b by simp
qed

lemma march_days_next: "march_days (y + 1) = march_days y + (if leap_year (y + 1) then 366 else 365)"
proof -
  define a b c where "a = y div 4" and "b = y div 100" and "c = y div 400"
  define p q r where "p = ((y + 1) mod 4 = 0)" and "q = ((y + 1) mod 100 = 0)" and "r = ((y + 1) mod 400 = 0)"
  have "(4::int) dvd 100" "(100::int) dvd 400" by simp_all
  then have pqr: "q \<longrightarrow> p" "r \<longrightarrow> q"
    unfolding p_def q_def r_def mod_eq_0_iff_dvd by (blast intro: dvd_trans)+
  have d: "(y + 1) div 4 = a + (if p then 1 else 0)" "(y + 1) div 100 = b + (if q then 1 else 0)"
    "(y + 1) div 400 = c + (if r then 1 else 0)"
    unfolding a_def b_def c_def p_def q_def r_def by (rule div_step, simp)+
  have l: "leap_year (y + 1) \<longleftrightarrow> p \<and> (\<not> q \<or> r)" unfolding leap_year_def p_def q_def r_def ..
  have "march_days (y + 1) = 365 * (y + 1) + (a + (if p then 1 else 0)) - (b + (if q then 1 else 0)) +
      (c + (if r then 1 else 0))" "march_days y = 365 * y + a - b + c"
    unfolding march_days_def d a_def b_def c_def by (rule refl)+
  then show ?thesis
    unfolding l using pqr by (cases p; cases q; cases r) simp_all
qed

lemma era_of:
  fixes y :: int
  obtains e c q t where "y = 400 * e + 100 * c + 4 * q + t" "0 \<le> c" "c \<le> 3" "0 \<le> q" "q \<le> 24"
    "0 \<le> t" "t \<le> 3" "march_days y = 146097 * e + 36524 * c + 1461 * q + 365 * t"
    "leap_year (y + 1) \<longleftrightarrow> t = 3 \<and> (q < 24 \<or> c = 3)"
proof -
  define e where "e = y div 400"
  define z where "z = y mod 400"
  define c where "c = z div 100"
  define w where "w = z mod 100"
  define q where "q = w div 4"
  define t where "t = w mod 4"
  have z: "y = 400 * e + z" "0 \<le> z" "z < 400" by (auto simp: e_def z_def)
  have w: "z = 100 * c + w" "0 \<le> w" "w < 100" by (auto simp: c_def w_def)
  have t: "w = 4 * q + t" "0 \<le> t" "t < 4" by (auto simp: q_def t_def)
  have c: "0 \<le> c" "c \<le> 3" using z w by linarith+
  have q: "0 \<le> q" "q \<le> 24" using w t by linarith+
  have y: "y = 400 * e + 100 * c + 4 * q + t" using z w t by simp
  have d4: "y div 4 = 100 * e + 25 * c + q"
    by (rule int_div_pos_eq [where r = t]) (use y t in simp_all)
  have d100: "y div 100 = 4 * e + c"
    by (rule int_div_pos_eq [where r = w]) (use y t w in simp_all)
  have "march_days y = 146097 * e + 36524 * c + 1461 * q + 365 * t"
    unfolding march_days_def d4 d100 e_def [symmetric] using y by simp
  moreover have "leap_year (y + 1) \<longleftrightarrow> t = 3 \<and> (q < 24 \<or> c = 3)"
  proof -
    have "(y + 1) mod 4 = 0 \<longleftrightarrow> t = 3"
    proof -
      have "y + 1 = (t + 1) + 4 * (100 * e + 25 * c + q)" using y by simp
      then have "(y + 1) mod 4 = (t + 1) mod 4" by (metis mod_mult_self2)
      then show ?thesis using t(2,3) by (cases "t = 3") simp_all
    qed
    moreover have "(y + 1) mod 100 = 0 \<longleftrightarrow> w = 99"
    proof -
      have "y + 1 = (w + 1) + 100 * (4 * e + c)" using z w by simp
      then have "(y + 1) mod 100 = (w + 1) mod 100" by (metis mod_mult_self2)
      then show ?thesis using w(2,3) by (cases "w = 99") simp_all
    qed
    moreover have "(y + 1) mod 400 = 0 \<longleftrightarrow> z = 399"
    proof -
      have "y + 1 = (z + 1) + 400 * e" using z by simp
      then have "(y + 1) mod 400 = (z + 1) mod 400" by (metis mod_mult_self2)
      then show ?thesis using z(2,3) by (cases "z = 399") simp_all
    qed
    moreover have "w = 99 \<longleftrightarrow> q = 24 \<and> t = 3" using t q by linarith
    moreover have "z = 399 \<longleftrightarrow> c = 3 \<and> w = 99" using w c by linarith
    ultimately show ?thesis unfolding leap_year_def using q by auto
  qed
  ultimately show thesis using that [OF y c q t(2)] t(3) by simp
qed

subsection \<open>From days to dates\<close>

lemma civil_march:
  assumes "march_valid y s"
  shows "civil_from_days (march_days y + s - 719468) = from_march y s"
proof -
  obtain e c q t where y: "y = 400 * e + 100 * c + 4 * q + t"
    and b: "0 \<le> c" "c \<le> 3" "0 \<le> q" "q \<le> 24" "0 \<le> t" "t \<le> 3"
    and m: "march_days y = 146097 * e + 36524 * c + 1461 * q + 365 * t"
    and l: "leap_year (y + 1) \<longleftrightarrow> t = 3 \<and> (q < 24 \<or> c = 3)" by (rule era_of)
  have s: "0 \<le> s" "s \<le> 365" "s = 365 \<Longrightarrow> t = 3 \<and> (q < 24 \<or> c = 3)"
    using assms l by (auto simp: march_valid_def split: if_splits)
  define n where "n = 36524 * c + 1461 * q + 365 * t + s"
  have n: "0 \<le> n" "n < 146097"
    unfolding n_def using b s by linarith+
  define g where "g = 100 * c + 4 * q + t"
  have yoe: "(n - n div 1460 + n div 36524 - n div 146096) div 365 = g"
    unfolding g_def by (rule year_of_era [OF b s n_def])
  have era: "(march_days y + s) div 146097 = e"
    by (rule int_div_pos_eq [where r = n]) (use n m in \<open>simp_all add: n_def\<close>)
  have doe: "march_days y + s - e * 146097 = n" using m by (simp add: n_def)
  have "g div 4 = 25 * c + q"
    by (rule int_div_pos_eq [where r = t]) (use b in \<open>simp_all add: g_def\<close>)
  moreover have "g div 100 = c"
    by (rule int_div_pos_eq [where r = "4 * q + t"]) (use b in \<open>simp_all add: g_def\<close>)
  ultimately have doy: "n - (365 * g + g div 4 - g div 100) = s"
    by (simp add: n_def g_def)
  have "g + e * 400 = y" using y by (simp add: g_def)
  then show ?thesis
    unfolding civil_from_days_def from_march_def Let_def
    by (simp only: diff_add_cancel era doe yoe doy)
qed

lemma march_exists: "\<exists>y s. march_valid y s \<and> n = march_days y + s - 719468"
proof -
  define e where "e = (n + 719468) div 146097"
  define k where "k = (n + 719468) mod 146097"
  have k: "n + 719468 = 146097 * e + k" "0 \<le> k" "k \<le> 146096" by (simp_all add: e_def k_def)
  obtain c q t s where s: "k = 36524 * c + 1461 * q + 365 * t + s" "0 \<le> c" "c \<le> 3"
    "0 \<le> q" "q \<le> 24" "0 \<le> t" "t \<le> 3" "0 \<le> s" "s \<le> 365" "s = 365 \<Longrightarrow> t = 3 \<and> (q < 24 \<or> c = 3)"
    using era_split [OF k(2,3)] by metis
  define y where "y = 400 * e + 100 * c + 4 * q + t"
  obtain e' c' q' t' where y': "y = 400 * e' + 100 * c' + 4 * q' + t'"
    and b: "0 \<le> c'" "c' \<le> 3" "0 \<le> q'" "q' \<le> 24" "0 \<le> t'" "t' \<le> 3"
    and m: "march_days y = 146097 * e' + 36524 * c' + 1461 * q' + 365 * t'"
    and l: "leap_year (y + 1) \<longleftrightarrow> t' = 3 \<and> (q' < 24 \<or> c' = 3)" by (rule era_of)
  have "e' = e" using y' y_def b s by linarith
  moreover from this have "c' = c" using y' y_def b s by linarith
  moreover from calculation have "q' = q" using y' y_def b s by linarith
  moreover from calculation have "t' = t" using y' y_def by linarith
  ultimately have eq: "e' = e" "c' = c" "q' = q" "t' = t" by blast+
  have "march_valid y s" using s l by (auto simp: march_valid_def eq)
  moreover have "n = march_days y + s - 719468" using k(1) s(1) m by (simp add: eq)
  ultimately show ?thesis by blast
qed

subsection \<open>Day by day\<close>

text \<open>The month and day within a March year, month by month: its first day and its length.\<close>

definition march_months :: "(int \<times> int \<times> int) list" where
  "march_months =
     [(3, 0, 31), (4, 31, 30), (5, 61, 31), (6, 92, 30), (7, 122, 31), (8, 153, 31),
      (9, 184, 30), (10, 214, 31), (11, 245, 30), (12, 275, 31), (1, 306, 31), (2, 337, 29)]"

lemma from_march_month:
  assumes "(m, first, len) \<in> set march_months" "first \<le> s" "s < first + len"
  shows "from_march y s = (y + (if m \<le> 2 then 1 else 0), m, s - first + 1)"
proof -
  have *: "from_march y s = (y + (if k + (if k < 10 then 3 else - 9) \<le> 2 then 1 else 0),
      k + (if k < 10 then 3 else - 9), s - (153 * k + 2) div 5 + 1)"
    if "153 * k \<le> 5 * s + 2" "5 * s + 2 < 153 * k + 153" for k
  proof -
    have "(5 * s + 2) div 153 = k"
      by (rule int_div_pos_eq [where r = "5 * s + 2 - 153 * k"]) (use that in simp_all)
    then show ?thesis by (simp add: from_march_def Let_def)
  qed
  from assms show ?thesis
    unfolding march_months_def
    by (auto simp: * [of 0] * [of 1] * [of 2] * [of 3] * [of 4] * [of 5] * [of 6] * [of 7] * [of 8]
        * [of 9] * [of 10] * [of 11])
qed

lemma march_month_exists:
  assumes "0 \<le> s" "s \<le> 365"
  shows "\<exists>(m, first, len)\<in>set march_months. first \<le> s \<and> s < first + len"
proof -
  have "s < 366" using assms by simp
  consider "s < 31" | "31 \<le> s" "s < 61" | "61 \<le> s" "s < 92" | "92 \<le> s" "s < 122"
    | "122 \<le> s" "s < 153" | "153 \<le> s" "s < 184" | "184 \<le> s" "s < 214" | "214 \<le> s" "s < 245"
    | "245 \<le> s" "s < 275" | "275 \<le> s" "s < 306" | "306 \<le> s" "s < 337" | "337 \<le> s"
    by linarith
  then show ?thesis
    by cases (simp_all add: march_months_def assms \<open>s < 366\<close>)
qed

lemma march_month_next:
  assumes "(m, first, len) \<in> set march_months" "m \<noteq> 2"
  shows "\<exists>len'. (if m < 12 then m + 1 else 1, first + len, len') \<in> set march_months \<and> 0 < len'"
  using assms by (auto simp: march_months_def)

lemma march_next:
  assumes "march_valid y s"
  shows "next_day (from_march y s) =
    (if march_valid y (s + 1) then from_march y (s + 1) else from_march (y + 1) 0)"
proof -
  have s: "0 \<le> s" "s \<le> 365" "s = 365 \<Longrightarrow> leap_year (y + 1)"
    using assms by (auto simp: march_valid_def split: if_splits)
  obtain m first len where m: "(m, first, len) \<in> set march_months" "first \<le> s" "s < first + len"
    using march_month_exists [OF s(1,2)] by blast
  have now: "from_march y s = (y + (if m \<le> 2 then 1 else 0), m, s - first + 1)"
    by (rule from_march_month [OF m])
  have new_year: "from_march (y + 1) 0 = (y + 1, 3, 1)"
    using from_march_month [of 3 0 31 0 "y + 1"] by (simp add: march_months_def)
  show ?thesis
  proof (cases "s + 1 < first + len")
    case True
    then have succ: "from_march y (s + 1) = (y + (if m \<le> 2 then 1 else 0), m, s - first + 2)"
      using from_march_month [OF m(1), of "s + 1" y] m(2) by simp
    show ?thesis
    proof (cases "m = 2")
      case True
      then have "first = 337" "len = 29" using m(1) by (auto simp: march_months_def)
      with True \<open>s + 1 < first + len\<close> s show ?thesis
        unfolding succ now new_year by (auto simp: next_day_def month_length_def march_valid_def)
    next
      case False
      have "month_length (y + (if m \<le> 2 then 1 else 0)) m = len"
        using m(1) False by (auto simp: march_months_def month_length_def)
      moreover have "first + len \<le> 337" using m(1) False by (auto simp: march_months_def)
      ultimately show ?thesis using True s
        unfolding succ now by (auto simp: next_day_def march_valid_def)
    qed
  next
    case False
    then have e: "s = first + len - 1" using m by simp
    show ?thesis
    proof (cases "m = 2")
      case True
      then have "s = 365" using m(1) e by (auto simp: march_months_def)
      with True s m(1) show ?thesis
        unfolding now new_year
        by (auto simp: next_day_def month_length_def march_valid_def march_months_def)
    next
      case False
      have l: "month_length (y + (if m \<le> 2 then 1 else 0)) m = len"
        using m(1) False by (auto simp: march_months_def month_length_def)
      have "s + 1 \<le> 337" using e m(1) False by (auto simp: march_months_def)
      then have "march_valid y (s + 1)" using s by (auto simp: march_valid_def)
      moreover obtain len' where next_month:
        "(if m < 12 then m + 1 else 1, first + len, len') \<in> set march_months" "0 < len'"
        using march_month_next [OF m(1) False] by blast
      have "from_march y (s + 1) =
          (y + (if (if m < 12 then m + 1 else 1) \<le> (2::int) then 1 else 0), if m < 12 then m + 1 else 1, 1)"
        using from_march_month [OF next_month(1), of "s + 1" y] next_month(2) e by simp
      moreover have "m \<ge> 3 \<and> m \<le> 12 \<or> m = 1" using m(1) False by (auto simp: march_months_def)
      ultimately show ?thesis
        unfolding now using l e False by (auto simp: next_day_def)
    qed
  qed
qed

text \<open>
  C27: The dates of the log are those of the Gregorian calendar: day 0 is 1970-01-01 and one day
  more is the calendar's next day, for every day before and after the epoch.
\<close>

theorem civil_from_days_gregorian:
  "civil_from_days 0 = (1970, 1, 1) \<and> (\<forall>n. civil_from_days (n + 1) = next_day (civil_from_days n))"
proof (intro conjI allI)
  show "civil_from_days 0 = (1970, 1, 1)" by code_simp
  fix n
  obtain y s where v: "march_valid y s" and n: "n = march_days y + s - 719468"
    using march_exists by blast
  have now: "civil_from_days n = from_march y s" unfolding n by (rule civil_march [OF v])
  show "civil_from_days (n + 1) = next_day (civil_from_days n)"
  proof (cases "march_valid y (s + 1)")
    case True
    have "n + 1 = march_days y + (s + 1) - 719468" by (simp add: n)
    then have "civil_from_days (n + 1) = from_march y (s + 1)" using civil_march [OF True] by metis
    with True show ?thesis by (simp add: now march_next [OF v])
  next
    case False
    then have "s = (if leap_year (y + 1) then 365 else 364)" using v by (auto simp: march_valid_def)
    then have "n + 1 = march_days (y + 1) + 0 - 719468" by (simp add: n march_days_next)
    moreover have "march_valid (y + 1) 0" by (simp add: march_valid_def)
    ultimately have "civil_from_days (n + 1) = from_march (y + 1) 0" by (metis civil_march)
    with False show ?thesis by (simp add: now march_next [OF v])
  qed
qed

end
