(* ===== verification/RenderLog.thy ===== *)
theory RenderLog
  imports Json Calendar
begin

section \<open>Rendering of commit-log records\<close>

text \<open>
  \<^verbatim>\<open>src/gwz/cli_render_parts/log.py\<close>: the compact and the full form of a log entry, the line of
  a degradation, the date of a commit from its seconds and offset, and the machine form of a
  record. Texts are UTF-8, so the control characters are the bytes below 32, and a text's length is
  its number of characters.
\<close>

subsection \<open>Labels, colour, sanitizing\<close>

fun degradation_label :: "log_degradation_reason \<Rightarrow> string" where
  "degradation_label LogDegradationReason_repository_unreadable = ''repository unreadable''"
| "degradation_label LogDegradationReason_repository_missing = ''repository missing''"
| "degradation_label LogDegradationReason_unborn = ''unborn history''"
| "degradation_label LogDegradationReason_revision_unresolved = ''revision unresolved''"
| "degradation_label LogDegradationReason_snapshot_entry_missing = ''snapshot entry missing''"
| "degradation_label LogDegradationReason_lock_entry_missing = ''lock entry missing''"
| "degradation_label LogDegradationReason_unsupported_source_kind = ''unsupported source kind''"

fun degradation_token :: "log_degradation_reason \<Rightarrow> string" where
  "degradation_token LogDegradationReason_repository_unreadable = ''repository_unreadable''"
| "degradation_token LogDegradationReason_repository_missing = ''repository_missing''"
| "degradation_token LogDegradationReason_unborn = ''unborn''"
| "degradation_token LogDegradationReason_revision_unresolved = ''revision_unresolved''"
| "degradation_token LogDegradationReason_snapshot_entry_missing = ''snapshot_entry_missing''"
| "degradation_token LogDegradationReason_lock_entry_missing = ''lock_entry_missing''"
| "degradation_token LogDegradationReason_unsupported_source_kind = ''unsupported_source_kind''"

definition log_color_enabled :: "string \<Rightarrow> bool \<Rightarrow> bool" where
  "log_color_enabled color stdout_is_tty =
     (if color = ''always'' then True else if color = ''never'' then False else stdout_is_tty)"

definition colorize :: "string \<Rightarrow> string \<Rightarrow> bool \<Rightarrow> string" where
  "colorize text code color =
     (if color then [CHR 0x1B, CHR 0x5B] @ code @ ''m'' @ text @ [CHR 0x1B, CHR 0x5B] @ ''0m'' else text)"

text \<open>The replacement character U+FFFD.\<close>

definition replacement :: string where
  "replacement = [CHR 0xEF, CHR 0xBF, CHR 0xBD]"

definition sanitize_char :: "bool \<Rightarrow> char \<Rightarrow> string" where
  "sanitize_char preserve_newlines c =
     (if c = CHR 0x0A \<and> preserve_newlines then [c]
      else if c = CHR 0x09 then '' ''
      else if byte_of c \<le> 31 then replacement
      else [c])"

definition sanitize :: "bool \<Rightarrow> string \<Rightarrow> string" where
  "sanitize preserve_newlines text = concat (map (sanitize_char preserve_newlines) text)"

definition sanitize_inline :: "string \<Rightarrow> string" where
  "sanitize_inline text = sanitize False text"

definition sanitize_multiline :: "string \<Rightarrow> string" where
  "sanitize_multiline text = sanitize True text"

text \<open>DEL and the C1 controls, such as the CSI of U+009B, pass the sanitizer.\<close>

lemma sanitize_passes_del_and_c1:
  "sanitize p [CHR 0x7F] = [CHR 0x7F]" "sanitize p [CHR 0xC2, CHR 0x9B] = [CHR 0xC2, CHR 0x9B]"
  by (simp_all add: sanitize_def sanitize_char_def byte_of_def)

definition invalid_record :: "string \<Rightarrow> exn" where
  "invalid_record message = GwzBridgeError (bridge_fault message (Some ''InternalError''))"

definition require_log_entry_members :: "log_entry \<Rightarrow> exn + unit" where
  "require_log_entry_members e =
     guardE (le_members e = []) (invalid_record ''commit-log entry has no members'')"

definition newline :: string where
  "newline = [CHR 0x0A]"

subsection \<open>Dates\<close>

definition format_year :: "int \<Rightarrow> string" where
  "format_year year = (if year < 0 then CHR ''-'' # zpad 4 \<bar>year\<bar> else zpad 4 year)"

definition format_date :: "int \<Rightarrow> int option \<Rightarrow> string" where
  "format_date seconds offset_minutes =
     (let offset = (case offset_minutes of None \<Rightarrow> 0 | Some m \<Rightarrow> m);
          local_seconds = seconds + offset * 60;
          days = local_seconds div 86400;
          seconds_in_day = local_seconds mod 86400;
          hour = seconds_in_day div 3600;
          remainder = seconds_in_day mod 3600;
          minute = remainder div 60;
          second = remainder mod 60;
          sign = (if offset < 0 then CHR ''-'' else CHR ''+'');
          absolute_offset = \<bar>offset\<bar>
      in case civil_from_days days of
           (year, month, day) \<Rightarrow>
             format_year year @ ''-'' @ zpad 2 month @ ''-'' @ zpad 2 day @ '' '' @
             zpad 2 hour @ '':'' @ zpad 2 minute @ '':'' @ zpad 2 second @ '' '' @
             [sign] @ zpad 2 (absolute_offset div 60) @ zpad 2 (absolute_offset mod 60))"

subsection \<open>Text forms\<close>

definition compact_member_set :: "log_entry \<Rightarrow> string" where
  "compact_member_set e =
     (let ms = le_members e;
          non_root = length (filter (\<lambda>m. lem_member_id m \<noteq> ''@root'') ms)
      in if length ms = 1 then sanitize_inline (lem_member_path (ms ! 0))
         else if length ms \<le> 3
         then [CHR 0x5B] @ join '', '' (map (\<lambda>m. sanitize_inline (lem_member_path m)) ms) @ [CHR 0x5D]
         else if non_root < length ms then ''[root+'' @ show_nat non_root @ '']''
         else [CHR 0x5B] @ show_nat (length ms) @ '' members]'')"

definition render_compact_entry :: "log_entry \<Rightarrow> bool \<Rightarrow> string" where
  "render_compact_entry e color =
     join '' ''
       [colorize (format_date (le_committer_timestamp_seconds e)
                    (goi_timezone_offset_minutes (le_committer e))) ''2'' color,
        colorize (compact_member_set e) ''36'' color,
        colorize (sanitize_inline (utake 12 (lem_commit (le_members e ! 0)))) ''33'' color,
        sanitize_inline (le_subject e)]"

definition full_rows :: "log_entry \<Rightarrow> (string \<times> string \<times> string) list" where
  "full_rows e =
     map (\<lambda>m. (sanitize_inline (lem_member_id m), sanitize_inline (lem_member_path m),
                sanitize_inline (lem_commit m))) (le_members e)"

definition max_width :: "nat \<Rightarrow> string list \<Rightarrow> nat" where
  "max_width n cells = fold max (map ulen cells) n"

definition full_row_line :: "nat \<Rightarrow> nat \<Rightarrow> string \<times> string \<times> string \<Rightarrow> string" where
  "full_row_line id_width path_width row =
     (case row of (member_id, path, commit) \<Rightarrow>
        ''    '' @ ljust id_width member_id @ ''  '' @ ljust path_width path @ ''  '' @ commit)"

definition full_head :: "log_entry \<Rightarrow> bool \<Rightarrow> string list" where
  "full_head e color =
     (let rows = full_rows e;
          id_width = max_width 2 (map fst rows);
          path_width = max_width 4 (map (fst \<circ> snd) rows)
      in [colorize (''commit '' @ sanitize_inline (lem_commit (le_members e ! 0))) ''33'' color,
          colorize ''Members:'' ''36'' color,
          ''    '' @ ljust id_width ''ID'' @ ''  '' @ ljust path_width ''PATH'' @ ''  COMMIT''] @
         map (full_row_line id_width path_width) rows @
         [''Author: '' @ sanitize_inline (goi_name (le_author e)) @ '' <'' @
            sanitize_inline (goi_email (le_author e)) @ ''>'',
          ''Date:   '' @ format_date (le_author_timestamp_seconds e)
            (goi_timezone_offset_minutes (le_author e)),
          []])"

definition full_message :: "log_entry \<Rightarrow> string" where
  "full_message e =
     sanitize_inline (le_subject e) @
     (case le_body e of None \<Rightarrow> [] | Some body \<Rightarrow> newline @ sanitize_multiline body)"

definition render_full_entry :: "log_entry \<Rightarrow> bool \<Rightarrow> string" where
  "render_full_entry e color =
     join newline (full_head e color @
       map (\<lambda>line. ''    '' @ line) (split_on (CHR 0x0A) (full_message e)))"

definition render_log_entry :: "log_entry \<Rightarrow> bool \<Rightarrow> bool \<Rightarrow> exn + string" where
  "render_log_entry e full color =
     bindE (require_log_entry_members e) (\<lambda>_.
       Inr (if full then render_full_entry e color else render_compact_entry e color))"

definition render_log_degradation :: "log_degradation \<Rightarrow> bool \<Rightarrow> string" where
  "render_log_degradation d color =
     colorize ''gwz log: degraded'' ''33'' color @ '' '' @
     sanitize_inline (if ld_member_path d \<noteq> [] then ld_member_path d else ld_member_id d) @ '': '' @
     degradation_label (ld_reason d) @
     (case ld_operand d of None \<Rightarrow> [] | Some t \<Rightarrow> '' for '' @ squote (sanitize_inline t)) @
     (if truthy (ld_message d)
      then [CHR 0x20, CHR 0xE2, CHR 0x80, CHR 0x94, CHR 0x20] @
           sanitize_inline (case ld_message d of None \<Rightarrow> [] | Some m \<Rightarrow> m)
      else [])"

subsection \<open>Machine form\<close>

definition identity_json :: "string \<Rightarrow> string \<Rightarrow> int \<Rightarrow> int option \<Rightarrow> string \<Rightarrow> exn + json" where
  "identity_json name email seconds offset label =
     (case offset of
        None \<Rightarrow> Inl (invalid_record (''commit-log '' @ label @
                  '' identity has no recorded timezone offset''))
      | Some off \<Rightarrow>
          Inr (JObj [(''email'', JStr email), (''name'', JStr name),
                     (''time'', JObj [(''offset_min'', JInt off), (''time'', JInt seconds)])]))"

definition provenance_token :: "log_entry \<Rightarrow> exn + string" where
  "provenance_token e =
     (let kind = lmp_kind (le_provenance e); marker = lmp_gwz_commit_id (le_provenance e)
      in if kind = LogMergeKind_none \<and> marker = Some ''marker-invalid'' then Inr ''marker-invalid''
         else if kind = LogMergeKind_none \<and> marker = None then Inr ''none''
         else if kind = LogMergeKind_heuristic \<and> marker = None then Inr ''heuristic''
         else case (kind, marker) of
                (LogMergeKind_marker, Some m) \<Rightarrow> Inr (''marker:'' @ m)
              | _ \<Rightarrow> Inl (invalid_record ''commit-log entry has inconsistent merge provenance''))"

definition entry_member_json :: "log_entry_member \<Rightarrow> json" where
  "entry_member_json m =
     JObj [(''hash'', JStr (lem_commit m)), (''member_id'', JStr (lem_member_id m)),
           (''member_path'', JStr (lem_member_path m)),
           (''parents'', JList (map JStr (lem_parents m)))]"

definition entry_json :: "log_entry \<Rightarrow> exn + json" where
  "entry_json e =
     bindE (require_log_entry_members e) (\<lambda>_.
     bindE (identity_json (goi_name (le_author e)) (goi_email (le_author e))
              (le_author_timestamp_seconds e) (goi_timezone_offset_minutes (le_author e)) ''author'')
       (\<lambda>author.
     bindE (identity_json (goi_name (le_committer e)) (goi_email (le_committer e))
              (le_committer_timestamp_seconds e) (goi_timezone_offset_minutes (le_committer e))
              ''committer'') (\<lambda>committer.
     bindE (provenance_token e) (\<lambda>token.
       Inr (JObj ([(''author'', author), (''committer'', committer),
                   (''members'', JList (map entry_member_json (le_members e))),
                   (''provenance'', JStr token), (''record'', JStr ''entry''),
                   (''subject'', JStr (le_subject e))] @
                  (case le_body e of None \<Rightarrow> [] | Some b \<Rightarrow> [(''body'', JStr b)]) @
                  (if le_lossy e = Some True then [(''lossy'', JBool True)] else [])))))))"

definition degradation_json :: "log_degradation \<Rightarrow> json" where
  "degradation_json d =
     JObj [(''member_id'', JStr (ld_member_id d)), (''member_path'', JStr (ld_member_path d)),
           (''message'', jopt JStr (ld_message d)), (''operand'', jopt JStr (ld_operand d)),
           (''reason'', JStr (degradation_token (ld_reason d))), (''record'', JStr ''degradation'')]"

definition log_record_json :: "log_output_record \<Rightarrow> exn + json" where
  "log_record_json r =
     (case (lor_kind r, lor_entry r, lor_degradation r) of
        (LogOutputRecordKind_entry, Some e, None) \<Rightarrow> entry_json e
      | (LogOutputRecordKind_degradation, None, Some d) \<Rightarrow> Inr (degradation_json d)
      | _ \<Rightarrow> Inl (invalid_record (''commit-log '' @
               (if lor_kind r = LogOutputRecordKind_entry then ''entry'' else ''degradation'') @
               '' record has inconsistent payload arms'')))"

definition render_log_record_json :: "log_output_record \<Rightarrow> exn + string" where
  "render_log_record_json r = bindE (log_record_json r) (\<lambda>v. Inr (dumps_compact v))"

subsection \<open>What a terminal gets\<close>

lemma no_control_consts [simp]:
  "no_control (CHR 0x20)" "no_control (CHR ''['')" "no_control (CHR '']'')" "no_control (CHR ''+'')"
  "no_control (CHR ''-'')" "no_control (CHR '','')" "no_control (CHR '':'')" "no_control (CHR ''<'')"
  "no_control (CHR ''>'')" "no_control (CHR ''0'')" "\<not> no_control (CHR 0x0A)"
  by (simp_all add: no_control_def byte_of_def)

lemma sanitize_inline_tame: "list_all no_control (sanitize_inline s)"
  by (induction s)
    (auto simp: sanitize_inline_def sanitize_def sanitize_char_def replacement_def no_control_def byte_of_def)

definition tame :: "char \<Rightarrow> bool" where
  "tame c \<longleftrightarrow> no_control c \<or> c = CHR 0x0A"

lemma sanitize_multiline_tame: "list_all tame (sanitize_multiline s)"
  by (induction s)
    (auto simp: sanitize_multiline_def sanitize_def sanitize_char_def replacement_def tame_def
      no_control_def byte_of_def)

lemma zpad_tame: "list_all no_control (zpad w i)"
proof -
  have "list_all no_control (zpad_nat v n)" for v n
    using printable_no_control [OF show_nat_printable [of n]]
    by (auto simp: zpad_nat_def Let_def list_all_iff)
  then show ?thesis by (simp add: zpad_def)
qed

lemma show_nat_tame: "list_all no_control (show_nat n)"
  by (rule printable_no_control) (rule show_nat_printable)

lemma format_date_tame: "list_all no_control (format_date seconds offset)"
  by (simp add: format_date_def Let_def format_year_def zpad_tame split: prod.split)

lemma ljust_tame: "list_all P s \<Longrightarrow> P (CHR 0x20) \<Longrightarrow> list_all P (ljust w s)"
  by (auto simp: ljust_def list_all_iff)

lemma compact_member_set_tame: "list_all no_control (compact_member_set e)"
proof -
  have "list_all no_control (join '', '' (map (\<lambda>m. sanitize_inline (lem_member_path m)) (le_members e)))"
    by (rule join_list_all) (simp_all add: list_all_iff [of "list_all no_control"] sanitize_inline_tame)
  moreover have "list_all no_control ''[root+''" "list_all no_control '' members]''"
    by (simp_all add: no_control_def byte_of_def)
  ultimately show ?thesis
    by (simp add: compact_member_set_def Let_def sanitize_inline_tame show_nat_tame)
qed

lemma render_compact_entry_tame: "list_all no_control (render_compact_entry e False)"
  by (simp add: render_compact_entry_def colorize_def format_date_tame compact_member_set_tame
      sanitize_inline_tame)

text \<open>A text without control characters, possibly inside the two colour sequences, is one line.\<close>

lemma tame_no_newline: "list_all no_control s \<Longrightarrow> CHR 0x0A \<notin> set s"
  by (auto simp: list_all_iff)

lemma colorize_one_line:
  "CHR 0x0A \<notin> set text \<Longrightarrow> CHR 0x0A \<notin> set code \<Longrightarrow> CHR 0x0A \<notin> set (colorize text code color)"
  by (simp add: colorize_def)

lemma full_head_one_line: "l \<in> set (full_head e color) \<Longrightarrow> CHR 0x0A \<notin> set l"
proof -
  have s: "CHR 0x0A \<notin> set (sanitize_inline t)" for t by (rule tame_no_newline [OF sanitize_inline_tame])
  have d: "CHR 0x0A \<notin> set (format_date t z)" for t z by (rule tame_no_newline [OF format_date_tame])
  have j: "CHR 0x0A \<notin> set t \<Longrightarrow> CHR 0x0A \<notin> set (ljust w t)" for t w by (auto simp: ljust_def)
  show "l \<in> set (full_head e color) \<Longrightarrow> CHR 0x0A \<notin> set l"
    by (auto simp: full_head_def Let_def colorize_def full_row_line_def full_rows_def s d j
        split: if_splits)
qed


end
