(* ===== verification/CliLog.thy ===== *)
theory CliLog
  imports RenderLog OutputReaders CliCommands Terminal
begin

section \<open>The log command\<close>

text \<open>
  \<^verbatim>\<open>src/gwz/cli_log.py\<close>: the options of \<^verbatim>\<open>gwz log\<close>, the request they become, and the output of its
  records, as text, as one JSON document or as JSONL, while they are read from the spool of the
  core. Standard output and error are a state of their own with a write function that may fail;
  a write that fails ends the reading, and the spool is released on every path.
\<close>

subsection \<open>Options\<close>

text \<open>\<open>_StoreOnce\<close> and \<open>_StoreTrueOnce\<close>: the seen mark and the value after one more use.\<close>

definition store_once :: "string \<Rightarrow> 'v \<Rightarrow> bool \<times> 'v option \<Rightarrow> exn + bool \<times> 'v option" where
  "store_once option_string v st =
     (if fst st
      then Inl (ParserError (''argument '' @ option_string @ '': cannot be used multiple times''))
      else Inr (True, Some v))"

definition store_true_once :: "string \<Rightarrow> bool \<times> bool option \<Rightarrow> exn + bool \<times> bool option" where
  "store_true_once option_string st = store_once option_string True st"

definition non_negative_i64 :: "string \<Rightarrow> exn + int" where
  "non_negative_i64 text =
     bindE (int_of_text text) (\<lambda>parsed.
       if parsed < 0 then Inl (ArgumentTypeError ''must be zero or greater'')
       else if parsed > 2 ^ 63 - 1
       then Inl (ArgumentTypeError ''must fit in a signed 64-bit integer'')
       else Inr parsed)"

record log_cli =
  gc_operands :: "string list"
  gc_pathspecs :: "string list"
  gc_max_entries :: "int option"
  gc_no_limit :: bool
  gc_since :: "string option"
  gc_until :: "string option"
  gc_author :: "string option"
  gc_grep :: "string option"
  gc_no_merges :: bool
  gc_first_parent :: bool
  gc_strict :: bool
  gc_no_coalesce :: bool
  gc_body :: bool
  gc_full :: bool
  gc_tagged :: bool
  gc_color :: string

subsection \<open>The request\<close>

text \<open>\<open>_workspace_relative_cwd\<close>: the caller's directory below the workspace, or nothing.\<close>

definition workspace_relative_cwd :: "caller_env \<Rightarrow> string option \<Rightarrow> exn + string" where
  "workspace_relative_cwd env root =
     bindE (caller_directory env) (\<lambda>cwd.
       let workspace = (case root of None \<Rightarrow> cwd | Some r \<Rightarrow> ce_resolve env r);
           below = path_parts cwd; above = path_parts workspace
       in Inr (if path_root cwd = path_root workspace \<and> take (length above) below = above
               then join ''/'' (drop (length above) below) else []))"

definition log_cli_options :: "log_cli \<Rightarrow> log_options" where
  "log_cli_options a =
     \<lparr>lop_max_entries = (if gc_no_limit a then Some 0 else gc_max_entries a),
      lop_since = gc_since a, lop_until = gc_until a, lop_author = gc_author a,
      lop_grep = gc_grep a, lop_no_merges = some_if (gc_no_merges a) True,
      lop_first_parent = some_if (gc_first_parent a) True,
      lop_strict = some_if (gc_strict a) True, lop_coalesce = some_if (gc_no_coalesce a) False,
      lop_include_body = some_if (gc_body a) True\<rparr>"

definition log_cli_request ::
    "client \<Rightarrow> caller_env \<Rightarrow> global_options \<Rightarrow> log_cli \<Rightarrow> meta_kw \<Rightarrow> exn + client_action" where
  "log_cli_request cl env g a kw =
     bindE (workspace_relative_cwd env (go_root g)) (\<lambda>cwd.
       client_log cl env (gc_operands a) (gc_pathspecs a) (Some cwd) (log_cli_options a)
         (some_if (gc_tagged a) True) kw)"

subsection \<open>Exit codes\<close>

definition exit_code_for_log_response :: "response \<Rightarrow> int" where
  "exit_code_for_log_response r =
     (let name = (case map_option rsm_aggregate_status (meta_of r) of
                    None \<Rightarrow> ''None'' | Some a \<Rightarrow> aggregate_status_name a)
      in if name \<in> set [''accepted'', ''ok'', ''noop'', ''dirty''] then 0
         else if name = ''rejected'' then 2 else 1)"

definition EXECUTION_ERROR_CODES :: "string list" where
  "EXECUTION_ERROR_CODES =
     [''IoError'', ''InternalError'', ''GitCommandFailed'', ''ExternalToolMissing'', ''RemoteRejected'']"

fun log_error_code :: "exn \<Rightarrow> string option" where
  "log_error_code (CliUsageError m c) = c"
| "log_error_code (GwzBridgeError b) = be_code b"
| "log_error_code (GwzCoreLoadError b) = be_code b"
| "log_error_code _ = None"

definition exit_code_for_log_error :: "exn \<Rightarrow> int" where
  "exit_code_for_log_error e =
     (case e of
        CliUsageError m c \<Rightarrow> 2
      | _ \<Rightarrow> (case log_error_code e of
                None \<Rightarrow> 1
              | Some c \<Rightarrow> if c \<in> set EXECUTION_ERROR_CODES then 1 else 2))"

subsection \<open>Writing\<close>

definition write_and_flush :: "'t terminal \<Rightarrow> channel \<Rightarrow> string \<Rightarrow> 't \<Rightarrow> (exn + unit) \<times> 't" where
  "write_and_flush tm ch text t = put_text tm ch text t"

text \<open>
  \<open>_write_windows_stdout\<close>: the raw writes of the console, each taking some of what remains. The
  given function is \<open>os.write\<close>: a failure, or how many bytes were taken.
\<close>

definition windows_write_fault :: "os_error \<Rightarrow> os_error" where
  "windows_write_fault e =
     (if os_errno e = Some 22
      then \<lparr>os_errno = Some 32, os_winerror = None, os_broken_pipe = True,
            os_text = ''[Errno 32] stdout pipe is closed''\<rparr>
      else e)"

definition no_progress :: os_error where
  "no_progress = \<lparr>os_errno = None, os_winerror = None, os_broken_pipe = False,
     os_text = ''stdout write made no progress''\<rparr>"

function write_windows_stdout ::
    "(string \<Rightarrow> 't \<Rightarrow> (os_error + nat) \<times> 't) \<Rightarrow> string \<Rightarrow> 't \<Rightarrow> os_error option \<times> 't" where
  "write_windows_stdout os_write remaining t =
     (if remaining = [] then (None, t)
      else case os_write remaining t of
             (Inl e, t1) \<Rightarrow> (Some (windows_write_fault e), t1)
           | (Inr written, t1) \<Rightarrow>
               if written = 0 then (Some no_progress, t1)
               else write_windows_stdout os_write (drop written remaining) t1)"
  by pat_completeness auto
termination
  by (relation "measure (\<lambda>(f, remaining, t). length remaining)") auto

declare write_windows_stdout.simps [simp del]

definition log_output_error :: "string \<Rightarrow> os_error \<Rightarrow> exn" where
  "log_output_error chan e =
     GwzBridgeError (bridge_fault (''cannot write log '' @ chan @ '': '' @ os_text e) (Some ''IoError''))"

subsection \<open>Records\<close>

definition log_machine :: "global_options \<Rightarrow> bool" where
  "log_machine g \<longleftrightarrow> go_json g \<or> go_jsonl g"

definition log_prefix :: "global_options \<Rightarrow> string" where
  "log_prefix g =
     (if go_jsonl g
      then [CHR 0x7B, CHR 0x22] @ ''record'' @ [CHR 0x22, CHR 0x3A, CHR 0x22] @ ''header'' @
           [CHR 0x22, CHR 0x2C, CHR 0x22] @ ''schema'' @ [CHR 0x22, CHR 0x3A, CHR 0x22] @
           ''gwz.log/v0'' @ [CHR 0x22, CHR 0x7D] @ newline
      else [CHR 0x7B, CHR 0x22] @ ''records'' @ [CHR 0x22, CHR 0x3A, CHR 0x5B])"

definition log_suffix :: string where
  "log_suffix =
     [CHR 0x5D, CHR 0x2C, CHR 0x22] @ ''schema'' @ [CHR 0x22, CHR 0x3A, CHR 0x22] @ ''gwz.log/v0'' @
     [CHR 0x22, CHR 0x7D] @ newline"

definition machine_chunk :: "global_options \<Rightarrow> bool \<Rightarrow> string \<Rightarrow> string" where
  "machine_chunk g first serialized =
     (if go_jsonl g then serialized @ newline else if first then serialized else '','' @ serialized)"

definition emit_machine ::
    "'t terminal \<Rightarrow> global_options \<Rightarrow> bool \<Rightarrow> log_output_record \<Rightarrow> 't \<Rightarrow> (exn + unit) \<times> 't" where
  "emit_machine tm g first r t =
     (case render_log_record_json r of
        Inl e \<Rightarrow> (Inl e, t)
      | Inr serialized \<Rightarrow> write_and_flush tm Stdout (machine_chunk g first serialized) t)"

definition emit_human ::
    "'t terminal \<Rightarrow> log_cli \<Rightarrow> bool \<Rightarrow> log_output_record \<Rightarrow> 't \<Rightarrow> (exn + unit) \<times> 't" where
  "emit_human tm a color r t =
     (case (lor_kind r, lor_entry r, lor_degradation r) of
        (LogOutputRecordKind_entry, Some e, None) \<Rightarrow>
          (case render_log_entry e (gc_full a) color of
             Inl x \<Rightarrow> (Inl x, t)
           | Inr rendered \<Rightarrow>
               write_and_flush tm Stdout
                 (rendered @ (if gc_full a then newline @ newline else newline)) t)
      | (LogOutputRecordKind_degradation, None, Some d) \<Rightarrow>
          (case write_and_flush tm Stderr (render_log_degradation d color @ newline) t of
             (Inl (OSFault x), t1) \<Rightarrow> (Inl (log_output_error ''stderr'' x), t1)
           | res \<Rightarrow> res)
      | _ \<Rightarrow> (Inl (invalid_record ''commit-log output record kind does not match its payload''), t))"

definition emit_record ::
    "'t terminal \<Rightarrow> global_options \<Rightarrow> log_cli \<Rightarrow> bool \<Rightarrow> log_output_record \<Rightarrow> 't \<Rightarrow>
     (exn + unit) \<times> 't" where
  "emit_record tm g a first r t =
     (if log_machine g then emit_machine tm g first r t
      else emit_human tm a (log_color_enabled (gc_color a) (tm_tty tm)) r t)"

text \<open>The records so far, up to the one whose printing raises.\<close>

fun emit_records ::
    "'t terminal \<Rightarrow> global_options \<Rightarrow> log_cli \<Rightarrow> bool \<Rightarrow> log_output_record list \<Rightarrow> 't \<Rightarrow>
     (exn + unit) \<times> 't" where
  "emit_records tm g a first [] t = (Inr (), t)"
| "emit_records tm g a first (r # rs) t =
     (case emit_record tm g a first r t of
        (Inl e, t1) \<Rightarrow> (Inl e, t1)
      | (Inr _, t1) \<Rightarrow> emit_records tm g a False rs t1)"

subsection \<open>The handler\<close>

text \<open>The \<open>except OSError\<close> clause: a reader that is gone is no failure.\<close>

definition output_fault :: "'t terminal \<Rightarrow> exn \<Rightarrow> 't \<Rightarrow> (exn + int) \<times> 't" where
  "output_fault tm e t =
     (case e of
        OSFault x \<Rightarrow>
          if is_broken_pipe x then (Inr 0, tm_silence tm t)
          else (Inl (log_output_error ''output'' x), t)
      | _ \<Rightarrow> (Inl e, t))"

definition log_consumer ::
    "'t terminal \<Rightarrow> global_options \<Rightarrow> log_cli \<Rightarrow> 't \<Rightarrow> log_output_record list \<Rightarrow> consumer_act" where
  "log_consumer tm g a t seen =
     (case fst (emit_records tm g a True seen t) of Inr _ \<Rightarrow> GoOn | Inl _ \<Rightarrow> Leave)"

text \<open>
  The loop over the records. When printing raised, the handler's clause runs and then the
  \<open>finally\<close> block closes the iterator; an exception of that release replaces the outcome.
\<close>

definition log_stream ::
    "'s bridge \<Rightarrow> 't terminal \<Rightarrow> global_options \<Rightarrow> log_cli \<Rightarrow> string \<Rightarrow> int \<Rightarrow> nat \<Rightarrow> 's world \<Rightarrow> 't \<Rightarrow>
     ((exn + int) \<times> 's world \<times> 't) option" where
  "log_stream br tm g a log_id exit_code n w t =
     (case log_output br log_id (log_consumer tm g a t) n w of
        None \<Rightarrow> None
      | Some (seen, e, w1) \<Rightarrow>
         (case emit_records tm g a True seen t of
            (Inl fault, t1) \<Rightarrow>
              (case output_fault tm fault t1 of
                 (res, t2) \<Rightarrow>
                   Some (case e of Raised x \<Rightarrow> (Inl x, w1, t2) | _ \<Rightarrow> (res, w1, t2)))
          | (Inr _, t1) \<Rightarrow>
              (case e of
                 Raised x \<Rightarrow> (case output_fault tm x t1 of (res, t2) \<Rightarrow> Some (res, w1, t2))
               | _ \<Rightarrow>
                  if go_json g then
                    (case write_and_flush tm Stdout log_suffix t1 of
                       (Inr _, t2) \<Rightarrow> Some (Inr exit_code, w1, t2)
                     | (Inl x, t2) \<Rightarrow>
                         (case output_fault tm x t2 of (res, t3) \<Rightarrow> Some (res, w1, t3)))
                  else Some (Inr exit_code, w1, t1))))"

definition log_answer ::
    "'s bridge \<Rightarrow> 't terminal \<Rightarrow> global_options \<Rightarrow> log_cli \<Rightarrow> response \<Rightarrow> nat \<Rightarrow> 's world \<Rightarrow> 't \<Rightarrow>
     ((exn + int) \<times> 's world \<times> 't) option" where
  "log_answer br tm g a resp n w t =
     (case resp of
        LogResp r \<Rightarrow>
          (let log_id = lol_log_id (log_response_output r); code = exit_code_for_log_response resp
           in if log_machine g then
                (case write_and_flush tm Stdout (log_prefix g) t of
                   (Inr _, t1) \<Rightarrow> log_stream br tm g a log_id code n w t1
                 | (Inl (OSFault x), t1) \<Rightarrow>
                     (case release_log_output br log_id w of
                        (Inl e, w1) \<Rightarrow>
                          Some (Inl e, w1, if is_broken_pipe x then tm_silence tm t1 else t1)
                      | (Inr _, w1) \<Rightarrow>
                          if is_broken_pipe x then Some (Inr 0, w1, tm_silence tm t1)
                          else Some (Inl (log_output_error ''stdout'' x), w1, t1))
                 | (Inl e, t1) \<Rightarrow> Some (Inl e, w, t1))
              else log_stream br tm g a log_id code n w t)
      | _ \<Rightarrow> Some (Inl (no_attribute ''output''), w, t))"

definition handle_log ::
    "client \<Rightarrow> caller_env \<Rightarrow> 's bridge \<Rightarrow> 't terminal \<Rightarrow> global_options \<Rightarrow> log_cli \<Rightarrow> meta_kw \<Rightarrow>
     nat \<Rightarrow> 's world \<Rightarrow> 't \<Rightarrow> ((exn + int) \<times> 's world \<times> 't) option" where
  "handle_log cl env br tm g a kw n w t =
     (case log_cli_request cl env g a kw of
        Inl e \<Rightarrow> Some (Inl e, w, t)
      | Inr action \<Rightarrow>
         (case run_action br action w of
            (Inl e, w1) \<Rightarrow> Some (Inl e, w1, t)
          | (Inr (Answer resp), w1) \<Rightarrow> log_answer br tm g a resp n w1 t
          | (Inr res, w1) \<Rightarrow> Some (Inl (no_attribute ''output''), w1, t)))"

subsection \<open>The machine output is one document\<close>

lemma surrogate_Cons: "byte_of c \<noteq> 237 \<Longrightarrow> has_surrogate (c # s) = has_surrogate s"
  by (cases s) auto

lemma surrogate_snoc: "byte_of c < 128 \<Longrightarrow> has_surrogate (s @ [c]) = has_surrogate s"
  by (induction s rule: has_surrogate.induct) auto

lemma surrogate_chunk: "has_surrogate (machine_chunk g first s) = has_surrogate s"
  by (simp add: machine_chunk_def newline_def surrogate_Cons surrogate_snoc byte_of_def)

lemma surrogate_frame: "\<not> has_surrogate (log_prefix g)" "\<not> has_surrogate log_suffix"
  by (simp_all add: log_prefix_def log_suffix_def newline_def byte_of_def)

definition machine_chunks :: "global_options \<Rightarrow> bool \<Rightarrow> json list \<Rightarrow> string" where
  "machine_chunks g first docs =
     (if go_jsonl g then concat (map (\<lambda>d. dumps_compact d @ newline) docs)
      else if first then join '','' (map dumps_compact docs)
      else concat (map (\<lambda>d. '','' @ dumps_compact d) docs))"

lemma join_comma: "join sep (s # ss) = s @ concat (map (\<lambda>t. sep @ t) ss)"
  by (induction ss arbitrary: s) simp_all

lemma machine_chunks_Cons:
  "machine_chunks g first (d # docs) =
     machine_chunk g first (dumps_compact d) @ machine_chunks g False docs"
  by (simp add: machine_chunks_def machine_chunk_def join_comma comp_def)

lemma emit_records_machine:
  assumes "log_machine g" "mapE log_record_json rs = Inr docs"
    and "list_all (\<lambda>d. \<not> has_surrogate (dumps_compact d)) docs"
  shows "emit_records (buffers tty) g a first rs (out, err) =
    (Inr (), (out @ machine_chunks g first docs, err))"
  using assms(2,3)
proof (induction rs arbitrary: docs first out)
  case Nil
  then show ?case by (simp add: machine_chunks_def)
next
  case (Cons r rs)
  from Cons.prems(1) obtain d ds where d: "log_record_json r = Inr d" "mapE log_record_json rs = Inr ds"
    "docs = d # ds"
    by (auto simp: bindE_eq_Inr)
  with Cons.prems(2) have "\<not> has_surrogate (machine_chunk g first (dumps_compact d))"
    by (simp add: surrogate_chunk)
  then have "emit_record (buffers tty) g a first r (out, err) =
      (Inr (), (out @ machine_chunk g first (dumps_compact d), err))"
    using assms(1) d(1)
    by (simp add: emit_record_def emit_machine_def render_log_record_json_def write_and_flush_def
        put_text_buffers)
  with Cons.IH [OF d(2)] Cons.prems(2) d(3) show ?case by (simp add: machine_chunks_Cons)
qed

lemma emit_records_prefix:
  "emit_records tm g a first (xs @ ys) t = (Inr (), t1) \<Longrightarrow>
     \<exists>t2. emit_records tm g a first xs t = (Inr (), t2)"
  by (induction xs arbitrary: first t) (auto split: prod.splits sum.splits)

definition log_document :: "global_options \<Rightarrow> json list \<Rightarrow> string" where
  "log_document g docs =
     (if go_jsonl g
      then concat (map (\<lambda>d. dumps_compact d @ newline)
             (JObj [(''record'', JStr ''header''), (''schema'', JStr ''gwz.log/v0'')] # docs))
      else dumps_compact (JObj [(''records'', JList docs), (''schema'', JStr ''gwz.log/v0'')]) @ newline)"

lemma sort_two: "fst p \<le> fst q \<Longrightarrow> sort_key fst [p, q] = [p, q]"
  by simp

lemma log_frame:
  "log_prefix g @ machine_chunks g True docs @ (if go_jsonl g then [] else log_suffix) =
   log_document g docs"
proof -
  have keys: "''records'' \<le> ''schema''" "''record'' \<le> ''schema''"
    by (simp_all add: less_eq_char_def less_char_def)
  have strs: "json_string False ''records'' = CHR 0x22 # ''records'' @ [CHR 0x22]"
    "json_string False ''record'' = CHR 0x22 # ''record'' @ [CHR 0x22]"
    "json_string False ''header'' = CHR 0x22 # ''header'' @ [CHR 0x22]"
    "json_string False ''schema'' = CHR 0x22 # ''schema'' @ [CHR 0x22]"
    "json_string False ''gwz.log/v0'' = CHR 0x22 # ''gwz.log/v0'' @ [CHR 0x22]"
    by (simp_all add: json_string_def escape_plain_def short_escape_def byte_of_def)
  show ?thesis
    unfolding log_document_def dumps_compact_def log_prefix_def log_suffix_def machine_chunks_def
    by (simp add: sort_two keys strs del: sort_key_simps)
qed

lemma log_consumer_stays: "log_consumer tm g a t xs \<noteq> CloseAndLeave"
  by (simp add: log_consumer_def split: sum.split)

text \<open>
  C9: The machine form of \<^verbatim>\<open>gwz log\<close> is well formed as a whole: against a server that keeps its part
  the handler ends, and what it wrote piecewise while reading is, byte for byte, the one JSON
  document of all records of the spool in order (or, with \<^verbatim>\<open>--jsonl\<close>, the header line and one line per
  record), nothing on standard error, and the exit code is that of the response.
\<close>

theorem log_machine_document:
  assumes "log_machine g" and "\<not> (go_json g \<and> go_jsonl g)" and "\<not> w_closed w"
    and "b_log_read br = Some rd" and "b_log_release br = Some rl"
    and "\<forall>s. fst (rl (lol_log_id (log_response_output r)) s) = Inr ()"
    and "serves_log rd (lol_log_id (log_response_output r)) rest"
    and "mapE log_record_json (rest None) = Inr docs"
    and "list_all (\<lambda>d. \<not> has_surrogate (dumps_compact d)) docs"
  shows "\<exists>n w2. log_answer br (buffers tty) g a (LogResp r) n w ([], []) =
    Some (Inr (exit_code_for_log_response (LogResp r)), w2, (log_document g docs, []))"
proof -
  let ?tm = "buffers tty" and ?id = "lol_log_id (log_response_output r)"
  let ?t = "(log_prefix g, [])" and ?code = "exit_code_for_log_response (LogResp r)"
  have all: "emit_records ?tm g a True (rest None) ?t =
      (Inr (), (log_prefix g @ machine_chunks g True docs, []))"
    by (rule emit_records_machine [OF assms(1,8,9)])
  have "log_consumer ?tm g a ?t xs = GoOn" if "prefix xs (rest None)" for xs
    using that all emit_records_prefix [of ?tm g a True xs]
    by (fastforce simp: prefix_def log_consumer_def)
  then obtain n w2 where run: "log_output br ?id (log_consumer ?tm g a ?t) n w =
      Some (rest None, Returned, w2)"
    using log_output_runs [OF assms(3-5), where consumer = "log_consumer ?tm g a ?t" and rest = rest
        and log_id = ?id] assms(6,7) by metis
  have start: "write_and_flush ?tm Stdout (log_prefix g) ([], []) = (Inr (), ?t)"
    by (simp add: write_and_flush_def put_text_buffers surrogate_frame)
  have "log_stream br ?tm g a ?id ?code n w ?t = Some (Inr ?code, w2, (log_document g docs, []))"
  proof (cases "go_json g")
    case True
    with assms(2) log_frame [of g docs] show ?thesis
      by (simp add: log_stream_def run all write_and_flush_def put_text_buffers surrogate_frame)
  next
    case False
    with assms(1) log_frame [of g docs] show ?thesis
      by (simp add: log_stream_def run all log_machine_def)
  qed
  then show ?thesis
    using assms(1) start by (auto simp: log_answer_def Let_def)
qed

text \<open>
  C3: However the output of \<^verbatim>\<open>gwz log\<close> ends (all written, a pipe closed by its reader, a failed
  write before or between records, a record that cannot be rendered, a failed read): the bridge
  saw reads of that log only, and then exactly one release of its spool.
\<close>

theorem log_spool_released:
  assumes "log_answer br tm g a (LogResp r) n w t = Some (res, w2, t2)" and "\<not> w_closed w"
    and "b_log_read br \<noteq> None" and "b_log_release br \<noteq> None"
  shows "\<exists>reads. w_trace w2 = w_trace w @ reads @ [LogReleaseOp (lol_log_id (log_response_output r))] \<and>
    list_all (is_log_read (lol_log_id (log_response_output r))) reads"
proof -
  let ?id = "lol_log_id (log_response_output r)"
  have stream: "\<exists>reads. w_trace w2 = w_trace w @ reads @ [LogReleaseOp ?id] \<and> list_all (is_log_read ?id) reads"
    if "log_stream br tm g a ?id code n w t1 = Some (res, w2, t2)" for code t1
  proof -
    from that obtain seen e where "log_output br ?id (log_consumer tm g a t1) n w = Some (seen, e, w2)"
      by (auto simp: log_stream_def split: option.splits prod.splits sum.splits ended.splits if_splits)
    from log_output_trace [OF this assms(2) log_consumer_stays assms(3,4)] show ?thesis .
  qed
  have release: "w_trace w1 = w_trace w @ [LogReleaseOp ?id]"
    if "release_log_output br ?id w = (x, w1)" for x w1
    using that assms(2,4) by (auto simp: release_log_output_def io_defs split: prod.splits sum.splits)
  show ?thesis
  proof (cases "log_machine g")
    case False
    with assms(1) stream show ?thesis by (auto simp: log_answer_def Let_def)
  next
    case True
    obtain x t1 where wr: "write_and_flush tm Stdout (log_prefix g) t = (x, t1)" by fastforce
    then have x: "x \<noteq> Inr () \<Longrightarrow> \<exists>e. x = Inl (OSFault e)"
      by (auto simp: write_and_flush_def put_text_def put_bytes_def surrogate_frame
          split: prod.splits option.splits)
    show ?thesis
    proof (cases x)
      case (Inr u)
      with assms(1) True wr stream show ?thesis by (auto simp: log_answer_def Let_def)
    next
      case (Inl y)
      with x obtain e where e: "x = Inl (OSFault e)" by auto
      obtain z w1 where rel: "release_log_output br ?id w = (z, w1)" by fastforce
      with assms(1) True wr e have "w2 = w1"
        by (auto simp: log_answer_def Let_def split: sum.splits if_splits)
      with release [OF rel] show ?thesis by auto
    qed
  qed
qed


text \<open>
  C36: The raw console writes lose and repeat nothing, however the operating system cuts them: when
  each call takes a front part of what it is given, the loop ends with all of the text written, or
  with an error after a front part of it.
\<close>

theorem windows_write_exact:
  assumes "\<forall>rest t. case os_write rest t of
      (Inl e, t1) \<Rightarrow> sink t1 = sink t | (Inr k, t1) \<Rightarrow> sink t1 = sink t @ take k rest"
  shows "case write_windows_stdout os_write data t of
      (None, t1) \<Rightarrow> sink t1 = sink t @ data
    | (Some e, t1) \<Rightarrow> (\<exists>k\<le>length data. sink t1 = sink t @ take k data)"
proof (induction "length data" arbitrary: data t rule: less_induct)
  case less
  obtain x t1 where o: "os_write data t = (x, t1)" by fastforce
  have step: "case x of Inl e \<Rightarrow> sink t1 = sink t | Inr k \<Rightarrow> sink t1 = sink t @ take k data"
    using assms [rule_format, of t data] o by (simp split: sum.splits)
  show ?case
  proof (cases "data = [] \<or> x = Inr 0 \<or> (\<exists>e. x = Inl e)")
    case True
    with o step show ?thesis
      by (subst write_windows_stdout.simps) auto
  next
    case False
    then obtain k where k: "x = Inr k" "0 < k" "data \<noteq> []" by (cases x) auto
    obtain y t2 where r: "write_windows_stdout os_write (drop k data) t1 = (y, t2)" by fastforce
    then have w: "write_windows_stdout os_write data t = (y, t2)"
      using o k by (subst write_windows_stdout.simps) simp
    have ih: "case write_windows_stdout os_write (drop k data) t1 of
        (None, t') \<Rightarrow> sink t' = sink t1 @ drop k data
      | (Some e, t') \<Rightarrow> (\<exists>j\<le>length (drop k data). sink t' = sink t1 @ take j (drop k data))"
      by (rule less.hyps) (use k in simp)
    show ?thesis
    proof (cases y)
      case None
      with ih r step k(1) w show ?thesis by simp
    next
      case (Some e)
      with ih r obtain j where
        j: "j \<le> length (drop k data)" "sink t2 = sink t1 @ take j (drop k data)" by auto
      then have "sink t2 = sink t @ take (min k (length data) + j) data"
        using step k(1) by (simp add: take_add min_def)
      moreover have "min k (length data) + j \<le> length data" using j(1) by simp
      ultimately show ?thesis using w Some by auto
    qed
  qed
qed

subsection \<open>The caller's directory\<close>

lemma path_parts_slash: "path_parts (a @ CHR 0x2F # b) = path_parts a @ path_parts b"
  by (simp add: path_parts_def split_on_append)

lemma path_parts_clean:
  "p \<in> set (path_parts s) \<Longrightarrow> p \<noteq> [] \<and> p \<noteq> ''.'' \<and> CHR 0x2F \<notin> set p"
  by (auto simp: path_parts_def split_on_no_sep)

lemma path_parts_join:
  assumes "\<And>p. p \<in> set ps \<Longrightarrow> p \<noteq> [] \<and> p \<noteq> ''.'' \<and> CHR 0x2F \<notin> set p"
  shows "path_parts (join ''/'' ps) = ps"
proof (cases "ps = []")
  case True
  then show ?thesis by (simp add: path_parts_def)
next
  case False
  with assms have "split_on (CHR 0x2F) (join ''/'' ps) = ps" by (intro split_on_join) auto
  with assms show ?thesis by (auto simp: path_parts_def)
qed

lemma join_head: "join sep (p # ps) = p @ (if ps = [] then [] else sep @ join sep ps)"
  by (cases ps) simp_all

lemma path_root_join:
  assumes "r \<noteq> []" "hd r \<noteq> CHR 0x2F" "ws \<noteq> []"
  shows "path_root (if ends_with ''/'' ws then ws @ r else ws @ ''/'' @ r) = path_root ws"
proof -
  have l: "ends_with ''/'' ws \<longleftrightarrow> last ws = CHR 0x2F"
    using assms(3) by (cases ws rule: rev_cases) (auto simp: ends_with_def)
  obtain x xs where ws: "ws = x # xs" using assms(3) by (cases ws) auto
  obtain y ys where r: "r = y # ys" "y \<noteq> CHR 0x2F" using assms(1,2) by (cases r) auto
  show ?thesis
  proof (cases xs)
    case Nil
    with r show ?thesis unfolding l by (simp add: path_root_def starts_with_def ws)
  next
    case (Cons z zs)
    with r show ?thesis unfolding l
      by (cases zs) (simp_all add: path_root_def starts_with_def ws)
  qed
qed



subsection \<open>Samples\<close>

text \<open>A spool with one degradation, read in one batch.\<close>

definition sample_degradation :: log_degradation where
  "sample_degradation =
     \<lparr>ld_member_id = ''m1'', ld_member_path = ''lib'', ld_source_kind = None,
      ld_reason = LogDegradationReason_unborn, ld_operand = None, ld_message = Some [CHR 0x0A]\<rparr>"

definition sample_degraded :: log_output_record where
  "sample_degraded =
     \<lparr>lor_kind = LogOutputRecordKind_degradation, lor_entry = None,
      lor_degradation = Some sample_degradation\<rparr>"

definition one_rest :: "int option \<Rightarrow> log_output_record list" where
  "one_rest cursor = (if cursor = None then [sample_degraded] else [])"

definition one_read :: "nat log_reader" where
  "one_read log_id cursor m s =
     (Inr \<lparr>lr_records = one_rest cursor, lr_next_cursor = 1,
           lr_state = (if cursor = None then ''data'' else ''eof'')\<rparr>, Suc s)"

definition one_bridge :: "nat bridge" where
  "one_bridge = sample_bridge
     \<lparr>b_log_read := Some one_read, b_log_release := Some (\<lambda>l s. (Inr (), Suc s))\<rparr>"

lemma one_serves: "serves_log one_read log_id one_rest"
  by (simp add: serves_log_def one_read_def one_rest_def)

definition sample_log_response :: log_response where
  "sample_log_response =
     \<lparr>log_response_response = sample_envelope AggregateStatus_ok None,
      log_response_output = \<lparr>lol_log_id = ''L''\<rparr>\<rparr>"

definition sample_log_cli :: log_cli where
  "sample_log_cli =
     \<lparr>gc_operands = [], gc_pathspecs = [], gc_max_entries = None, gc_no_limit = False, gc_since = None,
      gc_until = None, gc_author = None, gc_grep = None, gc_no_merges = False,
      gc_first_parent = False, gc_strict = False, gc_no_coalesce = False, gc_body = False,
      gc_full = False, gc_tagged = False, gc_color = ''auto''\<rparr>"

definition sample_json_options :: global_options where
  "sample_json_options = sample_options\<lparr>go_json := True, go_jsonl := False\<rparr>"

theorem log_machine_document_witness:
  "\<exists>n w2. log_answer one_bridge (buffers False) sample_json_options sample_log_cli
       (LogResp sample_log_response) n sample_world ([], []) =
     Some (Inr 0, w2, (log_document sample_json_options [degradation_json sample_degradation], []))"
proof -
  have code: "exit_code_for_log_response (LogResp sample_log_response) = 0"
    by (simp add: exit_code_for_log_response_def meta_of_def sample_log_response_def
        sample_envelope_def sample_response_meta_def)
  have plain: "\<not> has_surrogate (dumps_compact (degradation_json sample_degradation))"
    by (simp add: degradation_json_def sample_degradation_def dumps_compact_def json_string_def
        escape_plain_def short_escape_def byte_of_def)
  show ?thesis
    using log_machine_document [where w = sample_world and br = one_bridge and rd = one_read
        and rl = "\<lambda>l s. (Inr (), Suc s)" and g = sample_json_options and r = sample_log_response
        and a = sample_log_cli and tty = False and rest = one_rest
        and docs = "[degradation_json sample_degradation]"] one_serves plain
    by (simp add: code sample_world_def one_bridge_def sample_json_options_def log_machine_def
        one_rest_def sample_degraded_def log_record_json_def)
qed

lemma one_bridge_ends: "log_output one_bridge log_id consumer 3 sample_world \<noteq> None"
  by (simp add: log_output_def open_bridge_def io_defs finallyS_def sample_world_def one_bridge_def
      one_read_def one_rest_def eval_nat_numeral
      split: consumer_act.split option.split prod.split sum.split)

lemma one_answer_ends:
  "log_answer one_bridge tm g a (LogResp r) 3 sample_world t \<noteq> None"
proof -
  have "log_stream one_bridge tm g a lid code 3 sample_world t \<noteq> None" for g a lid code t
    using one_bridge_ends [of lid "log_consumer tm g a t"]
    by (auto simp: log_stream_def split: prod.splits sum.splits option.splits ended.splits)
  then show ?thesis
    by (auto simp: log_answer_def Let_def split: prod.split sum.split exn.split)
qed

theorem log_spool_released_witness:
  "\<exists>reads. w_trace (fst (snd (the (log_answer one_bridge (buffers False) sample_json_options
       sample_log_cli (LogResp sample_log_response) 3 sample_world ([], []))))) =
     reads @ [LogReleaseOp ''L''] \<and> list_all (is_log_read ''L'') reads"
proof -
  let ?run = "log_answer one_bridge (buffers False) sample_json_options sample_log_cli
      (LogResp sample_log_response) 3 sample_world ([], [])"
  have "?run \<noteq> None" by (rule one_answer_ends)
  then have "?run = Some (fst (the ?run), fst (snd (the ?run)), snd (snd (the ?run)))" by auto
  from log_spool_released [OF this] show ?thesis
    by (simp add: sample_world_def one_bridge_def sample_log_response_def)
qed

text \<open>A console that takes two bytes at a time.\<close>

definition two_bytes :: "string \<Rightarrow> string \<Rightarrow> (os_error + nat) \<times> string" where
  "two_bytes rest t = (Inr 2, t @ take 2 rest)"

theorem windows_write_exact_witness:
  "snd (write_windows_stdout two_bytes ''abc'' []) = ''abc''"
proof -
  have "fst (write_windows_stdout two_bytes ''abc'' []) = None"
    by (simp add: two_bytes_def write_windows_stdout.simps)
  then show ?thesis
    using windows_write_exact [where os_write = two_bytes and sink = "\<lambda>t. t" and data = "''abc''"
        and t = "[]"]
    by (auto simp: two_bytes_def split: prod.splits)
qed

end
