(* ===== verification/CliDiff.thy ===== *)
theory CliDiff
  imports CliCommands OutputReaders Json Terminal
begin

section \<open>The diff command\<close>

text \<open>
  \<^verbatim>\<open>src/gwz/cli_diff.py\<close>: the options of \<^verbatim>\<open>gwz diff\<close> and their exclusions, the request they become,
  and the three ways out of the answer: the manifest as one JSON document or as JSONL followed by
  the records of the output log, the bytes of the patch streamed from that log, or a text form
  of the manifest rendered here.
\<close>

subsection \<open>Options\<close>

record diff_cli =
  dc_cached :: bool
  dc_merge_base :: bool
  dc_tagged :: bool
  dc_find_renames :: "string option"
  dc_no_renames :: bool
  dc_stat :: bool
  dc_numstat :: bool
  dc_shortstat :: bool
  dc_summary :: bool
  dc_name_only :: bool
  dc_name_status :: bool
  dc_raw :: bool
  dc_null_terminated :: bool
  dc_unified :: "int option"
  dc_inter_hunk_context :: "int option"
  dc_binary :: bool
  dc_text :: bool
  dc_ignore_all_space :: bool
  dc_ignore_space_change :: bool
  dc_ignore_space_at_eol :: bool
  dc_ignore_blank_lines :: bool
  dc_src_prefix :: "string option"
  dc_dst_prefix :: "string option"
  dc_no_prefix :: bool
  dc_line_prefix :: "string option"
  dc_exit_code :: bool
  dc_quiet :: bool
  dc_operands :: "string list"
  dc_pathspecs :: "string list"

text \<open>The selected flags of a group, and the choice: none, the one, or the refusal of two.\<close>

definition select_one :: "(string \<times> 'v) list \<Rightarrow> exn + 'v option" where
  "select_one selected =
     (case selected of
        [] \<Rightarrow> Inr None
      | [(flag, v)] \<Rightarrow> Inr (Some v)
      | (f1, _) # (f2, _) # _ \<Rightarrow> Inl (usage_error (f1 @ '' and '' @ f2 @ '' are mutually exclusive'')))"

definition diff_formats :: "diff_cli \<Rightarrow> (string \<times> bool \<times> diff_output_format) list" where
  "diff_formats a =
     [(''--stat'', dc_stat a, DiffOutputFormat_stat),
      (''--numstat'', dc_numstat a, DiffOutputFormat_numstat),
      (''--shortstat'', dc_shortstat a, DiffOutputFormat_shortstat),
      (''--summary'', dc_summary a, DiffOutputFormat_summary),
      (''--name-only'', dc_name_only a, DiffOutputFormat_name_only),
      (''--name-status'', dc_name_status a, DiffOutputFormat_name_status),
      (''--raw'', dc_raw a, DiffOutputFormat_raw)]"

definition output_format :: "diff_cli \<Rightarrow> exn + diff_output_format option" where
  "output_format a =
     select_one (map (\<lambda>(flag, given, fmt). (flag, fmt)) (filter (\<lambda>(flag, given, fmt). given) (diff_formats a)))"

definition whitespace_modes :: "diff_cli \<Rightarrow> (string \<times> bool \<times> diff_whitespace_mode) list" where
  "whitespace_modes a =
     [(''-w'', dc_ignore_all_space a, DiffWhitespaceMode_ignore_all),
      (''-b'', dc_ignore_space_change a, DiffWhitespaceMode_ignore_change),
      (''--ignore-space-at-eol'', dc_ignore_space_at_eol a, DiffWhitespaceMode_ignore_eol),
      (''--ignore-blank-lines'', dc_ignore_blank_lines a, DiffWhitespaceMode_ignore_blank_lines)]"

definition whitespace_mode :: "diff_cli \<Rightarrow> exn + diff_whitespace_mode option" where
  "whitespace_mode a =
     select_one (map (\<lambda>(flag, given, m). (flag, m)) (filter (\<lambda>(flag, given, m). given) (whitespace_modes a)))"

definition rename_options :: "diff_cli \<Rightarrow> exn + bool option \<times> int option" where
  "rename_options a =
     (if dc_no_renames a \<and> dc_find_renames a \<noteq> None
      then Inl (usage_error ''--no-renames and --find-renames are mutually exclusive'')
      else if dc_no_renames a then Inr (Some False, None)
      else case dc_find_renames a of
             None \<Rightarrow> Inr (None, None)
           | Some spec \<Rightarrow>
              (let threshold_text = rstrip_set [CHR 0x25] (strip spec)
               in if threshold_text = [] then Inr (Some True, None)
                  else case parse_int threshold_text of
                         None \<Rightarrow> Inl (usage_error (''invalid rename threshold '' @ squote spec))
                       | Some threshold \<Rightarrow>
                           if \<not> (0 \<le> threshold \<and> threshold \<le> 100)
                           then Inl (usage_error (''rename threshold must be between 0 and 100, got '' @
                                       show_int threshold))
                           else Inr (Some True, Some threshold)))"

subsection \<open>The request\<close>

definition diff_cli_args ::
    "diff_cli \<Rightarrow> diff_output_format option \<Rightarrow> diff_whitespace_mode option \<Rightarrow> bool option \<Rightarrow> int option \<Rightarrow>
     diff_args" where
  "diff_cli_args a requested ws find_renames threshold =
     \<lparr>da_operands = dc_operands a, da_pathspecs = dc_pathspecs a, da_workspace_cwd = None,
      da_cached = some_if (dc_cached a) True, da_merge_base = some_if (dc_merge_base a) True,
      da_tagged = some_if (dc_tagged a) True,
      da_output_format =
        map_option EnumMember (if dc_quiet a then Some DiffOutputFormat_no_patch else requested),
      da_manifest_mode = some_if (dc_quiet a) (EnumMember DiffManifestMode_any_difference),
      da_context_lines = dc_unified a, da_interhunk_lines = dc_inter_hunk_context a,
      da_algorithm = None, da_whitespace = map_option EnumMember ws,
      da_find_renames = find_renames, da_find_copies = None, da_rename_threshold = threshold,
      da_rename_limit = None, da_binary = some_if (dc_binary a) True,
      da_text = some_if (dc_text a) True, da_full_index = None, da_abbrev = None, da_reverse = None,
      da_null_terminated = some_if (dc_null_terminated a) True,
      da_src_prefix = dc_src_prefix a, da_dst_prefix = dc_dst_prefix a,
      da_no_prefix = some_if (dc_no_prefix a) True, da_line_prefix = dc_line_prefix a,
      da_ignore_submodules = None, da_diff_filter = None, da_echo_manifest_entries = None,
      da_options = None\<rparr>"

text \<open>The checks come in the order of the code: the format, the renames, the white space.\<close>

definition diff_cli_request ::
    "client \<Rightarrow> caller_env \<Rightarrow> diff_cli \<Rightarrow> meta_kw \<Rightarrow> exn + diff_output_format \<times> client_action" where
  "diff_cli_request cl env a kw =
     bindE (output_format a) (\<lambda>requested.
     bindE (rename_options a) (\<lambda>(find_renames, threshold).
     bindE (whitespace_mode a) (\<lambda>ws.
     bindE (client_diff cl env (diff_cli_args a requested ws find_renames threshold) kw) (\<lambda>action.
       Inr (case requested of None \<Rightarrow> DiffOutputFormat_patch | Some f \<Rightarrow> f, action)))))"

subsection \<open>Manifest text\<close>

definition primary_path :: "diff_file_entry \<Rightarrow> string" where
  "primary_path e = or_else (or_opt (dfe_new_path e) (dfe_old_path e)) []"

fun status_letter :: "diff_status \<Rightarrow> string" where
  "status_letter DiffStatus_added = ''A''"
| "status_letter DiffStatus_modified = ''M''"
| "status_letter DiffStatus_deleted = ''D''"
| "status_letter DiffStatus_renamed = ''R''"
| "status_letter DiffStatus_copied = ''C''"
| "status_letter DiffStatus_type_changed = ''T''"
| "status_letter DiffStatus_unmerged = ''U''"

definition name_only :: "diff_file_entry list \<Rightarrow> string \<Rightarrow> string" where
  "name_only files separator = concat (map (\<lambda>e. primary_path e @ separator) files)"

definition name_status_entry :: "string \<Rightarrow> string \<Rightarrow> diff_file_entry \<Rightarrow> string" where
  "name_status_entry separator field_separator e =
     (let letter = status_letter (dfe_status e)
      in if dfe_status e \<in> {DiffStatus_renamed, DiffStatus_copied}
         then letter @ zpad 3 (int_or_zero (dfe_similarity e)) @ field_separator @
              or_else (dfe_old_path e) [] @ field_separator @ or_else (dfe_new_path e) [] @ separator
         else letter @ field_separator @ primary_path e @ separator)"

definition name_status :: "diff_file_entry list \<Rightarrow> string \<Rightarrow> string" where
  "name_status files separator =
     concat (map (name_status_entry separator
       (if separator = [CHR 0x00] then [CHR 0x00] else [CHR 0x09])) files)"

definition numstat :: "diff_file_entry list \<Rightarrow> string \<Rightarrow> string" where
  "numstat files separator =
     concat (map (\<lambda>e.
       (if dfe_is_binary e = Some True then [CHR ''-'', CHR 0x09, CHR ''-'']
        else show_int (int_or_zero (dfe_insertions e)) @ [CHR 0x09] @
             show_int (int_or_zero (dfe_deletions e))) @ [CHR 0x09] @
       primary_path e @ separator) files)"

definition plural :: "int \<Rightarrow> string \<Rightarrow> string" where
  "plural count singular = (if count = 1 then singular else singular @ ''s'')"

definition shortstat_line :: "int \<Rightarrow> int \<Rightarrow> int \<Rightarrow> string" where
  "shortstat_line files insertions deletions =
     (if files = 0 then []
      else join '', ''
             ([[CHR 0x20] @ show_int files @ [CHR 0x20] @ plural files ''file'' @ '' changed''] @
              (if insertions > 0
               then [show_int insertions @ [CHR 0x20] @ plural insertions ''insertion'' @ ''(+)''] else []) @
              (if deletions > 0
               then [show_int deletions @ [CHR 0x20] @ plural deletions ''deletion'' @ ''(-)''] else [])) @
           [CHR 0x0A])"

definition sum_insertions :: "diff_file_entry list \<Rightarrow> int" where
  "sum_insertions files = sum_list (map (\<lambda>e. int_or_zero (dfe_insertions e)) files)"

definition sum_deletions :: "diff_file_entry list \<Rightarrow> int" where
  "sum_deletions files = sum_list (map (\<lambda>e. int_or_zero (dfe_deletions e)) files)"

definition stat_row :: "diff_file_entry \<Rightarrow> string" where
  "stat_row e =
     (let insertions = int_or_zero (dfe_insertions e); deletions = int_or_zero (dfe_deletions e)
      in [CHR 0x20] @ primary_path e @ '' | '' @ show_int (insertions + deletions) @ [CHR 0x20] @
         replicate (nat insertions) (CHR ''+'') @ replicate (nat deletions) (CHR ''-'') @ [CHR 0x0A])"

definition stat :: "diff_file_entry list \<Rightarrow> string" where
  "stat files =
     concat (map stat_row files) @
     shortstat_line (int (length files)) (sum_insertions files) (sum_deletions files)"

definition shortstat :: "diff_file_entry list \<Rightarrow> string" where
  "shortstat files =
     shortstat_line (int (length files)) (sum_insertions files) (sum_deletions files)"

text \<open>The \<open>06o\<close> format of a file mode.\<close>

fun show_octal :: "nat \<Rightarrow> string" where
  "show_octal n = (if n < 8 then [digit_char n] else show_octal (n div 8) @ [digit_char (n mod 8)])"

declare show_octal.simps [simp del]

definition zpad_octal :: "nat \<Rightarrow> int \<Rightarrow> string" where
  "zpad_octal w i =
     (let s = show_octal (nat \<bar>i\<bar>); k = (if i < 0 then w - 1 else w)
      in (if i < 0 then ''-'' else []) @ replicate (k - length s) (CHR ''0'') @ s)"

definition summary_row :: "diff_file_entry \<Rightarrow> string" where
  "summary_row e =
     (case dfe_status e of
        DiffStatus_added \<Rightarrow>
          '' create mode '' @ zpad_octal 6 (int_or_zero (dfe_new_mode e)) @ [CHR 0x20] @ primary_path e @ [CHR 0x0A]
      | DiffStatus_deleted \<Rightarrow>
          '' delete mode '' @ zpad_octal 6 (int_or_zero (dfe_old_mode e)) @ [CHR 0x20] @ primary_path e @ [CHR 0x0A]
      | DiffStatus_renamed \<Rightarrow>
          '' rename '' @ or_else (dfe_old_path e) [] @ '' => '' @ or_else (dfe_new_path e) [] @ '' ('' @
          show_int (int_or_zero (dfe_similarity e)) @ [CHR 0x25] @ '')'' @ [CHR 0x0A]
      | _ \<Rightarrow> [])"

definition summary :: "diff_file_entry list \<Rightarrow> string" where
  "summary files = concat (map summary_row files)"

definition render_manifest_text ::
    "diff_file_entry list \<Rightarrow> diff_output_format \<Rightarrow> bool \<Rightarrow> string" where
  "render_manifest_text files fmt null_terminated =
     (let separator = (if null_terminated then [CHR 0x00] else [CHR 0x0A])
      in case fmt of
           DiffOutputFormat_name_only \<Rightarrow> name_only files separator
         | DiffOutputFormat_name_status \<Rightarrow> name_status files separator
         | DiffOutputFormat_numstat \<Rightarrow> numstat files separator
         | DiffOutputFormat_stat \<Rightarrow> stat files
         | DiffOutputFormat_shortstat \<Rightarrow> shortstat files
         | DiffOutputFormat_summary \<Rightarrow> summary files
         | _ \<Rightarrow> [])"

subsection \<open>Manifest JSON\<close>

definition scope_json :: "diff_repo_scope \<Rightarrow> json" where
  "scope_json s =
     JObj [(''root'', jopt JBool (drs_root s)), (''member_id'', jopt JStr (drs_member_id s)),
           (''member_path'', jopt JStr (drs_member_path s)),
           (''source_kind'', jopt (\<lambda>k. JStr (source_kind_name k)) (drs_source_kind s))]"

definition file_entry_json :: "diff_file_entry \<Rightarrow> json" where
  "file_entry_json e =
     JObj [(''file_id'', JStr (dfe_file_id e)), (''status'', JStr (diff_status_name (dfe_status e))),
           (''old_path'', jopt JStr (dfe_old_path e)), (''new_path'', jopt JStr (dfe_new_path e)),
           (''old_mode'', jopt JInt (dfe_old_mode e)), (''new_mode'', jopt JInt (dfe_new_mode e)),
           (''similarity'', jopt JInt (dfe_similarity e)),
           (''insertions'', jopt JInt (dfe_insertions e)), (''deletions'', jopt JInt (dfe_deletions e)),
           (''is_binary'', jopt JBool (dfe_is_binary e)), (''scope'', scope_json (dfe_scope e))]"

definition summary_json :: "diff_summary option \<Rightarrow> json" where
  "summary_json s =
     jopt (\<lambda>s. JObj [(''has_differences'', JBool (dsm_has_differences s)),
                     (''repos_examined'', JInt (dsm_repos_examined s)),
                     (''repos_with_differences'', JInt (dsm_repos_with_differences s)),
                     (''files_changed'', JInt (dsm_files_changed s)),
                     (''insertions'', JInt (dsm_insertions s)), (''deletions'', JInt (dsm_deletions s))]) s"

definition excluded_target_json :: "diff_excluded_target \<Rightarrow> json" where
  "excluded_target_json x =
     JObj [(''reason'', JStr (diff_target_exclusion_reason_name (dxt_reason x))),
           (''snapshot_id'', jopt JStr (dxt_snapshot_id x)),
           (''member_id'', jopt JStr (drs_member_id (dxt_scope x))),
           (''member_path'', jopt JStr (drs_member_path (dxt_scope x))),
           (''root'', jopt JBool (drs_root (dxt_scope x))), (''message'', jopt JStr (dxt_message x))]"

definition manifest_json :: "diff_manifest_response \<Rightarrow> string" where
  "manifest_json r =
     dumps_default (JObj
       [(''kind'', JStr ''diff''),
        (''files'', JList (map file_entry_json (diff_manifest_response_files r))),
        (''summary'', summary_json (diff_manifest_response_summary r)),
        (''excluded_targets'',
         JList (map excluded_target_json (diff_manifest_response_excluded_targets r)))])"

definition manifest_lines :: "diff_manifest_response \<Rightarrow> string list" where
  "manifest_lines r =
     (case diff_manifest_response_summary r of
        None \<Rightarrow> []
      | Some s \<Rightarrow>
          [dumps_default (JObj
             [(''kind'', JStr ''diff_summary''), (''has_differences'', JBool (dsm_has_differences s)),
              (''files_changed'', JInt (dsm_files_changed s)), (''insertions'', JInt (dsm_insertions s)),
              (''deletions'', JInt (dsm_deletions s))])]) @
     map (\<lambda>e. dumps_default (JObj [(''kind'', JStr ''diff_file''), (''entry'', file_entry_json e)]))
       (diff_manifest_response_files r)"

definition manifest_jsonl :: "diff_manifest_response \<Rightarrow> string" where
  "manifest_jsonl r = concat (map (\<lambda>line. line @ [CHR 0x0A]) (manifest_lines r))"

text \<open>\<open>base64.b64encode\<close>.\<close>

definition b64_char :: "nat \<Rightarrow> char" where
  "b64_char n =
     (if n < 26 then char_of (65 + n) else if n < 52 then char_of (71 + n)
      else if n < 62 then char_of (n - 4) else if n = 62 then CHR ''+'' else CHR 0x2F)"

fun b64encode :: "string \<Rightarrow> string" where
  "b64encode [] = []"
| "b64encode [a] =
     [b64_char (byte_of a div 4), b64_char (byte_of a mod 4 * 16), CHR ''='', CHR ''='']"
| "b64encode [a, b] =
     [b64_char (byte_of a div 4), b64_char (byte_of a mod 4 * 16 + byte_of b div 16),
      b64_char (byte_of b mod 16 * 4), CHR ''='']"
| "b64encode (a # b # c # s) =
     [b64_char (byte_of a div 4), b64_char (byte_of a mod 4 * 16 + byte_of b div 16),
      b64_char (byte_of b mod 16 * 4 + byte_of c div 64), b64_char (byte_of c mod 64)] @ b64encode s"

definition output_record_json :: "diff_output_record \<Rightarrow> string" where
  "output_record_json r =
     dumps_default (JObj
       [(''kind'', JStr ''diff_output''),
        (''record_kind'', JStr (diff_output_record_kind_name (dor_kind r))),
        (''file_id'', jopt JStr (dor_file_id r)),
        (''data_base64'', jopt (\<lambda>d. JStr (b64encode d)) (dor_data r)),
        (''stale'', jopt JBool (dor_stale r)), (''diagnostic'', jopt JStr (dor_diagnostic r))])"

subsection \<open>Output\<close>

definition write_stdout_bytes :: "'t terminal \<Rightarrow> string \<Rightarrow> 't \<Rightarrow> (exn + unit) \<times> 't" where
  "write_stdout_bytes tm bytes t = (if bytes = [] then (Inr (), t) else put_bytes tm Stdout bytes t)"

definition write_stdout_text :: "'t terminal \<Rightarrow> string \<Rightarrow> 't \<Rightarrow> (exn + unit) \<times> 't" where
  "write_stdout_text tm text t = (if text = [] then (Inr (), t) else put_text tm Stdout text t)"

definition stale_warning :: "diff_output_record \<Rightarrow> string" where
  "stale_warning r =
     ''gwz: warning: '' @ or_else (dor_diagnostic r) (or_else (dor_file_id r) ''<unknown>'') @
     '' changed during diff and was skipped (stale)'' @ [CHR 0x0A]"

text \<open>One record of the log in the two streaming forms, and records up to one that raises.\<close>

definition show_record_bytes :: "'t terminal \<Rightarrow> diff_output_record \<Rightarrow> 't \<Rightarrow> (exn + unit) \<times> 't" where
  "show_record_bytes tm r t =
     (if dor_kind r = DiffOutputRecordKind_patch_bytes
      then (if truthy (dor_data r) then write_stdout_bytes tm (or_else (dor_data r) []) t else (Inr (), t))
      else if dor_kind r = DiffOutputRecordKind_stale_file
      then put_stderr tm (stale_warning r) t
      else if dor_kind r = DiffOutputRecordKind_diagnostic \<and> truthy (dor_diagnostic r)
      then put_stderr tm (''gwz: '' @ or_else (dor_diagnostic r) [] @ [CHR 0x0A]) t
      else (Inr (), t))"

definition show_record_json :: "'t terminal \<Rightarrow> diff_output_record \<Rightarrow> 't \<Rightarrow> (exn + unit) \<times> 't" where
  "show_record_json tm r t = write_stdout_text tm (output_record_json r @ [CHR 0x0A]) t"

fun show_records ::
    "('r \<Rightarrow> 't \<Rightarrow> (exn + unit) \<times> 't) \<Rightarrow> 'r list \<Rightarrow> 't \<Rightarrow> (exn + unit) \<times> 't" where
  "show_records f [] t = (Inr (), t)"
| "show_records f (r # rs) t =
     (case f r t of (Inl e, t1) \<Rightarrow> (Inl e, t1) | (Inr _, t1) \<Rightarrow> show_records f rs t1)"

text \<open>
  \<open>async for record in client.diff_output(...)\<close> with that body. When the body raises, nothing
  closes the generator: it is finalized when the event loop shuts down, after the \<open>async with\<close> block
  of \<open>run\<close> has closed the client, and what its \<open>finally\<close> block then raises reaches nobody.
\<close>

definition stream_diff ::
    "'s bridge \<Rightarrow> (diff_output_record \<Rightarrow> 't \<Rightarrow> (exn + unit) \<times> 't) \<Rightarrow> string \<Rightarrow> string \<Rightarrow> nat \<Rightarrow> 's world \<Rightarrow> 't \<Rightarrow>
     ((exn + unit) \<times> 's world \<times> 't) option" where
  "stream_diff br f log_id fresh n w t =
     (case diff_output br log_id None fresh
             (\<lambda>seen. case fst (show_records f seen t) of Inr _ \<Rightarrow> GoOn | Inl _ \<Rightarrow> CloseAndLeave) n w of
        None \<Rightarrow> None
      | Some (seen, e, w1) \<Rightarrow>
         (case show_records f seen t of
            (Inl fault, t1) \<Rightarrow> Some (Inl fault, w1, t1)
          | (Inr _, t1) \<Rightarrow>
              Some (case e of Raised x \<Rightarrow> Inl x | _ \<Rightarrow> Inr (), w1, t1)))"

definition render_diff_output ::
    "'s bridge \<Rightarrow> 't terminal \<Rightarrow> global_options \<Rightarrow> diff_cli \<Rightarrow> diff_manifest_response \<Rightarrow> diff_output_format \<Rightarrow>
     string \<Rightarrow> nat \<Rightarrow> 's world \<Rightarrow> 't \<Rightarrow> ((exn + unit) \<times> 's world \<times> 't) option" where
  "render_diff_output br tm g a r display_format fresh n w t =
     (if go_json g
      then (case write_stdout_text tm (manifest_json r @ [CHR 0x0A]) t of (res, t1) \<Rightarrow> Some (res, w, t1))
      else if go_jsonl g
      then (case write_stdout_text tm (manifest_jsonl r) t of
              (Inl e, t1) \<Rightarrow> Some (Inl e, w, t1)
            | (Inr _, t1) \<Rightarrow>
               (case diff_manifest_response_output r of
                  None \<Rightarrow> Some (Inr (), w, t1)
                | Some ref \<Rightarrow> stream_diff br (show_record_json tm) (dol_log_id ref) fresh n w t1))
      else if dc_quiet a then Some (Inr (), w, t)
      else case diff_manifest_response_output r of
             Some ref \<Rightarrow> stream_diff br (show_record_bytes tm) (dol_log_id ref) fresh n w t
           | None \<Rightarrow>
              (case write_stdout_bytes tm (render_manifest_text (diff_manifest_response_files r)
                      display_format (dc_null_terminated a)) t of
                 (res, t1) \<Rightarrow> Some (res, w, t1)))"

definition diff_exit_code :: "diff_cli \<Rightarrow> diff_manifest_response \<Rightarrow> int" where
  "diff_exit_code a r =
     (if (dc_exit_code a \<or> dc_quiet a) \<and>
         (case diff_manifest_response_summary r of None \<Rightarrow> False | Some s \<Rightarrow> dsm_has_differences s)
      then 1 else 0)"

definition handle_diff ::
    "client \<Rightarrow> caller_env \<Rightarrow> 's bridge \<Rightarrow> 't terminal \<Rightarrow> global_options \<Rightarrow> diff_cli \<Rightarrow> meta_kw \<Rightarrow> string \<Rightarrow>
     nat \<Rightarrow> 's world \<Rightarrow> 't \<Rightarrow> ((exn + int) \<times> 's world \<times> 't) option" where
  "handle_diff cl env br tm g a kw fresh n w t =
     (case diff_cli_request cl env a kw of
        Inl e \<Rightarrow> Some (Inl e, w, t)
      | Inr (display_format, action) \<Rightarrow>
         (case run_action br action w of
            (Inl e, w1) \<Rightarrow> Some (Inl e, w1, t)
          | (Inr (Answer (DiffResp r)), w1) \<Rightarrow>
             (case render_diff_output br tm g a r display_format fresh n w1 t of
                None \<Rightarrow> None
              | Some (Inl e, w2, t1) \<Rightarrow> Some (Inl e, w2, t1)
              | Some (Inr _, w2, t1) \<Rightarrow> Some (Inr (diff_exit_code a r), w2, t1))
          | (Inr res, w1) \<Rightarrow> Some (Inl (no_attribute ''output''), w1, t)))"

subsection \<open>Records ended by NUL can be read back\<close>

text \<open>The fields of a name-status entry, and a reader of them.\<close>

definition is_pair_status :: "diff_status \<Rightarrow> bool" where
  "is_pair_status st \<longleftrightarrow> st = DiffStatus_renamed \<or> st = DiffStatus_copied"

definition status_key :: "diff_file_entry \<Rightarrow> string" where
  "status_key e =
     status_letter (dfe_status e) @
     (if is_pair_status (dfe_status e) then zpad 3 (int_or_zero (dfe_similarity e)) else [])"

definition status_paths :: "diff_file_entry \<Rightarrow> string list" where
  "status_paths e =
     (if is_pair_status (dfe_status e) then [or_else (dfe_old_path e) [], or_else (dfe_new_path e) []]
      else [primary_path e])"

fun read_name_status :: "string list \<Rightarrow> (string \<times> string list) list" where
  "read_name_status (key # a # b # rest) =
     (if take 1 key \<in> {''R'', ''C''} then (key, [a, b]) # read_name_status rest
      else (key, [a]) # read_name_status (b # rest))"
| "read_name_status _ = []"

definition no_nul :: "string option \<Rightarrow> bool" where
  "no_nul path \<longleftrightarrow> (case path of None \<Rightarrow> True | Some p \<Rightarrow> CHR 0x00 \<notin> set p)"

lemma no_nul_or_else: "no_nul path \<Longrightarrow> CHR 0x00 \<notin> set (or_else path [])"
  by (cases path) (auto simp: no_nul_def or_else_def)

lemma no_nul_primary:
  "no_nul (dfe_old_path e) \<Longrightarrow> no_nul (dfe_new_path e) \<Longrightarrow> CHR 0x00 \<notin> set (primary_path e)"
  by (auto simp: primary_path_def or_opt_def no_nul_or_else)

lemma zpad_no_nul: "CHR 0x00 \<notin> set (zpad w i)"
proof -
  have "CHR 0x00 \<notin> set (zpad_nat v n)" for v n
    using show_nat_printable [of n] by (auto simp: zpad_nat_def Let_def list_all_iff printable_def byte_of_def)
  then show ?thesis by (simp add: zpad_def)
qed

lemma status_key_no_nul: "CHR 0x00 \<notin> set (status_key e)"
  by (cases "dfe_status e") (simp_all add: status_key_def zpad_no_nul)

lemma name_status_entry_fields:
  "name_status_entry [CHR 0x00] [CHR 0x00] e =
     concat (map (\<lambda>f. f @ [CHR 0x00]) (status_key e # status_paths e))"
  by (simp add: name_status_entry_def Let_def status_key_def status_paths_def is_pair_status_def)

lemma read_name_status_entry:
  "rest \<noteq> [] \<Longrightarrow> read_name_status (status_key e # status_paths e @ rest) =
     (status_key e, status_paths e) # read_name_status rest"
  by (cases "dfe_status e"; cases rest) (simp_all add: status_key_def status_paths_def is_pair_status_def)


definition sample_file :: "diff_status \<Rightarrow> string option \<Rightarrow> string option \<Rightarrow> diff_file_entry" where
  "sample_file st old new =
     \<lparr>dfe_file_id = ''f1'',
      dfe_scope = \<lparr>drs_root = Some True, drs_member_id = None, drs_member_path = None, drs_source_kind = None\<rparr>,
      dfe_status = st, dfe_old_path = old, dfe_new_path = new, dfe_old_mode = None,
      dfe_new_mode = None, dfe_similarity = Some 97, dfe_insertions = Some 1, dfe_deletions = None,
      dfe_is_binary = None\<rparr>"


subsection \<open>The bytes of a record survive base64\<close>

definition b64_value :: "char \<Rightarrow> nat" where
  "b64_value c =
     (let n = byte_of c
      in if 65 \<le> n \<and> n \<le> 90 then n - 65 else if 97 \<le> n \<and> n \<le> 122 then n - 71
         else if 48 \<le> n \<and> n \<le> 57 then n + 4 else if n = 43 then 62 else 63)"

fun b64decode :: "string \<Rightarrow> string" where
  "b64decode (a # b # c # d # s) =
     char_of (b64_value a * 4 + b64_value b div 16) #
     (if c = CHR ''='' then []
      else char_of (b64_value b mod 16 * 16 + b64_value c div 4) #
        (if d = CHR ''='' then []
         else char_of (b64_value c mod 4 * 64 + b64_value d) # b64decode s))"
| "b64decode _ = []"

lemma b64_value_char: "n < 64 \<Longrightarrow> b64_value (b64_char n) = n"
  by (auto simp: b64_value_def b64_char_def byte_of_def Let_def)

lemma b64_char_pad: "n < 64 \<Longrightarrow> b64_char n \<noteq> CHR ''=''"
proof
  assume n: "n < 64" and "b64_char n = CHR ''=''"
  then have "byte_of (b64_char n) = 61" by (simp add: byte_of_def)
  with n show False by (auto simp: b64_char_def byte_of_def split: if_splits)
qed

lemma byte_bound: "byte_of c < 256"
  by (simp add: byte_of_def)

lemma char_of_byte [simp]: "char_of (byte_of c) = c"
  by (simp add: byte_of_def)

lemma b64_sextets:
  fixes x y z :: nat
  assumes "x < 256" "y < 256" "z < 256"
  shows "x div 4 < 64" "x mod 4 * 16 + y div 16 < 64" "y mod 16 * 4 + z div 64 < 64" "z mod 64 < 64"
    "x mod 4 * 16 < 64" "y mod 16 * 4 < 64"
    "x div 4 * 4 + (x mod 4 * 16 + y div 16) div 16 = x" "x div 4 * 4 + (x mod 4 * 16) div 16 = x"
    "(x mod 4 * 16 + y div 16) mod 16 * 16 + (y mod 16 * 4 + z div 64) div 4 = y"
    "(x mod 4 * 16 + y div 16) mod 16 * 16 + (y mod 16 * 4) div 4 = y"
    "(y mod 16 * 4 + z div 64) mod 4 * 64 + z mod 64 = z"
proof -
  have m: "x mod 4 < 4" "y mod 16 < 16" "z mod 64 < 64" by simp_all
  have d: "y div 16 < 16" "z div 64 < 4" using assms by (simp_all add: less_mult_imp_div_less)
  show "x div 4 < 64" using assms(1) by (simp add: less_mult_imp_div_less)
  show "x mod 4 * 16 + y div 16 < 64" "y mod 16 * 4 + z div 64 < 64" "z mod 64 < 64"
    "x mod 4 * 16 < 64" "y mod 16 * 4 < 64" using m d by linarith+
  show "x div 4 * 4 + (x mod 4 * 16 + y div 16) div 16 = x" "x div 4 * 4 + (x mod 4 * 16) div 16 = x"
    using d(1) by simp_all
  show "(x mod 4 * 16 + y div 16) mod 16 * 16 + (y mod 16 * 4 + z div 64) div 4 = y"
    "(x mod 4 * 16 + y div 16) mod 16 * 16 + (y mod 16 * 4) div 4 = y"
    "(y mod 16 * 4 + z div 64) mod 4 * 64 + z mod 64 = z"
    using d by simp_all
qed

text \<open>
  The \<open>data_base64\<close> field of a machine record carries the patch bytes exactly: decoding what the
  encoder wrote gives the bytes back, for any bytes.
\<close>

theorem base64_roundtrip: "b64decode (b64encode s) = s"
proof (induction s rule: b64encode.induct)
  case (2 a)
  show ?case
    using b64_sextets [OF byte_bound [of a] byte_bound byte_bound]
    by (simp add: b64_value_char)
next
  case (3 a b)
  show ?case
    using b64_sextets [OF byte_bound [of a] byte_bound [of b] byte_bound]
    by (simp add: b64_value_char b64_char_pad)
next
  case (4 a b c s)
  show ?case
    using b64_sextets [OF byte_bound [of a] byte_bound [of b] byte_bound [of c]] 4
    by (simp add: b64_value_char b64_char_pad)
qed simp

subsection \<open>What reaches the terminal\<close>

definition record_out :: "diff_output_record \<Rightarrow> string" where
  "record_out r = (if dor_kind r = DiffOutputRecordKind_patch_bytes then or_else (dor_data r) [] else [])"

definition record_err :: "diff_output_record \<Rightarrow> string" where
  "record_err r =
     (if dor_kind r = DiffOutputRecordKind_stale_file then escape_surrogates (stale_warning r)
      else if dor_kind r = DiffOutputRecordKind_diagnostic \<and> truthy (dor_diagnostic r)
      then escape_surrogates (''gwz: '' @ or_else (dor_diagnostic r) [] @ [CHR 0x0A]) else [])"

lemma show_records_buffers:
  assumes "\<And>r out err. r \<in> set rs \<Longrightarrow> f r (out, err) = (Inr (), (out @ po r, err @ pe r))"
  shows "show_records f rs (out, err) =
    (Inr (), (out @ concat (map po rs), err @ concat (map pe rs)))"
  using assms by (induction rs arbitrary: out err) auto

lemma show_records_prefix:
  "show_records f (xs @ ys) t = (Inr (), t1) \<Longrightarrow> \<exists>t2. show_records f xs t = (Inr (), t2)"
  by (induction xs arbitrary: t) (auto split: prod.splits sum.splits)

lemma stream_diff_exact:
  fixes br :: "'s bridge"
  assumes "\<not> w_closed w" and "b_diff_read br = Some rd" and "b_diff_end br = Some en"
    and "\<And>stream s. fst (en log_id stream s) = Inr ()"
    and "serves_diff rd log_id rest lag"
    and shown: "\<And>r out err. r \<in> set (rest None (w_bridge w)) \<Longrightarrow>
        f r (out, err) = (Inr (), (out @ po r, err @ pe r))"
  shows "\<exists>n w2. stream_diff br f log_id fresh n w (out, err) =
    Some (Inr (), w2, (out @ concat (map po (rest None (w_bridge w))),
                       err @ concat (map pe (rest None (w_bridge w)))))"
proof -
  let ?rs = "rest None (w_bridge w)"
  let ?c = "\<lambda>seen. case fst (show_records f seen (out, err)) of Inr _ \<Rightarrow> GoOn | Inl _ \<Rightarrow> CloseAndLeave"
  have all: "show_records f ?rs (out, err) =
      (Inr (), (out @ concat (map po ?rs), err @ concat (map pe ?rs)))"
    by (rule show_records_buffers) (rule shown)
  have "?c xs = GoOn" if "prefix xs ?rs" for xs
    using that all show_records_prefix [of f xs] by (fastforce simp: prefix_def)
  then obtain n w2 where "diff_output br log_id None fresh ?c n w = Some (?rs, Returned, w2)"
    using diff_output_runs [OF assms(1-3), where consumer = ?c and rest = rest and lag = lag
        and log_id = log_id] assms(4,5) by blast
  then have "stream_diff br f log_id fresh n w (out, err) =
      Some (Inr (), w2, (out @ concat (map po ?rs), err @ concat (map pe ?rs)))"
    by (simp add: stream_diff_def all)
  then show ?thesis by blast
qed

lemma dumps_no_surrogate: "\<not> has_surrogate (dumps_default v @ [CHR 0x0A])"
  using printable_ascii [OF dumps_default_printable, of v]
  by (intro ascii_no_surrogate) (simp add: byte_of_def)

lemma manifest_jsonl_no_surrogate: "\<not> has_surrogate (manifest_jsonl r)"
proof -
  have "list_all (\<lambda>c. byte_of c < 128) line" if "line \<in> set (manifest_lines r)" for line
    using that by (auto simp: manifest_lines_def printable_ascii [OF dumps_default_printable]
        split: option.splits)
  then show ?thesis
    by (intro ascii_no_surrogate) (auto simp: manifest_jsonl_def list_all_iff byte_of_def)
qed

lemma write_stdout_text_buffers:
  "\<not> has_surrogate text \<Longrightarrow> write_stdout_text (buffers tty) text (out, err) = (Inr (), (out @ text, err))"
  by (simp add: write_stdout_text_def put_text_buffers)

lemma show_record_bytes_buffers:
  "show_record_bytes (buffers tty) r (out, err) = (Inr (), (out @ record_out r, err @ record_err r))"
  by (cases "dor_kind r")
    (simp_all add: show_record_bytes_def record_out_def record_err_def write_stdout_bytes_def
      put_stderr_buffers truthy_def or_else_def del: escape_surrogates.simps split: option.split)

lemma show_record_json_buffers:
  "show_record_json (buffers tty) r (out, err) = (Inr (), (out @ output_record_json r @ [CHR 0x0A], err @ []))"
  using dumps_no_surrogate
  by (simp add: show_record_json_def write_stdout_text_buffers output_record_json_def)

text \<open>
  C25: A streamed diff is complete and its channels are kept apart: against a server that makes
  progress the command ends, standard output holds exactly the concatenated bytes of the patch
  records, in order, and standard error one warning per stale file or diagnostic; with \<^verbatim>\<open>--jsonl\<close>
  standard output holds the manifest lines and then one line per record, and nothing else.
\<close>

theorem diff_stream_exact:
  assumes "\<not> go_json g" and "\<not> dc_quiet a \<or> go_jsonl g"
    and "diff_manifest_response_output r = Some ref" and "\<not> w_closed w"
    and "b_diff_read br = Some rd" and "b_diff_end br = Some en"
    and "\<forall>stream s. fst (en (dol_log_id ref) stream s) = Inr ()"
    and "serves_diff rd (dol_log_id ref) rest lag"
  shows "\<exists>n w2. render_diff_output br (buffers tty) g a r fmt fresh n w ([], []) =
    Some (Inr (), w2,
      if go_jsonl g
      then (manifest_jsonl r @
            concat (map (\<lambda>x. output_record_json x @ [CHR 0x0A]) (rest None (w_bridge w))), [])
      else (concat (map record_out (rest None (w_bridge w))),
            concat (map record_err (rest None (w_bridge w)))))"
proof -
  let ?rs = "rest None (w_bridge w)"
  note stream = stream_diff_exact [OF assms(4-6), where log_id = "dol_log_id ref" and rest = rest
      and lag = lag and fresh = fresh]
  show ?thesis
  proof (cases "go_jsonl g")
    case True
    have "\<exists>n w2. stream_diff br (show_record_json (buffers tty)) (dol_log_id ref) fresh n w
        (manifest_jsonl r, []) = Some (Inr (), w2, (manifest_jsonl r @
          concat (map (\<lambda>x. output_record_json x @ [CHR 0x0A]) ?rs), [] @ concat (map (\<lambda>x. []) ?rs)))"
      by (rule stream) (use assms(7,8) show_record_json_buffers in auto)
    moreover have "concat (map (\<lambda>x. []) ?rs) = ([] :: string)" by simp
    ultimately show ?thesis using True assms(1,3) manifest_jsonl_no_surrogate [of r]
      by (simp add: render_diff_output_def write_stdout_text_buffers)
  next
    case False
    have "\<exists>n w2. stream_diff br (show_record_bytes (buffers tty)) (dol_log_id ref) fresh n w
        ([], []) = Some (Inr (), w2, ([] @ concat (map record_out ?rs), [] @ concat (map record_err ?rs)))"
      by (rule stream) (use assms(7,8) show_record_bytes_buffers in auto)
    with False assms(1-3) show ?thesis by (simp add: render_diff_output_def)
  qed
qed

text \<open>A log with one patch record, a file that went stale, and the end.\<close>

definition sample_patch :: "diff_output_record list" where
  "sample_patch =
     [sample_diff_record\<lparr>dor_kind := DiffOutputRecordKind_patch_bytes, dor_data := Some ''+x''\<rparr>,
      sample_diff_record\<lparr>dor_kind := DiffOutputRecordKind_stale_file, dor_file_id := Some ''f1''\<rparr>]"

definition two_read :: "nat diff_reader" where
  "two_read log_id stream cursor m s =
     (Inr \<lparr>rd_records = (if cursor = None then sample_patch else []), rd_next_cursor = 1,
           rd_state = (if cursor = None then ''data'' else ''eof'')\<rparr>, Suc s)"

definition two_bridge :: "nat bridge" where
  "two_bridge = sample_bridge
     \<lparr>b_diff_read := Some two_read, b_diff_end := Some (\<lambda>l st s. (Inr (), Suc s))\<rparr>"

definition sample_diff_cli :: diff_cli where
  "sample_diff_cli =
     \<lparr>dc_cached = False, dc_merge_base = False, dc_tagged = False, dc_find_renames = None,
      dc_no_renames = False, dc_stat = False, dc_numstat = False, dc_shortstat = False,
      dc_summary = False, dc_name_only = False, dc_name_status = False, dc_raw = False,
      dc_null_terminated = False, dc_unified = None, dc_inter_hunk_context = None,
      dc_binary = False, dc_text = False, dc_ignore_all_space = False,
      dc_ignore_space_change = False, dc_ignore_space_at_eol = False,
      dc_ignore_blank_lines = False, dc_src_prefix = None, dc_dst_prefix = None,
      dc_no_prefix = False, dc_line_prefix = None, dc_exit_code = False, dc_quiet = False,
      dc_operands = [], dc_pathspecs = []\<rparr>"

definition sample_manifest :: diff_manifest_response where
  "sample_manifest =
     \<lparr>diff_manifest_response_response = sample_envelope AggregateStatus_ok None,
      diff_manifest_response_files = [], diff_manifest_response_summary = None,
      diff_manifest_response_targets = [],
      diff_manifest_response_output = Some \<lparr>dol_log_id = ''D'', dol_format = DiffOutputFormat_patch,
        dol_encoding = None\<rparr>,
      diff_manifest_response_excluded_targets = []\<rparr>"

theorem diff_stream_exact_witness:
  "\<exists>n w2. render_diff_output two_bridge (buffers False) (sample_options\<lparr>go_json := False, go_jsonl := False\<rparr>)
       sample_diff_cli sample_manifest DiffOutputFormat_patch ''s'' n sample_world ([], []) =
     Some (Inr (), w2,
       (''+x'', ''gwz: warning: f1 changed during diff and was skipped (stale)'' @ [CHR 0x0A]))"
proof -
  have serves: "serves_diff two_read ''D'' (\<lambda>c s. if c = None then sample_patch else []) (\<lambda>c s. 0)"
    by (simp add: serves_diff_def two_read_def sample_patch_def)
  have parts: "concat (map record_out sample_patch) = ''+x''"
    "concat (map record_err sample_patch) =
       ''gwz: warning: f1 changed during diff and was skipped (stale)'' @ [CHR 0x0A]"
    by (simp_all add: sample_patch_def sample_diff_record_def record_out_def record_err_def or_else_def
        stale_warning_def byte_of_def)
  show ?thesis
    using diff_stream_exact [where w = sample_world and br = two_bridge and rd = two_read
        and en = "\<lambda>l st s. (Inr (), Suc s)" and g = "sample_options\<lparr>go_json := False, go_jsonl := False\<rparr>"
        and a = sample_diff_cli and r = sample_manifest and tty = False and fresh = "''s''"
        and ref = "the (diff_manifest_response_output sample_manifest)"
        and fmt = DiffOutputFormat_patch
        and rest = "\<lambda>c s. if c = None then sample_patch else []" and lag = "\<lambda>c s. 0"]
      serves parts
    by (simp add: sample_world_def two_bridge_def sample_manifest_def sample_diff_cli_def)
qed

end
