(* ===== verification/RenderCommon.thy ===== *)
theory RenderCommon
  imports CliShared Terminal
begin

section \<open>Shared parts of the human renderers\<close>

text \<open>
  \<^verbatim>\<open>common.py\<close>, \<^verbatim>\<open>push.py\<close>, \<^verbatim>\<open>url_scheme.py\<close> and \<open>transport_human_lines\<close> of \<^verbatim>\<open>machine.py\<close>, all under
  \<^verbatim>\<open>src/gwz/cli_render_parts/\<close>: labels of enum members, the status line, the errors a report prints
  after its rows, and the extra lines of \<^verbatim>\<open>push\<close>, \<^verbatim>\<open>clone\<close> and \<^verbatim>\<open>--verbose\<close>.
\<close>

subsection \<open>common.py\<close>

definition plural_suffix :: "int \<Rightarrow> string" where
  "plural_suffix count = (if count = 1 then [] else ''s'')"

definition label_of_name :: "string \<Rightarrow> string" where
  "label_of_name name = concat (map capitalize (split_on CHR ''_'' name))"

definition error_label :: "gwz_error \<Rightarrow> string" where
  "error_label e = label_of_name (gwz_error_code_name (ge_code e))"

definition is_response :: "response \<Rightarrow> string \<Rightarrow> string \<Rightarrow> bool" where
  "is_response r class_name action \<longleftrightarrow>
     response_class r = class_name \<or>
     (case meta_of r of None \<Rightarrow> False | Some m \<Rightarrow> action_kind_name (rsm_action m) = action)"

definition status_line :: "response_envelope option \<Rightarrow> string" where
  "status_line env =
     ''status: '' @
     label_of_name (case env of None \<Rightarrow> ''None''
                    | Some e \<Rightarrow> aggregate_status_name (rsm_aggregate_status (env_meta e)))"

text \<open>The errors that are not a copy of a member's error.\<close>

definition errors_not_on_members :: "response_envelope option \<Rightarrow> gwz_error list" where
  "errors_not_on_members env =
     (case env of
        None \<Rightarrow> []
      | Some e \<Rightarrow>
          filter (\<lambda>x. x \<notin> set (List.map_filter mr_error (env_members e))) (env_errors e))"

definition error_line :: "gwz_error \<Rightarrow> string" where
  "error_line e = error_label e @ '': '' @ ge_message e"

definition append_errors :: "string list \<Rightarrow> response_envelope option \<Rightarrow> string list" where
  "append_errors rows env = rows @ map error_line (errors_not_on_members env)"

definition push_blank :: "string list \<Rightarrow> string list" where
  "push_blank rows = (if rows \<noteq> [] \<and> last rows \<noteq> [] then rows @ [[]] else rows)"

definition spaced :: "string list \<Rightarrow> string" where
  "spaced ss = join '' '' ss"

definition report :: "string list \<Rightarrow> string" where
  "report rows = join [CHR 0x0A] rows"

subsection \<open>push.py\<close>

definition is_unchecked_reason :: "string \<Rightarrow> bool" where
  "is_unchecked_reason reason \<longleftrightarrow> ends_with ''as of the last fetch or push'' reason"

definition noop_reasons :: "response \<Rightarrow> (string \<times> string) list" where
  "noop_reasons r =
     (if is_response r ''PushResponse'' ''push''
      then List.map_filter (\<lambda>m.
        (case mr_planned m of
           None \<Rightarrow> None
         | Some p \<Rightarrow>
             if plc_action p = PlannedAction_noop \<and> truthy (plc_message p)
             then Some (mr_member_path m, or_else (plc_message p) []) else None)) (members_of r)
      else [])"

definition unchecked_summary :: "response \<Rightarrow> string option" where
  "unchecked_summary r =
     (let n = length (filter (\<lambda>(path, reason). is_unchecked_reason reason) (noop_reasons r))
      in if n = 0 then None
         else Some (show_nat n @ '' '' @ (if n = 1 then ''repository'' else ''repositories'') @
           '' unchanged since the last fetch or push '' @ (if n = 1 then ''was'' else ''were'') @
           '' not checked for changes; --check-remotes to verify''))"

definition noop_reason_human_lines :: "response \<Rightarrow> string list" where
  "noop_reason_human_lines r = map (\<lambda>(path, reason). path @ '': '' @ reason) (noop_reasons r)"

definition member_error_line :: "member_response \<Rightarrow> string option" where
  "member_error_line m =
     map_option (\<lambda>e. mr_member_path m @ '': '' @ error_line e) (mr_error m)"

definition error_human_lines :: "response \<Rightarrow> string list" where
  "error_human_lines r =
     (if is_response r ''PushResponse'' ''push''
      then List.map_filter member_error_line (members_of r) else [])"

subsection \<open>url_scheme.py\<close>

definition url_scheme_origin :: "(string \<Rightarrow> string option) \<Rightarrow> member_url_resolution \<Rightarrow> string" where
  "url_scheme_origin getenv u =
     (case mur_source u of
        UrlSchemeSource_request \<Rightarrow>
          (if (case getenv URL_SCHEME_ENV of None \<Rightarrow> False
               | Some v \<Rightarrow> url_scheme_from_text v = Some (mur_scheme u))
           then ''from '' @ URL_SCHEME_ENV else ''from --url-scheme'')
      | UrlSchemeSource_workspace \<Rightarrow> ''from .gwz/url-scheme.yml''
      | UrlSchemeSource_default \<Rightarrow> ''default'')"

fun url_scheme_summary :: "(string \<Rightarrow> string option) \<Rightarrow> member_response list \<Rightarrow> string option" where
  "url_scheme_summary getenv [] = None"
| "url_scheme_summary getenv (m # ms) =
     (case mr_url_resolution m of
        None \<Rightarrow> url_scheme_summary getenv ms
      | Some u \<Rightarrow>
          if mur_scheme u \<noteq> UrlScheme_manifest
          then Some (''url scheme: '' @ url_scheme_name (mur_scheme u) @ '' ('' @
                     url_scheme_origin getenv u @ '')'')
          else url_scheme_summary getenv ms)"

definition url_resolution_human_lines :: "member_response list \<Rightarrow> string list" where
  "url_resolution_human_lines ms =
     List.map_filter (\<lambda>m.
       (case mr_url_resolution m of
          None \<Rightarrow> None
        | Some u \<Rightarrow>
            if mur_derived u
            then Some (mr_member_path m @ '': '' @ mur_manifest_url u @ '' -> '' @ mur_effective_url u)
            else None)) ms"

subsection \<open>Transport observations\<close>

definition yes_no :: "bool \<Rightarrow> string" where
  "yes_no b = (if b then ''true'' else ''false'')"

definition transport_human_line :: "transport_observation \<Rightarrow> string option" where
  "transport_human_line row =
     (if tob_credential_method row = TransportCredentialMethod_unknown \<and> \<not> tob_credential_offered row
      then None
      else Some
        (tob_repository_path row @ '' '' @ tob_remote row @ '': credential='' @
         transport_credential_method_name (tob_credential_method row) @ '' source='' @
         transport_selection_source_name (tob_selection_source row) @ '' offered='' @
         yes_no (tob_credential_offered row) @ '' authenticated='' @
         (case tob_authenticated row of None \<Rightarrow> ''unknown'' | Some b \<Rightarrow> if b then ''yes'' else ''no'') @
         (case tob_public_key_fingerprint row of None \<Rightarrow> [] | Some f \<Rightarrow> '' fingerprint='' @ f)))"

definition transport_human_lines :: "transport_observation list \<Rightarrow> string list" where
  "transport_human_lines rows = List.map_filter transport_human_line rows"

end
