(* ===== verification/RenderStatus.thy ===== *)
theory RenderStatus
  imports RenderCommon "HOL-Library.Multiset"
begin

section \<open>The status report\<close>

text \<open>
  \<^verbatim>\<open>src/gwz/cli_render_parts/status.py\<close>: the porcelain form, and the human report with its parts in
  order: the branch summary, the file changes by section, the members without a checkout, the
  comparison with the lock, the issues, and the counts where the file detail was left out. Every
  part appends to the lines so far.
\<close>

subsection \<open>Changes\<close>

definition format_status_pair :: "string \<Rightarrow> string \<Rightarrow> string" where
  "format_status_pair index_status worktree_status =
     (if index_status = '' '' \<and> worktree_status = ''?'' then ''??''
      else index_status @ worktree_status)"

definition porcelain_change :: "string \<Rightarrow> string \<Rightarrow> string \<Rightarrow> string" where
  "porcelain_change index_status worktree_status path =
     format_status_pair index_status worktree_status @ '' '' @ path"

definition render_status_porcelain :: "workspace_git_status \<Rightarrow> string" where
  "render_status_porcelain ws =
     report
       (map (\<lambda>c. porcelain_change (wrf_index_status c) (wrf_worktree_status c) (wrf_workspace_path c))
          (wgs_root_file_changes ws) @
        map (\<lambda>c. porcelain_change (gfc_index_status c) (gfc_worktree_status c) (gfc_workspace_path c))
          (wgs_file_changes ws))"

type_synonym change = "string \<times> string \<times> string"

definition human_change :: "string \<Rightarrow> string \<Rightarrow> string \<Rightarrow> change" where
  "human_change index_status worktree_status path =
     (if index_status = '' '' \<and> worktree_status = ''?'' then ''untracked''
      else if index_status \<noteq> '' '' then ''staged'' else ''unstaged'',
      format_status_pair index_status worktree_status, path)"

definition root_human_changes :: "workspace_git_status \<Rightarrow> change list" where
  "root_human_changes ws =
     map (\<lambda>c. human_change (wrf_index_status c) (wrf_worktree_status c) (wrf_workspace_path c))
       (wgs_root_file_changes ws)"

definition member_human_changes :: "workspace_git_status \<Rightarrow> change list" where
  "member_human_changes ws =
     map (\<lambda>c. human_change (gfc_index_status c) (gfc_worktree_status c) (gfc_workspace_path c))
       (wgs_file_changes ws)"

definition change_row :: "change \<Rightarrow> string" where
  "change_row c = (case c of (section, status, path) \<Rightarrow> ''  '' @ status @ '' '' @ path)"

definition append_change_section ::
    "string list \<Rightarrow> change list \<Rightarrow> string \<Rightarrow> string \<Rightarrow> string list" where
  "append_change_section rows changes section header =
     (let selected = filter (\<lambda>c. fst c = section) changes
      in if selected = [] then rows else push_blank rows @ [header] @ map change_row selected)"

definition append_change_sections :: "string list \<Rightarrow> change list \<Rightarrow> string list" where
  "append_change_sections rows changes =
     append_change_section
       (append_change_section
         (append_change_section rows changes ''staged'' ''Changes to be committed:'')
         changes ''unstaged'' ''Changes not staged for commit:'')
       changes ''untracked'' ''Untracked files:''"

subsection \<open>Branches\<close>

definition root_branch_label :: "workspace_root_git_status \<Rightarrow> string option" where
  "root_branch_label root =
     (case wrs_branch root of
        Some b \<Rightarrow> Some b
      | None \<Rightarrow>
          if wrs_detached root
          then Some (if truthy (wrs_head root)
                     then ''detached@'' @ utake 12 (or_else (wrs_head root) []) else ''detached'')
          else if wrs_unborn root then Some ''unborn'' else None)"

text \<open>The group of the label, moved to the front with the path added, or a new group in front.\<close>

definition add_branch_group_path ::
    "(string \<times> string list) list \<Rightarrow> string \<Rightarrow> string \<Rightarrow> (string \<times> string list) list" where
  "add_branch_group_path groups label path =
     (case find (\<lambda>g. fst g = label) groups of
        Some g \<Rightarrow> (label, path # snd g) # remove1 g groups
      | None \<Rightarrow> (label, [path]) # groups)"

definition branch_group_phrase :: "string \<Rightarrow> string" where
  "branch_group_phrase label =
     (if label = ''unborn'' then ''have no commits yet''
      else if label = ''detached'' then ''HEAD detached''
      else if starts_with ''detached@'' label then ''detached at '' @ remove_prefix ''detached@'' label
      else ''on branch '' @ label)"

definition branch_group_sentence :: "string \<Rightarrow> string" where
  "branch_group_sentence label =
     (case branch_group_phrase label of [] \<Rightarrow> [] | c # s \<Rightarrow> upper_char c # s)"

definition branch_group_row :: "string \<times> string list \<Rightarrow> string" where
  "branch_group_row g = join '', '' (snd g) @ '' '' @ branch_group_phrase (fst g)"

definition branch_groups_part :: "(string \<times> string list) list \<Rightarrow> string list" where
  "branch_groups_part groups =
     (case groups of
        [] \<Rightarrow> [''Workspace status'']
      | [g] \<Rightarrow> [branch_group_sentence (fst g)]
      | _ \<Rightarrow> map branch_group_row groups)"

definition append_branch_summary :: "string list \<Rightarrow> workspace_git_status \<Rightarrow> string list" where
  "append_branch_summary rows ws =
     (let groups = map (\<lambda>g. (gbg_label g, gbg_member_paths g)) (wgs_branch_groups ws)
      in case wgs_root_status ws of
           None \<Rightarrow> rows @ branch_groups_part groups
         | Some root \<Rightarrow>
             rows @
             branch_groups_part
               (case root_branch_label root of
                  None \<Rightarrow> groups | Some label \<Rightarrow> add_branch_group_path groups label ''.'') @
             (if wrs_unborn root then [''No commits yet''] else []))"

subsection \<open>Members\<close>

definition unmaterialized :: "member_response \<Rightarrow> bool" where
  "unmaterialized m \<longleftrightarrow> (case mr_state m of None \<Rightarrow> False | Some s \<Rightarrow> \<not> rms_materialized s)"

definition append_unmaterialized_notice :: "string list \<Rightarrow> member_response list \<Rightarrow> string list" where
  "append_unmaterialized_notice rows members =
     (let missing = filter unmaterialized members
      in if missing = [] then rows
         else push_blank rows @
           [''Members not materialized (run `gwz materialize --lock` to complete the clone):''] @
           map (\<lambda>m. ''  '' @ mr_member_path m) missing)"

fun lock_difference_label :: "lock_difference_reason \<Rightarrow> string" where
  "lock_difference_label LockDifferenceReason_dirty_worktree =
     ''uncommitted work differs from the locked commit''"
| "lock_difference_label LockDifferenceReason_commit = ''commit differs''"
| "lock_difference_label LockDifferenceReason_branch = ''branch differs''"
| "lock_difference_label LockDifferenceReason_attachment = ''attachment differs''"
| "lock_difference_label LockDifferenceReason_missing_lock_entry = ''lock entry is missing''"
| "lock_difference_label LockDifferenceReason_unavailable_observations = ''live state was not observed''"

definition lock_reasons :: "member_response \<Rightarrow> lock_difference_reason list" where
  "lock_reasons m = (case mr_lock_difference_reasons m of None \<Rightarrow> [] | Some rs \<Rightarrow> rs)"

definition append_lock_difference_reasons :: "string list \<Rightarrow> member_response list \<Rightarrow> string list" where
  "append_lock_difference_reasons rows members =
     (let differing = filter (\<lambda>m. lock_reasons m \<noteq> []) members
      in if differing = [] then rows
         else push_blank rows @ [''Lock comparison:''] @
           map (\<lambda>m. ''  '' @ mr_member_path m @ '': '' @
                     join ''; '' (map lock_difference_label (lock_reasons m))) differing)"

definition member_issue :: "member_response \<Rightarrow> string option" where
  "member_issue m =
     (if unmaterialized m then None
      else if mr_status m \<noteq> MemberStatus_ok \<or> mr_error m \<noteq> None
      then Some (mr_member_path m @ '': '' @ label_of_name (member_status_name (mr_status m)) @
                 (case mr_error m of None \<Rightarrow> [] | Some e \<Rightarrow> '' '' @ error_line e))
      else None)"

definition status_issues :: "response_envelope option \<Rightarrow> string list" where
  "status_issues env =
     (case env of None \<Rightarrow> [] | Some e \<Rightarrow> List.map_filter member_issue (env_members e)) @
     map error_line (errors_not_on_members env)"

definition append_status_issues :: "string list \<Rightarrow> response_envelope option \<Rightarrow> string list" where
  "append_status_issues rows env =
     (if status_issues env = [] then rows
      else push_blank rows @ [''Issues:''] @ map (\<lambda>i. ''  '' @ i) (status_issues env))"

definition count_row :: "string \<Rightarrow> int \<Rightarrow> int \<Rightarrow> int \<Rightarrow> string" where
  "count_row label staged unstaged untracked =
     ''  '' @ label @ '': '' @ show_int staged @ '' staged, '' @ show_int unstaged @ '' unstaged, '' @
     show_int untracked @ '' untracked''"

definition suppressed_member_row ::
    "workspace_git_status \<Rightarrow> member_response \<Rightarrow> string option" where
  "suppressed_member_row ws m =
     (if unmaterialized m then None
      else case mr_git_status m of
             None \<Rightarrow> None
           | Some s \<Rightarrow>
               if \<not> gst_dirty s \<or> (\<exists>c\<in>set (wgs_file_changes ws). gfc_member_id c = mr_member_id m) then None
               else Some (count_row (mr_member_path m) (gst_staged s) (gst_unstaged s) (gst_untracked s)))"

definition suppressed_rows :: "workspace_git_status \<Rightarrow> member_response list \<Rightarrow> string list" where
  "suppressed_rows ws members =
     (case wgs_root_status ws of
        None \<Rightarrow> []
      | Some root \<Rightarrow>
          if wrs_dirty root \<and> root_human_changes ws = []
          then [count_row ''workspace root'' (wrs_staged root) (wrs_unstaged root) (wrs_untracked root)]
          else []) @
     List.map_filter (suppressed_member_row ws) members"

definition append_suppressed_dirty_summary ::
    "string list \<Rightarrow> workspace_git_status \<Rightarrow> member_response list \<Rightarrow> string list" where
  "append_suppressed_dirty_summary rows ws members =
     (if suppressed_rows ws members = [] then rows
      else push_blank rows @
        [''Uncommitted changes (file detail omitted; re-run without --no-files):''] @
        suppressed_rows ws members)"

subsection \<open>The report\<close>

definition status_rows :: "response_envelope option \<Rightarrow> workspace_git_status \<Rightarrow> string list" where
  "status_rows env ws =
     (let members = (case env of None \<Rightarrow> [] | Some e \<Rightarrow> env_members e);
          rows1 = append_branch_summary [] ws;
          rows2 = append_change_sections rows1 (root_human_changes ws @ member_human_changes ws);
          rows3 = append_unmaterialized_notice rows2 members;
          rows4 = append_lock_difference_reasons rows3 members;
          rows5 = append_status_issues rows4 env
      in append_suppressed_dirty_summary rows5 ws members)"

definition render_status_response :: "response_envelope option \<Rightarrow> workspace_git_status \<Rightarrow> string" where
  "render_status_response env ws =
     (let rows = status_rows env ws
      in report (if rows = [] then [''nothing to commit, working tree clean''] else rows))"

subsection \<open>What the report shows\<close>

lemma push_blank_prefix: "\<exists>b. push_blank rows = rows @ b \<and> set b \<subseteq> {[]}"
  by (auto simp: push_blank_def)

definition section_heads :: "string list" where
  "section_heads =
     [''Changes to be committed:'', ''Changes not staged for commit:'', ''Untracked files:'', []]"

lemma change_row_no_head: "change_row c \<notin> set section_heads"
  by (cases c) (simp add: change_row_def section_heads_def)

definition shown_changes :: "string list \<Rightarrow> string list" where
  "shown_changes rows = filter (\<lambda>l. l \<notin> set section_heads) rows"

lemma shown_changes_rows: "shown_changes (map change_row cs) = map change_row cs"
  by (induction cs) (simp_all add: shown_changes_def change_row_no_head)

lemma shown_changes_append: "shown_changes (xs @ ys) = shown_changes xs @ shown_changes ys"
  by (simp add: shown_changes_def)

lemma shown_changes_head: "h \<in> set section_heads \<Longrightarrow> shown_changes (h # rows) = shown_changes rows"
  by (simp add: shown_changes_def)

lemma append_change_section_shows:
  assumes "header \<in> set section_heads"
  shows "\<exists>b. append_change_section rows changes section header = rows @ b \<and>
    shown_changes b = map change_row (filter (\<lambda>c. fst c = section) changes)"
proof -
  obtain b where b: "push_blank rows = rows @ b" "set b \<subseteq> {[]}" using push_blank_prefix by blast
  then have "shown_changes b = []" by (auto simp: shown_changes_def section_heads_def filter_empty_conv)
  with b(1) assms show ?thesis
    by (auto simp: append_change_section_def Let_def shown_changes_append shown_changes_head
        shown_changes_rows) (simp add: shown_changes_def)
qed

lemma append_change_sections_show:
  "\<exists>b. append_change_sections rows cs = rows @ b \<and>
     shown_changes b = map change_row (filter (\<lambda>c. fst c = ''staged'') cs @
       filter (\<lambda>c. fst c = ''unstaged'') cs @ filter (\<lambda>c. fst c = ''untracked'') cs)"
proof -
  note sec = append_change_section_shows [of _ _ cs]
  have h: "''Changes to be committed:'' \<in> set section_heads"
    "''Changes not staged for commit:'' \<in> set section_heads" "''Untracked files:'' \<in> set section_heads"
    by (simp_all add: section_heads_def)
  obtain b1 where b1: "append_change_section rows cs ''staged'' ''Changes to be committed:'' = rows @ b1"
    "shown_changes b1 = map change_row (filter (\<lambda>c. fst c = ''staged'') cs)"
    using sec [OF h(1)] by blast
  obtain b2 where b2: "append_change_section (rows @ b1) cs ''unstaged'' ''Changes not staged for commit:'' =
      (rows @ b1) @ b2" "shown_changes b2 = map change_row (filter (\<lambda>c. fst c = ''unstaged'') cs)"
    using sec [OF h(2)] by blast
  obtain b3 where b3: "append_change_section ((rows @ b1) @ b2) cs ''untracked'' ''Untracked files:'' =
      ((rows @ b1) @ b2) @ b3" "shown_changes b3 = map change_row (filter (\<lambda>c. fst c = ''untracked'') cs)"
    using sec [OF h(3)] by blast
  show ?thesis
    unfolding append_change_sections_def b1(1) b2(1) b3(1)
    by (intro exI [of _ "b1 @ b2 @ b3"]) (simp add: shown_changes_append b1(2) b2(2) b3(2))
qed

lemma human_change_section: "fst (human_change i w p) \<in> {''staged'', ''unstaged'', ''untracked''}"
  by (simp add: human_change_def)

lemma human_sections:
  "c \<in> set (root_human_changes ws @ member_human_changes ws) \<Longrightarrow>
     fst c \<in> {''staged'', ''unstaged'', ''untracked''}"
  using human_change_section by (fastforce simp: root_human_changes_def member_human_changes_def)

lemma mset_by_section:
  assumes "\<And>c. c \<in> set cs \<Longrightarrow> fst c \<in> {''staged'', ''unstaged'', ''untracked''}"
  shows "mset (filter (\<lambda>c. fst c = ''staged'') cs @ filter (\<lambda>c. fst c = ''unstaged'') cs @
    filter (\<lambda>c. fst c = ''untracked'') cs) = mset cs"
  using assms
proof (induction cs)
  case (Cons c cs)
  have "fst c = ''staged'' \<or> fst c = ''unstaged'' \<or> fst c = ''untracked''"
    using Cons.prems [of c] by simp
  with Cons.IH Cons.prems show ?case by fastforce
qed simp

text \<open>Every later part only appends.\<close>

lemma append_parts:
  "\<exists>b. append_unmaterialized_notice rows ms = rows @ b"
  "\<exists>b. append_lock_difference_reasons rows ms = rows @ b"
  "\<exists>b. append_status_issues rows env = rows @ b"
  "\<exists>b. append_suppressed_dirty_summary rows ws ms = rows @ b"
  using push_blank_prefix [of rows]
  by (auto simp: append_unmaterialized_notice_def append_lock_difference_reasons_def
      append_status_issues_def append_suppressed_dirty_summary_def Let_def)

lemma append_branch_summary_nonempty: "append_branch_summary [] ws \<noteq> []"
  by (auto simp: append_branch_summary_def branch_groups_part_def Let_def
      split: option.splits list.splits)

lemma append_change_sections_prefix: "\<exists>b. append_change_sections rows cs = rows @ b"
  using append_change_sections_show by blast

lemma status_rows_parts:
  "\<exists>b rows d. status_rows env ws =
     append_change_sections (append_branch_summary [] ws) (root_human_changes ws @ member_human_changes ws) @ b \<and>
   status_rows env ws = append_status_issues rows env @ d"
proof -
  let ?ms = "case env of None \<Rightarrow> [] | Some e \<Rightarrow> env_members e"
  let ?r2 = "append_change_sections (append_branch_summary [] ws)
      (root_human_changes ws @ member_human_changes ws)"
  obtain b3 where b3: "append_unmaterialized_notice ?r2 ?ms = ?r2 @ b3" using append_parts(1) by blast
  obtain b4 where b4: "append_lock_difference_reasons (?r2 @ b3) ?ms = (?r2 @ b3) @ b4"
    using append_parts(2) by blast
  let ?r4 = "(?r2 @ b3) @ b4"
  obtain b5 where b5: "append_status_issues ?r4 env = ?r4 @ b5" using append_parts(3) by blast
  obtain b6 where b6: "append_suppressed_dirty_summary (?r4 @ b5) ws ?ms = (?r4 @ b5) @ b6"
    using append_parts(4) by blast
  have s: "status_rows env ws = ?r4 @ b5 @ b6"
    unfolding status_rows_def Let_def b3 b4 b5 b6 by simp
  then have "status_rows env ws = append_status_issues ?r4 env @ b6" unfolding b5 by simp
  with s show ?thesis by (metis append.assoc)
qed


text \<open>
  C22: No error of a status response is lost from the report, with one exception: every error of
  the envelope is printed on some row, unless it is the error of a member that has no checkout.
\<close>

theorem status_shows_every_error:
  "list_all (\<lambda>x. (\<exists>l\<in>set (status_rows (Some e) ws). sublist (error_line x) l) \<or>
     (\<exists>m\<in>set (env_members e). unmaterialized m \<and> mr_error m = Some x)) (env_errors e)"
  unfolding list_all_iff
proof
  fix x
  assume x: "x \<in> set (env_errors e)"
  obtain rows d where parts: "status_rows (Some e) ws = append_status_issues rows (Some e) @ d"
    using status_rows_parts by blast
  have row: "''  '' @ i \<in> set (status_rows (Some e) ws)" if "i \<in> set (status_issues (Some e))" for i
  proof -
    from that have "''  '' @ i \<in> set (append_status_issues rows (Some e))"
      by (auto simp: append_status_issues_def)
    then show ?thesis unfolding parts by simp
  qed
  show "(\<exists>l\<in>set (status_rows (Some e) ws). sublist (error_line x) l) \<or>
     (\<exists>m\<in>set (env_members e). unmaterialized m \<and> mr_error m = Some x)"
  proof (cases "\<exists>m\<in>set (env_members e). mr_error m = Some x")
    case False
    then have "x \<in> set (errors_not_on_members (Some e))"
      using x by (auto simp: errors_not_on_members_def map_filter_def)
    then have "error_line x \<in> set (status_issues (Some e))" by (simp add: status_issues_def)
    moreover have "sublist (error_line x) (''  '' @ error_line x)"
      by (intro suffix_imp_sublist) (auto simp: suffix_def)
    ultimately show ?thesis using row by blast
  next
    case True
    then obtain m where m: "m \<in> set (env_members e)" "mr_error m = Some x" by blast
    show ?thesis
    proof (cases "unmaterialized m")
      case True
      with m show ?thesis by blast
    next
      case False
      let ?i = "mr_member_path m @ '': '' @ label_of_name (member_status_name (mr_status m)) @ '' '' @ error_line x"
      from False m have "member_issue m = Some ?i" by (simp add: member_issue_def)
      with m(1) have "?i \<in> set (status_issues (Some e))"
        by (force simp: status_issues_def map_filter_def)
      moreover have "sublist (error_line x) (''  '' @ ?i)"
        by (intro suffix_imp_sublist) (auto simp: suffix_def)
      ultimately show ?thesis using row by blast
    qed
  qed
qed

text \<open>
  The line for a clean workspace is never printed: the branch summary always comes first.
\<close>

lemma status_clean_line_unreachable: "status_rows env ws \<noteq> []"
proof -
  obtain b c where "status_rows env ws = append_branch_summary [] ws @ b @ c"
    using append_change_sections_prefix status_rows_parts by (metis append.assoc)
  then show ?thesis using append_branch_summary_nonempty by simp
qed

text \<open>The exception is real: such an error is on no row.\<close>

definition sample_absent :: member_response where
  "sample_absent =
     \<lparr>mr_member_id = ''m1'', mr_member_path = ''lib'', mr_source_kind = SourceKind_git,
      mr_status = MemberStatus_failed,
      mr_error = Some \<lparr>ge_code = GwzErrorCode ''permission_denied'', ge_message = ''no access'',
        ge_member_id = Some ''m1'', ge_member_path = Some ''lib'', ge_detail = None,
        ge_target_kind = None, ge_record_context = None\<rparr>,
      mr_planned = None,
      mr_state = Some \<lparr>rms_member_id = ''m1'', rms_path = ''lib'', rms_source_id = ''s1'',
        rms_source_kind = SourceKind_git, rms_commit = None, rms_branch = None, rms_detached = None,
        rms_upstream = None, rms_dirty = None, rms_materialized = False, rms_remotes = []\<rparr>,
      mr_git_status = None, mr_lock_match = None, mr_target_kind = None,
      mr_lock_difference_reasons = None, mr_url_resolution = None\<rparr>"

definition sample_clean :: workspace_git_status where
  "sample_clean =
     \<lparr>wgs_clean = True, wgs_file_changes = [], wgs_branches = [], wgs_branch_groups = [],
      wgs_branch_differences = [], wgs_root_status = None, wgs_root_file_changes = []\<rparr>"

lemma status_hides_absent_member_error:
  "status_rows (Some \<lparr>env_meta = m, env_members = [sample_absent], env_errors = [the (mr_error sample_absent)]\<rparr>)
     sample_clean =
   [''Workspace status'', [],
    ''Members not materialized (run `gwz materialize --lock` to complete the clone):'', ''  lib'']"
  by (simp add: status_rows_def Let_def append_branch_summary_def branch_groups_part_def
      append_change_sections_def append_change_section_def root_human_changes_def
      member_human_changes_def append_unmaterialized_notice_def unmaterialized_def push_blank_def
      append_lock_difference_reasons_def lock_reasons_def append_status_issues_def status_issues_def
      member_issue_def errors_not_on_members_def append_suppressed_dirty_summary_def
      suppressed_rows_def suppressed_member_row_def sample_clean_def sample_absent_def)

end
