(* ===== verification/RenderListings.thy ===== *)
theory RenderListings
  imports RenderCommon "HOL-Library.Multiset" "HOL-Library.Product_Lexorder"
begin

section \<open>Listings: snapshots, tags, members, branches, stashes, fetches\<close>

text \<open>
  \<^verbatim>\<open>listings.py\<close> and \<^verbatim>\<open>fetch.py\<close> of \<^verbatim>\<open>src/gwz/cli_render_parts/\<close>.
\<close>

subsection \<open>Snapshots, tags, members\<close>

definition count_members :: "int \<Rightarrow> string" where
  "count_members n = ''('' @ show_int n @ '' member'' @ plural_suffix n @ '')''"

definition render_snapshot_listing :: "snapshot_info list \<Rightarrow> string" where
  "render_snapshot_listing snapshots =
     (if snapshots = [] then ''no snapshots''
      else report
        ((show_nat (length snapshots) @ '' snapshot'' @ plural_suffix (int (length snapshots)) @ '':'') #
         map (\<lambda>s. ''  '' @ si_name s @ [CHR 0x09] @ si_created_at s @ [CHR 0x09] @ si_created_by s @
                   [CHR 0x09] @ count_members (si_members s)) snapshots))"

definition render_tag_listing :: "tag_info list \<Rightarrow> string" where
  "render_tag_listing tags =
     (if tags = [] then ''no tags''
      else report
        ((show_nat (length tags) @ '' tag'' @ plural_suffix (int (length tags)) @ '':'') #
         map (\<lambda>t. ''  '' @ ti_name t @ [CHR 0x09] @ count_members (ti_members t)) tags))"

definition member_row :: "bool \<Rightarrow> member_entry \<Rightarrow> string" where
  "member_row local_paths m =
     (let path = (if local_paths then me_path m else me_abspath m)
      in if truthy (me_note m) then path @ [CHR 0x09] @ ''('' @ or_else (me_note m) [] @ '')'' else path)"

definition render_member_listing :: "member_entry list \<Rightarrow> bool \<Rightarrow> string" where
  "render_member_listing members local_paths = report (map (member_row local_paths) members)"

subsection \<open>Branches\<close>

definition member_short_name :: "string \<Rightarrow> string" where
  "member_short_name path =
     remove_suffix ''.git''
       (last (split_on CHR 0x2F (replace_char CHR 0x5C CHR 0x2F (rstrip_set [CHR 0x2F, CHR 0x5C] path))))"

definition short_name_count :: "branch_repo_summary list \<Rightarrow> string \<Rightarrow> nat" where
  "short_name_count repos short_name =
     length (filter (\<lambda>p. member_short_name p = short_name) (remdups (map brs_member_path repos)))"

definition branch_repo_label :: "branch_repo_summary list \<Rightarrow> branch_repo_summary \<Rightarrow> string" where
  "branch_repo_label repos repo =
     (if short_name_count repos (member_short_name (brs_member_path repo)) > 1
      then brs_member_path repo else member_short_name (brs_member_path repo))"

definition shown_branch :: "branch_repo_summary \<Rightarrow> string" where
  "shown_branch repo = or_else (or_opt (brs_branch repo) (brs_current_branch repo)) ''(detached)''"

definition branch_key :: "branch_repo_summary \<Rightarrow> string \<times> bool" where
  "branch_key repo = (shown_branch repo, brs_current_branch repo = Some (shown_branch repo))"

text \<open>The groups of one branch name, current or not, each with the sorted set of its labels.\<close>

definition branch_groups :: "branch_repo_summary list \<Rightarrow> ((string \<times> bool) \<times> string list) list" where
  "branch_groups repos =
     map (\<lambda>k. (k, sorted_list_of_set (set (map (branch_repo_label repos) (filter (\<lambda>r. branch_key r = k) repos)))))
       (sort_key (\<lambda>(branch, cur). (branch, \<not> cur)) (remdups (map branch_key repos)))"

definition branch_group_line :: "(string \<times> bool) \<times> string list \<Rightarrow> string" where
  "branch_group_line g =
     (if snd (fst g) then ''*'' else []) @ fst (fst g) @ '': '' @ spaced (snd g)"

definition branch_listing_lines :: "branch_repo_summary list \<Rightarrow> string list" where
  "branch_listing_lines repos =
     (if repos = [] then [''no branches''] else map branch_group_line (branch_groups repos))"

definition render_branch_listing_response :: "response_envelope option \<Rightarrow> branch_repo_summary list \<Rightarrow> string" where
  "render_branch_listing_response env repos =
     (let rows = branch_listing_lines repos;
          ok = (case env of None \<Rightarrow> False
                | Some e \<Rightarrow> rsm_aggregate_status (env_meta e) = AggregateStatus_ok)
      in report (append_errors ((if ok then [] else [status_line env]) @ rows) env))"

definition branch_row :: "member_response list \<Rightarrow> branch_repo_summary \<Rightarrow> string" where
  "branch_row members repo =
     brs_member_id repo @ '' '' @ brs_member_path repo @ '' '' @
     label_of_name (branch_action_result_name (brs_result repo)) @ '' '' @ shown_branch repo @
     (case brs_head repo of None \<Rightarrow> [] | Some h \<Rightarrow> '' '' @ h) @
     (case brs_source_ref repo of None \<Rightarrow> [] | Some s \<Rightarrow> '' from '' @ s) @
     (case brs_resulting_commit repo of None \<Rightarrow> [] | Some c \<Rightarrow> '' -> '' @ c) @
     (if brs_conflict_paths repo = [] then [] else '' conflicts: '' @ join '','' (brs_conflict_paths repo)) @
     (if \<exists>m\<in>set members. mr_member_id m = brs_member_id repo \<and>
           (case mr_state m of None \<Rightarrow> False | Some s \<Rightarrow> rms_dirty s = Some True)
      then '' dirty'' else [])"

definition render_branch_response :: "response_envelope \<Rightarrow> branch_repo_summary list \<Rightarrow> string" where
  "render_branch_response env repos =
     (if list_all (\<lambda>r. brs_result r = BranchActionResult_listed) repos
      then render_branch_listing_response (Some env) repos
      else report (append_errors
             (status_line (Some env) # map (branch_row (env_members env)) repos) (Some env)))"

subsection \<open>Stashes\<close>

definition render_stash_response :: "response_envelope \<Rightarrow> stash_bundle list \<Rightarrow> string" where
  "render_stash_response env bundles =
     report (append_errors
       ([status_line (Some env)] @
        map (\<lambda>b. sb_stash_id b @ '' '' @ sb_created_at b @ '' '' @ count_members (int (length (sb_members b))))
          bundles @
        map (\<lambda>m. mr_member_id m @ '' '' @ mr_member_path m @ '' '' @
                  label_of_name (member_status_name (mr_status m))) (env_members env)) (Some env))"

subsection \<open>Fetches\<close>

definition short_commit :: "string \<Rightarrow> string" where
  "short_commit commit = utake 7 commit"

definition movement :: "fetch_repo_summary \<Rightarrow> string" where
  "movement r =
     (case frs_result r of
        FetchResult_updated \<Rightarrow>
          if truthy (frs_before r) \<and> truthy (frs_after r)
          then short_commit (or_else (frs_before r) []) @ ''..'' @ short_commit (or_else (frs_after r) [])
          else if truthy (frs_after r) then ''new '' @ short_commit (or_else (frs_after r) [])
          else ''updated''
      | FetchResult_unchanged \<Rightarrow> ''no change''
      | FetchResult_no_upstream \<Rightarrow> ''no upstream''
      | FetchResult_planned \<Rightarrow>
          if truthy (frs_remote r) then ''would contact '' @ or_else (frs_remote r) [] else ''would contact''
      | FetchResult_failed \<Rightarrow> ''failed'')"

definition widest :: "string list \<Rightarrow> nat" where
  "widest cells = fold max (map ulen cells) 0"

text \<open>The last error entered for a member, as a dictionary keeps it.\<close>

definition member_error :: "member_response list \<Rightarrow> string \<Rightarrow> gwz_error option" where
  "member_error members mid =
     map_of (rev (List.map_filter (\<lambda>m. map_option (\<lambda>e. (mr_member_id m, e)) (mr_error m)) members)) mid"

definition fetch_row_text ::
    "member_response list \<Rightarrow> fetch_repo_summary list \<Rightarrow> fetch_repo_summary \<Rightarrow> string" where
  "fetch_row_text members repos r =
     ljust (widest (map frs_member_id repos)) (frs_member_id r) @ ''  '' @
     ljust (widest (map frs_member_path repos)) (frs_member_path r) @ ''  '' @
     ljust (widest (map movement repos)) (movement r) @
     (case (frs_upstream r, frs_ahead r, frs_behind r) of
        (Some upstream, Some ahead, Some behind) \<Rightarrow>
          ''  ('' @ remove_prefix ''refs/remotes/'' upstream @ '', +'' @ show_int ahead @ '' -'' @
          show_int behind @ '')''
      | _ \<Rightarrow> []) @
     (if frs_result r = FetchResult_failed
      then (case member_error members (frs_member_id r) of None \<Rightarrow> [] | Some e \<Rightarrow> ''  '' @ error_line e)
      else [])"

definition fetch_row ::
    "member_response list \<Rightarrow> fetch_repo_summary list \<Rightarrow> fetch_repo_summary \<Rightarrow> string" where
  "fetch_row members repos r = rstrip (fetch_row_text members repos r)"

definition render_fetch_response :: "response_envelope \<Rightarrow> fetch_repo_summary list \<Rightarrow> string" where
  "render_fetch_response env repos =
     report (append_errors
       (status_line (Some env) # map (fetch_row (env_members env) repos) repos) (Some env))"

end
