(* ===== verification/RenderMerge.thy ===== *)
theory RenderMerge
  imports RenderCommon Json
begin

section \<open>The merge report\<close>

text \<open>
  \<^verbatim>\<open>merge.py\<close> and the merge and event part of \<^verbatim>\<open>machine.py\<close>, both under
  \<^verbatim>\<open>src/gwz/cli_render_parts/\<close>: the human report of a coordinated merge, and its JSON form with the
  one of an error and of an operation event. The generic conversion of a protocol value to JSON
  (\<open>dataclasses.asdict\<close> with the names of enum members, and \<open>protocol_json\<close>) reads the fields of a
  generated class by reflection; it is a parameter where the code uses it.
\<close>

subsection \<open>The human report\<close>

definition dashed :: "string \<Rightarrow> string" where
  "dashed name = replace_char CHR ''_'' CHR ''-'' name"

definition count_part :: "string \<Rightarrow> int \<Rightarrow> string option" where
  "count_part label n = (if n = 0 then None else Some (label @ '' '' @ show_int n))"

definition merge_participant_counts_line :: "merge_participant_counts \<Rightarrow> string" where
  "merge_participant_counts_line c =
     (let details = join ''; '' (List.map_filter (\<lambda>x. x)
            [count_part ''planned'' (mpc_planned c), count_part ''up-to-date'' (mpc_up_to_date c),
             count_part ''fast-forwarded'' (mpc_fast_forwarded c), count_part ''merged'' (mpc_merged c),
             count_part ''conflicted'' (mpc_conflicted c), count_part ''failed'' (mpc_failed c),
             count_part ''unattempted'' (mpc_unattempted c), count_part ''continued'' (mpc_continued c),
             count_part ''aborted'' (mpc_aborted c), count_part ''rolled-back'' (mpc_rolled_back c)])
      in ''participants: total '' @ show_int (mpc_total c) @
         (if details = [] then [] else ''; '' @ details))"

definition merge_eligibility_label :: "bool option \<Rightarrow> string" where
  "merge_eligibility_label v =
     (case v of None \<Rightarrow> ''unknown'' | Some b \<Rightarrow> if b then ''eligible'' else ''blocked'')"

definition record_rows :: "merge_record_projection \<Rightarrow> string list" where
  "record_rows p =
     [''record: '' @ dashed (merge_record_version_name (mrp_source_version p)) @ '' ('' @
        (if mrp_archived p then ''archived'' else ''open'') @ '')''] @
     (case mrp_terminal_outcome p of
        None \<Rightarrow> []
      | Some x \<Rightarrow> [''terminal outcome: '' @ dashed (merge_terminal_outcome_name x)]) @
     (case mrp_acceptance p of
        None \<Rightarrow> []
      | Some x \<Rightarrow>
          [''acceptance: '' @ dashed (merge_acceptance_kind_name (macc_kind x))] @
          (if macc_missing_gaps x = [] then []
           else [''acceptance gaps: '' @
                 join '', '' (map (\<lambda>y. dashed (merge_legacy_acceptance_gap_name y)) (macc_missing_gaps x))])) @
     (case mrp_recovery p of
        None \<Rightarrow> []
      | Some x \<Rightarrow>
          [''record recovery: '' @ dashed (merge_compatibility_base_phase_name (mrv_base_phase x)) @
           '' from '' @ dashed (merge_recovery_origin_state_name (mrv_origin_state x)) @ ''; resume '' @
           dashed (merge_compatibility_next_action_name (mrv_resume_action x))])"

definition recovery_commands :: "string list" where
  "recovery_commands =
     [''recovery commands:'',
      ''  inspect:  gwz-py merge --status'',
      ''  continue: gwz-py merge --continue'',
      ''  abort:    gwz-py merge --abort'',
      ''  preserve: gwz-py merge --abort --preserve'']"

definition preservation_rows :: "merge_preservation \<Rightarrow> string list" where
  "preservation_rows p =
     [''  '' @ mpv_path p @ '' ('' @ mpv_target_id p @ '')''] @
     (case (mpv_backup_ref p, mpv_backup_commit p) of
        (Some r, Some c) \<Rightarrow> [''    backup ref: '' @ r @ '' @ '' @ c]
      | _ \<Rightarrow> []) @
     (case (mpv_stash_id p, mpv_stash_object_id p) of
        (Some i, Some obj) \<Rightarrow> [''    stash: '' @ i @ '' @ '' @ obj]
      | _ \<Rightarrow> [])"

fun prediction_label :: "merge_analysis_kind \<Rightarrow> string" where
  "prediction_label MergeAnalysisKind_up_to_date = ''up-to-date''"
| "prediction_label MergeAnalysisKind_fast_forward = ''fast-forward''"
| "prediction_label MergeAnalysisKind_true_merge = ''merge commit''"
| "prediction_label MergeAnalysisKind_unknown = ''unknown''"

definition participant_rows :: "merge_repo_summary \<Rightarrow> string list" where
  "participant_rows r =
     [''  '' @ mrs_path r @ '' ('' @ mrs_target_id r @ '')  '' @
        dashed (merge_participant_state_name (mrs_state r)) @
        (case mrs_predicted r of
           None \<Rightarrow> []
         | Some p \<Rightarrow> if mrs_state r = MergeParticipantState_planned
                    then '' ('' @ prediction_label p @ '')'' else [])] @
     (if mrs_state r = MergeParticipantState_up_to_date then [''    no changes transferred''] else []) @
     [''    source: '' @ mrs_source_ref r @ '' @ '' @ mrs_source_commit r,
      ''    recorded: branch '' @ mrs_target_branch r @ ''; before '' @ mrs_before_commit r @
        ''; result '' @ or_else (mrs_resulting_commit r) ''-'',
      ''    live: commit '' @ or_else (mrs_live_commit r) ''unknown'',
      ''    recovery: continue '' @ merge_eligibility_label (mrs_continue_eligible r) @ ''; abort '' @
        merge_eligibility_label (mrs_abort_eligible r)] @
     (case mrs_pending_action r of
        None \<Rightarrow> []
      | Some a \<Rightarrow>
          [''    pending action: '' @ dashed (merge_pending_action_kind_name (mpa_kind a)) @ '' ('' @
           dashed (merge_pending_action_state_name (mpa_state a)) @ '')'' @
           (if truthy (mpa_message a) then '': '' @ or_else (mpa_message a) [] else [])]) @
     (if mrs_conflict_paths r = [] then []
      else [''    conflicts: '' @ join '', '' (mrs_conflict_paths r)]) @
     map (\<lambda>d. ''    drift: '' @ dashed (merge_participant_drift_kind_name (mpd_kind d)) @ '': '' @
               mpd_message d) (mrs_drift r) @
     (case mrs_error r of None \<Rightarrow> [] | Some e \<Rightarrow> [''    error: '' @ error_line e])"

definition merge_head :: "merge_response \<Rightarrow> string list" where
  "merge_head r =
     [''action: merge'', status_line (Some (mresp_response r)),
      ''state: '' @ dashed (merge_operation_state_name (mresp_state r))]"

definition merge_rows :: "merge_response \<Rightarrow> string list" where
  "merge_rows r =
     merge_head r @
     [''merge: '' @ or_else (mresp_merge_id r) ''unknown'' @ '' ('' @
        (if mresp_open r then ''open'' else ''closed'') @ '')''] @
     (case mresp_record r of None \<Rightarrow> [] | Some p \<Rightarrow> record_rows p) @
     [merge_participant_counts_line (mresp_participant_counts r)] @
     (case mresp_publication_step r of
        None \<Rightarrow> []
      | Some s \<Rightarrow> [''publication: '' @ dashed (merge_publication_step_name s)]) @
     (if mresp_open r then recovery_commands else []) @
     (case mresp_preservation r of
        Some (p # ps) \<Rightarrow>
          [''remaining preservation artifacts:''] @ concat (map preservation_rows (p # ps))
      | _ \<Rightarrow> []) @
     (if mresp_operation_drift r = [] then []
      else [''operation drift:''] @
        map (\<lambda>d. ''  '' @ dashed (merge_operation_drift_kind_name (mopd_kind d)) @ '': '' @ mopd_message d)
          (mresp_operation_drift r)) @
     (if mresp_repos r = [] then [] else [''participants:'']) @
     concat (map participant_rows (mresp_repos r))"

definition render_merge_response :: "merge_response \<Rightarrow> string" where
  "render_merge_response r =
     (if mresp_state r = MergeOperationState_idle
      then report (merge_head r @ [''No coordinated merge is open.''])
      else report (append_errors (merge_rows r) (Some (mresp_response r))))"

subsection \<open>The machine form\<close>

text \<open>
  The conversions by reflection: \<open>protocol_json\<close> of a value, \<open>json_default\<close> of a dataclass, and
  \<open>str\<close> of a response. \<open>rf_crossed\<close> is what a renderer that was chosen by the action in the
  metadata makes of a response of another class, whose attributes it reads by duck typing.
\<close>

record reflection =
  rf_member :: "member_response \<Rightarrow> json"
  rf_error :: "gwz_error \<Rightarrow> json"
  rf_attribution :: "operation_attribution \<Rightarrow> json"
  rf_progress :: "git_transfer_progress \<Rightarrow> json"
  rf_merge_record :: "merge_record_projection \<Rightarrow> json"
  rf_member_plain :: "member_response \<Rightarrow> json"
  rf_response_plain :: "response \<Rightarrow> json"
  rf_meta_plain :: "response_meta \<Rightarrow> json"
  rf_response_repr :: "response \<Rightarrow> string"
  rf_crossed :: "response \<Rightarrow> exn + string"

definition jlabel :: "string \<Rightarrow> json" where
  "jlabel name = JStr (label_of_name name)"

definition record_context_json :: "merge_record_compatibility_context option \<Rightarrow> json" where
  "record_context_json c =
     jopt (\<lambda>c. JObj
       [(''merge_id'', JStr (mrc_merge_id c)), (''schema'', jopt JStr (mrc_schema c)),
        (''record_schema_version'', jopt JInt (mrc_record_schema_version c)),
        (''required_wave'', jopt (\<lambda>w. jlabel (merge_record_required_wave_name w)) (mrc_required_wave c)),
        (''legacy_mode'', jopt JStr (mrc_legacy_mode c))]) c"

definition merge_error_json :: "gwz_error \<Rightarrow> json" where
  "merge_error_json e =
     JObj [(''message'', JStr (ge_message e)), (''member_id'', jopt JStr (ge_member_id e)),
           (''member_path'', jopt JStr (ge_member_path e)), (''detail'', jopt JStr (ge_detail e)),
           (''code'', jlabel (gwz_error_code_name (ge_code e))),
           (''target_kind'', jopt (\<lambda>k. jlabel (target_kind_name k)) (ge_target_kind e)),
           (''record_context'', record_context_json (ge_record_context e))]"

definition merge_preservation_json :: "merge_preservation \<Rightarrow> json" where
  "merge_preservation_json p =
     JObj [(''target_id'', JStr (mpv_target_id p)), (''path'', JStr (mpv_path p)),
           (''backup_ref'', jopt JStr (mpv_backup_ref p)),
           (''backup_commit'', jopt JStr (mpv_backup_commit p)),
           (''stash_id'', jopt JStr (mpv_stash_id p)),
           (''stash_object_id'', jopt JStr (mpv_stash_object_id p))]"

definition merge_participant_drift_json :: "merge_participant_drift \<Rightarrow> json" where
  "merge_participant_drift_json d =
     JObj [(''kind'', jlabel (merge_participant_drift_kind_name (mpd_kind d))),
           (''message'', JStr (mpd_message d)), (''expected_branch'', jopt JStr (mpd_expected_branch d)),
           (''live_branch'', jopt JStr (mpd_live_branch d)),
           (''expected_head'', jopt JStr (mpd_expected_head d)),
           (''live_head'', jopt JStr (mpd_live_head d)),
           (''expected_merge_head'', jopt JStr (mpd_expected_merge_head d)),
           (''live_merge_head'', jopt JStr (mpd_live_merge_head d))]"

definition pending_action_json :: "merge_pending_action_summary \<Rightarrow> json" where
  "pending_action_json a =
     JObj [(''kind'', jlabel (merge_pending_action_kind_name (mpa_kind a))),
           (''state'', jlabel (merge_pending_action_state_name (mpa_state a))),
           (''message'', jopt JStr (mpa_message a))]"

definition merge_repo_json :: "merge_repo_summary \<Rightarrow> json" where
  "merge_repo_json r =
     JObj [(''target_id'', JStr (mrs_target_id r)), (''path'', JStr (mrs_path r)),
           (''source_ref'', JStr (mrs_source_ref r)), (''source_commit'', JStr (mrs_source_commit r)),
           (''target_branch'', JStr (mrs_target_branch r)),
           (''before_commit'', JStr (mrs_before_commit r)),
           (''resulting_commit'', jopt JStr (mrs_resulting_commit r)),
           (''live_commit'', jopt JStr (mrs_live_commit r)),
           (''prediction_complete'', jopt JBool (mrs_prediction_complete r)),
           (''conflict_paths'', JList (map JStr (mrs_conflict_paths r))),
           (''continue_eligible'', jopt JBool (mrs_continue_eligible r)),
           (''abort_eligible'', jopt JBool (mrs_abort_eligible r)),
           (''target_kind'', jlabel (target_kind_name (mrs_target_kind r))),
           (''state'', jlabel (merge_participant_state_name (mrs_state r))),
           (''predicted'', jopt (\<lambda>p. jlabel (merge_analysis_kind_name p)) (mrs_predicted r)),
           (''drift'', JList (map merge_participant_drift_json (mrs_drift r))),
           (''error'', jopt merge_error_json (mrs_error r)),
           (''pending_action'', jopt pending_action_json (mrs_pending_action r))]"

definition merge_crash_recovery_json :: "merge_crash_recovery \<Rightarrow> json" where
  "merge_crash_recovery_json c =
     JObj [(''supported'', JBool (mcr_supported c)), (''filesystem'', jopt JStr (mcr_filesystem c)),
           (''gap'', jopt (\<lambda>x. jlabel (merge_crash_recovery_gap_name x)) (mcr_gap c)),
           (''handles_ok'', jopt JBool (mcr_handles_ok c))]"

definition participant_counts_json :: "merge_participant_counts \<Rightarrow> json" where
  "participant_counts_json c =
     JObj [(''total'', JInt (mpc_total c)), (''planned'', JInt (mpc_planned c)),
           (''up_to_date'', JInt (mpc_up_to_date c)),
           (''fast_forwarded'', JInt (mpc_fast_forwarded c)), (''merged'', JInt (mpc_merged c)),
           (''conflicted'', JInt (mpc_conflicted c)), (''failed'', JInt (mpc_failed c)),
           (''unattempted'', JInt (mpc_unattempted c)), (''continued'', JInt (mpc_continued c)),
           (''aborted'', JInt (mpc_aborted c)), (''rolled_back'', JInt (mpc_rolled_back c))]"

definition merge_json :: "reflection \<Rightarrow> merge_response \<Rightarrow> json" where
  "merge_json rf r =
     JObj ([(''merge_id'', jopt JStr (mresp_merge_id r)),
            (''state'', jlabel (merge_operation_state_name (mresp_state r))),
            (''open'', JBool (mresp_open r)),
            (''participant_counts'', participant_counts_json (mresp_participant_counts r)),
            (''repos'', JList (map merge_repo_json (mresp_repos r))),
            (''operation_drift'',
             JList (map (\<lambda>d. JObj [(''kind'', jlabel (merge_operation_drift_kind_name (mopd_kind d))),
                                  (''message'', JStr (mopd_message d))]) (mresp_operation_drift r))),
            (''preservation'', jopt (\<lambda>ps. JList (map merge_preservation_json ps)) (mresp_preservation r)),
            (''publication_step'',
             jopt (\<lambda>s. jlabel (merge_publication_step_name s)) (mresp_publication_step r)),
            (''record'', jopt (rf_merge_record rf) (mresp_record r))] @
           (case mresp_crash_recovery r of
              None \<Rightarrow> [] | Some c \<Rightarrow> [(''crash_recovery'', merge_crash_recovery_json c)]))"

definition merge_response_json :: "reflection \<Rightarrow> merge_response \<Rightarrow> json" where
  "merge_response_json rf r =
     (let env = mresp_response r; m = env_meta env
      in JObj [(''kind'', JStr ''response''),
               (''meta'', JObj
                 [(''request_id'', JStr (rsm_request_id m)),
                  (''schema_version'', JStr (rsm_schema_version m)),
                  (''action'', jlabel (action_kind_name (rsm_action m))),
                  (''aggregate_status'', jlabel (aggregate_status_name (rsm_aggregate_status m))),
                  (''operation_id'', jopt JStr (rsm_operation_id m)),
                  (''message'', jopt JStr (rsm_message m))]),
               (''members'', JList (map (rf_member_plain rf) (env_members env))),
               (''errors'', JList (map merge_error_json (env_errors env))),
               (''workspace_git_status'', JNull), (''branch_repos'', JNull),
               (''merge'', merge_json rf r), (''stash_bundles'', JNull)])"

definition operation_event_json :: "reflection \<Rightarrow> operation_event \<Rightarrow> json" where
  "operation_event_json rf ev =
     JObj [(''kind'', JStr ''event''), (''operation_id'', JStr (ev_operation_id ev)),
           (''request_id'', JStr (ev_request_id ev)), (''sequence'', JInt (ev_sequence ev)),
           (''timestamp_ms'', JInt (ev_timestamp_ms ev)),
           (''event_kind'', jlabel (event_kind_name (ev_kind ev))),
           (''severity'', jlabel (severity_name (ev_severity ev))),
           (''member_id'', jopt JStr (ev_member_id ev)),
           (''member_path'', jopt JStr (ev_member_path ev)), (''message'', jopt JStr (ev_message ev)),
           (''member'', jopt (rf_member rf) (ev_member ev)), (''error'', jopt (rf_error rf) (ev_error ev)),
           (''attribution'', jopt (rf_attribution rf) (ev_attribution ev)),
           (''progress'', jopt (rf_progress rf) (ev_progress ev)),
           (''target_kind'', jopt (\<lambda>k. jlabel (target_kind_name k)) (ev_target_kind ev)),
           (''merge_state'', jopt (\<lambda>s. jlabel (merge_operation_state_name s)) (ev_merge_state ev)),
           (''merge_member'', jopt merge_repo_json (ev_merge_member ev)),
           (''artifact_path'', jopt JStr (ev_artifact_path ev))]"

text \<open>The JSONL line of an event, \<open>json.dumps(operation_event_json(event), sort_keys=True)\<close>.\<close>

definition operation_event_line :: "reflection \<Rightarrow> operation_event \<Rightarrow> string" where
  "operation_event_line rf ev = dumps_default (operation_event_json rf ev)"

subsection \<open>An idle merge shows no errors\<close>

lemma merge_idle_hides_errors:
  "mresp_state r = MergeOperationState_idle \<Longrightarrow>
   render_merge_response r =
     report [''action: merge'', status_line (Some (mresp_response r)), ''state: idle'',
             ''No coordinated merge is open.'']"
  by (simp add: render_merge_response_def merge_head_def dashed_def replace_char_def)

end
