(* ===== verification/RenderResponse.thy ===== *)
theory RenderResponse
  imports CliLocal RenderStatus RenderListings RenderMerge
begin

section \<open>Rendering a response or an error\<close>

text \<open>
  \<^verbatim>\<open>src/gwz/cli_render.py\<close>, which picks the renderer of a response, and
  \<^verbatim>\<open>src/gwz/cli_render_parts/errors.py\<close>. \<open>getenv\<close> is the environment, which the summary of the URL
  scheme reads.
\<close>

subsection \<open>The attributes the choice reads\<close>

fun snapshots_attr :: "response \<Rightarrow> snapshot_info list option" where
  "snapshots_attr (SnapshotsResp r) = list_snapshots_response_snapshots r"
| "snapshots_attr _ = None"

fun tags_attr :: "response \<Rightarrow> tag_info list option" where
  "tags_attr (TagResp r) = tag_response_tags r"
| "tags_attr _ = None"

definition identity_rows :: "remote_identity_response \<Rightarrow> string list" where
  "identity_rows r =
     map (\<lambda>e. rie_member_id e @ [CHR 0x09] @ rie_remote e @ [CHR 0x09] @
              or_else (rie_private_key_path e) ''(unset)'') (remote_identity_response_identities r) @
     concat (map (\<lambda>m.
       (if mr_status m = MemberStatus_planned
        then [mr_member_id m @ '': planned (configuration unchanged)''] else []) @
       (case mr_error m of None \<Rightarrow> [] | Some e \<Rightarrow> [mr_member_id m @ [CHR 0x09] @ ge_message e]))
       (env_members (remote_identity_response_response r)))"

definition ls_listing :: "reflection \<Rightarrow> response \<Rightarrow> bool \<Rightarrow> exn + string" where
  "ls_listing rf r local_paths =
     (case r of
        LsResp l \<Rightarrow>
          Inr (render_member_listing
                 (case ls_response_members l of None \<Rightarrow> [] | Some ms \<Rightarrow> ms) local_paths)
      | _ \<Rightarrow> rf_crossed rf r)"

text \<open>The last resort: the message or the status, and below it what a push has to say.\<close>

definition message_or_status :: "reflection \<Rightarrow> response \<Rightarrow> string" where
  "message_or_status rf r =
     (case meta_of r of
        None \<Rightarrow> rf_response_repr rf r
      | Some m \<Rightarrow> or_else (rsm_message m) (aggregate_status_name (rsm_aggregate_status m)))"

definition plain_report :: "reflection \<Rightarrow> (string \<Rightarrow> string option) \<Rightarrow> response \<Rightarrow> string" where
  "plain_report rf getenv r =
     report ([message_or_status rf r] @ error_human_lines r @
       filter (\<lambda>s. s \<noteq> [])
         (List.map_filter (\<lambda>s. s) [url_scheme_summary getenv (members_of r), unchecked_summary r]))"

definition repos_or_bundles ::
    "reflection \<Rightarrow> (string \<Rightarrow> string option) \<Rightarrow> response \<Rightarrow> exn + string" where
  "repos_or_bundles rf getenv r =
     (case r of
        FetchResp f \<Rightarrow>
          (case fetch_response_repos f of
             None \<Rightarrow> Inr (plain_report rf getenv r)
           | Some repos \<Rightarrow> Inr (render_fetch_response (fetch_response_response f) repos))
      | BranchResp b \<Rightarrow>
          (case branch_response_repos b of
             None \<Rightarrow> Inr (plain_report rf getenv r)
           | Some repos \<Rightarrow>
               if is_response r ''FetchResponse'' ''fetch'' then rf_crossed rf r
               else Inr (render_branch_response (branch_response_response b) repos))
      | StashResp s \<Rightarrow>
          (case stash_response_bundles s of
             None \<Rightarrow> Inr (plain_report rf getenv r)
           | Some bundles \<Rightarrow> Inr (render_stash_response (stash_response_response s) bundles))
      | _ \<Rightarrow> Inr (plain_report rf getenv r))"

definition render_human ::
    "reflection \<Rightarrow> (string \<Rightarrow> string option) \<Rightarrow> bool \<Rightarrow> bool \<Rightarrow> response \<Rightarrow> exn + string" where
  "render_human rf getenv local_paths porcelain r =
     (case r of
        IdentityResp i \<Rightarrow> Inr (report (identity_rows i))
      | _ \<Rightarrow>
     (case snapshots_attr r of
        Some snapshots \<Rightarrow> Inr (render_snapshot_listing snapshots)
      | None \<Rightarrow>
     (case tags_attr r of
        Some tags \<Rightarrow> Inr (render_tag_listing tags)
      | None \<Rightarrow>
     (if is_response r ''LsResponse'' ''ls'' then ls_listing rf r local_paths
      else case workspace_git_status_attr r of
        Some ws \<Rightarrow>
          Inr (if porcelain then render_status_porcelain ws
               else render_status_response (envelope_of r) ws)
      | None \<Rightarrow>
          if is_response r ''MergeResponse'' ''merge''
          then (case r of MergeResp m \<Rightarrow> Inr (render_merge_response m) | _ \<Rightarrow> rf_crossed rf r)
          else repos_or_bundles rf getenv r))))"

definition render_machine :: "reflection \<Rightarrow> response \<Rightarrow> exn + string" where
  "render_machine rf r =
     (if is_response r ''MergeResponse'' ''merge''
      then (case r of
              MergeResp m \<Rightarrow> Inr (dumps_default (merge_response_json rf m))
            | _ \<Rightarrow> Inl (no_attribute ''participant_counts''))
      else Inr (dumps_default (rf_response_plain rf r)))"

text \<open>The lines \<^verbatim>\<open>--verbose\<close> adds, each behind a line break.\<close>

definition verbose_lines :: "response \<Rightarrow> string list" where
  "verbose_lines r =
     url_resolution_human_lines (members_of r) @ noop_reason_human_lines r @
     transport_human_lines
       (case Option.bind (meta_of r) rsm_transport of None \<Rightarrow> [] | Some rows \<Rightarrow> rows)"

definition render_response ::
    "reflection \<Rightarrow> (string \<Rightarrow> string option) \<Rightarrow> bool \<Rightarrow> bool \<Rightarrow> bool \<Rightarrow> bool \<Rightarrow> response \<Rightarrow>
     exn + string" where
  "render_response rf getenv json_mode local_paths porcelain show_transport r =
     bindE (if json_mode then render_machine rf r
            else render_human rf getenv local_paths porcelain r) (\<lambda>rendered.
       if json_mode \<or> porcelain \<or> \<not> show_transport then Inr rendered
       else Inr (rendered @ concat (map (\<lambda>line. CHR 0x0A # line) (verbose_lines r))))"

subsection \<open>Errors\<close>

text \<open>\<open>str(error)\<close>; the text of a \<open>UnicodeEncodeError\<close> is never rendered and is left out.\<close>

fun error_text :: "exn \<Rightarrow> string" where
  "error_text (CliUsageError m c) = m"
| "error_text (GwzBridgeError b) = be_message b"
| "error_text (GwzCoreLoadError b) = be_message b"
| "error_text (GwzProtocolError m) = m"
| "error_text (GwzOperationError e) = oe_message e"
| "error_text (ValueError m) = m"
| "error_text (KeyError k) = py_repr k"
| "error_text (TypeError m) = m"
| "error_text (AttributeError m) = m"
| "error_text (AssertionError m) = m"
| "error_text UnicodeEncodeError = []"
| "error_text (ArgumentTypeError m) = m"
| "error_text (ParserError m) = m"
| "error_text (OSFault e) = os_text e"
| "error_text CancelledError = []"

fun bridge_error_of :: "exn \<Rightarrow> bridge_error option" where
  "bridge_error_of (GwzBridgeError b) = Some b"
| "bridge_error_of (GwzCoreLoadError b) = Some b"
| "bridge_error_of _ = None"

fun response_meta_attr :: "exn \<Rightarrow> response_meta option" where
  "response_meta_attr (GwzOperationError e) = operation_error_response_meta e"
| "response_meta_attr e = Option.bind (bridge_error_of e) be_response_meta"

fun member_errors_attr :: "exn \<Rightarrow> gwz_error list" where
  "member_errors_attr (GwzOperationError e) = oe_member_errors e"
| "member_errors_attr _ = []"

fun code_attr :: "exn \<Rightarrow> string option" where
  "code_attr (CliUsageError m c) = c"
| "code_attr e = Option.bind (bridge_error_of e) be_code"

text \<open>
  The regular expression \<^verbatim>\<open>(?:^|: )([A-Z][A-Za-z0-9]+): (.*)$\<close>: a code and the rest of the line
  behind it, which must be the last line, at the start of the text or behind a colon and a space;
  the leftmost one.
\<close>

definition upper_ascii :: "char \<Rightarrow> bool" where
  "upper_ascii c \<longleftrightarrow> 65 \<le> byte_of c \<and> byte_of c \<le> 90"

definition last_line :: "string \<Rightarrow> string option" where
  "last_line s =
     (let line = takeWhile (\<lambda>c. c \<noteq> CHR 0x0A) s
      in if drop (length line) s \<in> {[], [CHR 0x0A]} then Some line else None)"

definition coded_at :: "string \<Rightarrow> (string \<times> string) option" where
  "coded_at s =
     (case s of
        [] \<Rightarrow> None
      | c # rest \<Rightarrow>
         (let word = takeWhile is_alnum rest; tail = drop (length word) rest
          in if upper_ascii c \<and> word \<noteq> [] \<and> starts_with '': '' tail
             then map_option (Pair (c # word)) (last_line (drop 2 tail)) else None))"

fun coded_behind :: "string \<Rightarrow> (string \<times> string) option" where
  "coded_behind [] = None"
| "coded_behind (c # s) =
     (case if starts_with '': '' (c # s) then coded_at (drop 2 (c # s)) else None of
        Some m \<Rightarrow> Some m
      | None \<Rightarrow> coded_behind s)"

definition coded_message :: "string \<Rightarrow> (string \<times> string) option" where
  "coded_message s = (case coded_at s of Some m \<Rightarrow> Some m | None \<Rightarrow> coded_behind s)"

text \<open>\<open>a or b\<close> where \<open>a\<close> may be None or empty.\<close>

definition attr_or :: "string option \<Rightarrow> string option \<Rightarrow> string option" where
  "attr_or a b = (if truthy a then a else b)"

definition error_target_kind :: "bridge_error option \<Rightarrow> string option" where
  "error_target_kind b =
     (case b of
        None \<Rightarrow> None
      | Some b \<Rightarrow>
         (case be_target_kind b of
            Some k \<Rightarrow> Some k
          | None \<Rightarrow>
             if be_member_id b \<noteq> None \<or> be_member_path b \<noteq> None
             then Some (if be_member_id b = Some ''@root'' \<and> be_member_path b = Some ''.''
                        then ''Root'' else ''Member'')
             else None))"

definition exception_error_code :: "exn \<Rightarrow> string option" where
  "exception_error_code e = attr_or (code_attr e) (map_option fst (coded_message (error_text e)))"

definition exception_error_message :: "exn \<Rightarrow> string" where
  "exception_error_message e =
     (case attr_or (Option.bind (bridge_error_of e) be_machine_message) None of
        Some m \<Rightarrow> m
      | None \<Rightarrow>
         (case coded_message (error_text e) of None \<Rightarrow> error_text e | Some m \<Rightarrow> snd m))"

definition exception_error_json :: "exn \<Rightarrow> json" where
  "exception_error_json e =
     (let b = bridge_error_of e
      in JObj [(''code'', jopt JStr (exception_error_code e)),
               (''message'', JStr (exception_error_message e)),
               (''member_id'', jopt JStr (Option.bind b be_member_id)),
               (''member_path'', jopt JStr (Option.bind b be_member_path)),
               (''target_kind'', jopt jlabel (error_target_kind b)),
               (''detail'', jopt JStr (Option.bind b be_detail)),
               (''record_context'', record_context_json (Option.bind b be_record_context))])"

definition error_document :: "reflection \<Rightarrow> exn \<Rightarrow> json" where
  "error_document rf e =
     JObj [(''kind'', JStr ''response''), (''meta'', jopt (rf_meta_plain rf) (response_meta_attr e)),
           (''members'', JList []),
           (''errors'', JList (if member_errors_attr e \<noteq> [] then map merge_error_json (member_errors_attr e)
                              else [exception_error_json e])),
           (''workspace_git_status'', JNull)]"

definition render_error :: "reflection \<Rightarrow> bool \<Rightarrow> bool \<Rightarrow> exn \<Rightarrow> string" where
  "render_error rf json_mode show_transport e =
     (if json_mode then dumps_default (error_document rf e)
      else report ((''gwz: '' @ error_text e) #
             (if show_transport
              then transport_human_lines
                     (case Option.bind (response_meta_attr e) rsm_transport of
                        None \<Rightarrow> [] | Some rows \<Rightarrow> rows)
              else [])))"

subsection \<open>The code of an error is read back from its text\<close>

definition is_code_word :: "string \<Rightarrow> bool" where
  "is_code_word s \<longleftrightarrow> 2 \<le> length s \<and> upper_ascii (hd s) \<and> list_all is_alnum (tl s)"

lemma takeWhile_split:
  "list_all P xs \<Longrightarrow> ys = [] \<or> \<not> P (hd ys) \<Longrightarrow> takeWhile P (xs @ ys) = xs"
  by (cases ys) (auto simp: list_all_iff takeWhile_tail)

lemma last_line_whole:
  assumes "CHR 0x0A \<notin> set s"
  shows "last_line s = Some s"
proof -
  have "takeWhile (\<lambda>c. c \<noteq> CHR 0x0A) s = s" unfolding takeWhile_eq_all_conv using assms by auto
  then show ?thesis by (simp only: last_line_def Let_def) simp
qed

lemma colon_no_alnum: "\<not> is_alnum CHR '':''" "\<not> upper_ascii CHR '':''"
  by (simp_all add: is_alnum_def is_digit_def upper_ascii_def byte_of_def)

lemma coded_at_code:
  assumes "is_code_word code" and "CHR 0x0A \<notin> set body"
  shows "coded_at (code @ '': '' @ body) = Some (code, body)"
proof -
  obtain c word where code: "code = c # word" using assms(1) by (cases code) (auto simp: is_code_word_def)
  have "takeWhile is_alnum (word @ '': '' @ body) = word"
    using assms(1) by (intro takeWhile_split) (simp_all add: code is_code_word_def colon_no_alnum)
  then show ?thesis
    using assms by (auto simp: code coded_at_def Let_def is_code_word_def starts_with_def last_line_whole)
qed

lemma coded_behind_prefix:
  assumes "CHR '':'' \<notin> set pre"
  shows "coded_behind (pre @ '': '' @ s) =
    (case coded_at s of Some m \<Rightarrow> Some m | None \<Rightarrow> coded_behind ('' '' @ s))"
  using assms by (induction pre) (auto simp: starts_with_def split: option.split)

lemma coded_at_no_code:
  assumes "CHR '':'' \<notin> set pre" and "\<not> is_code_word pre"
  shows "coded_at (pre @ '': '' @ s) = None"
proof (cases pre)
  case Nil
  then show ?thesis by (simp add: coded_at_def colon_no_alnum)
next
  case (Cons c p)
  show ?thesis
  proof (cases "list_all is_alnum p")
    case True
    then have "takeWhile is_alnum (p @ '': '' @ s) = p"
      by (intro takeWhile_split) (simp_all add: colon_no_alnum)
    with assms(2) True show ?thesis
      by (cases p) (simp_all add: Cons coded_at_def is_code_word_def Let_def)
  next
    case False
    define word where "word = takeWhile is_alnum p"
    have split: "p = word @ drop (length word) p"
      unfolding word_def by (metis dropWhile_eq_drop takeWhile_dropWhile_id)
    have rest: "drop (length word) p \<noteq> []"
    proof
      assume "drop (length word) p = []"
      with split have "takeWhile is_alnum p = p" by (simp add: word_def)
      with False show False by (metis list_all_iff set_takeWhileD)
    qed
    then obtain d q where d: "drop (length word) p = d # q" by (cases "drop (length word) p") auto
    with split have p: "p = word @ d # q" by simp
    have stop: "\<not> is_alnum d" using d by (metis hd_dropWhile dropWhile_eq_drop list.discI list.sel(1) word_def)
    have w: "takeWhile is_alnum (p @ '': '' @ s) = word"
      unfolding p using stop by (subst append_assoc, intro takeWhile_split)
        (auto simp: word_def list_all_iff dest: set_takeWhileD)
    have "d \<noteq> CHR '':''" using assms(1) by (auto simp: Cons p)
    then have "\<not> starts_with '': '' (drop (length word) (p @ '': '' @ s))"
      by (simp add: p starts_with_def)
    with w have "coded_at (c # tail) = None" if "tail = p @ '': '' @ s" for tail
      unfolding that [symmetric] by (simp add: coded_at_def)
    then show ?thesis by (simp add: Cons)
  qed
qed

text \<open>
  The machine form of an error recovers the code that core put into its text: for a message that is a
  code word, a colon and a line, or has in front of it a text without colon that is not itself a
  code word, the document names that code and carries the rest of the line as its message.
\<close>

theorem error_code_recovered:
  assumes "is_code_word code" and "CHR 0x0A \<notin> set body"
    and "CHR '':'' \<notin> set pre" and "\<not> is_code_word pre"
    and "msg = code @ '': '' @ body \<or> msg = pre @ '': '' @ code @ '': '' @ body"
  shows "exception_error_code (GwzBridgeError (bridge_fault msg None)) = Some code \<and>
    exception_error_message (GwzBridgeError (bridge_fault msg None)) = body"
proof -
  have "coded_message msg = Some (code, body)"
    using assms(5)
  proof
    assume "msg = code @ '': '' @ body"
    then show ?thesis using coded_at_code [OF assms(1,2)] by (simp add: coded_message_def)
  next
    assume t: "msg = pre @ '': '' @ code @ '': '' @ body"
    show ?thesis
      unfolding t coded_message_def coded_at_no_code [OF assms(3,4)] coded_behind_prefix [OF assms(3)]
        coded_at_code [OF assms(1,2)] by simp
  qed
  then show ?thesis
    by (simp add: exception_error_code_def exception_error_message_def attr_or_def bridge_fault_def truthy_def)
qed

theorem error_code_recovered_witness:
  "exception_error_code (GwzBridgeError (bridge_fault ''native call failed: NotFound: no such ref'' None)) =
     Some ''NotFound''"
proof -
  have "is_code_word ''NotFound''" "\<not> is_code_word ''native call failed''"
    by (simp_all add: is_code_word_def upper_ascii_def is_alnum_def is_digit_def byte_of_def)
  then show ?thesis
    using error_code_recovered [where code = "''NotFound''" and body = "''no such ref''"
        and pre = "''native call failed''"
        and msg = "''native call failed: NotFound: no such ref''"] by simp
qed

end
