(* ===== verification/CliMain.thy ===== *)
theory CliMain
  imports CliCommands CliMerge CliLog CliDiff RenderResponse
begin

section \<open>The entry point\<close>

text \<open>
  \<^verbatim>\<open>src/gwz/cli.py\<close>: the registered commands, \<open>run\<close>, which opens the client, calls the handler,
  closes the client and renders the response, and \<open>main\<close>, which turns an exception into a message
  and an exit code. What a run finds outside is the record \<open>runtime\<close>: the native bridge, the
  construction and the close of it, the output streams, the starting of processes, the caller's
  environment, the conversions by reflection and a fresh reader name. The parsed command line is
  the normalised global options and a value of \<open>command\<close>.
\<close>

subsection \<open>The commands\<close>

datatype command =
    AuthIdentity string "string option" bool
  | StatusCmd status_cli
  | LsCmd bool bool bool
  | InitCmd "string list" string
  | RepoCmd repo_cli
  | DiffCmd diff_cli
  | LogCmd log_cli
  | MaterializeCmd materialize_cli "string option"
  | SnapshotCmd "string option" bool branch_value
  | TagCmd tag_cli
  | CaptureCmd
  | AddCmd "string list" bool
  | CommitCmd string bool bool bool
  | PullCmd "string option"
  | PushCmd bool
  | FetchCmd
  | BranchCmd branch_cli
  | StashCmd stash_cli
  | MergeCmd merge_cli
  | ForallCmd "string list" "string option" bool
  | CloneCmd string "string option" "string option"
  | LocalCmd string local_cli

text \<open>The parsed values \<open>run\<close> itself reads.\<close>

fun repo_sync_path :: "command \<Rightarrow> string option" where
  "repo_sync_path (RepoCmd (RepoSync path private)) = path"
| "repo_sync_path _ = None"

fun url_scheme_attr :: "command \<Rightarrow> string option option" where
  "url_scheme_attr (MaterializeCmd a flag) = Some flag"
| "url_scheme_attr (CloneCmd url directory flag) = Some flag"
| "url_scheme_attr _ = None"

fun local_attr :: "command \<Rightarrow> bool" where
  "local_attr (LsCmd u m local_paths) = local_paths"
| "local_attr _ = False"

fun porcelain_attr :: "command \<Rightarrow> bool" where
  "porcelain_attr (StatusCmd a) = sc_porcelain a"
| "porcelain_attr _ = False"

fun is_status :: "command \<Rightarrow> bool" where
  "is_status (StatusCmd a) = True"
| "is_status _ = False"

fun is_log :: "command \<Rightarrow> bool" where
  "is_log (LogCmd a) = True"
| "is_log _ = False"

text \<open>The first request of a command: the guards of its handler and the client method it calls.\<close>

fun command_action ::
    "client \<Rightarrow> caller_env \<Rightarrow> global_options \<Rightarrow> command \<Rightarrow> meta_kw \<Rightarrow> exn + client_action" where
  "command_action cl env g (AuthIdentity remote path unset) kw = handle_auth cl env remote path unset kw"
| "command_action cl env g (StatusCmd a) kw = handle_status cl env g a kw"
| "command_action cl env g (LsCmd u m l) kw = handle_ls cl env u m kw"
| "command_action cl env g (InitCmd urls path) kw = handle_init cl env g urls path kw"
| "command_action cl env g (RepoCmd a) kw = handle_repo cl env g a kw"
| "command_action cl env g (DiffCmd a) kw = bindE (diff_cli_request cl env a kw) (\<lambda>(f, act). Inr act)"
| "command_action cl env g (LogCmd a) kw = log_cli_request cl env g a kw"
| "command_action cl env g (MaterializeCmd a s) kw = handle_materialize cl env a kw"
| "command_action cl env g (SnapshotCmd name l b) kw = handle_snapshot cl env name l b kw"
| "command_action cl env g (TagCmd a) kw = handle_tag cl env a kw"
| "command_action cl env g CaptureCmd kw = handle_capture cl env kw"
| "command_action cl env g (AddCmd ps all) kw = handle_stage cl env ps all kw"
| "command_action cl env g (CommitCmd msg all mk nomk) kw = handle_commit cl env msg all mk nomk kw"
| "command_action cl env g (PullCmd s) kw = handle_pull cl env s kw"
| "command_action cl env g (PushCmd c) kw = handle_push cl env c kw"
| "command_action cl env g FetchCmd kw = handle_fetch cl env kw"
| "command_action cl env g (BranchCmd a) kw = handle_branch cl env a kw"
| "command_action cl env g (StashCmd a) kw = handle_stash cl env a kw"
| "command_action cl env g (MergeCmd a) kw = bindE (wrapped_merge cl env g a kw) (\<lambda>(d, act). Inr act)"
| "command_action cl env g (ForallCmd tokens s nb) kw =
     bindE (forall_resolve cl env g tokens s kw) (\<lambda>(inv, act). Inr act)"
| "command_action cl env g (CloneCmd url dir s) kw = handle_clone cl env g url dir kw"
| "command_action cl env g (LocalCmd name a) kw = handle_local cl env g name a kw"

subsection \<open>The handlers\<close>

record ('s, 't) runtime =
  rt_bridge :: "'s bridge"
  rt_open :: "exn + unit"
  rt_close :: "'s \<Rightarrow> (exn + unit) \<times> 's"
  rt_terminal :: "'t terminal"
  rt_runner :: "'t runner"
  rt_env :: caller_env
  rt_reflection :: reflection
  rt_fresh :: string

text \<open>What a handler returns: a response to render, or the result types that carry an exit code.\<close>

datatype handler_result = Reply response | ExitWith int

type_synonym ('s, 't) after_handler = "(exn + handler_result) \<times> 's world \<times> 't"

definition replied :: "(exn + response) \<times> 's world \<times> 't \<Rightarrow> ('s, 't) after_handler" where
  "replied out =
     (case out of
        (Inl e, w, t) \<Rightarrow> (Inl e, w, t) | (Inr r, w, t) \<Rightarrow> (Inr (Reply r), w, t))"

definition exited :: "(exn + int) \<times> 's world \<times> 't \<Rightarrow> ('s, 't) after_handler" where
  "exited out =
     (case out of
        (Inl e, w, t) \<Rightarrow> (Inl e, w, t) | (Inr n, w, t) \<Rightarrow> (Inr (ExitWith n), w, t))"

definition one_call :: "('s, 't) runtime \<Rightarrow> client_action \<Rightarrow> 's world \<Rightarrow> 't \<Rightarrow> ('s, 't) after_handler" where
  "one_call rt act w t =
     (case run_action (rt_bridge rt) act w of
        (Inl e, w1) \<Rightarrow> (Inl e, w1, t)
      | (Inr (Answer r), w1) \<Rightarrow> (Inr (Reply r), w1, t)
      | (Inr _, w1) \<Rightarrow> (Inl (no_attribute ''response''), w1, t))"

text \<open>clone and repo clone: a streaming call shows its events.\<close>

definition stream_or_call ::
    "('s, 't) runtime \<Rightarrow>
     ('s bridge \<Rightarrow> 't terminal \<Rightarrow> string \<Rightarrow> request \<Rightarrow> string \<Rightarrow> 's world \<Rightarrow> 't \<Rightarrow>
      (exn + response) \<times> 's world \<times> 't) \<Rightarrow>
     client_action \<Rightarrow> 's world \<Rightarrow> 't \<Rightarrow> ('s, 't) after_handler" where
  "stream_or_call rt stream act w t =
     (case act of
        StreamAction method r rtype \<Rightarrow>
          replied (stream (rt_bridge rt) (rt_terminal rt) method r rtype w t)
      | _ \<Rightarrow> one_call rt act w t)"

definition merge_event_rows :: "reflection \<Rightarrow> merge_drive \<Rightarrow> operation_event list \<Rightarrow> string list" where
  "merge_event_rows rf d events =
     (if d = JsonlMerge then map (operation_event_line rf) events else echo_events [] events)"

definition merge_event_put ::
    "'t terminal \<Rightarrow> merge_drive \<Rightarrow> 't \<Rightarrow> string \<Rightarrow> (exn + unit) \<times> 't" where
  "merge_event_put tm d t line =
     (if d = JsonlMerge then put_text tm Stdout line t else put_stderr tm line t)"

definition drive_merge ::
    "('s, 't) runtime \<Rightarrow> merge_drive \<times> client_action \<Rightarrow> 's world \<Rightarrow> 't \<Rightarrow> ('s, 't) after_handler" where
  "drive_merge rt plan w t =
     (case plan of (d, act) \<Rightarrow>
     (case run_action (rt_bridge rt) act w of
        (Inl e, w1) \<Rightarrow> (Inl e, w1, t)
      | (Inr (Answer r), w1) \<Rightarrow> (Inr (Reply r), w1, t)
      | (Inr (Events events), w1) \<Rightarrow> (Inl (no_attribute ''events''), w1, t)
      | (Inr (Handle opid), w1) \<Rightarrow>
         (case watch_events (rt_bridge rt) (merge_event_put (rt_terminal rt) d)
                 (merge_event_rows (rt_reflection rt) d) opid w1 t of
            (Inl e, w2, t1) \<Rightarrow> (Inl e, w2, t1)
          | (Inr events, w2, t1) \<Rightarrow>
             (case merge_handle_result (rt_bridge rt) opid w2 of
                (Inl e, w3) \<Rightarrow> (Inl e, w3, t1)
              | (Inr r, w3) \<Rightarrow>
                 if d = JsonlMerge then
                   (case render_response (rt_reflection rt) (ce_getenv (rt_env rt)) True False False False r of
                      Inl e \<Rightarrow> (Inl e, w3, t1)
                    | Inr document \<Rightarrow>
                       (case put_text (rt_terminal rt) Stdout (document @ newline) t1 of
                          (Inl e, t2) \<Rightarrow> (Inl e, w3, t2)
                        | (Inr _, t2) \<Rightarrow> (Inr (ExitWith (exit_code_for_response r)), w3, t2)))
                 else (Inr (Reply r), w3, t1)))))"

definition drive_forall ::
    "('s, 't) runtime \<Rightarrow> client \<Rightarrow> global_options \<Rightarrow> bool \<Rightarrow> meta_kw \<Rightarrow>
     (string list \<times> exec_mode \<times> string list) \<times> client_action \<Rightarrow> 's world \<Rightarrow> 't \<Rightarrow> ('s, 't) after_handler" where
  "drive_forall rt cl g no_banner kw plan w t =
     (case plan of ((projects, mode, argv), act) \<Rightarrow>
     (case run_action (rt_bridge rt) act w of
        (Inl e, w1) \<Rightarrow> (Inl e, w1, t)
      | (Inr (Answer (LsResp l)), w1) \<Rightarrow>
         (case forall_finish (banner (rt_terminal rt) no_banner) (rt_runner rt) cl (rt_env rt) (go_root g)
                 mode argv kw (case ls_response_members l of None \<Rightarrow> [] | Some ms \<Rightarrow> ms) t of
            (Inl e, t1) \<Rightarrow> (Inl e, w1, t1)
          | (Inr x, t1) \<Rightarrow> (Inr (Reply (ExecResp x)), w1, t1))
      | (Inr res, w1) \<Rightarrow> (Inl (no_attribute ''members''), w1, t)))"

definition with_plan ::
    "exn + 'p \<Rightarrow> ('p \<Rightarrow> 's world \<Rightarrow> 't \<Rightarrow> ('s, 't) after_handler) \<Rightarrow> 's world \<Rightarrow> 't \<Rightarrow> ('s, 't) after_handler" where
  "with_plan plan f w t = (case plan of Inl e \<Rightarrow> (Inl e, w, t) | Inr p \<Rightarrow> f p w t)"

text \<open>The handler of a command; None when a reading loop has not ended after \<open>n\<close> rounds.\<close>

definition handle_command ::
    "('s, 't) runtime \<Rightarrow> global_options \<Rightarrow> command \<Rightarrow> nat \<Rightarrow> client \<Rightarrow> meta_kw \<Rightarrow> 's world \<Rightarrow> 't \<Rightarrow>
     ('s, 't) after_handler option" where
  "handle_command rt g c n cl kw w t =
     (let br = rt_bridge rt; tm = rt_terminal rt; env = rt_env rt;
          request = command_action cl env g c kw
      in case c of
           DiffCmd a \<Rightarrow> map_option exited (handle_diff cl env br tm g a kw (rt_fresh rt) n w t)
         | LogCmd a \<Rightarrow> map_option exited (handle_log cl env br tm g a kw n w t)
         | MergeCmd a \<Rightarrow> Some (with_plan (wrapped_merge cl env g a kw) (drive_merge rt) w t)
         | ForallCmd tokens s no_banner \<Rightarrow>
             Some (with_plan (forall_resolve cl env g tokens s kw) (drive_forall rt cl g no_banner kw) w t)
         | CloneCmd url dir s \<Rightarrow> Some (with_plan request (stream_or_call rt clone_stream) w t)
         | RepoCmd a \<Rightarrow> Some (with_plan request (stream_or_call rt repo_clone_stream) w t)
         | _ \<Rightarrow> Some (with_plan request (one_call rt) w t))"

subsection \<open>run\<close>

text \<open>Leaving \<open>async with Client\<close>: the client is closed and the bridge's close awaited.\<close>

definition client_exit :: "('s \<Rightarrow> (exn + unit) \<times> 's) \<Rightarrow> ('s, unit) io" where
  "client_exit close w =
     (case close (w_bridge w) of (r, s) \<Rightarrow> (r, w\<lparr>w_bridge := s, w_closed := True\<rparr>))"

definition renderable_operation_response :: "command \<Rightarrow> operation_error \<Rightarrow> response option" where
  "renderable_operation_response c e =
     (case oe_response e of
        None \<Rightarrow> None
      | Some (MergeResp m) \<Rightarrow> Some (MergeResp m)
      | Some (PlainResponse PushResponse env) \<Rightarrow> Some (PlainResponse PushResponse env)
      | Some r \<Rightarrow> if is_status c \<and> workspace_git_status_attr r \<noteq> None then Some r else None)"

definition recovered :: "command \<Rightarrow> exn + handler_result \<Rightarrow> exn + handler_result" where
  "recovered c out =
     (case out of
        Inl (GwzOperationError e) \<Rightarrow>
          (case renderable_operation_response c e of
             None \<Rightarrow> Inl (GwzOperationError e) | Some r \<Rightarrow> Inr (Reply r))
      | _ \<Rightarrow> out)"

type_synonym ('s, 't) handler = "client \<Rightarrow> meta_kw \<Rightarrow> 's world \<Rightarrow> 't \<Rightarrow> ('s, 't) after_handler option"

text \<open>The body of the \<open>async with\<close>.\<close>

definition run_body ::
    "('s, 't) runtime \<Rightarrow> global_options \<Rightarrow> command \<Rightarrow> ('s, 't) handler \<Rightarrow> client \<Rightarrow> 's world \<Rightarrow> 't \<Rightarrow>
     ('s, 't) after_handler option" where
  "run_body rt g c handler cl w t =
     (case (case go_ssh_timeout g of
              None \<Rightarrow> returnS () w
            | Some seconds \<Rightarrow>
                bindS (liftS (configure_transport_timeout seconds))
                  (\<lambda>act. bindS (run_action (rt_bridge rt) act) (\<lambda>_. returnS ())) w) of
        (Inl e, w1) \<Rightarrow> Some (Inl e, w1, t)
      | (Inr _, w1) \<Rightarrow>
         (case meta_kwargs g (url_scheme_attr c) (ce_getenv (rt_env rt)) of
            Inl e \<Rightarrow> Some (Inl e, w1, t)
          | Inr kw \<Rightarrow>
              map_option (\<lambda>(out, w2, t1). (recovered c out, w2, t1)) (handler cl kw w1 t)))"

definition machine_output :: "global_options \<Rightarrow> bool" where
  "machine_output g \<longleftrightarrow> go_json g \<or> go_jsonl g"

definition rendered_response ::
    "('s, 't) runtime \<Rightarrow> global_options \<Rightarrow> command \<Rightarrow> response \<Rightarrow> exn + string" where
  "rendered_response rt g c r =
     (case r of
        FamilyResp f \<Rightarrow>
          if \<not> machine_output g \<and> is_family_listing r then Inr (render_family_listing f)
          else render_response (rt_reflection rt) (ce_getenv (rt_env rt)) (machine_output g) (local_attr c)
                 (porcelain_attr c) (go_verbose g) r
      | _ \<Rightarrow> render_response (rt_reflection rt) (ce_getenv (rt_env rt)) (machine_output g) (local_attr c)
               (porcelain_attr c) (go_verbose g) r)"

definition exit_code_for_cli_response :: "command \<Rightarrow> response \<Rightarrow> int" where
  "exit_code_for_cli_response c r =
     (if is_status c \<and> workspace_git_status_attr r \<noteq> None then 0 else exit_code_for_response r)"

definition print_response ::
    "('s, 't) runtime \<Rightarrow> global_options \<Rightarrow> command \<Rightarrow> response \<Rightarrow> 't \<Rightarrow> (exn + int) \<times> 't" where
  "print_response rt g c r t =
     (case rendered_response rt g c r of
        Inl e \<Rightarrow> (Inl e, t)
      | Inr rendered \<Rightarrow>
         (case (if rendered = [] then (Inr (), t)
                else put_text (rt_terminal rt) Stdout (rendered @ newline) t) of
            (Inl e, t1) \<Rightarrow> (Inl e, t1)
          | (Inr _, t1) \<Rightarrow> (Inr (exit_code_for_cli_response c r), t1)))"

definition run ::
    "('s, 't) runtime \<Rightarrow> global_options \<Rightarrow> command \<Rightarrow> ('s, 't) handler \<Rightarrow> 's world \<Rightarrow> 't \<Rightarrow>
     ((exn + int) \<times> 's world \<times> 't) option" where
  "run rt g c handler w t =
     (case bindE (validate_args g (repo_sync_path c)) (\<lambda>_.
           bindE (new_client (go_root g) False None) (\<lambda>cl.
           bindE (rt_open rt) (\<lambda>_. Inr cl))) of
        Inl e \<Rightarrow> Some (Inl e, w, t)
      | Inr cl \<Rightarrow>
         (case run_body rt g c handler cl w t of
            None \<Rightarrow> None
          | Some (out, w1, t1) \<Rightarrow>
             (case client_exit (rt_close rt) w1 of
                (Inl e, w2) \<Rightarrow> Some (Inl e, w2, t1)
              | (Inr _, w2) \<Rightarrow>
                 (case out of
                    Inl e \<Rightarrow> Some (Inl e, w2, t1)
                  | Inr (ExitWith code) \<Rightarrow> Some (Inr code, w2, t1)
                  | Inr (Reply r) \<Rightarrow>
                      (case print_response rt g c r t1 of (res, t2) \<Rightarrow> Some (res, w2, t2))))))"

subsection \<open>main\<close>

fun is_usage_error :: "exn \<Rightarrow> bool" where
  "is_usage_error (CliUsageError m c) = True"
| "is_usage_error _ = False"

definition write_log_error :: "('s, 't) runtime \<Rightarrow> global_options \<Rightarrow> exn \<Rightarrow> 't \<Rightarrow> (exn + int) \<times> 't" where
  "write_log_error rt g e t =
     (let ch = (if machine_output g then Stdout else Stderr)
      in case write_and_flush (rt_terminal rt) ch
                (render_error (rt_reflection rt) (machine_output g) (go_verbose g) e @ newline) t of
           (Inr _, t1) \<Rightarrow> (Inr (exit_code_for_log_error e), t1)
         | (Inl (OSFault x), t1) \<Rightarrow>
             if machine_output g \<and> is_broken_pipe x
             then (Inr 0, tm_silence (rt_terminal rt) t1) else (Inr 1, t1)
         | (Inl other, t1) \<Rightarrow> (Inl other, t1))"

definition report_error :: "('s, 't) runtime \<Rightarrow> global_options \<Rightarrow> command \<Rightarrow> exn \<Rightarrow> 't \<Rightarrow> (exn + int) \<times> 't" where
  "report_error rt g c e t =
     (if is_log c then write_log_error rt g e t
      else
        let text = render_error (rt_reflection rt) (machine_output g) (go_verbose g) e @ newline
        in case (if machine_output g then put_text (rt_terminal rt) Stdout text t
                 else put_stderr (rt_terminal rt) text t) of
             (Inl x, t1) \<Rightarrow> (Inl x, t1)
           | (Inr _, t1) \<Rightarrow> (Inr (exit_code_for_error e), t1))"

definition main ::
    "('s, 't) runtime \<Rightarrow> global_options \<Rightarrow> command \<Rightarrow> ('s, 't) handler \<Rightarrow> 's world \<Rightarrow> 't \<Rightarrow>
     ((exn + int) \<times> 's world \<times> 't) option" where
  "main rt g c handler w t =
     (case run rt g c handler w t of
        Some (Inl e, w1, t1) \<Rightarrow>
          if is_usage_error e \<or> is_gwz_error e
          then (case report_error rt g c e t1 of (res, t2) \<Rightarrow> Some (res, w1, t2))
          else Some (Inl e, w1, t1)
      | out \<Rightarrow> out)"

end
