(* ===== verification/MainFacts.thy ===== *)
theory MainFacts
  imports CliMain
begin

section \<open>What a run of the command line guarantees\<close>

text \<open>
  Properties of \<^verbatim>\<open>src/gwz/cli.py\<close> with all the handlers in place: every command's request carries the
  global options, exit code 0 means success, an error is written to the channel the caller reads,
  and machine output is one line per document.
\<close>

subsection \<open>The global options reach every request\<close>

definition carries :: "meta_kw \<Rightarrow> client_action \<Rightarrow> bool" where
  "carries kw act \<longleftrightarrow>
     (\<exists>m. request_meta_of (action_request act) = Some m \<and>
          rm_dry_run m = kw_dry_run kw \<and> rm_transport m = kw_transport kw)"

lemma client_meta_carries:
  "client_meta cl env kw = Inr m \<Longrightarrow> rm_dry_run m = kw_dry_run kw \<and> rm_transport m = kw_transport kw"
  using client_meta_Inr(5,6) by blast

lemma meta_with_root_carries:
  "meta_with_root cl env root kw = Inr m \<Longrightarrow> rm_dry_run m = kw_dry_run kw \<and> rm_transport m = kw_transport kw"
  using client_meta_carries by (fastforce simp: meta_with_root_def split: if_splits)

lemma lifecycle_carries:
  "single_repo_lifecycle_meta cl env mid mth kw = Inr m \<Longrightarrow>
   rm_dry_run m = kw_dry_run kw \<and> rm_transport m = kw_transport kw"
  using client_meta_carries by (fastforce simp: single_repo_lifecycle_meta_def bindE_eq_Inr split: if_splits)

lemma merge_request_carries:
  "merge_request_of cl env ma kw = Inr r \<Longrightarrow>
   \<exists>m. request_meta_of r = Some m \<and> rm_dry_run m = kw_dry_run kw \<and> rm_transport m = kw_transport kw"
  by (auto simp: merge_request_of_def bindE_eq_Inr Let_def dest!: client_meta_carries)

lemmas carried = client_meta_carries meta_with_root_carries lifecycle_carries merge_request_carries

lemmas carry_simps = builder_defs bindE_eq_Inr carries_def Let_def without_remote_def
  client_detach_repo_member_def client_attach_repo_member_def client_repo_sync_def

lemmas one_call_handlers = handle_auth_def handle_status_def handle_ls_def handle_init_def
  diff_cli_request_def log_cli_request_def handle_materialize_def handle_snapshot_def handle_tag_def
  handle_capture_def handle_stage_def handle_commit_def handle_pull_def handle_push_def
  handle_fetch_def handle_clone_def handle_local_def handle_local_clone_def

lemma one_call_carries:
  "handle_auth cl env remote path unset kw = Inr act \<Longrightarrow> carries kw act"
  "handle_status cl env g sc kw = Inr act \<Longrightarrow> carries kw act"
  "handle_ls cl env u m kw = Inr act \<Longrightarrow> carries kw act"
  "handle_init cl env g urls target kw = Inr act \<Longrightarrow> carries kw act"
  "diff_cli_request cl env dc kw = Inr (f, act) \<Longrightarrow> carries kw act"
  "log_cli_request cl env g lg kw = Inr act \<Longrightarrow> carries kw act"
  "handle_materialize cl env mz kw = Inr act \<Longrightarrow> carries kw act"
  "handle_snapshot cl env name lst b kw = Inr act \<Longrightarrow> carries kw act"
  "handle_tag cl env tg kw = Inr act \<Longrightarrow> carries kw act"
  "handle_capture cl env kw = Inr act \<Longrightarrow> carries kw act"
  "handle_stage cl env ps al kw = Inr act \<Longrightarrow> carries kw act"
  "handle_commit cl env msg al mk nomk kw = Inr act \<Longrightarrow> carries kw act"
  "handle_pull cl env snap kw = Inr act \<Longrightarrow> carries kw act"
  "handle_push cl env check kw = Inr act \<Longrightarrow> carries kw act"
  "handle_fetch cl env kw = Inr act \<Longrightarrow> carries kw act"
  "handle_clone cl env g url dir kw = Inr act \<Longrightarrow> carries kw act"
  "handle_local cl env g verb lc kw = Inr act \<Longrightarrow> carries kw act"
  by (auto simp: one_call_handlers carry_simps dest!: carried split: if_splits)

lemma variant_carries:
  "handle_repo cl env g rc kw = Inr act \<Longrightarrow> carries kw act"
  "handle_stash cl env st kw = Inr act \<Longrightarrow> carries kw act"
  "handle_branch cl env bc kw = Inr act \<Longrightarrow> carries kw act"
  by (cases rc, auto simp: handle_repo_clone_def carry_simps dest!: carried
        split: if_splits option.splits)
    (cases st, auto simp: handle_stash_def handle_branch_def client_merge_def carry_simps dest!: carried
        split: if_splits)

lemma planned_carries:
  "wrapped_merge cl env g a kw = Inr (d, act) \<Longrightarrow> carries kw act"
  "forall_resolve cl env g tokens s kw = Inr (i, act) \<Longrightarrow> carries kw act"
  by (auto simp: wrapped_merge_def handle_merge_def client_merge_def client_merge_stream_def
      forall_resolve_def forall_targets_kw_def carry_simps
      dest!: carried split: if_splits option.splits merge_drive.splits)

lemma command_carries: "command_action cl env g c kw = Inr act \<Longrightarrow> carries kw act"
  by (cases c) (auto simp: bindE_eq_Inr dest: one_call_carries variant_carries planned_carries)

text \<open>
  C6: Whatever the command, the request it sends carries the global options as they were given: it is a
  dry run exactly when \<^verbatim>\<open>--dry-run\<close> was given, and its transport options name the SSH identities of
  \<^verbatim>\<open>--identity\<close> and \<^verbatim>\<open>--remote-identity\<close>, and are left out only when there are none.
\<close>

theorem command_carries_global_options:
  assumes "meta_kwargs g (url_scheme_attr c) getenv = Inr kw"
    and "command_action cl env g c kw = Inr act"
  shows "\<exists>m. request_meta_of (action_request act) = Some m \<and>
    rm_dry_run m = (if go_dry_run g then Some True else None) \<and>
    (case rm_transport m of
       None \<Rightarrow> go_identity g = None \<and> go_remote_identities g = []
     | Some o1 \<Rightarrow> topt_default_identity o1 = go_identity g \<and>
                topt_remote_identities o1 = go_remote_identities g)"
proof -
  obtain m where m: "request_meta_of (action_request act) = Some m"
    "rm_dry_run m = kw_dry_run kw" "rm_transport m = kw_transport kw"
    using command_carries [OF assms(2)] by (auto simp: carries_def)
  with assms(1) show ?thesis by (auto simp: meta_kwargs_def bindE_eq_Inr some_if_def)
qed

definition sample_dry_options :: global_options where
  "sample_dry_options = normalize_global_options
     [no_layer\<lparr>gl_dry_run := Some True, gl_identity := Some ''/k''\<rparr>]"

theorem command_carries_global_options_witness:
  "\<exists>kw act m. meta_kwargs sample_dry_options None (\<lambda>n. None) = Inr kw \<and>
     command_action sample_client sample_env sample_dry_options (PushCmd True) kw = Inr act \<and>
     request_meta_of (action_request act) = Some m \<and> rm_dry_run m = Some True"
proof -
  let ?g = sample_dry_options
  let ?kw = "projr (meta_kwargs ?g (url_scheme_attr (PushCmd True)) (\<lambda>n. None))"
  let ?act = "projr (command_action sample_client sample_env ?g (PushCmd True) ?kw)"
  have kw: "meta_kwargs ?g (url_scheme_attr (PushCmd True)) (\<lambda>n. None) = Inr ?kw"
    and act: "command_action sample_client sample_env ?g (PushCmd True) ?kw = Inr ?act"
    and dry: "go_dry_run ?g"
    by (simp_all add: sample_dry_options_def options_eval handle_push_def client_push_def
        push_request_of_def without_remote_def meta_eval)
  show ?thesis using command_carries_global_options [OF kw act] kw act dry by auto
qed

subsection \<open>Exit code 0\<close>

definition success_status :: "response \<Rightarrow> bool" where
  "success_status r \<longleftrightarrow>
     (case meta_of r of
        None \<Rightarrow> True
      | Some m \<Rightarrow> rsm_aggregate_status m \<in> {AggregateStatus_accepted, AggregateStatus_ok,
                                          AggregateStatus_noop, AggregateStatus_dirty})"

lemma exit_code_zero: "exit_code_for_response r = 0 \<longleftrightarrow> success_status r"
proof (cases "meta_of r")
  case (Some m)
  then show ?thesis
    by (cases "rsm_aggregate_status m")
      (simp_all add: exit_code_for_response_def exit_code_for_status_def CLI_EXIT_CODES_def success_status_def)
qed (simp add: exit_code_for_response_def success_status_def)

lemma error_exit_nonzero: "exit_code_for_error e \<noteq> 0" "exit_code_for_log_error e \<noteq> 0"
  by (auto simp: exit_code_for_error_def exit_code_for_log_error_def split: exn.splits option.splits)

lemma drive_merge_exit:
  "drive_merge rt p w t = (Inr (ExitWith code), w1, t1) \<Longrightarrow>
   \<exists>r opid w2 w3. merge_handle_result (rt_bridge rt) opid w2 = (Inr r, w3) \<and>
     code = exit_code_for_response r"
  by (auto simp: drive_merge_def split: prod.splits sum.splits outcome.splits if_splits)

lemma one_call_exit: "one_call rt act w t \<noteq> (Inr (ExitWith code), w1, t1)"
  by (auto simp: one_call_def split: prod.splits sum.splits outcome.splits)

lemma stream_or_call_exit: "stream_or_call rt stream act w t \<noteq> (Inr (ExitWith code), w1, t1)"
  by (auto simp: stream_or_call_def replied_def one_call_exit
      split: client_action.splits prod.splits sum.splits)

lemma drive_forall_exit: "drive_forall rt cl g nb kw plan w t \<noteq> (Inr (ExitWith code), w1, t1)"
  by (auto simp: drive_forall_def split: prod.splits sum.splits outcome.splits response.splits)

lemma with_plan_result: "with_plan p f w t = (Inr out, w1, t1) \<Longrightarrow> \<exists>x. p = Inr x \<and> f x w t = (Inr out, w1, t1)"
  by (auto simp: with_plan_def split: sum.splits)

lemma handle_command_exit:
  assumes "handle_command rt g c n cl kw w t = Some (Inr (ExitWith code), w1, t1)"
    and "\<not> is_log c" and "\<forall>a. c \<noteq> DiffCmd a"
  shows "\<exists>r opid w2 w3. merge_handle_result (rt_bridge rt) opid w2 = (Inr r, w3) \<and>
     code = exit_code_for_response r"
  using assms
  by (cases c) (auto simp: handle_command_def Let_def one_call_exit stream_or_call_exit drive_forall_exit
      dest!: with_plan_result drive_merge_exit)

lemma recovered_cases:
  "recovered c out = Inr x \<Longrightarrow> out = Inr x \<or>
     (\<exists>e r. out = Inl (GwzOperationError e) \<and> oe_response e = Some r \<and> x = Reply r)"
  by (auto simp: recovered_def renderable_operation_response_def
      split: sum.splits exn.splits option.splits response.splits plain_class.splits if_splits)

lemma run_cases:
  assumes "run rt g c h w t = Some (res, w1, t1)"
  obtains (refused) e where "res = Inl e" "w1 = w" "t1 = t"
  | (entered) cl out w2 t2 where "run_body rt g c h cl w t = Some (out, w2, t2)"
      "w1 = snd (client_exit (rt_close rt) w2)"
      "case fst (client_exit (rt_close rt) w2) of
         Inl e \<Rightarrow> (res, t1) = (Inl e, t2)
       | Inr _ \<Rightarrow> (case out of Inl e \<Rightarrow> (res, t1) = (Inl e, t2)
                 | Inr (ExitWith code) \<Rightarrow> (res, t1) = (Inr code, t2)
                 | Inr (Reply r) \<Rightarrow> (res, t1) = print_response rt g c r t2)"
  using assms
  by (auto simp: run_def split: sum.splits option.splits prod.splits handler_result.splits)

lemma run_body_handled:
  "run_body rt g c h cl w t = Some (Inr x, w2, t2) \<Longrightarrow>
   \<exists>kw w1 out. h cl kw w1 t = Some (out, w2, t2) \<and> recovered c out = Inr x"
  by (auto simp: run_body_def split: prod.splits sum.splits)

lemma print_response_code:
  "print_response rt g c r t = (Inr code, t1) \<Longrightarrow> code = exit_code_for_cli_response c r"
  by (auto simp: print_response_def split: sum.splits prod.splits)

lemma client_exit_closed: "w_closed (snd (client_exit close w))"
  by (simp add: client_exit_def split: prod.splits)

lemma report_error_code:
  "report_error rt g c e t = (Inr code, t1) \<Longrightarrow> \<not> is_log c \<Longrightarrow> code = exit_code_for_error e"
  by (auto simp: report_error_def Let_def split: sum.splits prod.splits)

lemma main_code:
  assumes "main rt g c h w t = Some (Inr code, w1, t1)" and "\<not> is_log c" and "code = 0"
  shows "run rt g c h w t = Some (Inr code, w1, t1)"
  using assms error_exit_nonzero(1) report_error_code
  by (fastforce simp: main_def split: option.splits sum.splits prod.splits if_splits)


definition sample_reflection :: reflection where
  "sample_reflection =
     \<lparr>rf_member = (\<lambda>m. JNull), rf_error = (\<lambda>m. JNull), rf_attribution = (\<lambda>m. JNull),
      rf_progress = (\<lambda>m. JNull), rf_merge_record = (\<lambda>m. JNull), rf_member_plain = (\<lambda>m. JNull),
      rf_response_plain = (\<lambda>m. JNull), rf_meta_plain = (\<lambda>m. JNull), rf_response_repr = (\<lambda>r. []),
      rf_crossed = (\<lambda>r. Inl (no_attribute ''state''))\<rparr>"

definition sample_runtime :: "(nat, string \<times> string) runtime" where
  "sample_runtime =
     \<lparr>rt_bridge = sample_bridge, rt_open = Inr (), rt_close = (\<lambda>s. (Inr (), s)),
      rt_terminal = buffers False, rt_runner = (\<lambda>q t. (Inr 0, t)), rt_env = sample_env,
      rt_reflection = sample_reflection, rt_fresh = ''f''\<rparr>"

definition plain_options :: global_options where
  "plain_options = normalize_global_options [no_layer]"


lemma plain_kw: "meta_kwargs plain_options None (ce_getenv sample_env) = Inr no_kw"
  by (simp add: plain_options_def options_eval no_kw_def)

lemma plain_fields: "go_ssh_timeout plain_options = None" "go_root plain_options = None" "go_json plain_options = False"
  "go_jsonl plain_options = False" "go_verbose plain_options = False"
  by (simp_all add: plain_options_def normalize_global_options_def merge_bool_def merge_scalar_def no_layer_def)

definition capture_meta :: request_meta where
  "capture_meta = projr (client_meta (projr (new_client None False None)) sample_env no_kw)"

lemma capture_meta_made: "client_meta (projr (new_client None False None)) sample_env no_kw = Inr capture_meta"
  by (simp add: capture_meta_def new_client_def meta_eval)

lemma capture_transport: "rm_transport capture_meta = None"
  using client_meta_Inr(6) [OF capture_meta_made] by (simp add: no_kw_def)
lemma runtime_fields [simp]:
  "rt_bridge sample_runtime = sample_bridge" "rt_open sample_runtime = Inr ()"
  "rt_close sample_runtime s = (Inr (), s)" "rt_terminal sample_runtime = buffers False"
  "rt_env sample_runtime = sample_env" "rt_reflection sample_runtime = sample_reflection"
  by (simp_all add: sample_runtime_def)

definition ok_response :: response where
  "ok_response = sample_response AggregateStatus_ok (Some ''op1'')"

lemma ok_response_passes: "raise_for_response ok_response = Inr ()"
  by (simp add: ok_response_def sample_response_def sample_envelope_def sample_response_meta_def
      raise_for_response_def response_aggregate_def meta_of_def SUCCESS_AGGREGATE_STATUS_NAMES_def)

lemma sample_bridge_answers:
  "m \<noteq> ''transport_capabilities'' \<Longrightarrow> b_call sample_bridge m q a r s = (Inr ok_response, Suc s)"
  by (simp add: sample_bridge_def ok_response_def)

lemma sample_call:
  "m \<noteq> ''transport_capabilities'' \<Longrightarrow> Option.bind (request_meta_of r) rm_transport = None \<Longrightarrow>
   call_method sample_bridge m r rt sample_world =
     (Inr ok_response, \<lparr>w_bridge = 1, w_closed = False, w_trace = [CallOp m (request_class r) rt r]\<rparr>)"
  by (simp add: call_method_def require_transport_capability_def io_defs bridge_call_def open_bridge_def
      sample_bridge_answers sample_world_def ok_response_passes)

lemma sample_rendered: "rendered_response sample_runtime plain_options CaptureCmd ok_response = Inr ''ok''"
  by (simp add: rendered_response_def render_response_def machine_output_def plain_fields render_human_def is_response_def
   ok_response_def sample_response_def sample_envelope_def sample_response_meta_def meta_of_def repos_or_bundles_def plain_report_def
   message_or_status_def error_human_lines_def noop_reasons_def unchecked_summary_def members_of_def report_def or_else_def
   bindE_def Let_def)

lemma ok_put: "put_text (buffers False) Stdout (''ok'' @ newline) (out, err) = (Inr (), (out @ ''ok'' @ newline, err))"
  by (rule put_text_buffers) (simp add: newline_def byte_of_def)

lemma ok_exit: "exit_code_for_cli_response CaptureCmd ok_response = 0"
  by (simp add: exit_code_for_cli_response_def exit_code_for_response_def exit_code_for_status_def CLI_EXIT_CODES_def
   ok_response_def sample_response_def sample_envelope_def sample_response_meta_def meta_of_def)

lemma sample_print:
  "print_response sample_runtime plain_options CaptureCmd ok_response (out, err) =
     (Inr 0, (out @ ''ok'' @ newline, err))"
  using ok_put by (simp add: print_response_def sample_rendered ok_exit)


subsection \<open>Errors\<close>

text \<open>
  C20: An error reaches the channel its reader looks at: when the run of a command ended in a usage error
  or an error of the package, \<^verbatim>\<open>gwz\<close> exits with 1 or 2 (2 for every usage error), and with \<^verbatim>\<open>--json\<close> or
  \<^verbatim>\<open>--jsonl\<close> standard output gains one line of printable ASCII, the error document, and standard error
  nothing; otherwise standard output gains nothing and standard error the message. The client has
  been closed, or was never opened.
\<close>

theorem errors_on_their_channel:
  assumes "rt_terminal rt = buffers tty"
    and run: "run rt g c h w t = Some (Inl e, w1, (out, err))"
    and "is_usage_error e \<or> is_gwz_error e"
    and plain: "is_log c \<Longrightarrow> \<not> machine_output g \<Longrightarrow>
      \<not> has_surrogate (render_error (rt_reflection rt) False (go_verbose g) e @ newline)"
  shows "\<exists>code. code \<in> {1, 2} \<and> (is_usage_error e \<longrightarrow> code = 2) \<and> (w_closed w1 \<or> w1 = w) \<and>
    (let message = render_error (rt_reflection rt) (machine_output g) (go_verbose g) e
     in main rt g c h w t = Some (Inr code, w1,
          if machine_output g then (out @ message @ newline, err)
          else (out, err @ escape_surrogates (message @ newline))) \<and>
        (machine_output g \<longrightarrow> list_all printable message))"
proof -
  have codes: "exit_code_for_error e \<in> {1, 2}" "exit_code_for_log_error e \<in> {1, 2}"
    "is_usage_error e \<longrightarrow> exit_code_for_error e = 2 \<and> exit_code_for_log_error e = 2"
    by (auto simp: exit_code_for_error_def exit_code_for_log_error_def split: exn.splits option.splits)
  have closed: "w_closed w1 \<or> w1 = w" using run client_exit_closed by (cases rule: run_cases) auto
  let ?m = "render_error (rt_reflection rt) (machine_output g) (go_verbose g) e"
  let ?wrote = "if machine_output g then (out @ ?m @ newline, err)
          else (out, err @ escape_surrogates (?m @ newline))"
  have ascii: "machine_output g \<longrightarrow> list_all printable ?m"
    by (simp add: render_error_def dumps_default_printable)
  then have clean: "machine_output g \<longrightarrow> \<not> has_surrogate (?m @ newline)"
    using printable_ascii [of ?m] by (auto intro!: ascii_no_surrogate simp: newline_def byte_of_def)
  have "report_error rt g c e (out, err) =
      (Inr (if is_log c then exit_code_for_log_error e else exit_code_for_error e), ?wrote)"
  proof (cases "is_log c \<and> \<not> machine_output g")
    case True
    then show ?thesis using plain assms(1)
      by (simp add: report_error_def write_log_error_def write_and_flush_def Let_def put_text_buffers
          escape_surrogates_none)
  next
    case False
    then show ?thesis using clean assms(1)
      by (auto simp: report_error_def write_log_error_def write_and_flush_def Let_def put_text_buffers
          put_stderr_buffers)
  qed
  then have "main rt g c h w t =
      Some (Inr (if is_log c then exit_code_for_log_error e else exit_code_for_error e), w1, ?wrote)"
    using run assms(3) by (simp add: main_def)
  with codes closed ascii show ?thesis by (auto simp: Let_def)
qed

lemma json_kw: "meta_kwargs (plain_options\<lparr>go_json := b\<rparr>) None (ce_getenv sample_env) = Inr no_kw"
  using plain_kw by (simp add: meta_kwargs_def)

theorem errors_on_their_channel_witness:
  "\<exists>w1 message. main sample_runtime (plain_options\<lparr>go_json := True\<rparr>) CaptureCmd
       (\<lambda>cl kw w t. Some (Inl (usage_error ''bad''), w, t)) sample_world ([], []) =
     Some (Inr 2, w1, (message @ newline, [])) \<and> list_all printable message"
proof -
  have "\<exists>w1. run sample_runtime (plain_options\<lparr>go_json := True\<rparr>) CaptureCmd
       (\<lambda>cl kw w t. Some (Inl (usage_error ''bad''), w, t)) sample_world ([], []) =
     Some (Inl (usage_error ''bad''), w1, ([], []))"
    using json_kw by (simp add: run_def run_body_def validate_args_def plain_fields new_client_def bindE_def
        returnS_def recovered_def usage_error_def client_exit_def)
  then obtain w1 where run: "run sample_runtime (plain_options\<lparr>go_json := True\<rparr>) CaptureCmd
       (\<lambda>cl kw w t. Some (Inl (usage_error ''bad''), w, t)) sample_world ([], []) =
     Some (Inl (usage_error ''bad''), w1, ([], []))"
    by blast
  have tm: "rt_terminal sample_runtime = buffers False" by simp
  from errors_on_their_channel [OF tm run] show ?thesis
    by (auto simp: usage_error_def machine_output_def Let_def)
qed

text \<open>
  What \<open>main\<close> does not catch: the failure of a write, so that a reader of \<^verbatim>\<open>gwz diff\<close> that goes away
  early ends the command with a traceback, and the \<open>TypeError\<close> of \<^verbatim>\<open>gwz auth\<close> under the global
  \<^verbatim>\<open>--remote\<close>.
\<close>

lemma main_lets_write_faults_through:
  "run rt g c h w t = Some (Inl (OSFault x), w1, t1) \<Longrightarrow>
   main rt g c h w t = Some (Inl (OSFault x), w1, t1)"
  by (simp add: main_def)

lemma auth_with_remote_raises:
  assumes "go_remote g = Some r" and "meta_kwargs g attr getenv = Inr kw"
  shows "command_action cl env g (AuthIdentity remote key_path unset) kw =
    Inl (TypeError (''got multiple values for argument '' @ squote ''remote''))"
proof -
  have "kw_remote kw = Some r" using meta_kwargs_remote [OF assms(2)] assms(1) by simp
  then show ?thesis by (simp add: handle_auth_def client_remote_identity_def)
qed

text \<open>\<^verbatim>\<open>gwz init URL\<close> without \<^verbatim>\<open>--path\<close> works in the caller's directory whatever \<^verbatim>\<open>--root\<close> says.\<close>

lemma init_from_urls_ignores_root:
  assumes "command_action cl env g (InitCmd (url # urls) []) kw = Inr act"
  shows "\<exists>q. action_request act = InitFromSourcesRq q \<and>
    init_from_sources_request_workspace_root q = ce_resolve env (path_str [])"
  using assms
  by (auto simp: handle_init_def client_init_from_sources_def init_from_sources_request_of_def
      bindE_eq_Inr Let_def split: if_splits)

subsection \<open>JSON lines\<close>

lemma print_lines_stdout:
  "\<forall>l\<in>set rows. \<not> has_surrogate (l @ [CHR 0x0A]) \<Longrightarrow>
   print_lines (\<lambda>t line. put_text (buffers tty) Stdout line t) rows (out, err) =
     (Inr (), (out @ concat (map (\<lambda>l. l @ [CHR 0x0A]) rows), err))"
  by (induction rows arbitrary: out) (simp_all add: put_text_buffers)

lemma json_document:
  "render_response rf getenv True lp pc st r = Inr doc \<Longrightarrow> \<exists>v. doc = dumps_default v"
  by (auto simp: render_response_def render_machine_def bindE_eq_Inr split: if_splits response.splits)

text \<open>
  C26: The output of \<^verbatim>\<open>merge --jsonl\<close> is read back line by line: when the command ends, standard output
  splits at the line breaks into one document per event of the operation, in order, and then the
  document of the retained response, nothing else; standard error is untouched; and the exit code is
  that of the response.
\<close>

theorem merge_jsonl_lines:
  assumes tm: "rt_terminal rt = buffers tty"
    and drive: "drive_merge rt (JsonlMerge, act) w ([], err) = (Inr (ExitWith code), w1, (out1, err1))"
  shows "\<exists>events r doc opid u v. fst (b_events (rt_bridge rt) opid u) = (events, None) \<and>
    merge_handle_result (rt_bridge rt) opid v = (Inr r, w1) \<and>
    render_response (rt_reflection rt) (ce_getenv (rt_env rt)) True False False False r = Inr doc \<and>
    split_on CHR 0x0A out1 = map (operation_event_line (rt_reflection rt)) events @ [doc, []] \<and>
    err1 = err \<and> code = exit_code_for_response r"
proof -
  let ?rows = "\<lambda>events. map (operation_event_line (rt_reflection rt)) events"
  have rows: "merge_event_rows (rt_reflection rt) JsonlMerge = ?rows"
    and put: "merge_event_put (buffers tty) JsonlMerge = (\<lambda>t line. put_text (buffers tty) Stdout line t)"
    by (auto simp: merge_event_rows_def merge_event_put_def tm fun_eq_iff)
  have clean: "\<forall>l\<in>set (?rows events). \<not> has_surrogate (l @ [CHR 0x0A])" for events
    using dumps_no_surrogate by (auto simp: operation_event_line_def)
  obtain opid u events w2 t1 r doc where
      ev: "watch_events (rt_bridge rt) (\<lambda>t line. put_text (buffers tty) Stdout line t) ?rows opid u ([], err) =
          (Inr events, w2, t1)"
    and res: "merge_handle_result (rt_bridge rt) opid w2 = (Inr r, w1)"
    and doc: "render_response (rt_reflection rt) (ce_getenv (rt_env rt)) True False False False r = Inr doc"
    and last: "put_text (buffers tty) Stdout (doc @ newline) t1 = (Inr (), (out1, err1))"
    and code: "code = exit_code_for_response r"
    using drive by (auto simp: drive_merge_def rows put tm split: prod.splits sum.splits outcome.splits)
  have t1: "t1 = (concat (map (\<lambda>l. l @ [CHR 0x0A]) (?rows events)), err)"
    and b: "fst (b_events (rt_bridge rt) opid (w_bridge u)) = (events, None)"
    using ev print_lines_stdout [OF clean] by (auto simp: watch_events_def Let_def split: prod.splits option.splits)
  obtain v where v: "doc = dumps_default v" using json_document [OF doc] by blast
  have "(out1, err1) = (concat (map (\<lambda>l. l @ [CHR 0x0A]) (?rows events @ [doc])), err)"
    using last dumps_no_surrogate [of v] by (simp add: t1 v newline_def put_text_buffers)
  moreover have "split_on CHR 0x0A (concat (map (\<lambda>l. l @ [CHR 0x0A]) (?rows events @ [doc]))) =
      (?rows events @ [doc]) @ [[]]"
    by (rule split_on_terminated) (auto simp: v operation_event_line_def json_one_line)
  ultimately show ?thesis using b res doc code by auto
qed

theorem merge_jsonl_lines_witness:
  "\<exists>out1 err1 code w1. drive_merge sample_runtime (JsonlMerge, SubmitAction ''merge'' (sample_request None) ''R'')
       sample_world ([], []) = (Inr (ExitWith code), w1, (out1, err1)) \<and>
     length (split_on CHR 0x0A out1) = 4 \<and> code = 0"
proof -
  let ?rf = sample_reflection and ?events = "[sample_event 0, sample_event 1]"
  define rows where "rows = merge_event_rows ?rf JsonlMerge ?events"
  let ?shown = "concat (map (\<lambda>l. l @ [CHR 0x0A]) rows)"
  have shown: "print_lines (merge_event_put (buffers False) JsonlMerge) rows ([], []) = (Inr (), (?shown, []))"
    using print_lines_stdout [of rows False "[]" "[]"] dumps_no_surrogate
    by (simp add: merge_event_put_def [abs_def] rows_def merge_event_rows_def operation_event_line_def)
  let ?r = "sample_response AggregateStatus_ok None"
  have doc: "render_response ?rf (ce_getenv sample_env) True False False False ?r =
      Inr (dumps_default JNull)"
    and code: "exit_code_for_response ?r = 0"
    by (simp_all add: render_response_def render_machine_def is_response_def bindE_def
        sample_response_def sample_envelope_def sample_response_meta_def meta_of_def
        sample_reflection_def exit_code_for_response_def exit_code_for_status_def CLI_EXIT_CODES_def)
  let ?act = "SubmitAction ''merge'' (sample_request None) ''R''"
  have submit: "\<exists>w1. run_action sample_bridge ?act sample_world = (Inr (Handle ''op1''), w1)"
    by (simp add: merge_stream_def io_defs open_bridge_def sample_world_def sample_bridge_def
        sample_response_def sample_envelope_def sample_response_meta_def meta_of_def
        raise_for_response_def response_aggregate_def SUCCESS_AGGREGATE_STATUS_NAMES_def)
  have result: "\<exists>w2. merge_handle_result sample_bridge ''op1'' w = (Inr ?r, w2)" for w
    by (simp add: merge_handle_result_def io_defs sample_bridge_def)
  have watch: "\<exists>w2. watch_events sample_bridge (merge_event_put (buffers False) JsonlMerge)
      (merge_event_rows ?rf JsonlMerge) ''op1'' w ([], []) = (Inr ?events, w2, (?shown, []))" for w
    using shown by (simp add: watch_events_def sample_bridge_def rows_def [symmetric])
  obtain out1 where last: "put_text (buffers False) Stdout (dumps_default JNull @ newline) (?shown, []) =
      (Inr (), (out1, []))"
    using dumps_no_surrogate [of JNull] by (simp add: newline_def put_text_buffers)
  obtain w1 where run: "drive_merge sample_runtime (JsonlMerge, ?act) sample_world ([], []) =
      (Inr (ExitWith 0), w1, (out1, []))"
  proof -
    obtain u where u: "run_action sample_bridge ?act sample_world = (Inr (Handle ''op1''), u)"
      using submit by blast
    obtain v where v: "watch_events sample_bridge (merge_event_put (buffers False) JsonlMerge)
        (merge_event_rows ?rf JsonlMerge) ''op1'' u ([], []) = (Inr ?events, v, (?shown, []))"
      using watch by blast
    obtain x where x: "merge_handle_result sample_bridge ''op1'' v = (Inr ?r, x)" using result by blast
    have "drive_merge sample_runtime (JsonlMerge, ?act) sample_world ([], []) =
        (Inr (ExitWith 0), x, (out1, []))"
      by (simp del: run_action.simps add: drive_merge_def u v x doc last code)
    then show thesis by (rule that)
  qed
  have tm: "rt_terminal sample_runtime = buffers False" by simp
  have "\<exists>events doc. events \<in> {?events} \<and> split_on CHR 0x0A out1 =
      map (operation_event_line ?rf) events @ [doc, []]"
    using merge_jsonl_lines [OF tm run] by (auto simp: sample_bridge_def)
  then have "length (split_on CHR 0x0A out1) = 4" by auto
  with run show ?thesis by blast
qed

end
