(* ===== verification/PackageInfo.thy ===== *)
theory PackageInfo
  imports Codec
begin

section \<open>Package metadata and notices\<close>

text \<open>
  What the package says of itself: the IR metadata of \<^verbatim>\<open>protocol/codec.py\<close> and the version of
  \<^verbatim>\<open>_version.py\<close>; and \<^verbatim>\<open>_transport_notices.py\<close>, which presents warnings while a command line runs.
\<close>

subsection \<open>The packaged IR\<close>

text \<open>\<open>hashlib\<close> is a parameter: None for an algorithm it does not know.\<close>

definition SCHEMA_VERSION_STATUS :: string where
  "SCHEMA_VERSION_STATUS = ''unresolved''"

definition schema_version_metadata :: "(string \<times> string option) list" where
  "schema_version_metadata =
     [(''status'', Some SCHEMA_VERSION_STATUS), (''value'', None),
      (''reason'', Some ''packaged gwz.ir.json does not contain a canonical schema_version literal'')]"

definition ir_fingerprint :: "(string \<Rightarrow> (string \<Rightarrow> string) option) \<Rightarrow> string \<Rightarrow> string \<Rightarrow> exn + string" where
  "ir_fingerprint hashlib ir_bytes algorithm =
     (case hashlib algorithm of
        None \<Rightarrow> Inl (protocol_fault (''unsupported IR fingerprint algorithm: '' @ algorithm))
      | Some hexdigest \<Rightarrow> Inr (algorithm @ '':'' @ hexdigest ir_bytes))"

definition protocol_metadata ::
    "(string \<Rightarrow> (string \<Rightarrow> string) option) \<Rightarrow> string \<Rightarrow> exn + (string \<times> string option) list \<times> string" where
  "protocol_metadata hashlib ir_bytes =
     bindE (ir_fingerprint hashlib ir_bytes ''sha256'') (\<lambda>f. Inr (schema_version_metadata, f))"

subsection \<open>The version\<close>

text \<open>
  \<open>importlib.metadata\<close> by distribution name, None for one that is not installed, and \<open>setuptools_scm\<close>: None
  when it cannot be imported or finds no version.
\<close>

definition resolve_version :: "(string \<Rightarrow> string option) \<Rightarrow> string option \<Rightarrow> string" where
  "resolve_version installed scm =
     (case installed ''gwz'' of
        Some v \<Rightarrow> v
      | None \<Rightarrow> (case installed ''gwz-py'' of
          Some v \<Rightarrow> v
        | None \<Rightarrow> (case scm of Some v \<Rightarrow> v | None \<Rightarrow> ''0.0.0'')))"

subsection \<open>Notices\<close>

text \<open>
  The part of the interpreter the command line borrows: the handlers, the propagation and the level of the
  logger \<^verbatim>\<open>gwz\<close>, and the hook that shows warnings, which remembers the one it replaced.
\<close>

datatype 'h log_handler = NoteHandler | OtherHandler 'h

datatype 'k show_hook = GivenHook 'k | NoteHook "'k show_hook"

record ('h, 'k) notices =
  nc_handlers :: "'h log_handler list"
  nc_propagate :: bool
  nc_level :: int
  nc_showwarning :: "'k show_hook"

text \<open>\<open>replace(old, new, 1)\<close>.\<close>

fun replace_once :: "string \<Rightarrow> string \<Rightarrow> string \<Rightarrow> string" where
  "replace_once old new s =
     (if starts_with old s then new @ drop (length old) s
      else case s of [] \<Rightarrow> [] | c # cs \<Rightarrow> c # replace_once old new cs)"

definition note_line :: "string \<Rightarrow> string" where
  "note_line message = replace_once ''gwz: '' ''gwz-py: note: '' message"

definition NATIVE_NOTICE :: string where
  "NATIVE_NOTICE = ''gwz: using libgit2'' @ [CHR 0x27] @ ''s native transport''"

text \<open>Where a warning goes: a line on standard error, or the hook that was there before.\<close>

fun show_warning :: "'k show_hook \<Rightarrow> bool \<Rightarrow> string \<Rightarrow> string + 'k" where
  "show_warning (GivenHook k) user message = Inr k"
| "show_warning (NoteHook old) user message =
     (if user \<and> starts_with NATIVE_NOTICE message then Inl (note_line message)
      else show_warning old user message)"

definition WARNING :: int where "WARNING = 30"

definition enter_notices :: "('h, 'k) notices \<Rightarrow> ('h, 'k) notices" where
  "enter_notices st =
     \<lparr>nc_handlers = [NoteHandler], nc_propagate = False, nc_level = WARNING,
      nc_showwarning = NoteHook (nc_showwarning st)\<rparr>"

definition cli_notices ::
    "(('h, 'k) notices \<Rightarrow> 'r \<times> ('h, 'k) notices) \<Rightarrow> ('h, 'k) notices \<Rightarrow> 'r \<times> ('h, 'k) notices" where
  "cli_notices body st =
     (case body (enter_notices st) of
        (result, st1) \<Rightarrow>
          (result, st1\<lparr>nc_handlers := nc_handlers st, nc_propagate := nc_propagate st, nc_level := nc_level st,
                      nc_showwarning := nc_showwarning st\<rparr>))"

text \<open>Whatever the command line does to the logger, nested notices included, it gets back as it was.\<close>

lemma cli_notices_restores: "snd (cli_notices body st) = st"
  by (cases "body (enter_notices st)") (simp add: cli_notices_def)

lemma cli_notices_nested:
  "fst (cli_notices (cli_notices body) st) = fst (body (enter_notices (enter_notices st)))"
  by (cases "body (enter_notices (enter_notices st))") (simp add: cli_notices_def)

text \<open>A transport notice becomes one note; any other warning reaches the hook that was there.\<close>

lemma show_warning_within:
  "show_warning (nc_showwarning (enter_notices st)) user message =
     (if user \<and> starts_with NATIVE_NOTICE message then Inl (''gwz-py: note: '' @ drop 5 message)
      else show_warning (nc_showwarning st) user message)"
proof -
  have "note_line message = ''gwz-py: note: '' @ drop 5 message" if "starts_with NATIVE_NOTICE message"
  proof -
    from that have "starts_with ''gwz: '' message"
      by (auto simp: NATIVE_NOTICE_def starts_with_iff)
    then show ?thesis by (simp add: note_line_def eval_nat_numeral)
  qed
  then show ?thesis by (simp add: enter_notices_def)
qed

end
