(* ===== verification/ReleaseText.thy ===== *)
theory ReleaseText
  imports Faults "HOL-Library.AList"
begin

section \<open>The release script: manifests and locks\<close>

text \<open>
  What \<^verbatim>\<open>scripts/release.py\<close> reads out of \<^verbatim>\<open>Cargo.toml\<close>, \<^verbatim>\<open>Cargo.lock\<close> and \<^verbatim>\<open>pyproject.toml\<close>, what it
  writes into \<^verbatim>\<open>Cargo.toml\<close>, and what it refuses, as functions on their texts. The regular expressions
  are written out; their classes \<open>\w\<close> and \<open>\d\<close> are those of ASCII text. A quotation mark of the source
  is \<open>quote\<close>.
\<close>

subsection \<open>Lines and patterns\<close>

definition quote :: string where
  "quote = [CHR 0x22]"

definition quoted :: "string \<Rightarrow> string" where
  "quoted s = quote @ s @ quote"

text \<open>\<open>str.split()\<close> and \<open>str.splitlines()\<close>: cut at the first separator of a list, read again behind it.\<close>

function pieces :: "string list \<Rightarrow> string \<Rightarrow> string \<Rightarrow> string list" where
  "pieces seps cur s =
     (case filter (\<lambda>w. w \<noteq> [] \<and> starts_with w s) seps of
        w # _ \<Rightarrow> cur # pieces seps [] (drop (length w) s)
      | [] \<Rightarrow> (case s of [] \<Rightarrow> [cur] | c # cs \<Rightarrow> pieces seps (cur @ [c]) cs))"
  by pat_completeness auto
termination
proof (relation "measure (\<lambda>(seps, cur, s). length s)", goal_cases)
  case (3 seps cur s w rest)
  then have "w \<in> set (filter (\<lambda>w. w \<noteq> [] \<and> starts_with w s) seps)" by simp
  then have "w \<noteq> []" "starts_with w s" by auto
  then obtain t where "s = w @ t" by (auto simp: starts_with_iff)
  with \<open>w \<noteq> []\<close> show ?case by simp
qed auto

declare pieces.simps [simp del]

definition words :: "string \<Rightarrow> string list" where
  "words s = filter (\<lambda>w. w \<noteq> []) (pieces whitespace_seqs [] s)"

definition line_ends :: "string list" where
  "line_ends =
     [[CHR 0x0D, CHR 0x0A], [CHR 0x0A], [CHR 0x0D], [CHR 0x0B], [CHR 0x0C], [CHR 0x1C], [CHR 0x1D],
      [CHR 0x1E], [CHR 0xC2, CHR 0x85], [CHR 0xE2, CHR 0x80, CHR 0xA8], [CHR 0xE2, CHR 0x80, CHR 0xA9]]"

definition splitlines :: "string \<Rightarrow> string list" where
  "splitlines s = (let ps = pieces line_ends [] s in if last ps = [] then butlast ps else ps)"

text \<open>A pattern step: a literal token behind optional white space, and a quoted text behind it.\<close>

definition eat :: "string \<Rightarrow> string \<Rightarrow> string option" where
  "eat tok s = (let t = lstrip s in if starts_with tok t then Some (drop (length tok) t) else None)"

fun eat_all :: "string list \<Rightarrow> string \<Rightarrow> string option" where
  "eat_all [] s = Some s"
| "eat_all (tok # toks) s = (case eat tok s of None \<Rightarrow> None | Some t \<Rightarrow> eat_all toks t)"

definition eat_quoted :: "string \<Rightarrow> (string \<times> string) option" where
  "eat_quoted s =
     (case eat quote s of
        None \<Rightarrow> None
      | Some t \<Rightarrow> (let body = takeWhile (\<lambda>c. c \<noteq> CHR 0x22) t; rest = dropWhile (\<lambda>c. c \<noteq> CHR 0x22) t
                  in case rest of [] \<Rightarrow> None | _ # r \<Rightarrow> Some (body, r)))"

subsection \<open>The accepted gwz-core lines\<close>

text \<open>\<open>CORE_PINS\<close>, each pattern matched against the whole line.\<close>

definition path_pin :: "string \<Rightarrow> bool" where
  "path_pin line =
     (starts_with ''gwz-core'' line \<and>
      eat_all [''gwz-core'', ''='', ''{'', ''path'', ''='', quoted ''../gwz-core'', ''}''] line = Some [])"

definition git_pin :: "string \<Rightarrow> bool" where
  "git_pin line =
     (starts_with ''gwz-core'' line \<and>
      (case eat_all [''gwz-core'', ''='', ''{'', ''git'', ''=''] line of
         None \<Rightarrow> False
       | Some s \<Rightarrow>
           (case eat_quoted s of
              None \<Rightarrow> False
            | Some (url, s1) \<Rightarrow> url \<noteq> [] \<and>
                (case eat_all ['','', ''tag'', ''=''] s1 of
                   None \<Rightarrow> False
                 | Some s2 \<Rightarrow>
                     (case eat_quoted s2 of
                        None \<Rightarrow> False
                      | Some (tag, s3) \<Rightarrow> tag \<noteq> [] \<and> eat ''}'' s3 = Some [])))))"

definition registry_pin :: "string \<Rightarrow> bool" where
  "registry_pin line =
     (starts_with ''gwz-core'' line \<and>
      (case eat_all [''gwz-core'', ''=''] line of
         None \<Rightarrow> False
       | Some s \<Rightarrow>
           (case eat_quoted s of
              None \<Rightarrow> False
            | Some (body, rest) \<Rightarrow>
                rest = [] \<and> starts_with ''='' body \<and> tl body \<noteq> [] \<and> words (tl body) = [tl body])))"

definition CORE_PINS :: "(string \<Rightarrow> bool) list" where
  "CORE_PINS = [path_pin, git_pin, registry_pin]"

text \<open>\<open>DEPENDENCY_TABLE.fullmatch\<close>: a dependency table, also that of a target.\<close>

definition dependency_names :: "string list" where
  "dependency_names = [''dependencies'', ''dev-dependencies'', ''build-dependencies'']"

definition DEPENDENCY_TABLE :: "string \<Rightarrow> bool" where
  "DEPENDENCY_TABLE table =
     (\<exists>d \<in> set dependency_names.
        table = ''['' @ d @ '']'' \<or>
        (let tail = ''.'' @ d @ '']''; rest = drop (length ''[target.'') table
         in starts_with ''[target.'' table \<and> ends_with tail rest \<and> length tail < length rest))"

definition field_char :: "char \<Rightarrow> bool" where
  "field_char c = (is_alnum c \<or> c \<in> set ''_-'')"

text \<open>\<open>LOCK_FIELD.fullmatch\<close>: the key and the quoted value.\<close>

definition LOCK_FIELD :: "string \<Rightarrow> (string \<times> string) option" where
  "LOCK_FIELD line =
     (let key = takeWhile field_char line
      in if key = [] then None
         else case eat ''='' (dropWhile field_char line) of
                None \<Rightarrow> None
              | Some s \<Rightarrow> (case eat_quoted s of Some (v, []) \<Rightarrow> Some (key, v) | _ \<Rightarrow> None))"

subsection \<open>Reading a manifest\<close>

text \<open>\<open>manifest_entries\<close>: the loop, with the number of the line and the header of the table it is in.\<close>

definition opens_table :: "string \<Rightarrow> bool" where
  "opens_table line = starts_with ''['' (strip line)"

definition is_entry :: "string \<Rightarrow> bool" where
  "is_entry line = (strip line \<noteq> [] \<and> \<not> starts_with ''#'' (strip line))"

fun entries_from :: "nat \<Rightarrow> string \<Rightarrow> string list \<Rightarrow> (nat \<times> string \<times> string) list" where
  "entries_from i table [] = []"
| "entries_from i table (line # lines) =
     (if opens_table line then entries_from (Suc i) (strip line) lines
      else if is_entry line then (i, table, strip line) # entries_from (Suc i) table lines
      else entries_from (Suc i) table lines)"

definition manifest_entries :: "string \<Rightarrow> (nat \<times> string \<times> string) list" where
  "manifest_entries text = entries_from 0 [] (split_on (CHR 0x0A) text)"

definition entry_key :: "string \<Rightarrow> string" where
  "entry_key line = strip (takeWhile (\<lambda>c. c \<noteq> CHR ''='') line)"

definition is_core :: "nat \<times> string \<times> string \<Rightarrow> bool" where
  "is_core e = (case e of (i, table, line) \<Rightarrow> DEPENDENCY_TABLE table \<and> entry_key line = ''gwz-core'')"

definition is_version :: "nat \<times> string \<times> string \<Rightarrow> bool" where
  "is_version e = (case e of (i, table, line) \<Rightarrow> table = ''[package]'' \<and> entry_key line = ''version'')"

subsection \<open>Reconciling the manifest\<close>

text \<open>\<open>re.sub\<close> with a count of one: the first quoted text of a line becomes the version.\<close>

definition set_first_quoted :: "string \<Rightarrow> string \<Rightarrow> string" where
  "set_first_quoted version line =
     (let before = takeWhile (\<lambda>c. c \<noteq> CHR 0x22) line
      in case dropWhile (\<lambda>c. c \<noteq> CHR 0x22) line of
           [] \<Rightarrow> line
         | _ # t \<Rightarrow> (case dropWhile (\<lambda>c. c \<noteq> CHR 0x22) t of
                      [] \<Rightarrow> line
                    | _ # after \<Rightarrow> before @ quoted version @ after))"

definition core_pin :: "string \<Rightarrow> string" where
  "core_pin version = ''gwz-core = '' @ quoted (''='' @ version)"

definition sspi_path_pin :: string where
  "sspi_path_pin = ''gwz-sspi = { path = '' @ quoted ''../gwz-sspi'' @ '', version = '' @ quoted ''=0.1.2'' @ '' }''"

definition sspi_pin :: string where
  "sspi_pin = ''gwz-sspi = '' @ quoted ''=0.1.2''"

definition bad_core_message :: "(nat \<times> string \<times> string) list \<Rightarrow> string" where
  "bad_core_message cores =
     (let found = join '', '' (map (\<lambda>(i, table, line). ''`'' @ line @ ''` in '' @ table) cores)
      in ''Cargo.toml must declare gwz-core on one line of [dependencies], as main''
         @ [CHR 0x27] @ ''s sibling `path`, the git + tag pin of 1.0.17 and earlier or `'' @ core_pin ''X.Y.Z''
         @ ''` from crates.io (found: '' @ (if found = [] then ''none'' else found)
         @ '') -- did main edit the dependency line?'')"

definition sspi_lines :: "string list \<Rightarrow> nat list" where
  "sspi_lines lines =
     filter (\<lambda>i. starts_with ''gwz-sspi ='' (strip (lines ! i))) [0..<length lines]"

definition set_sspi :: "string list \<Rightarrow> string + string list" where
  "set_sspi lines =
     (case sspi_lines lines of
        [] \<Rightarrow> Inr lines
      | [i] \<Rightarrow> (if strip (lines ! i) \<in> {sspi_path_pin, sspi_pin} then Inr (lines[i := sspi_pin])
                else Inl ''unexpected SSPI dependency; reviewed exact registry pin required'')
      | _ \<Rightarrow> Inl ''unexpected SSPI dependency; reviewed exact registry pin required'')"

text \<open>
  \<open>reconcile_cargo_toml\<close> on the text: the message it fails with, or the text it writes. The version
  line is read from the list after the other two lines were set.
\<close>

definition reconcile_text :: "string \<Rightarrow> string \<Rightarrow> string + string" where
  "reconcile_text version text =
     (let entries = manifest_entries text;
          cores = filter is_core entries;
          versions = map fst (filter is_version entries);
          lines = split_on (CHR 0x0A) text
      in case cores of
           [(c, table, line)] \<Rightarrow>
             (if table \<noteq> ''[dependencies]'' \<or> \<not> list_ex (\<lambda>pin. pin line) CORE_PINS
              then Inl (bad_core_message cores)
              else case versions of
                [v] \<Rightarrow>
                  bindE (set_sspi (lines[c := core_pin version])) (\<lambda>lines1.
                  Inr (join [CHR 0x0A] (lines1[v := set_first_quoted version (lines1 ! v)])))
              | _ \<Rightarrow> Inl (''expected one `version` line in Cargo.toml'' @ [CHR 0x27] @ ''s [package] table, found ''
                          @ show_nat (length versions)))
         | _ \<Rightarrow> Inl (bad_core_message cores))"

subsection \<open>Reading a lock\<close>

text \<open>
  \<open>lock_packages\<close>: the flag tells whether \<open>current\<close> is a package, which then is the last one listed.
\<close>

type_synonym package = "(string \<times> string) list"

definition put_last :: "string \<times> string \<Rightarrow> package list \<Rightarrow> package list" where
  "put_last f ps = butlast ps @ [AList.update (fst f) (snd f) (last ps)]"

fun packages_from :: "package list \<Rightarrow> bool \<Rightarrow> string list \<Rightarrow> package list" where
  "packages_from ps current [] = ps"
| "packages_from ps current (line # lines) =
     (let stripped = strip line
      in if stripped = ''[[package]]'' then packages_from (ps @ [[]]) True lines
         else if starts_with ''['' stripped then packages_from ps False lines
         else if current then
           (case LOCK_FIELD stripped of
              None \<Rightarrow> packages_from ps current lines
            | Some f \<Rightarrow> packages_from (put_last f ps) current lines)
         else packages_from ps current lines)"

definition lock_packages :: "string \<Rightarrow> package list" where
  "lock_packages lock = packages_from [] False (splitlines lock)"

subsection \<open>Checking the pins\<close>

definition CRATES_IO_SOURCE :: string where
  "CRATES_IO_SOURCE = ''registry+https://github.com/rust-lang/crates.io-index''"

definition word_char :: "char \<Rightarrow> bool" where
  "word_char c = (is_alnum c \<or> c = CHR ''_'')"

text \<open>\<open>re.search\<close> of a word with an equals sign behind it: the text behind the first such place.\<close>

fun find_assignment :: "bool \<Rightarrow> string list \<Rightarrow> string \<Rightarrow> string option" where
  "find_assignment inside names [] = None"
| "find_assignment inside names (c # cs) =
     (let here = List.map_filter (\<lambda>n. if starts_with n (c # cs) then eat ''='' (drop (length n) (c # cs)) else None) names
      in if \<not> inside \<and> here \<noteq> [] then Some (hd here) else find_assignment (word_char c) names cs)"

definition assigns :: "string list \<Rightarrow> string \<Rightarrow> bool" where
  "assigns names line = (find_assignment False names line \<noteq> None)"

text \<open>The search for \<open>package = "..."\<close> goes on where the value is not a non-empty quoted text.\<close>

fun renamed_package :: "bool \<Rightarrow> string \<Rightarrow> string option" where
  "renamed_package inside [] = None"
| "renamed_package inside (c # cs) =
     (case (if inside \<or> \<not> starts_with ''package'' (c # cs) then None
            else case eat ''='' (drop (length ''package'') (c # cs)) of None \<Rightarrow> None | Some s \<Rightarrow> eat_quoted s) of
        Some (d # ds, rest) \<Rightarrow> Some (d # ds)
      | _ \<Rightarrow> renamed_package (word_char c) cs)"

definition none_text :: "string option \<Rightarrow> string" where
  "none_text v = (case v of None \<Rightarrow> ''None'' | Some s \<Rightarrow> s)"

definition list_repr :: "string list \<Rightarrow> string" where
  "list_repr xs = ''['' @ join '', '' (map py_repr xs) @ '']''"

definition package_repr :: "package \<Rightarrow> string" where
  "package_repr p = ''{'' @ join '', '' (map (\<lambda>(k, v). py_repr k @ '': '' @ py_repr v) p) @ ''}''"

definition dependency_lines :: "string \<Rightarrow> (string \<times> string) list" where
  "dependency_lines manifest =
     map snd (filter (\<lambda>(i, table, line). DEPENDENCY_TABLE table) (manifest_entries manifest))"

definition stray :: "package \<Rightarrow> bool" where
  "stray p = (map_of p ''name'' \<noteq> Some ''gwz-py'' \<and> map_of p ''source'' \<noteq> Some CRATES_IO_SOURCE)"

definition stray_text :: "package \<Rightarrow> string" where
  "stray_text p =
     none_text (map_of p ''name'') @ '' '' @ none_text (map_of p ''version'') @ '' (''
     @ (case map_of p ''source'' of None \<Rightarrow> ''a path'' | Some s \<Rightarrow> s) @ '')''"

text \<open>\<open>verify_release_pins\<close> up to its loop over the dependencies: the message of the first failure.\<close>

definition manifest_fault :: "string \<Rightarrow> string \<Rightarrow> string option" where
  "manifest_fault version manifest =
     (let pin = core_pin version;
          deps = dependency_lines manifest;
          cores = filter (\<lambda>line. entry_key line = ''gwz-core'') (map snd deps);
          sourced = filter (assigns [''git'', ''path'']) (map snd deps)
      in if cores \<noteq> [pin] \<or> (''[dependencies]'', pin) \<notin> set deps then
           Some (''Cargo.toml must pin `'' @ pin @ ''` from crates.io, gwz-py'' @ [CHR 0x27]
                 @ ''s own version, in [dependencies]; found ''
                 @ (if cores = [] then ''no gwz-core'' else list_repr cores)
                 @ (if list_ex (assigns [''tag'']) cores
                    then '' -- the git tag pin of 1.0.17 and earlier is not a release form'' else []))
         else if sourced \<noteq> [] then
           Some (''Cargo.toml declares a git or path dependency: '' @ join ''; '' sourced)
         else None)"

definition lock_fault :: "string \<Rightarrow> package list \<Rightarrow> string option" where
  "lock_fault version packages =
     (let core = filter (\<lambda>p. map_of p ''name'' = Some ''gwz-core'') packages;
          strays = filter stray packages
      in if map (\<lambda>p. (map_of p ''version'', map_of p ''source'')) core
              \<noteq> [(Some version, Some CRATES_IO_SOURCE)] then
           Some (''Cargo.lock must take gwz-core '' @ version @ '' from crates.io; it holds ''
                 @ ''['' @ join '', '' (map package_repr core) @ '']'')
         else if \<not> truthy (map_of (hd core) ''checksum'') then
           Some (''Cargo.lock has no checksum for gwz-core '' @ version)
         else if strays \<noteq> [] then
           Some (''Cargo.lock takes packages from somewhere other than crates.io: ''
                 @ join ''; '' (map stray_text strays))
         else None)"

definition pins_fault :: "string \<Rightarrow> string \<Rightarrow> string \<Rightarrow> string option" where
  "pins_fault version manifest lock =
     (case manifest_fault version manifest of
        Some m \<Rightarrow> Some m
      | None \<Rightarrow> lock_fault version (lock_packages lock))"

text \<open>One turn of the loop: the message of its failure, or the line it logs.\<close>

definition dependency_pin :: "package list \<Rightarrow> string \<Rightarrow> string + string" where
  "dependency_pin packages line =
     (let name = or_else (renamed_package False line) (entry_key line);
          locked = map (\<lambda>p. case map_of p ''version'' of None \<Rightarrow> ''?'' | Some v \<Rightarrow> v)
                     (filter (\<lambda>p. map_of p ''name'' = Some name) packages)
      in if locked = [] then
           Inl (''Cargo.lock has no '' @ name @ '' for Cargo.toml'' @ [CHR 0x27] @ ''s `'' @ line @ ''`; refresh the lock'')
         else Inr (''native dependency pin: '' @ line @ '' -> '' @ name @ '' '' @ join '', '' locked @ '' from crates.io''))"

text \<open>\<open>verify_pyproject_metadata\<close> on the text.\<close>

fun contains :: "string \<Rightarrow> string \<Rightarrow> bool" where
  "contains w [] = (w = [])"
| "contains w (c # cs) = (starts_with w (c # cs) \<or> contains w cs)"

definition pyproject_fault :: "string \<Rightarrow> string option" where
  "pyproject_fault text =
     (if ''name = '' @ quoted ''gwz'' \<notin> set (split_on (CHR 0x0A) text)
      then Some ''pyproject.toml must publish the Python distribution as `gwz`''
      else if \<not> contains (''gwz-py = '' @ quoted ''gwz.cli:main'') text
      then Some ''pyproject.toml must install the Python CLI as `gwz-py`'' else None)"

text \<open>\<open>re.fullmatch\<close> of the tag: the letter v and three numbers.\<close>

definition release_tag :: "string \<Rightarrow> bool" where
  "release_tag tag =
     (starts_with ''v'' tag \<and>
      (let parts = split_on (CHR ''.'') (tl tag)
       in length parts = 3 \<and> list_all (\<lambda>p. p \<noteq> [] \<and> list_all is_digit p) parts))"

subsection \<open>Stripping around a quotation mark\<close>

lemma starts_with_absent: "c \<notin> set w \<Longrightarrow> starts_with w (a @ c # b) = starts_with w a"
  by (auto simp: starts_with_iff append_eq_append_conv2 append_eq_Cons_conv Cons_eq_append_conv)

lemma strip_front_absent:
  "list_all (\<lambda>w. c \<notin> set w) ws \<Longrightarrow> strip_front ws (a @ c # b) = strip_front ws a @ c # b"
proof (induction ws a rule: strip_front.induct)
  case (1 ws s)
  have same: "filter (\<lambda>w. w \<noteq> [] \<and> starts_with w (s @ c # b)) ws =
      filter (\<lambda>w. w \<noteq> [] \<and> starts_with w s) ws" (is "?G = ?F")
    using "1.prems" by (auto simp: list_all_iff starts_with_absent intro!: filter_cong)
  show ?case
  proof (cases ?F)
    case Nil
    then show ?thesis
      by (subst (1 2) strip_front.simps) (simp only: same list.case)
  next
    case (Cons w rest)
    then have "w \<in> set ?F" by simp
    then obtain t where t: "s = w @ t" by (auto simp: starts_with_iff)
    have "strip_front ws (drop (length w) s @ c # b) = strip_front ws (drop (length w) s) @ c # b"
      using "1.IH" [OF Cons "1.prems"] .
    moreover have "strip_front ws (s @ c # b) = strip_front ws (drop (length w) (s @ c # b))"
      by (subst strip_front.simps) (simp only: same Cons list.case)
    moreover have "strip_front ws s = strip_front ws (drop (length w) s)"
      by (subst strip_front.simps) (simp only: Cons list.case)
    ultimately show ?thesis by (simp add: t)
  qed
qed

lemma whitespace_no_quote: "list_all (\<lambda>w. CHR 0x22 \<notin> set w) whitespace_seqs"
  "list_all (\<lambda>w. CHR 0x22 \<notin> set w) (map rev whitespace_seqs)"
  by (simp_all add: whitespace_seqs_def)

lemma strip_quote: "strip (a @ CHR 0x22 # b) = lstrip a @ CHR 0x22 # rstrip b"
  using strip_front_absent [OF whitespace_no_quote(2), of "rev b" "rev (lstrip a)"]
  by (simp add: strip_def rstrip_def lstrip_def strip_front_absent [OF whitespace_no_quote(1)])

lemma rstrip_quote: "rstrip (a @ CHR 0x22 # b) = a @ CHR 0x22 # rstrip b"
  using strip_front_absent [OF whitespace_no_quote(2), of "rev b" "rev a"]
  by (simp add: rstrip_def)

subsection \<open>What the reconciled manifest keeps\<close>

text \<open>Two lines that a reader of the manifest takes for entries with the same key.\<close>

definition same_entry :: "string \<Rightarrow> string \<Rightarrow> bool" where
  "same_entry l l' =
     (is_entry l \<and> is_entry l' \<and> \<not> opens_table l \<and> \<not> opens_table l' \<and>
      entry_key (strip l') = entry_key (strip l))"

fun keyed :: "nat \<times> string \<times> string \<Rightarrow> nat \<times> string \<times> string" where
  "keyed (i, table, line) = (i, table, entry_key line)"

lemma keyed_entries:
  "list_all2 (\<lambda>l l'. l' = l \<or> same_entry l l') ls ls' \<Longrightarrow>
   map keyed (entries_from i table ls') = map keyed (entries_from i table ls)"
  by (induction ls ls' arbitrary: i table rule: list_all2_induct) (auto simp: same_entry_def)

lemma entries_line:
  "(j, t, l) \<in> set (entries_from i table ls) \<Longrightarrow>
   i \<le> j \<and> j - i < length ls \<and> l = strip (ls ! (j - i)) \<and> is_entry (ls ! (j - i)) \<and> \<not> opens_table (ls ! (j - i))"
proof (induction ls arbitrary: i table)
  case (Cons line lines)
  have later: ?case if "(j, t, l) \<in> set (entries_from (Suc i) table' lines)" for table'
  proof -
    have "Suc i \<le> j" "j - Suc i < length lines" "l = strip (lines ! (j - Suc i))"
      "is_entry (lines ! (j - Suc i))" "\<not> opens_table (lines ! (j - Suc i))"
      using Cons.IH [OF that] by auto
    moreover from \<open>Suc i \<le> j\<close> have "j - i = Suc (j - Suc i)" by simp
    ultimately show ?thesis by simp
  qed
  show ?case
  proof (cases "opens_table line")
    case True
    with Cons.prems show ?thesis by (intro later) simp
  next
    case False
    with Cons.prems have "j = i \<and> l = strip line \<and> is_entry line \<or>
        (j, t, l) \<in> set (entries_from (Suc i) table lines)" by (auto split: if_splits)
    with False later [of table] show ?thesis by auto
  qed
qed simp

lemma manifest_line:
  "(j, t, l) \<in> set (manifest_entries text) \<Longrightarrow>
   j < length (split_on (CHR 0x0A) text) \<and> l = strip (split_on (CHR 0x0A) text ! j) \<and>
   is_entry (split_on (CHR 0x0A) text ! j) \<and> \<not> opens_table (split_on (CHR 0x0A) text ! j)"
  unfolding manifest_entries_def by (drule entries_line) simp

lemma filter_keyed:
  assumes "map keyed es' = map keyed es" and "\<And>e. P e = Q (keyed e)"
  shows "map keyed (filter P es') = map keyed (filter P es)"
proof -
  have "P = Q \<circ> keyed" by (simp add: fun_eq_iff assms(2))
  then have "map keyed (filter P xs) = filter Q (map keyed xs)" for xs
    by (simp add: filter_map)
  then show ?thesis by (simp add: assms(1))
qed

lemma is_core_keyed: "is_core e = (\<lambda>(i, t, k). DEPENDENCY_TABLE t \<and> k = ''gwz-core'') (keyed e)"
  by (cases e) (simp add: is_core_def)

lemma is_version_keyed: "is_version e = (\<lambda>(i, t, k). t = ''[package]'' \<and> k = ''version'') (keyed e)"
  by (cases e) (simp add: is_version_def)

subsection \<open>The pins as lines\<close>

lemma release_version:
  assumes "release_tag (CHR ''v'' # version)"
  shows "version \<noteq> []" "list_all (\<lambda>c. is_digit c \<or> c = CHR ''.'') version"
proof -
  let ?ps = "split_on (CHR ''.'') version"
  from assms have ps: "list_all (\<lambda>p. p \<noteq> [] \<and> list_all is_digit p) ?ps"
    and len: "length ?ps = 3" by (simp_all add: release_tag_def Let_def)
  from len show "version \<noteq> []" by auto
  have "set (join [CHR ''.''] ?ps) \<subseteq> (\<Union>p \<in> set ?ps. set p) \<union> {CHR ''.''}"
    using set_join [of "[CHR ''.'']" ?ps] by auto
  with ps show "list_all (\<lambda>c. is_digit c \<or> c = CHR ''.'') version"
    unfolding join_split_on by (fastforce simp: list_all_iff)
qed

lemma version_chars:
  assumes "list_all (\<lambda>c. is_digit c \<or> c = CHR ''.'') version"
  shows "CHR 0x22 \<notin> set version" "CHR 0x0A \<notin> set version"
    "\<And>w. w \<in> set whitespace_seqs \<Longrightarrow> \<not> starts_with w (drop n version)"
proof -
  show "CHR 0x22 \<notin> set version" "CHR 0x0A \<notin> set version"
    using assms by (auto simp: list_all_iff is_digit_def byte_of_def)
  fix w assume w: "w \<in> set whitespace_seqs"
  show "\<not> starts_with w (drop n version)"
  proof
    assume "starts_with w (drop n version)"
    then obtain t where "drop n version = w @ t" by (auto simp: starts_with_iff)
    then have "set w \<subseteq> set version" using set_drop_subset [of n version] by auto
    with assms have "list_all (\<lambda>c. is_digit c \<or> c = CHR ''.'') w" by (auto simp: list_all_iff)
    with w show False by (auto simp: whitespace_seqs_def is_digit_def byte_of_def)
  qed
qed

lemma pieces_none:
  assumes "\<And>n w. w \<in> set seps \<Longrightarrow> w \<noteq> [] \<Longrightarrow> \<not> starts_with w (drop n v)"
  shows "pieces seps cur v = [cur @ v]"
  using assms
proof (induction v arbitrary: cur)
  case Nil
  have "filter (\<lambda>w. w \<noteq> [] \<and> starts_with w []) seps = []"
    by (auto simp: filter_empty_conv starts_with_iff)
  then show ?case by (subst pieces.simps) simp
next
  case (Cons c v)
  have "filter (\<lambda>w. w \<noteq> [] \<and> starts_with w (c # v)) seps = []"
    using Cons.prems [of _ 0] by (auto simp: filter_empty_conv)
  moreover have "pieces seps (cur @ [c]) v = [(cur @ [c]) @ v]"
    using Cons.prems [of _ "Suc _"] by (intro Cons.IH) simp
  ultimately show ?case by (subst pieces.simps) simp
qed

lemma lstrip_quote: "lstrip (a @ CHR 0x22 # b) = lstrip a @ CHR 0x22 # b"
  by (simp add: lstrip_def strip_front_absent [OF whitespace_no_quote(1)])

lemma eat_quote:
  assumes "CHR 0x22 \<notin> set tok"
  shows "eat tok (a @ CHR 0x22 # b) =
    (if starts_with tok (lstrip a) then Some (drop (length tok) (lstrip a) @ CHR 0x22 # b) else None)"
proof (cases "starts_with tok (lstrip a)")
  case True
  then obtain t where "lstrip a = tok @ t" by (auto simp: starts_with_iff)
  with True show ?thesis by (simp add: eat_def lstrip_quote starts_with_absent [OF assms] Let_def)
next
  case False
  then show ?thesis by (simp add: eat_def lstrip_quote starts_with_absent [OF assms] Let_def)
qed

definition core_head :: string where
  "core_head = ''gwz-core = ''"

lemma core_pin_parts: "core_pin version = core_head @ CHR 0x22 # (CHR ''='' # version) @ [CHR 0x22]"
  by (simp add: core_pin_def core_head_def quoted_def quote_def)

lemma core_head_facts:
  "lstrip core_head = core_head" "eat ''gwz-core'' (core_head @ CHR 0x22 # r) = Some ('' = '' @ CHR 0x22 # r)"
  "eat ''='' ('' = '' @ CHR 0x22 # r) = Some ('' '' @ CHR 0x22 # r)"
  "eat quote ('' '' @ CHR 0x22 # r) = Some r"
proof -
  have l: "lstrip core_head = core_head" "lstrip '' = '' = ''= ''" "lstrip '' '' = []"
    by (simp_all add: core_head_def) code_simp+
  show "lstrip core_head = core_head" by (rule l)
  show "eat ''gwz-core'' (core_head @ CHR 0x22 # r) = Some ('' = '' @ CHR 0x22 # r)"
    unfolding l eat_quote [of "''gwz-core''", simplified] by (simp add: core_head_def starts_with_def)
  show "eat ''='' ('' = '' @ CHR 0x22 # r) = Some ('' '' @ CHR 0x22 # r)"
    unfolding eat_quote [of "''=''", simplified] l by (simp add: starts_with_def)
  show "eat quote ('' '' @ CHR 0x22 # r) = Some r"
    unfolding eat_def lstrip_quote l by (simp add: quote_def starts_with_def)
qed

lemma rstrip_Nil: "rstrip [] = []"
  by code_simp

lemma registry_core_pin:
  assumes "release_tag (CHR ''v'' # version)"
  shows "registry_pin (core_pin version)"
proof -
  note v = release_version [OF assms]
  have "words version = [version]"
    unfolding words_def by (subst pieces_none) (simp_all add: version_chars [OF v(2)] v(1))
  moreover have "starts_with ''gwz-core'' (core_pin version)"
    by (simp add: core_pin_parts core_head_def starts_with_def)
  moreover have "takeWhile (\<lambda>c. c \<noteq> CHR 0x22) (version @ [CHR 0x22]) = version"
    "dropWhile (\<lambda>c. c \<noteq> CHR 0x22) (version @ [CHR 0x22]) = [CHR 0x22]"
    using version_chars(1) [OF v(2)] by (auto simp: takeWhile_append dropWhile_append)
  ultimately show ?thesis
    by (simp add: registry_pin_def core_pin_parts core_head_facts core_head_facts(2-4) [simplified]
        eat_quoted_def v(1) starts_with_def [of "''=''"])
qed

lemma core_pin_line:
  assumes "release_tag (CHR ''v'' # version)"
  shows "strip (core_pin version) = core_pin version" "entry_key (core_pin version) = ''gwz-core''"
    "is_entry (core_pin version)" "\<not> opens_table (core_pin version)"
    "\<not> starts_with ''gwz-sspi ='' (core_pin version)" "CHR 0x0A \<notin> set (core_pin version)"
proof -
  show strip: "strip (core_pin version) = core_pin version"
    by (simp only: core_pin_parts strip_quote core_head_facts(1) rstrip_quote rstrip_Nil)
  have "strip ''gwz-core '' = ''gwz-core''" by code_simp
  then show "entry_key (core_pin version) = ''gwz-core''"
    by (simp add: entry_key_def core_pin_parts core_head_def)
  show "is_entry (core_pin version)" "\<not> opens_table (core_pin version)"
    "\<not> starts_with ''gwz-sspi ='' (core_pin version)"
    by (simp_all add: is_entry_def opens_table_def strip) (simp_all add: core_pin_parts core_head_def starts_with_def)
  show "CHR 0x0A \<notin> set (core_pin version)"
    using version_chars(2) [OF release_version(2) [OF assms]]
    by (simp add: core_pin_parts core_head_def)
qed

lemma sspi_pin_line:
  "strip sspi_pin = sspi_pin" "entry_key sspi_pin = ''gwz-sspi''" "is_entry sspi_pin" "\<not> opens_table sspi_pin"
  "starts_with ''gwz-sspi ='' sspi_pin" "CHR 0x0A \<notin> set sspi_pin"
  by code_simp+

lemma sspi_line:
  assumes "starts_with ''gwz-sspi ='' (strip line)"
  shows "is_entry line" "\<not> opens_table line" "entry_key (strip line) = ''gwz-sspi''"
proof -
  obtain t where t: "strip line = ''gwz-sspi ='' @ t" using assms by (auto simp: starts_with_iff)
  show "is_entry line" "\<not> opens_table line" by (simp_all add: is_entry_def opens_table_def t starts_with_def)
  have "strip ''gwz-sspi '' = ''gwz-sspi''" by code_simp
  then show "entry_key (strip line) = ''gwz-sspi''" by (simp add: entry_key_def t)
qed

lemma until_quote:
  obtains "CHR 0x22 \<notin> set l" | a b where "l = a @ CHR 0x22 # b" "CHR 0x22 \<notin> set a"
  by (cases "CHR 0x22 \<in> set l") (auto dest: split_list_first)

lemma upto_quote:
  assumes "CHR 0x22 \<notin> set a"
  shows "takeWhile (\<lambda>c. c \<noteq> CHR 0x22) (a @ CHR 0x22 # b) = a"
    "dropWhile (\<lambda>c. c \<noteq> CHR 0x22) (a @ CHR 0x22 # b) = CHR 0x22 # b"
  using assms by (auto simp: takeWhile_append dropWhile_append)

lemma no_quote: "CHR 0x22 \<notin> set a \<Longrightarrow> dropWhile (\<lambda>c. c \<noteq> CHR 0x22) a = []"
  by auto

lemma set_first_quoted_shape:
  assumes "CHR 0x22 \<notin> set b" and "CHR 0x22 \<notin> set m"
  shows "set_first_quoted v (b @ CHR 0x22 # m @ CHR 0x22 # a) = b @ CHR 0x22 # v @ CHR 0x22 # a"
  using upto_quote [OF assms(1), of "m @ CHR 0x22 # a"] upto_quote [OF assms(2), of a]
  by (simp add: set_first_quoted_def quoted_def quote_def)

lemma set_first_quoted_cases:
  obtains (same) "set_first_quoted v l = l"
  | (changed) b m a where "l = b @ CHR 0x22 # m @ CHR 0x22 # a" "CHR 0x22 \<notin> set b" "CHR 0x22 \<notin> set m"
      "set_first_quoted v l = b @ CHR 0x22 # v @ CHR 0x22 # a"
proof (cases l rule: until_quote)
  case 1
  then show ?thesis using that(1) by (simp add: set_first_quoted_def no_quote)
next
  case (2 b r)
  show ?thesis
  proof (cases r rule: until_quote)
    case 1
    with 2 that(1) show ?thesis
      by (simp add: set_first_quoted_def upto_quote no_quote)
  next
    case inner: (2 m a)
    show ?thesis using that(2) [of b m a] 2 inner set_first_quoted_shape [of b m v a] by simp
  qed
qed

lemma strip_keeps_quote: "CHR 0x22 \<in> set (strip (a @ CHR 0x22 # b))"
  by (simp add: strip_quote)

lemma version_line:
  assumes v: "CHR 0x22 \<notin> set v" "CHR 0x0A \<notin> set v" and key: "entry_key (strip l) = ''version''"
    and entry: "is_entry l" "\<not> opens_table l"
  shows "same_entry l (set_first_quoted v l)" "set_first_quoted v (set_first_quoted v l) = set_first_quoted v l"
    "CHR 0x0A \<notin> set l \<Longrightarrow> CHR 0x0A \<notin> set (set_first_quoted v l)"
proof -
  have "same_entry l (set_first_quoted v l) \<and>
      set_first_quoted v (set_first_quoted v l) = set_first_quoted v l \<and>
      (CHR 0x0A \<notin> set l \<longrightarrow> CHR 0x0A \<notin> set (set_first_quoted v l))"
  proof (cases v l rule: set_first_quoted_cases)
    case same
    with entry show ?thesis by (simp add: same_entry_def)
  next
    case (changed b m a)
    let ?old = "strip l" and ?new = "strip (set_first_quoted v l)"
    have strips: "?old = lstrip b @ CHR 0x22 # m @ CHR 0x22 # rstrip a"
      "?new = lstrip b @ CHR 0x22 # v @ CHR 0x22 # rstrip a"
      using rstrip_quote [of m a] rstrip_quote [of v a] changed(2,3)
      by (simp_all add: changed(1) set_first_quoted_shape strip_quote)
    have eq: "CHR ''='' \<in> set (lstrip b)"
    proof (rule ccontr)
      assume "CHR ''='' \<notin> set (lstrip b)"
      then have "entry_key ?old = strip (lstrip b @ CHR 0x22 # takeWhile (\<lambda>c. c \<noteq> CHR ''='') (m @ CHR 0x22 # rstrip a))"
        by (simp add: strips entry_key_def takeWhile_append)
      then have "CHR 0x22 \<in> set (entry_key ?old)" using strip_keeps_quote by metis
      with key show False by simp
    qed
    then have "entry_key ?new = entry_key ?old"
      by (simp add: strips entry_key_def takeWhile_append1)
    moreover have "starts_with [c] ?new = starts_with [c] ?old" if "c \<noteq> CHR 0x22" for c
      using that by (simp add: strips starts_with_absent)
    ultimately have "same_entry l (set_first_quoted v l)"
      using entry by (simp add: same_entry_def is_entry_def opens_table_def) (simp add: strips)
    moreover have "set_first_quoted v (set_first_quoted v l) = set_first_quoted v l"
      using changed(2,3) v by (simp add: changed(1) set_first_quoted_shape)
    ultimately show ?thesis
      using changed(2,3) v by (simp add: changed(1) set_first_quoted_shape)
  qed
  then show "same_entry l (set_first_quoted v l)"
    "set_first_quoted v (set_first_quoted v l) = set_first_quoted v l"
    "CHR 0x0A \<notin> set l \<Longrightarrow> CHR 0x0A \<notin> set (set_first_quoted v l)" by blast+
qed

subsection \<open>Reconciling is idempotent\<close>

abbreviation is_sspi :: "string \<Rightarrow> bool" where
  "is_sspi line \<equiv> starts_with ''gwz-sspi ='' (strip line)"

lemma sspi_lines_iff: "i \<in> set (sspi_lines ls) \<longleftrightarrow> i < length ls \<and> is_sspi (ls ! i)"
  by (auto simp: sspi_lines_def)

lemma set_sspi_Inr:
  assumes "set_sspi ls = Inr ls1"
  shows "length ls1 = length ls" "length (sspi_lines ls) \<le> 1"
    "i < length ls \<Longrightarrow> ls1 ! i = (if is_sspi (ls ! i) then sspi_pin else ls ! i)"
proof -
  consider "sspi_lines ls = []" "ls1 = ls" | s where "sspi_lines ls = [s]" "ls1 = ls[s := sspi_pin]"
    using assms by (auto simp: set_sspi_def split: list.splits if_splits)
  then have "length ls1 = length ls \<and> length (sspi_lines ls) \<le> 1 \<and>
      (i < length ls \<longrightarrow> ls1 ! i = (if is_sspi (ls ! i) then sspi_pin else ls ! i))"
  proof cases
    case 1
    then show ?thesis using sspi_lines_iff [of i ls] by auto
  next
    case (2 s)
    then show ?thesis using sspi_lines_iff [of i ls] by (auto simp: nth_list_update)
  qed
  then show "length ls1 = length ls" "length (sspi_lines ls) \<le> 1"
    "i < length ls \<Longrightarrow> ls1 ! i = (if is_sspi (ls ! i) then sspi_pin else ls ! i)" by blast+
qed

lemma set_sspi_fixed:
  assumes "length (sspi_lines ls) \<le> 1" and "\<And>i. i < length ls \<Longrightarrow> is_sspi (ls ! i) \<Longrightarrow> ls ! i = sspi_pin"
  shows "set_sspi ls = Inr ls"
proof (cases "sspi_lines ls")
  case (Cons s rest)
  with assms(1) have one: "sspi_lines ls = [s]" by simp
  then have "ls ! s = sspi_pin" using assms(2) [of s] sspi_lines_iff [of s ls] by simp
  with one show ?thesis by (simp add: set_sspi_def sspi_pin_line(1)) (metis list_update_id)
qed (simp add: set_sspi_def)

text \<open>The new text, line by line.\<close>

lemma reconcile_shape:
  assumes tag: "release_tag (CHR ''v'' # version)" and ok: "reconcile_text version text = Inr updated"
  defines "ls \<equiv> split_on (CHR 0x0A) text" and "E \<equiv> manifest_entries text"
  obtains c cl vi ls' where
    "filter is_core E = [(c, ''[dependencies]'', cl)]" "map fst (filter is_version E) = [vi]"
    "updated = join [CHR 0x0A] ls'" "length ls' = length ls" "length (sspi_lines ls) \<le> 1"
    "c < length ls" "vi < length ls" "c \<noteq> vi"
    "\<And>i. i < length ls \<Longrightarrow> ls' ! i =
       (if i = vi then set_first_quoted version (ls ! vi) else if i = c then core_pin version
        else if is_sspi (ls ! i) then sspi_pin else ls ! i)"
    "is_entry (ls ! c)" "\<not> opens_table (ls ! c)" "entry_key (strip (ls ! c)) = ''gwz-core''"
    "is_entry (ls ! vi)" "\<not> opens_table (ls ! vi)" "entry_key (strip (ls ! vi)) = ''version''"
proof -
  obtain c cl where core: "filter is_core E = [(c, ''[dependencies]'', cl)]"
    using ok by (auto simp: reconcile_text_def E_def Let_def split: list.splits if_splits prod.splits)
  then obtain vi ls1 where vi: "map fst (filter is_version E) = [vi]"
    and s: "set_sspi (ls[c := core_pin version]) = Inr ls1"
    and up: "updated = join [CHR 0x0A] (ls1[vi := set_first_quoted version (ls1 ! vi)])"
    using ok by (auto simp: reconcile_text_def E_def ls_def Let_def bindE_eq_Inr split: list.splits if_splits)
  have "(c, ''[dependencies]'', cl) \<in> set (filter is_core E)" by (simp add: core)
  then have c: "c < length ls" "is_entry (ls ! c)" "\<not> opens_table (ls ! c)" "entry_key (strip (ls ! c)) = ''gwz-core''"
    using manifest_line [of c _ cl "text"] by (auto simp: E_def ls_def is_core_def)
  obtain vt vl where "filter is_version E = [(vi, vt, vl)]" using vi by auto
  then have "(vi, vt, vl) \<in> set (filter is_version E)" by simp
  then have v: "vi < length ls" "is_entry (ls ! vi)" "\<not> opens_table (ls ! vi)" "entry_key (strip (ls ! vi)) = ''version''"
    using manifest_line [of vi vt vl "text"] by (auto simp: E_def ls_def is_version_def)
  from c(4) v(4) have "c \<noteq> vi" by auto
  note pin = core_pin_line [OF tag]
  have not_sspi: "\<not> is_sspi (ls ! c)" "\<not> is_sspi (ls ! vi)"
    using sspi_line(3) c(4) v(4) by fastforce+
  have "sspi_lines (ls[c := core_pin version]) = sspi_lines ls"
    unfolding sspi_lines_def length_list_update
    by (rule filter_cong) (use c(1) not_sspi(1) pin(1,5) in \<open>auto simp: nth_list_update\<close>)
  with set_sspi_Inr(2) [OF s] have one: "length (sspi_lines ls) \<le> 1" by simp
  have ls1: "length ls1 = length ls"
    "i < length ls \<Longrightarrow> ls1 ! i = (if i = c then core_pin version else if is_sspi (ls ! i) then sspi_pin else ls ! i)" for i
    using set_sspi_Inr(1,3) [OF s] pin(1,5) by (auto simp: nth_list_update)
  show ?thesis
    by (rule that [OF core vi up]) (use c v ls1 \<open>c \<noteq> vi\<close> one not_sspi in \<open>auto simp: nth_list_update\<close>)
qed

lemma reconciled_entries:
  assumes tag: "release_tag (CHR ''v'' # version)" and ok: "reconcile_text version text = Inr updated"
  defines "ls \<equiv> split_on (CHR 0x0A) text" and "ls' \<equiv> split_on (CHR 0x0A) updated"
  obtains c vi where
    "filter is_core (manifest_entries updated) = [(c, ''[dependencies]'', core_pin version)]"
    "map fst (filter is_version (manifest_entries updated)) = [vi]"
    "length ls' = length ls" "length (sspi_lines ls') \<le> 1"
    "c < length ls" "ls' ! c = core_pin version"
    "vi < length ls" "ls' ! vi = set_first_quoted version (ls' ! vi)"
    "\<And>i. i < length ls \<Longrightarrow> is_sspi (ls' ! i) \<Longrightarrow> ls' ! i = sspi_pin"
    "\<And>i. i < length ls \<Longrightarrow> ls' ! i = ls ! i \<or>
       entry_key (strip (ls ! i)) \<in> {''gwz-core'', ''version'', ''gwz-sspi''}"
proof -
  obtain c cl vi l2 where shape:
    "filter is_core (manifest_entries text) = [(c, ''[dependencies]'', cl)]"
    "map fst (filter is_version (manifest_entries text)) = [vi]"
    "updated = join [CHR 0x0A] l2" "length l2 = length ls" "length (sspi_lines ls) \<le> 1"
    "c < length ls" "vi < length ls" "c \<noteq> vi"
    and line: "\<And>i. i < length ls \<Longrightarrow> l2 ! i =
       (if i = vi then set_first_quoted version (ls ! vi) else if i = c then core_pin version
        else if is_sspi (ls ! i) then sspi_pin else ls ! i)"
    and cl: "is_entry (ls ! c)" "\<not> opens_table (ls ! c)" "entry_key (strip (ls ! c)) = ''gwz-core''"
    and vl: "is_entry (ls ! vi)" "\<not> opens_table (ls ! vi)" "entry_key (strip (ls ! vi)) = ''version''"
    by (rule reconcile_shape [OF tag ok, folded ls_def]) (rule that)
  note pin = core_pin_line [OF tag]
    and vers = version_line [OF version_chars(1,2) [OF release_version(2) [OF tag]] vl(3,1,2)]
  have no_nl: "CHR 0x0A \<notin> set (ls ! i)" if "i < length ls" for i
    using that split_on_no_sep [of "ls ! i" "CHR 0x0A" "text"] by (simp add: ls_def)
  have "CHR 0x0A \<notin> set s" if "s \<in> set l2" for s
  proof -
    from that obtain i where "i < length ls" "s = l2 ! i" by (auto simp: in_set_conv_nth shape(4))
    then show ?thesis
      using line [of i] vers(3) no_nl [of i] pin(6) sspi_pin_line(6) shape(7) by auto
  qed
  moreover have "l2 \<noteq> []" using shape(4,6) by auto
  ultimately have l2: "ls' = l2" unfolding ls'_def shape(3) by (intro split_on_join)
  have same: "l2 ! i = ls ! i \<or> same_entry (ls ! i) (l2 ! i)" if "i < length ls" for i
    using line [OF that] vers(1) cl pin(1-4) sspi_line [of "ls ! i"] sspi_pin_line(1-4)
    by (auto simp: same_entry_def)
  then have "list_all2 (\<lambda>l l'. l' = l \<or> same_entry l l') ls l2"
    by (auto simp: list_all2_conv_all_nth shape(4))
  then have keys: "map keyed (manifest_entries updated) = map keyed (manifest_entries text)"
    unfolding manifest_entries_def using keyed_entries l2 by (simp add: ls_def ls'_def)
  have "map keyed (filter is_core (manifest_entries updated)) = [keyed (c, ''[dependencies]'', cl)]"
    using filter_keyed [OF keys, of is_core, OF is_core_keyed] shape(1) by simp
  then obtain l where l: "filter is_core (manifest_entries updated) = [(c, ''[dependencies]'', l)]" by auto
  then have "(c, ''[dependencies]'', l) \<in> set (filter is_core (manifest_entries updated))" by simp
  then have "l = strip (l2 ! c)"
    using manifest_line [of c _ l updated] l2 by (auto simp: ls'_def)
  with line [OF shape(6)] shape(8) pin(1) have l': "l = core_pin version" by simp
  have "map fst (map keyed (filter is_version (manifest_entries updated))) =
      map fst (map keyed (filter is_version (manifest_entries text)))"
    by (simp only: filter_keyed [OF keys, of is_version, OF is_version_keyed])
  moreover have "fst \<circ> keyed = fst" by (simp add: fun_eq_iff)
  ultimately have v: "map fst (filter is_version (manifest_entries updated)) = [vi]" by (simp add: shape(2))
  have sspi_same: "is_sspi (l2 ! i) = is_sspi (ls ! i)" if "i < length ls" for i
  proof -
    have "\<not> is_sspi (l2 ! vi)" "\<not> is_sspi (ls ! vi)" "\<not> is_sspi (ls ! c)"
      using sspi_line(3) vl(3) cl(3) same [OF shape(7)] by (fastforce simp: same_entry_def)+
    then show ?thesis
      using line [OF that] pin(1,5) sspi_pin_line(1,5) by auto
  qed
  have "sspi_lines l2 = sspi_lines ls"
    unfolding sspi_lines_def shape(4) by (rule filter_cong) (use sspi_same in auto)
  with shape(5) have few: "length (sspi_lines l2) \<le> 1" by simp
  show ?thesis
  proof (rule that [OF _ v])
    show "filter is_core (manifest_entries updated) = [(c, ''[dependencies]'', core_pin version)]"
      by (simp add: l l')
    show "length ls' = length ls" "length (sspi_lines ls') \<le> 1" "c < length ls" "vi < length ls"
      using few by (simp_all add: l2 shape(4,6,7))
    show "ls' ! c = core_pin version" "ls' ! vi = set_first_quoted version (ls' ! vi)"
      using line [OF shape(6)] line [OF shape(7)] shape(8) vers(2) by (simp_all add: l2)
    show "ls' ! i = sspi_pin" if "i < length ls" "is_sspi (ls' ! i)" for i
      using that sspi_same [OF that(1)] line [OF that(1)] sspi_line(3) [of "ls ! i"] vl(3) cl(3)
      by (auto simp: l2 split: if_splits)
    show "ls' ! i = ls ! i \<or> entry_key (strip (ls ! i)) \<in> {''gwz-core'', ''version'', ''gwz-sspi''}"
      if "i < length ls" for i
      using line [OF that] sspi_line(3) [of "ls ! i"] vl(3) cl(3) by (auto simp: l2)
  qed
qed


text \<open>A version in apostrophes is not seen.\<close>

lemma literal_version_kept:
  "CHR 0x22 \<notin> set line \<Longrightarrow> set_first_quoted version line = line"
  by (simp add: set_first_quoted_def no_quote)

definition sample_cargo :: string where
  "sample_cargo =
     join [CHR 0x0A] [''[package]'', ''version='' @ quoted ''0'', ''[dependencies]'',
       ''gwz-core={path='' @ quoted ''../gwz-core'' @ ''}'']"

definition sample_reconciled :: string where
  "sample_reconciled =
     join [CHR 0x0A] [''[package]'', ''version='' @ quoted ''1.2.3'', ''[dependencies]'', core_pin ''1.2.3'']"

lemma sample_reconciles: "release_tag ''v1.2.3''" "reconcile_text ''1.2.3'' sample_cargo = Inr sample_reconciled"
  by code_simp+


end
