(* ===== verification/Release.thy ===== *)
theory Release
  imports ReleaseText
begin

section \<open>The release script\<close>

text \<open>
  \<^verbatim>\<open>scripts/release.py\<close> as a program over a host: the commands it starts, the files it reads and writes
  and its temporary directory are answers of the host, on a state of the host's own. Everything the
  script does is recorded as an event, with what the host answered. A path is text, as \<open>str\<close> of the
  source's \<open>Path\<close>.
\<close>

subsection \<open>The host\<close>

record completed =
  returncode :: int
  cp_stdout :: string
  cp_stderr :: string

text \<open>\<open>SystemExit\<close> with its code, or an exception of the library, which nothing here catches.\<close>

datatype release_exit = SystemExit int | HostFault string

datatype release_event =
  Ran "string list" "string option" "completed option"
| ReadText string "string option"
| WroteText string string
| MadeTemp string
| RemovedTree string
| Printed bool string

record 'h release_host =
  rh_run :: "string list \<Rightarrow> string option \<Rightarrow> bool \<Rightarrow> 'h \<Rightarrow> (string + completed) \<times> 'h"
  rh_read :: "string \<Rightarrow> 'h \<Rightarrow> (string + string) \<times> 'h"
  rh_write :: "string \<Rightarrow> string \<Rightarrow> 'h \<Rightarrow> (string + unit) \<times> 'h"
  rh_mkdtemp :: "string \<Rightarrow> 'h \<Rightarrow> (string + string) \<times> 'h"
  rh_rmtree :: "string \<Rightarrow> 'h \<Rightarrow> 'h"
  rh_which :: "string \<Rightarrow> bool"

record release_env =
  re_repo :: string
  re_python :: string
  re_nt :: bool

record release_args =
  ra_tag :: string
  ra_main :: string
  ra_release :: string
  ra_bootstrap :: bool
  ra_core_url :: string
  ra_cli_url :: string
  ra_no_test :: bool
  ra_no_package_smoke :: bool
  ra_push :: bool
  ra_keep_worktree :: bool

text \<open>The defaults of the options, and the name of each after its declaration in \<open>main\<close>.\<close>

definition DEFAULT_GWZ_CORE_URL :: string where
  "DEFAULT_GWZ_CORE_URL = ''https://github.com/owebeeone/gwz-core''"

definition DEFAULT_GWZ_CLI_URL :: string where
  "DEFAULT_GWZ_CLI_URL = ''https://github.com/owebeeone/gwz-cli''"

definition default_args :: "string \<Rightarrow> release_args" where
  "default_args tag =
     \<lparr>ra_tag = tag, ra_main = ''main'', ra_release = ''release'', ra_bootstrap = False,
      ra_core_url = DEFAULT_GWZ_CORE_URL, ra_cli_url = DEFAULT_GWZ_CLI_URL, ra_no_test = False,
      ra_no_package_smoke = False, ra_push = False, ra_keep_worktree = False\<rparr>"

record 'h release_world =
  rw_host :: 'h
  rw_trace :: "release_event list"

type_synonym ('h, 'a) rel = "'h release_world \<Rightarrow> (release_exit + 'a) \<times> 'h release_world"

definition emit :: "release_event \<Rightarrow> 'h release_world \<Rightarrow> 'h release_world" where
  "emit e w = w\<lparr>rw_trace := rw_trace w @ [e]\<rparr>"

definition returnR :: "'a \<Rightarrow> ('h, 'a) rel" where
  "returnR x w = (Inr x, w)"

definition bindR :: "('h, 'a) rel \<Rightarrow> ('a \<Rightarrow> ('h, 'b) rel) \<Rightarrow> ('h, 'b) rel" where
  "bindR m f w = (case m w of (Inl e, w1) \<Rightarrow> (Inl e, w1) | (Inr x, w1) \<Rightarrow> f x w1)"

definition thenR :: "('h, 'a) rel \<Rightarrow> ('h, 'b) rel \<Rightarrow> ('h, 'b) rel" where
  "thenR m k = bindR m (\<lambda>_. k)"

definition whenR :: "bool \<Rightarrow> ('h, unit) rel \<Rightarrow> ('h, unit) rel" where
  "whenR b m = (if b then m else returnR ())"

text \<open>\<open>try: m finally: c\<close>: a clean-up that raises replaces the outcome.\<close>

definition finallyR :: "('h, 'a) rel \<Rightarrow> ('h, unit) rel \<Rightarrow> ('h, 'a) rel" where
  "finallyR m c w =
     (case m w of (r, w1) \<Rightarrow> (case c w1 of (Inl e, w2) \<Rightarrow> (Inl e, w2) | (Inr _, w2) \<Rightarrow> (r, w2)))"

fun forR :: "('a \<Rightarrow> ('h, unit) rel) \<Rightarrow> 'a list \<Rightarrow> ('h, unit) rel" where
  "forR f [] = returnR ()"
| "forR f (x # xs) = thenR (f x) (forR f xs)"

subsection \<open>Messages, commands, files\<close>

definition log_line :: "string \<Rightarrow> ('h, unit) rel" where
  "log_line message w = (Inr (), emit (Printed False (''release: '' @ message)) w)"

definition print_err :: "string \<Rightarrow> ('h, unit) rel" where
  "print_err s w = (Inr (), emit (Printed True s) w)"

definition fail :: "string \<Rightarrow> ('h, 'a) rel" where
  "fail message w = (Inl (SystemExit 1), emit (Printed True (''release: error: '' @ message)) w)"

definition subprocess_run ::
    "'h release_host \<Rightarrow> string list \<Rightarrow> string option \<Rightarrow> bool \<Rightarrow> ('h, completed) rel" where
  "subprocess_run rh cmd cwd capture w =
     (case rh_run rh cmd cwd capture (rw_host w) of
        (Inl m, h1) \<Rightarrow> (Inl (HostFault m), emit (Ran cmd cwd None) (w\<lparr>rw_host := h1\<rparr>))
      | (Inr c, h1) \<Rightarrow> (Inr c, emit (Ran cmd cwd (Some c)) (w\<lparr>rw_host := h1\<rparr>)))"

definition run_checked ::
    "'h release_host \<Rightarrow> string list \<Rightarrow> string option \<Rightarrow> bool \<Rightarrow> bool \<Rightarrow> ('h, completed) rel" where
  "run_checked rh cmd cwd capture check =
     thenR (log_line (''$ '' @ join '' '' cmd))
     (bindR (subprocess_run rh cmd cwd capture) (\<lambda>result.
      if check \<and> returncode result \<noteq> 0 then
        thenR (whenR (capture \<and> cp_stdout result \<noteq> []) (print_err (cp_stdout result)))
       (thenR (whenR (capture \<and> cp_stderr result \<noteq> []) (print_err (cp_stderr result)))
        (fail (''command failed ('' @ show_int (returncode result) @ ''): '' @ join '' '' cmd)))
      else returnR result))"

text \<open>\<open>run\<close> with its defaults, and \<open>git\<close> and \<open>git_wt\<close> with the options of their callers.\<close>

definition run_in :: "'h release_host \<Rightarrow> string list \<Rightarrow> string option \<Rightarrow> ('h, unit) rel" where
  "run_in rh cmd cwd = bindR (run_checked rh cmd cwd False True) (\<lambda>_. returnR ())"

definition git_wt ::
    "'h release_host \<Rightarrow> string \<Rightarrow> string list \<Rightarrow> bool \<Rightarrow> bool \<Rightarrow> ('h, completed) rel" where
  "git_wt rh worktree args = run_checked rh ([''git'', ''-C'', worktree] @ args) None"

definition git :: "'h release_host \<Rightarrow> release_env \<Rightarrow> string list \<Rightarrow> bool \<Rightarrow> bool \<Rightarrow> ('h, completed) rel" where
  "git rh env args = run_checked rh ([''git'', ''-C'', re_repo env] @ args) None"

definition read_text :: "'h release_host \<Rightarrow> string \<Rightarrow> ('h, string) rel" where
  "read_text rh path w =
     (case rh_read rh path (rw_host w) of
        (Inl m, h1) \<Rightarrow> (Inl (HostFault m), emit (ReadText path None) (w\<lparr>rw_host := h1\<rparr>))
      | (Inr t, h1) \<Rightarrow> (Inr t, emit (ReadText path (Some t)) (w\<lparr>rw_host := h1\<rparr>)))"

definition write_text :: "'h release_host \<Rightarrow> string \<Rightarrow> string \<Rightarrow> ('h, unit) rel" where
  "write_text rh path t w =
     (case rh_write rh path t (rw_host w) of
        (Inl m, h1) \<Rightarrow> (Inl (HostFault m), w\<lparr>rw_host := h1\<rparr>)
      | (Inr _, h1) \<Rightarrow> (Inr (), emit (WroteText path t) (w\<lparr>rw_host := h1\<rparr>)))"

definition mkdtemp :: "'h release_host \<Rightarrow> string \<Rightarrow> ('h, string) rel" where
  "mkdtemp rh stem w =
     (case rh_mkdtemp rh stem (rw_host w) of
        (Inl m, h1) \<Rightarrow> (Inl (HostFault m), w\<lparr>rw_host := h1\<rparr>)
      | (Inr p, h1) \<Rightarrow> (Inr (path_str p), emit (MadeTemp (path_str p)) (w\<lparr>rw_host := h1\<rparr>)))"

definition rmtree :: "'h release_host \<Rightarrow> string \<Rightarrow> ('h, unit) rel" where
  "rmtree rh path w = (Inr (), emit (RemovedTree path) (w\<lparr>rw_host := rh_rmtree rh path (rw_host w)\<rparr>))"

definition path_parent :: "string \<Rightarrow> string" where
  "path_parent s =
     (let body = join ''/'' (butlast (path_parts s))
      in if path_root s = [] \<and> body = [] then ''.'' else path_root s @ body)"

definition venv_executable :: "release_env \<Rightarrow> string \<Rightarrow> string \<Rightarrow> string" where
  "venv_executable env venv name =
     (if re_nt env then path_join (path_join venv ''Scripts'') (name @ ''.exe'')
      else path_join (path_join venv ''bin'') name)"

subsection \<open>Questions to the repository\<close>

definition branch_exists :: "'h release_host \<Rightarrow> release_env \<Rightarrow> string \<Rightarrow> ('h, bool) rel" where
  "branch_exists rh env branch =
     bindR (git rh env [''rev-parse'', ''--verify'', ''--quiet'', branch] True False) (\<lambda>c.
     returnR (returncode c = 0))"

definition tag_commit :: "'h release_host \<Rightarrow> release_env \<Rightarrow> string \<Rightarrow> ('h, string option) rel" where
  "tag_commit rh env tag =
     bindR (git rh env [''rev-parse'', ''-q'', ''--verify'', ''refs/tags/'' @ tag @ ''^{commit}''] True False) (\<lambda>existing.
     returnR (if returncode existing \<noteq> 0 then None else Some (strip (cp_stdout existing))))"

definition require_clean_worktree :: "'h release_host \<Rightarrow> release_env \<Rightarrow> ('h, unit) rel" where
  "require_clean_worktree rh env =
     bindR (git rh env [''status'', ''--porcelain''] True True) (\<lambda>c.
     whenR (strip (cp_stdout c) \<noteq> [])
       (fail (''working tree is not clean; commit or stash changes before releasing. The release branch '' @
              ''is created from committed refs, not from the current index or working tree.'')))"

definition is_ancestor :: "'h release_host \<Rightarrow> release_env \<Rightarrow> string \<Rightarrow> string \<Rightarrow> ('h, bool) rel" where
  "is_ancestor rh env ancestor descendant =
     bindR (git rh env [''merge-base'', ''--is-ancestor'', ancestor, descendant] True False) (\<lambda>c.
     returnR (returncode c = 0))"

definition warn_if_behind_upstream :: "'h release_host \<Rightarrow> release_env \<Rightarrow> string \<Rightarrow> ('h, unit) rel" where
  "warn_if_behind_upstream rh env branch =
     bindR (git rh env [''rev-parse'', ''--abbrev-ref'', ''--symbolic-full-name'', branch @ ''@'' @ ''{u}''] True False) (\<lambda>upstream.
     let name = strip (cp_stdout upstream)
     in if returncode upstream \<noteq> 0 \<or> name = [] then returnR ()
        else bindR (git rh env [''rev-list'', ''--count'', branch @ ''..'' @ name] True False) (\<lambda>behind.
          let count = strip (cp_stdout behind)
          in whenR (count \<noteq> [] \<and> count \<noteq> ''0'')
               (log_line (''WARNING: local '' @ branch @ '' is '' @ count @ '' commit(s) behind '' @ name @
                          ''; releasing local '' @ branch))))"

definition verify_remote_tag :: "'h release_host \<Rightarrow> string \<Rightarrow> string \<Rightarrow> string \<Rightarrow> ('h, unit) rel" where
  "verify_remote_tag rh project url tag =
     bindR (run_checked rh [''git'', ''ls-remote'', ''--tags'', url, ''refs/tags/'' @ tag] None True True) (\<lambda>result.
     thenR (whenR (strip (cp_stdout result) = [])
              (fail (project @ '' tag '' @ tag @ '' not found at '' @ url @ ''; release '' @ project @ '' first'')))
     (log_line (''verified '' @ project @ '' '' @ tag @ '' exists at '' @ url)))"

definition release_branch_is_free :: "'h release_host \<Rightarrow> release_env \<Rightarrow> string \<Rightarrow> ('h, unit) rel" where
  "release_branch_is_free rh env release =
     thenR (git rh env [''worktree'', ''prune''] False False)
     (bindR (git rh env [''worktree'', ''list'', ''--porcelain''] True True) (\<lambda>porcelain.
      whenR (''branch refs/heads/'' @ release \<in> set (split_on (CHR 0x0A) (cp_stdout porcelain)))
        (fail (''branch '' @ squote release @
               '' is checked out in another worktree; free it before running the release script''))))"

definition merge_head_exists :: "'h release_host \<Rightarrow> string \<Rightarrow> ('h, bool) rel" where
  "merge_head_exists rh worktree =
     bindR (git_wt rh worktree [''rev-parse'', ''-q'', ''--verify'', ''MERGE_HEAD''] True False) (\<lambda>c.
     returnR (returncode c = 0))"

subsection \<open>The merge\<close>

definition take_theirs :: "'h release_host \<Rightarrow> string \<Rightarrow> string \<Rightarrow> ('h, unit) rel" where
  "take_theirs rh worktree path =
     thenR (git_wt rh worktree [''checkout'', ''--theirs'', ''--'', path] False False)
     (thenR (git_wt rh worktree [''add'', path] False True) (returnR ()))"

definition do_merge :: "'h release_host \<Rightarrow> release_env \<Rightarrow> string \<Rightarrow> string \<Rightarrow> string \<Rightarrow> ('h, unit) rel" where
  "do_merge rh env worktree main release =
     bindR (is_ancestor rh env main release) (\<lambda>already.
     bindR (git_wt rh worktree [''merge'', ''--no-ff'', ''--no-commit'', main] True False) (\<lambda>merge.
     bindR (git_wt rh worktree [''diff'', ''--name-only'', ''--diff-filter=U''] True True) (\<lambda>unmerged.
     let conflicts = words (cp_stdout unmerged);
         other = filter (\<lambda>p. p \<notin> {''Cargo.toml'', ''Cargo.lock''}) conflicts
     in if conflicts \<noteq> [] then
          thenR (whenR (other \<noteq> [])
                  (thenR (git_wt rh worktree [''merge'', ''--abort''] False False)
                    (fail (''merge conflicts beyond Cargo.toml and Cargo.lock:'' @ [CHR 0x0A] @ ''  '' @
                           join ([CHR 0x0A] @ ''  '') other))))
          (thenR (forR (take_theirs rh worktree) conflicts)
          (log_line (''resolved merge conflicts in '' @ join '', '' conflicts @ '' toward '' @ main)))
        else bindR (merge_head_exists rh worktree) (\<lambda>merging.
          if merging then returnR ()
          else if already then
            log_line (release @ '' already contains '' @ main @ ''; reconciling release metadata only'')
          else thenR (git_wt rh worktree [''merge'', ''--abort''] False False)
            (fail (''`git merge '' @ main @ ''` did not produce a merge:'' @ [CHR 0x0A] @
                   cp_stdout merge @ cp_stderr merge))))))"

subsection \<open>Manifest, lock and metadata\<close>

definition reconcile_cargo_toml :: "'h release_host \<Rightarrow> string \<Rightarrow> string \<Rightarrow> ('h, bool) rel" where
  "reconcile_cargo_toml rh worktree version =
     (let path = path_join worktree ''Cargo.toml''
      in bindR (read_text rh path) (\<lambda>manifest.
         case reconcile_text version manifest of
           Inl message \<Rightarrow> fail message
         | Inr updated \<Rightarrow>
             if updated = manifest then
               thenR (log_line (''Cargo.toml already reconciled (version = '' @ version @ '', '' @ core_pin version @ '')''))
                 (returnR False)
             else thenR (write_text rh path updated)
              (thenR (log_line (''reconciled Cargo.toml: version = '' @ version @ '', '' @ core_pin version @
                                '' from crates.io''))
                 (returnR True))))"

definition verify_pyproject_metadata :: "'h release_host \<Rightarrow> string \<Rightarrow> ('h, unit) rel" where
  "verify_pyproject_metadata rh worktree =
     bindR (read_text rh (path_join worktree ''pyproject.toml'')) (\<lambda>t.
     case pyproject_fault t of None \<Rightarrow> returnR () | Some message \<Rightarrow> fail message)"

definition log_dependency :: "package list \<Rightarrow> string \<times> string \<Rightarrow> ('h, unit) rel" where
  "log_dependency packages d =
     (case dependency_pin packages (snd d) of Inl message \<Rightarrow> fail message | Inr line \<Rightarrow> log_line line)"

definition verify_release_pins :: "'h release_host \<Rightarrow> string \<Rightarrow> string \<Rightarrow> ('h, unit) rel" where
  "verify_release_pins rh worktree version =
     bindR (read_text rh (path_join worktree ''Cargo.toml'')) (\<lambda>manifest.
     case manifest_fault version manifest of
       Some message \<Rightarrow> fail message
     | None \<Rightarrow>
         bindR (read_text rh (path_join worktree ''Cargo.lock'')) (\<lambda>lock.
         case lock_fault version (lock_packages lock) of
           Some message \<Rightarrow> fail message
         | None \<Rightarrow> forR (log_dependency (lock_packages lock)) (dependency_lines manifest)))"

definition resolve_release_lock :: "'h release_host \<Rightarrow> string \<Rightarrow> string \<Rightarrow> ('h, unit) rel" where
  "resolve_release_lock rh worktree version =
     bindR (run_checked rh [''cargo'', ''update'', ''--workspace''] (Some worktree) False False) (\<lambda>c.
     whenR (returncode c \<noteq> 0)
       (fail (''cargo could not resolve the release pins: gwz-core '' @ version @ '' must be on crates.io before gwz-py'' @
              [CHR 0x27] @ ''s release (release gwz-core first and let its publish job finish)'')))"

definition checkout_release_dependency ::
    "'h release_host \<Rightarrow> string \<Rightarrow> string \<Rightarrow> string \<Rightarrow> ('h, unit) rel" where
  "checkout_release_dependency rh url tag target =
     run_in rh [''git'', ''clone'', ''--depth'', ''1'', ''--branch'', tag, url, target] None"

subsection \<open>The checks\<close>

definition RELEASE_PYTHON_DEPS :: "string list" where
  "RELEASE_PYTHON_DEPS =
     [''maturin>=1.13,<2'', ''pytest>=8'', ''pytest-asyncio>=0.23'', ''setuptools-scm>=8'', ''taut-proto==0.10.0'']"

definition create_release_python :: "'h release_host \<Rightarrow> release_env \<Rightarrow> string \<Rightarrow> ('h, string) rel" where
  "create_release_python rh env worktree =
     (let venv = path_join (path_parent worktree) ''.release-python'';
          python = venv_executable env venv ''python''
      in thenR (run_in rh [re_python env, ''-m'', ''venv'', venv] None)
        (thenR (run_in rh [python, ''-m'', ''pip'', ''install'', ''--upgrade'', ''pip''] None)
        (thenR (run_in rh ([python, ''-m'', ''pip'', ''install''] @ RELEASE_PYTHON_DEPS) None)
          (returnR python))))"

definition run_release_checks ::
    "'h release_host \<Rightarrow> release_env \<Rightarrow> string \<Rightarrow> release_args \<Rightarrow> string \<Rightarrow> ('h, unit) rel" where
  "run_release_checks rh env worktree args version =
     bindR (create_release_python rh env worktree) (\<lambda>python.
     thenR (verify_pyproject_metadata rh worktree)
    (thenR (run_in rh [python, ''scripts/check_protocol_drift.py''] (Some worktree))
    (thenR (run_in rh [python, ''scripts/regen_protocol.py'', ''--check''] (Some worktree))
    (thenR (run_in rh [''cargo'', ''check''] (Some worktree))
    (thenR (verify_release_pins rh worktree version)
    (thenR (whenR (\<not> ra_no_test args) (run_in rh [python, ''run_tests.py''] (Some worktree)))
     (whenR (\<not> ra_no_package_smoke args)
       (run_in rh [python, ''scripts/package_smoke.py'', ''--expected-version'', version] (Some worktree)))))))))"

subsection \<open>Tag and push\<close>

definition ensure_tag :: "'h release_host \<Rightarrow> release_env \<Rightarrow> string \<Rightarrow> string \<Rightarrow> ('h, unit) rel" where
  "ensure_tag rh env tag target =
     bindR (tag_commit rh env tag) (\<lambda>existing.
     case existing of
       Some commit \<Rightarrow>
         if commit = target then
           log_line (''tag '' @ tag @ '' already points at '' @ utake 10 target @ ''; leaving it'')
         else fail (''tag '' @ tag @ '' already exists at '' @ utake 10 commit @ '', not release commit '' @
                    utake 10 target @ ''; refusing to move it'')
     | None \<Rightarrow>
         thenR (git rh env [''tag'', tag, target] False True)
           (log_line (''created tag '' @ tag @ '' -> '' @ utake 10 target)))"

definition push_release :: "'h release_host \<Rightarrow> release_env \<Rightarrow> string \<Rightarrow> string \<Rightarrow> ('h, unit) rel" where
  "push_release rh env release tag =
     bindR (run_checked rh [''git'', ''-C'', re_repo env, ''push'', ''--atomic'', ''origin'', release, tag] None True False) (\<lambda>result.
     if returncode result \<noteq> 0 then
       thenR (whenR (cp_stderr result \<noteq> []) (print_err (cp_stderr result)))
         (fail (''`git push --atomic origin '' @ release @ '' '' @ tag @ ''` failed''))
     else log_line (''pushed '' @ release @ '' and '' @ tag @ '' to origin''))"

definition publish :: "'h release_host \<Rightarrow> release_env \<Rightarrow> release_args \<Rightarrow> ('h, unit) rel" where
  "publish rh env args =
     (if ra_push args then push_release rh env (ra_release args) (ra_tag args)
      else thenR (log_line ''next step (not done without --push):'')
        (log_line (''  git -C '' @ re_repo env @ '' push origin '' @ ra_release args @ '' '' @ ra_tag args)))"

definition head_commit :: "'h release_host \<Rightarrow> string \<Rightarrow> ('h, string) rel" where
  "head_commit rh worktree =
     bindR (git_wt rh worktree [''rev-parse'', ''HEAD''] True True) (\<lambda>c. returnR (strip (cp_stdout c)))"

definition remove_worktree :: "'h release_host \<Rightarrow> release_env \<Rightarrow> string \<Rightarrow> string \<Rightarrow> ('h, unit) rel" where
  "remove_worktree rh env worktree temp_root =
     thenR (git rh env [''worktree'', ''remove'', ''--force'', worktree] False False)
    (thenR (git rh env [''worktree'', ''prune''] False False)
     (rmtree rh temp_root))"

subsection \<open>The first release\<close>

text \<open>The body of the \<open>try\<close> up to the commit, after which \<open>committed\<close> is set, and the rest of it.\<close>

definition bootstrap_commit ::
    "'h release_host \<Rightarrow> release_env \<Rightarrow> release_args \<Rightarrow> string \<Rightarrow> string \<Rightarrow> ('h, unit) rel" where
  "bootstrap_commit rh env args version temp_root =
     (let worktree = path_join temp_root ''gwz-py''; tag = ra_tag args
      in thenR (release_branch_is_free rh env (ra_release args))
        (thenR (git rh env [''worktree'', ''add'', worktree, ra_release args] False True)
        (thenR (reconcile_cargo_toml rh worktree version)
        (thenR (checkout_release_dependency rh (ra_core_url args) tag (path_join temp_root ''gwz-core''))
        (thenR (checkout_release_dependency rh (ra_cli_url args) tag (path_join temp_root ''gwz-cli''))
        (thenR (resolve_release_lock rh worktree version)
        (thenR (run_release_checks rh env worktree args version)
        (thenR (git_wt rh worktree [''add'', ''Cargo.toml'', ''Cargo.lock''] False True)
        (bindR (git_wt rh worktree [''diff'', ''--cached'', ''--name-only''] True True) (\<lambda>staged.
         thenR (whenR (words (cp_stdout staged) = []) (fail ''bootstrap produced no release metadata changes''))
        (thenR (git_wt rh worktree [''commit'', ''-m'',
                  ''chore(release): initialize gwz-py '' @ version @ '' (pins gwz-core '' @ version @ '' from crates.io)'']
                  False True)
         (returnR ()))))))))))))"

definition bootstrap_finish ::
    "'h release_host \<Rightarrow> release_env \<Rightarrow> release_args \<Rightarrow> string \<Rightarrow> string \<Rightarrow> ('h, int) rel" where
  "bootstrap_finish rh env args version temp_root =
     bindR (head_commit rh (path_join temp_root ''gwz-py'')) (\<lambda>target.
     thenR (log_line (ra_release args @ '' initialized -> '' @ utake 10 target @ '' (gwz-py '' @ version @
                      '', gwz-core '' @ version @ '')''))
    (thenR (ensure_tag rh env (ra_tag args) target)
    (thenR (publish rh env args)
     (returnR 0))))"

definition bootstrap_cleanup ::
    "'h release_host \<Rightarrow> release_env \<Rightarrow> release_args \<Rightarrow> string \<Rightarrow> bool \<Rightarrow> ('h, unit) rel" where
  "bootstrap_cleanup rh env args temp_root committed =
     (let worktree = path_join temp_root ''gwz-py''
      in if ra_keep_worktree args then log_line (''left worktree at '' @ worktree)
         else thenR (remove_worktree rh env worktree temp_root)
           (whenR (\<not> committed)
             (thenR (git rh env [''branch'', ''-D'', ra_release args] False False) (returnR ()))))"

definition bootstrap_try ::
    "'h release_host \<Rightarrow> release_env \<Rightarrow> release_args \<Rightarrow> string \<Rightarrow> string \<Rightarrow> ('h, int) rel" where
  "bootstrap_try rh env args version temp_root w =
     (case bootstrap_commit rh env args version temp_root w of
        (Inl e, w1) \<Rightarrow> finallyR (\<lambda>w. (Inl e, w)) (bootstrap_cleanup rh env args temp_root False) w1
      | (Inr _, w1) \<Rightarrow>
          finallyR (bootstrap_finish rh env args version temp_root) (bootstrap_cleanup rh env args temp_root True) w1)"

definition bootstrap_release ::
    "'h release_host \<Rightarrow> release_env \<Rightarrow> release_args \<Rightarrow> string \<Rightarrow> ('h, int) rel" where
  "bootstrap_release rh env args version =
     (let tag = ra_tag args
      in bindR (branch_exists rh env (ra_release args)) (\<lambda>exists.
         thenR (whenR exists (fail (''branch '' @ squote (ra_release args) @
                  '' already exists; omit --bootstrap-release for normal releases'')))
        (bindR (tag_commit rh env tag) (\<lambda>existing.
         thenR (case existing of
                  Some c \<Rightarrow> fail (''tag '' @ tag @ '' already exists at '' @ utake 10 c @ ''; refusing to bootstrap'')
                | None \<Rightarrow> returnR ())
        (thenR (verify_remote_tag rh ''gwz-core'' (ra_core_url args) tag)
        (thenR (verify_remote_tag rh ''gwz-cli'' (ra_cli_url args) tag)
        (bindR (mkdtemp rh (''gwz-py-'' @ tag @ ''-bootstrap-'')) (\<lambda>temp_root.
         thenR (git rh env [''branch'', ra_release args, ra_main args] False True)
         (bootstrap_try rh env args version temp_root)))))))))"

subsection \<open>A release\<close>

definition release_body ::
    "'h release_host \<Rightarrow> release_env \<Rightarrow> release_args \<Rightarrow> string \<Rightarrow> string \<Rightarrow> ('h, int) rel" where
  "release_body rh env args version temp_root =
     (let worktree = path_join temp_root ''gwz-py''; tag = ra_tag args
      in thenR (do_merge rh env worktree (ra_main args) (ra_release args))
        (bindR (merge_head_exists rh worktree) (\<lambda>merged.
         bindR (reconcile_cargo_toml rh worktree version) (\<lambda>reconciled.
         thenR (checkout_release_dependency rh (ra_core_url args) tag (path_join temp_root ''gwz-core''))
        (thenR (checkout_release_dependency rh (ra_cli_url args) tag (path_join temp_root ''gwz-cli''))
        (thenR (resolve_release_lock rh worktree version)
        (bindR (if reconciled then returnR True
                else bindR (git_wt rh worktree [''status'', ''--porcelain''] True True) (\<lambda>c.
                  returnR (cp_stdout c \<noteq> []))) (\<lambda>changed.
         thenR (if merged \<or> changed then
                  thenR (run_release_checks rh env worktree args version)
                 (thenR (git_wt rh worktree [''add'', ''-A''] False True)
                 (thenR (git_wt rh worktree [''commit'', ''-m'',
                           ''chore(release): gwz-py '' @ version @ '' (pins gwz-core '' @ version @ '' from crates.io)'']
                           False True)
                 (bindR (head_commit rh worktree) (\<lambda>sha.
                  log_line (ra_release args @ '' reconciled -> '' @ utake 10 sha @ '' (gwz-py '' @ version @
                            '', gwz-core '' @ version @ '')'')))))
                else
                  thenR (run_release_checks rh env worktree args version)
                  (log_line (ra_release args @ '' already reconciled for '' @ tag @ ''; no new commit needed'')))
        (bindR (head_commit rh worktree) (\<lambda>target.
         thenR (ensure_tag rh env tag target)
        (thenR (publish rh env args)
         (returnR 0))))))))))))"

definition release_cleanup ::
    "'h release_host \<Rightarrow> release_env \<Rightarrow> release_args \<Rightarrow> string \<Rightarrow> ('h, unit) rel" where
  "release_cleanup rh env args temp_root =
     (let worktree = path_join temp_root ''gwz-py''
      in if ra_keep_worktree args then log_line (''left worktree at '' @ worktree)
         else remove_worktree rh env worktree temp_root)"

definition already_cut :: "'h release_host \<Rightarrow> release_env \<Rightarrow> release_args \<Rightarrow> string \<Rightarrow> ('h, int) rel" where
  "already_cut rh env args commit =
     bindR (git rh env [''rev-parse'', ra_release args] True True) (\<lambda>head.
     thenR (whenR (commit \<noteq> strip (cp_stdout head))
              (fail (''tag '' @ ra_tag args @ '' exists but does not point at '' @ ra_release args @ '' HEAD'')))
    (thenR (log_line (ra_tag args @ '' already exists at '' @ ra_release args @ '' HEAD; release already cut''))
    (thenR (whenR (ra_push args) (push_release rh env (ra_release args) (ra_tag args)))
     (returnR 0))))"

definition normal_release ::
    "'h release_host \<Rightarrow> release_env \<Rightarrow> release_args \<Rightarrow> string \<Rightarrow> ('h, int) rel" where
  "normal_release rh env args version =
     (let tag = ra_tag args
      in bindR (branch_exists rh env (ra_release args)) (\<lambda>exists.
         thenR (whenR (\<not> exists) (fail (''branch '' @ squote (ra_release args) @ '' does not exist in '' @ re_repo env @
                  ''; run with --bootstrap-release for the first release'')))
        (thenR (release_branch_is_free rh env (ra_release args))
        (thenR (warn_if_behind_upstream rh env (ra_main args))
        (thenR (warn_if_behind_upstream rh env (ra_release args))
        (thenR (verify_remote_tag rh ''gwz-core'' (ra_core_url args) tag)
        (thenR (verify_remote_tag rh ''gwz-cli'' (ra_cli_url args) tag)
        (bindR (tag_commit rh env tag) (\<lambda>existing.
         case existing of
           Some commit \<Rightarrow> already_cut rh env args commit
         | None \<Rightarrow>
             bindR (mkdtemp rh (''gwz-py-'' @ tag @ ''-'')) (\<lambda>temp_root.
             thenR (git rh env [''worktree'', ''add'', path_join temp_root ''gwz-py'', ra_release args] False True)
             (finallyR (release_body rh env args version temp_root) (release_cleanup rh env args temp_root))))))))))))"

definition release_main :: "'h release_host \<Rightarrow> release_env \<Rightarrow> release_args \<Rightarrow> ('h, int) rel" where
  "release_main rh env args =
     (let tag = ra_tag args; version = tl tag
      in thenR (whenR (\<not> release_tag tag) (fail (''tag must look like vX.Y.Z, got '' @ py_repr tag)))
        (thenR (forR (\<lambda>tool. whenR (\<not> rh_which rh tool) (fail (''`'' @ tool @ ''` not found on PATH''))) [''git'', ''cargo''])
        (thenR (require_clean_worktree rh env)
        (bindR (branch_exists rh env (ra_main args)) (\<lambda>exists.
         thenR (whenR (\<not> exists) (fail (''branch '' @ squote (ra_main args) @ '' does not exist in '' @ re_repo env)))
         (if ra_bootstrap args then bootstrap_release rh env args version
          else normal_release rh env args version))))))"

end
