(* ===== verification/ReleaseFacts.thy ===== *)
theory ReleaseFacts
  imports Release
begin

section \<open>What a release run may do\<close>

text \<open>
  Safety of \<^verbatim>\<open>scripts/release.py\<close> over the events of a run, for every host: a rule says of each event
  what the events before it must hold. \<open>keeps\<close> is the Hoare triple of this reading: it starts from a
  trace that obeys the rule and satisfies \<open>I\<close>, and ends, normally or not, in one that obeys the rule.
\<close>

named_theorems stable_intros

definition safe :: "(release_event list \<Rightarrow> release_event \<Rightarrow> bool) \<Rightarrow> release_event list \<Rightarrow> bool" where
  "safe P t = list_all (\<lambda>i. P (take i t) (t ! i)) [0..<length t]"

lemma safe_Nil: "safe P []"
  by (simp add: safe_def)

lemma safe_snoc: "safe P (t @ [e]) \<longleftrightarrow> safe P t \<and> P t e"
  by (auto simp: safe_def list_all_iff nth_append less_Suc_eq)

lemma safe_append:
  "safe P t \<Longrightarrow> list_all (\<lambda>e. \<forall>pre. P pre e) es \<Longrightarrow> safe P (t @ es)"
  by (induction es rule: rev_induct) (auto simp: safe_snoc simp flip: append_assoc)

definition stable :: "(release_event list \<Rightarrow> bool) \<Rightarrow> bool" where
  "stable I = (\<forall>t e. I t \<longrightarrow> I (t @ [e]))"

lemma stable_append: "stable I \<Longrightarrow> I t \<Longrightarrow> I (t @ es)"
  by (induction es rule: rev_induct) (auto simp: stable_def simp flip: append_assoc)

lemma stable_conj [stable_intros]: "stable I \<Longrightarrow> stable J \<Longrightarrow> stable (\<lambda>t. I t \<and> J t)"
  by (simp add: stable_def)

lemma stable_const [stable_intros]: "stable (\<lambda>t. b)"
  by (simp add: stable_def)

lemma stable_ex [stable_intros]: "(\<And>x. stable (I x)) \<Longrightarrow> stable (\<lambda>t. \<exists>x. I x t)"
  by (auto simp: stable_def)

lemma stable_mem [stable_intros]: "stable (\<lambda>t. x \<in> set t)"
  by (simp add: stable_def)

lemma stable_imp [stable_intros]: "stable I \<Longrightarrow> stable (\<lambda>t. b \<longrightarrow> I t)"
  by (simp add: stable_def)

definition passed :: "string list \<Rightarrow> release_event list \<Rightarrow> bool" where
  "passed cmd t = (\<exists>cwd c. Ran cmd cwd (Some c) \<in> set t \<and> returncode c = 0)"

lemma stable_passed [stable_intros]: "stable (passed cmd)"
  by (auto simp: stable_def passed_def)

subsection \<open>Triples\<close>

definition keeps ::
    "(release_event list \<Rightarrow> release_event \<Rightarrow> bool) \<Rightarrow> (release_event list \<Rightarrow> bool) \<Rightarrow> ('h, 'a) rel \<Rightarrow>
     ('a \<Rightarrow> release_event list \<Rightarrow> bool) \<Rightarrow> bool" where
  "keeps P I m J \<longleftrightarrow> (\<forall>w r w'. safe P (rw_trace w) \<longrightarrow> I (rw_trace w) \<longrightarrow> m w = (r, w') \<longrightarrow>
     safe P (rw_trace w') \<and> (\<forall>a. r = Inr a \<longrightarrow> J a (rw_trace w')))"

lemma keepsD:
  assumes "keeps P I m J" and "m w = (r, w')" and "safe P (rw_trace w)" and "I (rw_trace w)"
  shows "safe P (rw_trace w')" "r = Inr a \<Longrightarrow> J a (rw_trace w')"
  using assms by (auto simp: keeps_def)

lemma keeps_weaken:
  assumes "keeps P I m J" and "\<And>t. I' t \<Longrightarrow> I t" and "\<And>a t. J a t \<Longrightarrow> J' a t"
  shows "keeps P I' m J'"
  using assms unfolding keeps_def by blast

lemma keeps_post: "keeps P I m J \<Longrightarrow> (\<And>a t. J a t \<Longrightarrow> J' a t) \<Longrightarrow> keeps P I m J'"
  by (rule keeps_weaken)

lemma keeps_return: "keeps P I (returnR x) (\<lambda>a t. a = x \<and> I t)"
  by (simp add: keeps_def returnR_def)

lemma keeps_bind:
  assumes "keeps P I m J" and "\<And>a. keeps P (J a) (f a) K"
  shows "keeps P I (bindR m f) K"
  unfolding keeps_def
proof (intro allI impI)
  fix w r w' assume s: "safe P (rw_trace w)" "I (rw_trace w)" and run: "bindR m f w = (r, w')"
  obtain r1 w1 where m: "m w = (r1, w1)" by (cases "m w")
  note first = keepsD [OF assms(1) m s]
  show "safe P (rw_trace w') \<and> (\<forall>a. r = Inr a \<longrightarrow> K a (rw_trace w'))"
  proof (cases r1)
    case (Inl e)
    with run m first show ?thesis by (auto simp: bindR_def)
  next
    case (Inr x)
    with run m have "f x w1 = (r, w')" by (simp add: bindR_def)
    from keepsD [OF assms(2) this first(1) first(2) [OF Inr]] show ?thesis by blast
  qed
qed

lemma keeps_then: "keeps P I m (\<lambda>_. J) \<Longrightarrow> keeps P J k K \<Longrightarrow> keeps P I (thenR m k) K"
  unfolding thenR_def by (rule keeps_bind)

lemma keeps_when:
  "keeps P I m (\<lambda>_. J) \<Longrightarrow> keeps P I (whenR b m) (\<lambda>_ t. if b then J t else I t)"
  by (auto simp: whenR_def keeps_def returnR_def)

lemma keeps_finally:
  assumes "keeps P I m J" and "keeps P (\<lambda>_. True) c (\<lambda>_ _. True)"
  shows "keeps P I (finallyR m c) (\<lambda>_ _. True)"
  unfolding keeps_def
proof (intro allI impI)
  fix w r w' assume s: "safe P (rw_trace w)" "I (rw_trace w)" and run: "finallyR m c w = (r, w')"
  obtain r1 w1 r2 w2 where m: "m w = (r1, w1)" "c w1 = (r2, w2)" by (metis surj_pair)
  from run m have "w' = w2" by (auto simp: finallyR_def split: sum.splits)
  with keepsD(1) [OF assms(2) m(2) keepsD(1) [OF assms(1) m(1) s]]
  show "safe P (rw_trace w') \<and> (\<forall>a. r = Inr a \<longrightarrow> True)" by simp
qed

subsection \<open>Plain events\<close>

text \<open>A command is special when it makes a tag, pushes, or adds a worktree.\<close>

fun special :: "string list \<Rightarrow> bool" where
  "special (g # opt # dir # verb # arg # rest) =
     (opt = ''-C'' \<and> (verb = ''tag'' \<or> verb = ''push'' \<or> verb = ''worktree'' \<and> arg = ''add''))"
| "special _ = False"

fun plain_event :: "release_event \<Rightarrow> bool" where
  "plain_event (Ran cmd cwd c) = (\<not> special cmd)"
| "plain_event (MadeTemp p) = False"
| "plain_event _ = True"

definition only :: "(release_event \<Rightarrow> bool) \<Rightarrow> ('h, 'a) rel \<Rightarrow> bool" where
  "only E m = (\<forall>w. \<exists>es. rw_trace (snd (m w)) = rw_trace w @ es \<and> list_all E es)"

named_theorems only_intros

lemma only_return [only_intros]: "only E (returnR x)"
  by (simp add: only_def returnR_def)

lemma only_bind [only_intros]:
  assumes "only E m" and "\<And>a. only E (f a)"
  shows "only E (bindR m f)"
  unfolding only_def
proof
  fix w
  obtain r w1 where m: "m w = (r, w1)" by (cases "m w")
  obtain es where es: "rw_trace w1 = rw_trace w @ es" "list_all E es"
    using assms(1) m by (metis only_def snd_conv)
  show "\<exists>es. rw_trace (snd (bindR m f w)) = rw_trace w @ es \<and> list_all E es"
  proof (cases r)
    case (Inl e)
    with m es show ?thesis by (auto simp: bindR_def)
  next
    case (Inr x)
    obtain es2 where "rw_trace (snd (f x w1)) = rw_trace w1 @ es2" "list_all E es2"
      using assms(2) by (metis only_def)
    with m es Inr show ?thesis by (intro exI [of _ "es @ es2"]) (simp add: bindR_def)
  qed
qed

lemma only_then [only_intros]: "only E m \<Longrightarrow> only E k \<Longrightarrow> only E (thenR m k)"
  unfolding thenR_def by (rule only_bind)

lemma only_when [only_intros]: "(b \<Longrightarrow> only E m) \<Longrightarrow> only E (whenR b m)"
  by (simp add: whenR_def only_return)

lemma only_if [only_intros]: "(b \<Longrightarrow> only E m) \<Longrightarrow> (\<not> b \<Longrightarrow> only E k) \<Longrightarrow> only E (if b then m else k)"
  by simp

lemma only_option [only_intros]:
  "only E m \<Longrightarrow> (\<And>x. only E (f x)) \<Longrightarrow> only E (case y of None \<Rightarrow> m | Some x \<Rightarrow> f x)"
  by (cases y) simp_all

lemma only_sum [only_intros]:
  "(\<And>x. only E (f x)) \<Longrightarrow> (\<And>x. only E (g x)) \<Longrightarrow> only E (case y of Inl x \<Rightarrow> f x | Inr x \<Rightarrow> g x)"
  by (cases y) simp_all

lemma only_for [only_intros]: "(\<And>x. only E (f x)) \<Longrightarrow> only E (forR f xs)"
  by (induction xs) (simp_all add: only_intros)

lemma only_log [only_intros]: "only plain_event (log_line m)"
  by (simp add: only_def log_line_def emit_def)

lemma only_print [only_intros]: "only plain_event (print_err m)"
  by (simp add: only_def print_err_def emit_def)

lemma only_fail [only_intros]: "only plain_event (fail m)"
  by (simp add: only_def fail_def emit_def)

lemma only_subprocess [only_intros]: "\<not> special cmd \<Longrightarrow> only plain_event (subprocess_run rh cmd cwd capture)"
  by (auto simp: only_def subprocess_run_def emit_def split: prod.splits sum.splits)

lemma only_run_checked [only_intros]: "\<not> special cmd \<Longrightarrow> only plain_event (run_checked rh cmd cwd capture check)"
  unfolding run_checked_def by (intro only_intros)

lemma only_run_in [only_intros]: "\<not> special cmd \<Longrightarrow> only plain_event (run_in rh cmd cwd)"
  unfolding run_in_def by (intro only_intros)

lemma only_read [only_intros]: "only plain_event (read_text rh path)"
  by (auto simp: only_def read_text_def emit_def split: prod.splits sum.splits)

lemma only_write [only_intros]: "only plain_event (write_text rh path t)"
  by (auto simp: only_def write_text_def emit_def split: prod.splits sum.splits)

lemma only_rmtree [only_intros]: "only plain_event (rmtree rh path)"
  by (simp add: only_def rmtree_def emit_def)

subsection \<open>The plain operations\<close>

lemma special_git: "special ([''git'', ''-C'', dir, verb, arg] @ rest) \<longleftrightarrow>
    verb = ''tag'' \<or> verb = ''push'' \<or> verb = ''worktree'' \<and> arg = ''add''"
  by simp

lemma only_git [only_intros]:
  "\<not> special ([''git'', ''-C'', re_repo env] @ args) \<Longrightarrow> only plain_event (git rh env args capture check)"
  unfolding git_def by (rule only_run_checked)

lemma only_git_wt [only_intros]:
  "\<not> special ([''git'', ''-C'', worktree] @ args) \<Longrightarrow> only plain_event (git_wt rh worktree args capture check)"
  unfolding git_wt_def by (rule only_run_checked)

lemma only_questions [only_intros]:
  "only plain_event (branch_exists rh env branch)" "only plain_event (tag_commit rh env tag)"
  "only plain_event (require_clean_worktree rh env)" "only plain_event (is_ancestor rh env a d)"
  "only plain_event (warn_if_behind_upstream rh env branch)" "only plain_event (verify_remote_tag rh project url tag)"
  "only plain_event (release_branch_is_free rh env release)" "only plain_event (merge_head_exists rh worktree)"
  "only plain_event (head_commit rh worktree)"
  unfolding branch_exists_def tag_commit_def require_clean_worktree_def is_ancestor_def Let_def
    warn_if_behind_upstream_def verify_remote_tag_def release_branch_is_free_def merge_head_exists_def head_commit_def
  by (intro only_intros; simp)+

lemma only_merge [only_intros]: "only plain_event (do_merge rh env worktree main release)"
  unfolding do_merge_def take_theirs_def Let_def by (intro only_intros; simp)

lemma only_files [only_intros]:
  "only plain_event (reconcile_cargo_toml rh worktree version)"
  "only plain_event (verify_pyproject_metadata rh worktree)"
  "only plain_event (verify_release_pins rh worktree version)"
  "only plain_event (resolve_release_lock rh worktree version)"
  "only plain_event (checkout_release_dependency rh url tag target)"
  unfolding reconcile_cargo_toml_def verify_pyproject_metadata_def verify_release_pins_def log_dependency_def
    resolve_release_lock_def checkout_release_dependency_def Let_def
  by (intro only_intros; simp)+

lemma only_checks [only_intros]: "only plain_event (run_release_checks rh env worktree args version)"
  unfolding run_release_checks_def create_release_python_def Let_def RELEASE_PYTHON_DEPS_def
  by (intro only_intros; simp)

lemma only_cleanup [only_intros]:
  "only plain_event (remove_worktree rh env worktree root)" "only plain_event (release_cleanup rh env args root)"
  "only plain_event (bootstrap_cleanup rh env args root committed)"
  unfolding release_cleanup_def bootstrap_cleanup_def remove_worktree_def Let_def
  by (intro only_intros; simp)+

subsection \<open>What the operations leave in the trace\<close>

definition lenient :: "(release_event list \<Rightarrow> release_event \<Rightarrow> bool) \<Rightarrow> bool" where
  "lenient P = (\<forall>pre e. plain_event e \<longrightarrow> P pre e)"

lemma keeps_only:
  assumes "only plain_event m" and "lenient P" and "stable I"
  shows "keeps P I m (\<lambda>_. I)"
  unfolding keeps_def
proof (intro allI impI)
  fix w r w' assume s: "safe P (rw_trace w)" "I (rw_trace w)" and run: "m w = (r, w')"
  obtain es where es: "rw_trace w' = rw_trace w @ es" "list_all plain_event es"
    using assms(1) run by (metis only_def snd_conv)
  then have "list_all (\<lambda>e. \<forall>pre. P pre e) es"
    using assms(2) by (auto simp: lenient_def list_all_iff)
  with es s assms(3) show "safe P (rw_trace w') \<and> (\<forall>a. r = Inr a \<longrightarrow> I (rw_trace w'))"
    by (simp add: safe_append stable_append)
qed

lemma run_checked_trace:
  assumes "run_checked rh cmd cwd capture check w = (r, w')"
  shows "\<exists>m c es. rw_trace w' = ((rw_trace w @ [Printed False m]) @ [Ran cmd cwd c]) @ es \<and> list_all plain_event es \<and>
    (\<forall>a. r = Inr a \<longrightarrow> c = Some a \<and> (check \<longrightarrow> returncode a = 0)) \<and>
    (\<forall>e a. r = Inl e \<longrightarrow> c = Some a \<longrightarrow> check \<and> returncode a \<noteq> 0)"
proof -
  let ?after = "\<lambda>result. if check \<and> returncode result \<noteq> 0 then
        thenR (whenR (capture \<and> cp_stdout result \<noteq> []) (print_err (cp_stdout result)))
       (thenR (whenR (capture \<and> cp_stderr result \<noteq> []) (print_err (cp_stderr result)))
        (fail (''command failed ('' @ show_int (returncode result) @ ''): '' @ join '' '' cmd)))
      else returnR result"
  have quiet: "only plain_event (?after c)" for c
    by (intro only_intros)
  have final: "c = a \<and> (check \<longrightarrow> returncode a = 0)" if "?after c v = (Inr a, v')" for c a v v'
    using that by (auto simp: thenR_def bindR_def fail_def returnR_def split: if_splits sum.splits prod.splits)
  have raised: "check \<and> returncode c \<noteq> 0" if "?after c v = (Inl e, v')" for c e v v'
    using that by (auto simp: returnR_def split: if_splits)
  let ?w1 = "emit (Printed False (''release: $ '' @ join '' '' cmd)) w"
  obtain res h1 where host: "rh_run rh cmd cwd capture (rw_host w) = (res, h1)" by (cases "rh_run rh cmd cwd capture (rw_host w)")
  show ?thesis
  proof (cases res)
    case (Inl m)
    with assms host show ?thesis
      by (auto simp: run_checked_def bindR_def thenR_def log_line_def subprocess_run_def emit_def)
  next
    case (Inr c)
    let ?w2 = "emit (Ran cmd cwd (Some c)) (?w1\<lparr>rw_host := h1\<rparr>)"
    have run: "?after c ?w2 = (r, w')"
      using assms host Inr
      by (simp add: run_checked_def bindR_def thenR_def log_line_def subprocess_run_def emit_def)
    obtain es where "rw_trace (snd (?after c ?w2)) = rw_trace ?w2 @ es" "list_all plain_event es"
      using quiet [of c] unfolding only_def by blast
    then have es: "rw_trace w' = rw_trace ?w2 @ es" "list_all plain_event es"
      unfolding run by simp_all
    have "\<forall>a. r = Inr a \<longrightarrow> Some c = Some a \<and> (check \<longrightarrow> returncode a = 0)"
      using final [of c ?w2 _ w'] unfolding run by simp
    moreover have "\<forall>e a. r = Inl e \<longrightarrow> Some c = Some a \<longrightarrow> check \<and> returncode a \<noteq> 0"
      using raised [of c ?w2 _ w'] unfolding run by simp
    moreover note es
    ultimately
show ?thesis
      by (intro exI [of _ "''release: $ '' @ join '' '' cmd"] exI [of _ "Some c"] exI [of _ es]) (simp add: emit_def)
  qed
qed

lemma keeps_command:
  assumes "lenient P" and "stable I" and "\<And>pre c. I pre \<Longrightarrow> P pre (Ran cmd cwd c)"
  shows "keeps P I (run_checked rh cmd cwd capture check)
    (\<lambda>a t. I t \<and> Ran cmd cwd (Some a) \<in> set t \<and> (check \<longrightarrow> returncode a = 0))"
  unfolding keeps_def
proof (intro allI impI)
  fix w r w' assume s: "safe P (rw_trace w)" "I (rw_trace w)"
    and run: "run_checked rh cmd cwd capture check w = (r, w')"
  obtain m c es where es: "rw_trace w' = ((rw_trace w @ [Printed False m]) @ [Ran cmd cwd c]) @ es"
      "list_all plain_event es" "\<forall>a. r = Inr a \<longrightarrow> c = Some a \<and> (check \<longrightarrow> returncode a = 0)"
    using run_checked_trace [OF run] by blast
  have "safe P (rw_trace w @ [Printed False m])" "I (rw_trace w @ [Printed False m])"
    using s assms(1,2) by (simp_all add: safe_snoc lenient_def stable_def)
  then have "safe P ((rw_trace w @ [Printed False m]) @ [Ran cmd cwd c])"
    using assms(3) by (simp only: safe_snoc)
  moreover have "list_all (\<lambda>e. \<forall>pre. P pre e) es"
    using assms(1) es(2) by (auto simp: lenient_def list_all_iff)
  ultimately have "safe P (rw_trace w')" unfolding es(1) by (rule safe_append)
  moreover have "I (rw_trace w')"
    using stable_append [OF assms(2) s(2)] by (simp add: es(1))
  ultimately show "safe P (rw_trace w') \<and>
      (\<forall>a. r = Inr a \<longrightarrow> I (rw_trace w') \<and> Ran cmd cwd (Some a) \<in> set (rw_trace w') \<and> (check \<longrightarrow> returncode a = 0))"
    using es(1,3) by auto
qed

lemma keeps_run_in:
  assumes "lenient P" and "stable I" and "\<not> special cmd"
  shows "keeps P I (run_in rh cmd cwd) (\<lambda>_ t. I t \<and> passed cmd t)"
  unfolding run_in_def
proof (rule keeps_bind [OF keeps_command])
  show "keeps P (\<lambda>t. I t \<and> Ran cmd cwd (Some a) \<in> set t \<and> (True \<longrightarrow> returncode a = 0)) (returnR ())
      (\<lambda>_ t. I t \<and> passed cmd t)" for a
    by (auto simp: keeps_def returnR_def passed_def)
qed (use assms in \<open>simp_all add: lenient_def\<close>)

lemma keeps_read:
  assumes "lenient P" and "stable I"
  shows "keeps P I (read_text rh path) (\<lambda>s t. I t \<and> ReadText path (Some s) \<in> set t)"
  using assms
  by (auto simp: keeps_def read_text_def emit_def lenient_def stable_def safe_snoc
      split: prod.splits sum.splits)

lemma keeps_mkdtemp:
  assumes "\<And>pre p. P pre (MadeTemp p)" and "stable I"
  shows "keeps P I (mkdtemp rh stem) (\<lambda>p t. I t \<and> MadeTemp p \<in> set t)"
  using assms
  by (auto simp: keeps_def mkdtemp_def emit_def stable_def safe_snoc split: prod.splits sum.splits)

subsection \<open>The rule of tags and pushes\<close>

definition tag_command :: "release_env \<Rightarrow> release_args \<Rightarrow> string \<Rightarrow> string list" where
  "tag_command env args target = [''git'', ''-C'', re_repo env, ''tag'', ra_tag args, target]"

definition push_command :: "release_env \<Rightarrow> release_args \<Rightarrow> string list" where
  "push_command env args =
     [''git'', ''-C'', re_repo env, ''push'', ''--atomic'', ''origin'', ra_release args, ra_tag args]"

definition lookup_command :: "release_env \<Rightarrow> release_args \<Rightarrow> string list" where
  "lookup_command env args =
     [''git'', ''-C'', re_repo env, ''rev-parse'', ''-q'', ''--verify'', ''refs/tags/'' @ ra_tag args @ ''^{commit}'']"

text \<open>The checks of a release in the temporary directory \<open>root\<close>, each with its own interpreter.\<close>

definition worktree_of :: "string \<Rightarrow> string" where
  "worktree_of root = path_join root ''gwz-py''"

definition python_of :: "release_env \<Rightarrow> string \<Rightarrow> string" where
  "python_of env root =
     venv_executable env (path_join (path_parent (worktree_of root)) ''.release-python'') ''python''"

definition pins_checked :: "string \<Rightarrow> string \<Rightarrow> release_event list \<Rightarrow> bool" where
  "pins_checked root version t =
     (\<exists>manifest lock. ReadText (path_join (worktree_of root) ''Cargo.toml'') (Some manifest) \<in> set t \<and>
        ReadText (path_join (worktree_of root) ''Cargo.lock'') (Some lock) \<in> set t \<and>
        pins_fault version manifest lock = None)"

definition checks_passed :: "release_env \<Rightarrow> release_args \<Rightarrow> string \<Rightarrow> release_event list \<Rightarrow> bool" where
  "checks_passed env args root t =
     (passed [python_of env root, ''scripts/check_protocol_drift.py''] t \<and>
      passed [python_of env root, ''scripts/regen_protocol.py'', ''--check''] t \<and>
      passed [''cargo'', ''check''] t \<and> pins_checked root (tl (ra_tag args)) t \<and>
      (\<not> ra_no_test args \<longrightarrow> passed [python_of env root, ''run_tests.py''] t) \<and>
      (\<not> ra_no_package_smoke args \<longrightarrow>
        passed [python_of env root, ''scripts/package_smoke.py'', ''--expected-version'', tl (ra_tag args)] t))"

definition head_was :: "string \<Rightarrow> string \<Rightarrow> release_event list \<Rightarrow> bool" where
  "head_was root target t =
     (\<exists>c. Ran [''git'', ''-C'', worktree_of root, ''rev-parse'', ''HEAD''] None (Some c) \<in> set t \<and>
        strip (cp_stdout c) = target)"

definition ready_to_tag :: "release_env \<Rightarrow> release_args \<Rightarrow> string \<Rightarrow> release_event list \<Rightarrow> bool" where
  "ready_to_tag env args target t =
     (\<exists>root. MadeTemp root \<in> set t \<and> checks_passed env args root t \<and> head_was root target t)"

definition tag_absent :: "release_env \<Rightarrow> release_args \<Rightarrow> release_event list \<Rightarrow> bool" where
  "tag_absent env args t =
     (\<exists>c. Ran (lookup_command env args) None (Some c) \<in> set t \<and> returncode c \<noteq> 0)"

definition tag_present :: "release_env \<Rightarrow> release_args \<Rightarrow> release_event list \<Rightarrow> bool" where
  "tag_present env args t =
     ((\<exists>target. passed (tag_command env args target) t) \<or> passed (lookup_command env args) t)"

text \<open>
  The rule: a tag is made of the release's name only, on the commit the checked worktree stood at,
  after every check that was not switched off passed and the tag was looked up and missing; a push is
  the atomic push of branch and tag, on request only, when the tag is there.
\<close>

fun verb_of :: "string list \<Rightarrow> string option" where
  "verb_of (g # opt # dir # verb # arg # rest) = (if opt = ''-C'' then Some verb else None)"
| "verb_of _ = None"

fun release_rule :: "release_env \<Rightarrow> release_args \<Rightarrow> release_event list \<Rightarrow> release_event \<Rightarrow> bool" where
  "release_rule env args pre (Ran cmd cwd c) =
     (if verb_of cmd = Some ''tag'' then
        tag_absent env args pre \<and>
        (\<exists>target. cmd = tag_command env args target \<and> ready_to_tag env args target pre)
      else if verb_of cmd = Some ''push'' then
        ra_push args \<and> cmd = push_command env args \<and> tag_present env args pre
      else True)"
| "release_rule env args pre _ = True"

lemma release_rule_lenient: "lenient (release_rule env args)"
  unfolding lenient_def
proof (intro allI impI)
  fix pre e assume "plain_event e"
  moreover have "\<not> special cmd \<Longrightarrow> verb_of cmd \<noteq> Some ''tag'' \<and> verb_of cmd \<noteq> Some ''push''" for cmd
    by (cases cmd rule: verb_of.cases) auto
  ultimately show "release_rule env args pre e" by (cases e) auto
qed

lemma stable_facts [stable_intros]:
  "stable (pins_checked root version)" "stable (checks_passed env args root)" "stable (head_was root target)"
  "stable (ready_to_tag env args target)" "stable (tag_absent env args)" "stable (tag_present env args)"
proof -
  have pins: "stable (pins_checked r v)" for r v
    unfolding pins_checked_def by (intro stable_intros)
  have checks: "stable (checks_passed env args r)" for r
    unfolding checks_passed_def by (intro stable_intros pins)
  have head: "stable (head_was r target)" for r
    unfolding head_was_def by (intro stable_intros)
  show "stable (pins_checked root version)" "stable (checks_passed env args root)" "stable (head_was root target)"
    by (rule pins checks head)+
  show "stable (ready_to_tag env args target)"
    unfolding ready_to_tag_def by (intro stable_intros checks head)
  show "stable (tag_absent env args)" unfolding tag_absent_def by (intro stable_intros)
  show "stable (tag_present env args)" unfolding tag_present_def by (auto simp: stable_def passed_def)
qed

lemma keeps_fail: "lenient P \<Longrightarrow> keeps P I (fail m) J"
  by (auto simp: keeps_def fail_def emit_def safe_snoc lenient_def)

lemma keeps_pins:
  assumes "lenient P" and "stable I"
  shows "keeps P I (verify_release_pins rh (worktree_of root) version) (\<lambda>_ t. I t \<and> pins_checked root version t)"
proof -
  let ?M = "\<lambda>s t. I t \<and> ReadText (path_join (worktree_of root) ''Cargo.toml'') (Some s) \<in> set t"
  let ?L = "\<lambda>s l t. ?M s t \<and> ReadText (path_join (worktree_of root) ''Cargo.lock'') (Some l) \<in> set t"
  have loop: "keeps P (?L s l) (forR (log_dependency (lock_packages l)) (dependency_lines s)) (\<lambda>_. ?L s l)" for s l
    by (intro keeps_only assms stable_intros only_intros) (simp add: log_dependency_def only_intros)
  have "keeps P (?L s l)
      (case lock_fault version (lock_packages l) of Some m \<Rightarrow> fail m
       | None \<Rightarrow> forR (log_dependency (lock_packages l)) (dependency_lines s))
      (\<lambda>_ t. I t \<and> pins_checked root version t)" if "manifest_fault version s = None" for s l
  proof (cases "lock_fault version (lock_packages l)")
    case None
    with that have "pins_fault version s l = None" by (simp add: pins_fault_def)
    then show ?thesis
      unfolding None option.case by (intro keeps_weaken [OF loop]) (auto simp: pins_checked_def)
  qed (simp add: keeps_fail assms(1))
  then have second: "keeps P (?M s)
      (case manifest_fault version s of Some m \<Rightarrow> fail m
       | None \<Rightarrow> bindR (read_text rh (path_join (worktree_of root) ''Cargo.lock'')) (\<lambda>lock.
           case lock_fault version (lock_packages lock) of Some m \<Rightarrow> fail m
           | None \<Rightarrow> forR (log_dependency (lock_packages lock)) (dependency_lines s)))
      (\<lambda>_ t. I t \<and> pins_checked root version t)" for s
    by (cases "manifest_fault version s")
      (auto intro!: keeps_bind [OF keeps_read] keeps_fail assms stable_intros)
  show ?thesis
    unfolding verify_release_pins_def by (intro keeps_bind [OF keeps_read] assms second)
qed

subsection \<open>A run obeys the rule\<close>

lemma keeps_fact: "(b \<Longrightarrow> keeps P I m J) \<Longrightarrow> keeps P (\<lambda>t. b \<and> I t) m J"
  by (auto simp: keeps_def)

lemma keeps_then_only:
  "only plain_event m \<Longrightarrow> lenient P \<Longrightarrow> stable I \<Longrightarrow> keeps P I k K \<Longrightarrow> keeps P I (thenR m k) K"
  by (rule keeps_then [OF keeps_only])

lemma keeps_bind_only:
  "only plain_event m \<Longrightarrow> lenient P \<Longrightarrow> stable I \<Longrightarrow> (\<And>a. keeps P I (f a) K) \<Longrightarrow> keeps P I (bindR m f) K"
  by (rule keeps_bind [OF keeps_only])

lemma keeps_then_run:
  "\<not> special cmd \<Longrightarrow> lenient P \<Longrightarrow> stable I \<Longrightarrow> keeps P (\<lambda>t. I t \<and> passed cmd t) k K \<Longrightarrow>
   keeps P I (thenR (run_in rh cmd cwd) k) K"
  by (rule keeps_then [OF keeps_run_in])

lemma keeps_when_run:
  assumes "\<not> special cmd" and "lenient P" and "stable I"
  shows "keeps P I (whenR b (run_in rh cmd cwd)) (\<lambda>_ t. I t \<and> (b \<longrightarrow> passed cmd t))"
proof (cases b)
  case True
  then show ?thesis
    by (simp add: whenR_def keeps_run_in assms)
next
  case False
  then show ?thesis by (simp add: whenR_def keeps_def returnR_def)
qed

lemma keeps_then_when_run:
  "\<not> special cmd \<Longrightarrow> lenient P \<Longrightarrow> stable I \<Longrightarrow> keeps P (\<lambda>t. I t \<and> (b \<longrightarrow> passed cmd t)) k K \<Longrightarrow>
   keeps P I (thenR (whenR b (run_in rh cmd cwd)) k) K"
  by (rule keeps_then [OF keeps_when_run])

lemma keeps_returnI: "(\<And>t. I t \<Longrightarrow> J x t) \<Longrightarrow> keeps P I (returnR x) J"
  by (simp add: keeps_def returnR_def)

lemma keeps_leave:
  "only plain_event m \<Longrightarrow> lenient P \<Longrightarrow> stable J \<Longrightarrow> (\<And>t. I t \<Longrightarrow> J t) \<Longrightarrow> keeps P I m (\<lambda>_. J)"
  by (rule keeps_weaken [OF keeps_only])

lemma keeps_end: "only plain_event m \<Longrightarrow> lenient P \<Longrightarrow> keeps P I m (\<lambda>_ _. True)"
  by (rule keeps_leave [OF _ _ stable_const]) simp_all

lemma keeps_python:
  assumes "lenient P" and "stable I"
  shows "keeps P I (create_release_python rh env (worktree_of root)) (\<lambda>py t. py = python_of env root \<and> I t)"
  unfolding create_release_python_def Let_def RELEASE_PYTHON_DEPS_def
  by ((rule keeps_then_only, rule only_run_in, simp, rule assms(1), rule assms(2))+, rule keeps_returnI)
    (simp add: python_of_def)

lemma keeps_checks:
  assumes "lenient P" and "stable I"
  shows "keeps P I (run_release_checks rh env (worktree_of root) args (tl (ra_tag args)))
    (\<lambda>_ t. I t \<and> checks_passed env args root t)"
proof -
  let ?py = "python_of env root" and ?version = "tl (ra_tag args)"
  have rest: "keeps P I
    (thenR (verify_pyproject_metadata rh (worktree_of root))
    (thenR (run_in rh [?py, ''scripts/check_protocol_drift.py''] (Some (worktree_of root)))
    (thenR (run_in rh [?py, ''scripts/regen_protocol.py'', ''--check''] (Some (worktree_of root)))
    (thenR (run_in rh [''cargo'', ''check''] (Some (worktree_of root)))
    (thenR (verify_release_pins rh (worktree_of root) ?version)
    (thenR (whenR (\<not> ra_no_test args) (run_in rh [?py, ''run_tests.py''] (Some (worktree_of root))))
     (whenR (\<not> ra_no_package_smoke args)
       (run_in rh [?py, ''scripts/package_smoke.py'', ''--expected-version'', ?version] (Some (worktree_of root))))))))))
    (\<lambda>_ t. I t \<and> checks_passed env args root t)"
    by (rule keeps_then_only [OF only_files(2) assms],
        (rule keeps_then_run, simp, rule assms(1), intro stable_intros assms(2))+,
        rule keeps_then [OF keeps_pins], rule assms(1), intro stable_intros assms(2),
        rule keeps_then_when_run, simp, rule assms(1), intro stable_intros assms(2),
        rule keeps_post [OF keeps_when_run], simp, rule assms(1), intro stable_intros assms(2))
      (simp_all add: checks_passed_def)
  show ?thesis
    unfolding run_release_checks_def
    by (rule keeps_bind [OF keeps_python [OF assms]], rule keeps_fact) (simp add: rest)
qed

lemma keeps_head:
  assumes "lenient P" and "stable I"
  shows "keeps P I (head_commit rh (worktree_of root)) (\<lambda>target t. I t \<and> head_was root target t)"
  unfolding head_commit_def git_wt_def
  by (rule keeps_bind [OF keeps_command [OF assms]], use assms(1) in \<open>simp add: lenient_def\<close>,
      rule keeps_returnI) (auto simp: head_was_def)

lemma keeps_tag_commit:
  assumes "stable I"
  shows "keeps (release_rule env args) I (tag_commit rh env (ra_tag args))
    (\<lambda>a t. I t \<and> (case a of None \<Rightarrow> tag_absent env args t | Some _ \<Rightarrow> tag_present env args t))"
  unfolding tag_commit_def git_def
  by (rule keeps_bind [OF keeps_command [OF release_rule_lenient assms]], simp, rule keeps_returnI)
    (auto simp: lookup_command_def tag_absent_def tag_present_def passed_def split: option.splits if_splits)

lemma keeps_ensure_tag:
  "keeps (release_rule env args) (ready_to_tag env args target) (ensure_tag rh env (ra_tag args) target)
    (\<lambda>_. tag_present env args)"
proof -
  let ?P = "release_rule env args" and ?R = "ready_to_tag env args target"
  have make: "keeps ?P (\<lambda>t. ?R t \<and> tag_absent env args t)
      (thenR (git rh env [''tag'', ra_tag args, target] False True) (log_line m)) (\<lambda>_. tag_present env args)" for m
  proof (rule keeps_then)
    show "keeps ?P (\<lambda>t. ?R t \<and> tag_absent env args t) (git rh env [''tag'', ra_tag args, target] False True)
        (\<lambda>_. tag_present env args)"
      unfolding git_def
      by (rule keeps_weaken [OF keeps_command [OF release_rule_lenient, of "\<lambda>t. ?R t \<and> tag_absent env args t"]])
        (auto simp: tag_command_def tag_present_def passed_def intro!: stable_intros)
  qed (intro keeps_only only_intros release_rule_lenient stable_intros)
  have leave: "keeps ?P (\<lambda>t. ?R t \<and> tag_present env args t) (log_line m) (\<lambda>_. tag_present env args)" for m
    by (intro keeps_leave only_intros release_rule_lenient stable_intros) simp
  show ?thesis
    unfolding ensure_tag_def
  proof (rule keeps_bind [OF keeps_tag_commit])
    show "stable ?R" by (intro stable_intros)
    show "keeps ?P (\<lambda>t. ?R t \<and> (case a of None \<Rightarrow> tag_absent env args t | Some _ \<Rightarrow> tag_present env args t))
       (case a of None \<Rightarrow> thenR (git rh env [''tag'', ra_tag args, target] False True)
           (log_line (''created tag '' @ ra_tag args @ '' -> '' @ utake 10 target))
        | Some commit \<Rightarrow>
           if commit = target then log_line (''tag '' @ ra_tag args @ '' already points at '' @ utake 10 target @ ''; leaving it'')
           else fail (''tag '' @ ra_tag args @ '' already exists at '' @ utake 10 commit @ '', not release commit '' @
                    utake 10 target @ ''; refusing to move it'')) (\<lambda>_. tag_present env args)" for a
      by (cases a) (simp_all add: make leave keeps_fail release_rule_lenient)
  qed
qed

lemma keeps_push:
  assumes "ra_push args"
  shows "keeps (release_rule env args) (tag_present env args)
    (push_release rh env (ra_release args) (ra_tag args)) (\<lambda>_ _. True)"
  unfolding push_release_def
  by (rule keeps_bind [OF keeps_command [OF release_rule_lenient]], intro stable_intros,
      simp add: assms push_command_def, intro keeps_end release_rule_lenient only_intros)

lemma keeps_publish:
  "keeps (release_rule env args) (tag_present env args) (publish rh env args) (\<lambda>_ _. True)"
proof (cases "ra_push args")
  case False
  then show ?thesis
    by (simp add: publish_def) (intro keeps_end release_rule_lenient only_intros)
qed (simp add: publish_def keeps_push)

lemma keeps_finish:
  "keeps (release_rule env args) (\<lambda>t. ready_to_tag env args target t)
     (thenR (ensure_tag rh env (ra_tag args) target) (thenR (publish rh env args) (returnR 0))) (\<lambda>_ _. True)"
  by (rule keeps_then [OF keeps_ensure_tag], rule keeps_then [OF keeps_publish], rule keeps_returnI) simp

lemma keeps_checked:
  assumes "only plain_event k"
  shows "keeps (release_rule env args) (\<lambda>t. MadeTemp root \<in> set t)
    (thenR (run_release_checks rh env (worktree_of root) args (tl (ra_tag args))) k)
    (\<lambda>_ t. MadeTemp root \<in> set t \<and> checks_passed env args root t)"
  by (rule keeps_then [OF keeps_checks [OF release_rule_lenient stable_mem]], rule keeps_only [OF assms release_rule_lenient])
    (intro stable_intros)

lemma keeps_tagging:
  assumes "\<And>target. keeps (release_rule env args) (ready_to_tag env args target) (f target) (\<lambda>_ _. True)"
  shows "keeps (release_rule env args) (\<lambda>t. MadeTemp root \<in> set t \<and> checks_passed env args root t)
    (bindR (head_commit rh (worktree_of root)) f) (\<lambda>_ _. True)"
  by (rule keeps_bind [OF keeps_head [OF release_rule_lenient]], intro stable_intros,
      rule keeps_weaken [OF assms]) (auto simp: ready_to_tag_def)

lemma keeps_body:
  "keeps (release_rule env args) (\<lambda>t. MadeTemp root \<in> set t)
     (release_body rh env args (tl (ra_tag args)) root) (\<lambda>_ _. True)"
proof -
  let ?P = "release_rule env args" and ?I = "\<lambda>t. MadeTemp root \<in> set t"
  have work: "keeps ?P ?I
     (if b then thenR (run_release_checks rh env (worktree_of root) args (tl (ra_tag args))) k1
      else thenR (run_release_checks rh env (worktree_of root) args (tl (ra_tag args))) k2)
     (\<lambda>_ t. ?I t \<and> checks_passed env args root t)"
    if "only plain_event k1" "only plain_event k2" for b k1 k2
    using that by (simp add: keeps_checked)
  show ?thesis
    unfolding release_body_def Let_def worktree_of_def [symmetric]
    by (rule keeps_then_only [OF only_merge release_rule_lenient stable_mem],
        rule keeps_bind_only [OF only_questions(8) release_rule_lenient stable_mem],
        rule keeps_bind_only [OF only_files(1) release_rule_lenient stable_mem],
        rule keeps_then_only [OF only_files(5) release_rule_lenient stable_mem],
        rule keeps_then_only [OF only_files(5) release_rule_lenient stable_mem],
        rule keeps_then_only [OF only_files(4) release_rule_lenient stable_mem],
        rule keeps_bind_only [OF _ release_rule_lenient stable_mem], intro only_intros, simp,
        rule keeps_then [OF work], (intro only_intros; simp), intro only_intros,
        rule keeps_tagging, rule keeps_finish)
qed

lemma keeps_bootstrap_commit:
  "keeps (release_rule env args) (\<lambda>t. MadeTemp root \<in> set t)
     (bootstrap_commit rh env args (tl (ra_tag args)) root)
     (\<lambda>_ t. MadeTemp root \<in> set t \<and> checks_passed env args root t)"
  unfolding bootstrap_commit_def Let_def worktree_of_def [symmetric]
  by (rule keeps_then_only [OF only_questions(7) release_rule_lenient stable_mem],
      unfold git_def, rule keeps_then, rule keeps_post [OF keeps_command [OF release_rule_lenient stable_mem]],
      simp, erule conjunct1,
      rule keeps_then_only [OF only_files(1) release_rule_lenient stable_mem],
      rule keeps_then_only [OF only_files(5) release_rule_lenient stable_mem],
      rule keeps_then_only [OF only_files(5) release_rule_lenient stable_mem],
      rule keeps_then_only [OF only_files(4) release_rule_lenient stable_mem],
      rule keeps_checked) (intro only_intros; simp)

lemma keeps_bootstrap_try:
  "keeps (release_rule env args) (\<lambda>t. MadeTemp root \<in> set t)
     (bootstrap_try rh env args (tl (ra_tag args)) root) (\<lambda>_ _. True)"
proof -
  let ?P = "release_rule env args" and ?v = "tl (ra_tag args)"
  have cleanup: "keeps ?P (\<lambda>_. True) (bootstrap_cleanup rh env args root c) (\<lambda>_ _. True)" for c
    by (intro keeps_end only_cleanup release_rule_lenient)
  have finish: "keeps ?P (\<lambda>t. MadeTemp root \<in> set t \<and> checks_passed env args root t)
      (bootstrap_finish rh env args ?v root) (\<lambda>_ _. True)"
    unfolding bootstrap_finish_def worktree_of_def [symmetric]
    by (rule keeps_tagging, rule keeps_then_only [OF only_log release_rule_lenient], intro stable_intros,
        rule keeps_finish)
  have raised: "keeps ?P (\<lambda>_. True) (\<lambda>w. (Inl e, w)) (\<lambda>_ _. True)" for e
    by (simp add: keeps_def)
  show ?thesis
    unfolding keeps_def
  proof (intro allI impI)
    fix w r w'
    assume s: "safe ?P (rw_trace w)" "MadeTemp root \<in> set (rw_trace w)"
      and run: "bootstrap_try rh env args ?v root w = (r, w')"
    obtain r1 w1 where c: "bootstrap_commit rh env args ?v root w = (r1, w1)"
      by (cases "bootstrap_commit rh env args ?v root w")
    note first = keepsD [OF keeps_bootstrap_commit c s]
    have "safe ?P (rw_trace w')"
    proof (cases r1)
      case (Inl e)
      with run c have "finallyR (\<lambda>w. (Inl e, w)) (bootstrap_cleanup rh env args root False) w1 = (r, w')"
        by (simp add: bootstrap_try_def)
      from keepsD(1) [OF keeps_finally [OF raised cleanup] this first(1)] show ?thesis by simp
    next
      case (Inr u)
      with run c have "finallyR (bootstrap_finish rh env args ?v root) (bootstrap_cleanup rh env args root True) w1 = (r, w')"
        by (simp add: bootstrap_try_def)
      from keepsD(1) [OF keeps_finally [OF finish cleanup] this first(1) first(2) [OF Inr]] show ?thesis .
    qed
    then show "safe ?P (rw_trace w') \<and> (\<forall>a. r = Inr a \<longrightarrow> True)" by simp
  qed
qed

lemma keeps_temp:
  assumes "\<And>root. keeps (release_rule env args) (\<lambda>t. MadeTemp root \<in> set t) (f root) (\<lambda>_ _. True)"
  shows "keeps (release_rule env args) (\<lambda>_. True) (bindR (mkdtemp rh stem) f) (\<lambda>_ _. True)"
  by (rule keeps_bind [OF keeps_mkdtemp [OF _ stable_const]], simp, rule keeps_weaken [OF assms]) simp_all

lemma keeps_bootstrap:
  "keeps (release_rule env args) (\<lambda>_. True) (bootstrap_release rh env args (tl (ra_tag args))) (\<lambda>_ _. True)"
  unfolding bootstrap_release_def Let_def
  by (rule keeps_bind_only [OF only_questions(1) release_rule_lenient stable_const],
      rule keeps_then_only [OF _ release_rule_lenient stable_const], intro only_intros,
      rule keeps_bind_only [OF only_questions(2) release_rule_lenient stable_const],
      rule keeps_then_only [OF _ release_rule_lenient stable_const], intro only_intros,
      rule keeps_then_only [OF only_questions(6) release_rule_lenient stable_const],
      rule keeps_then_only [OF only_questions(6) release_rule_lenient stable_const],
      rule keeps_temp,
      rule keeps_then_only [OF only_git release_rule_lenient stable_mem], simp,
      rule keeps_bootstrap_try)

lemma keeps_already_cut:
  "keeps (release_rule env args) (tag_present env args) (already_cut rh env args c) (\<lambda>_ _. True)"
proof -
  have push: "keeps (release_rule env args) (tag_present env args)
      (whenR (ra_push args) (push_release rh env (ra_release args) (ra_tag args))) (\<lambda>_ _. True)"
    by (cases "ra_push args") (simp_all add: whenR_def keeps_push keeps_returnI)
  show ?thesis
    unfolding already_cut_def
    by (rule keeps_bind_only [OF only_git release_rule_lenient stable_facts(6)], simp,
        rule keeps_then_only [OF _ release_rule_lenient stable_facts(6)], intro only_intros,
        rule keeps_then_only [OF only_log release_rule_lenient stable_facts(6)],
        rule keeps_then [OF push], rule keeps_returnI) simp
qed

lemma keeps_normal:
  "keeps (release_rule env args) (\<lambda>_. True) (normal_release rh env args (tl (ra_tag args))) (\<lambda>_ _. True)"
proof -
  let ?P = "release_rule env args"
  have add: "keeps ?P (\<lambda>t. MadeTemp root \<in> set t)
      (thenR (git rh env [''worktree'', ''add'', path_join root ''gwz-py'', ra_release args] False True)
        (finallyR (release_body rh env args (tl (ra_tag args)) root) (release_cleanup rh env args root)))
      (\<lambda>_ _. True)" for root
    unfolding git_def
    by (rule keeps_then, rule keeps_post [OF keeps_command [OF release_rule_lenient stable_mem]], simp,
        erule conjunct1, rule keeps_finally [OF keeps_body], intro keeps_end only_cleanup release_rule_lenient)
  have branches: "keeps ?P (\<lambda>t. True \<and> (case a of None \<Rightarrow> tag_absent env args t | Some _ \<Rightarrow> tag_present env args t))
      (case a of
         None \<Rightarrow> bindR (mkdtemp rh stem) (\<lambda>root.
           thenR (git rh env [''worktree'', ''add'', path_join root ''gwz-py'', ra_release args] False True)
             (finallyR (release_body rh env args (tl (ra_tag args)) root) (release_cleanup rh env args root)))
       | Some commit \<Rightarrow> already_cut rh env args commit) (\<lambda>_ _. True)" for a stem
  proof (cases a)
    case None
    then show ?thesis by (simp, intro keeps_weaken [OF keeps_temp [OF add]]) simp_all
  next
    case (Some c)
    then show ?thesis by (simp add: keeps_already_cut)
  qed
  show ?thesis
    unfolding normal_release_def Let_def
    by (rule keeps_bind_only [OF only_questions(1) release_rule_lenient stable_const],
        rule keeps_then_only [OF _ release_rule_lenient stable_const], intro only_intros,
        rule keeps_then_only [OF only_questions(7) release_rule_lenient stable_const],
        rule keeps_then_only [OF only_questions(5) release_rule_lenient stable_const],
        rule keeps_then_only [OF only_questions(5) release_rule_lenient stable_const],
        rule keeps_then_only [OF only_questions(6) release_rule_lenient stable_const],
        rule keeps_then_only [OF only_questions(6) release_rule_lenient stable_const],
        rule keeps_bind [OF keeps_tag_commit [OF stable_const]], rule branches)
qed

lemma keeps_main: "keeps (release_rule env args) (\<lambda>_. True) (release_main rh env args) (\<lambda>_ _. True)"
proof -
  have "keeps (release_rule env args) (\<lambda>_. True)
      (if ra_bootstrap args then bootstrap_release rh env args (tl (ra_tag args))
       else normal_release rh env args (tl (ra_tag args))) (\<lambda>_ _. True)"
    by (simp add: keeps_bootstrap keeps_normal)
  then show ?thesis
    unfolding release_main_def Let_def
    by (intro keeps_then_only [OF _ release_rule_lenient stable_const]
        keeps_bind_only [OF only_questions(1) release_rule_lenient stable_const] only_intros)
qed


subsection \<open>Cleaning up\<close>

text \<open>
  What holds at the end of a run however it ends. \<open>ends I m J Q\<close> starts from \<open>I\<close>; a normal end
  satisfies \<open>J\<close>, any other \<open>Q\<close>.
\<close>

definition ends ::
    "(release_event list \<Rightarrow> bool) \<Rightarrow> ('h, 'a) rel \<Rightarrow> ('a \<Rightarrow> release_event list \<Rightarrow> bool) \<Rightarrow>
     (release_event list \<Rightarrow> bool) \<Rightarrow> bool" where
  "ends I m J Q \<longleftrightarrow> (\<forall>w r w'. I (rw_trace w) \<longrightarrow> m w = (r, w') \<longrightarrow>
     (case r of Inl _ \<Rightarrow> Q (rw_trace w') | Inr a \<Rightarrow> J a (rw_trace w')))"

lemma endsD:
  "ends I m J Q \<Longrightarrow> I (rw_trace w) \<Longrightarrow> m w = (r, w') \<Longrightarrow>
   (case r of Inl _ \<Rightarrow> Q (rw_trace w') | Inr a \<Rightarrow> J a (rw_trace w'))"
  unfolding ends_def by blast

lemma ends_bind:
  assumes "ends I m J Q" and "\<And>a. ends (J a) (f a) K Q"
  shows "ends I (bindR m f) K Q"
  unfolding ends_def
proof (intro allI impI)
  fix w r w' assume "I (rw_trace w)" "bindR m f w = (r, w')"
  moreover obtain r1 w1 where "m w = (r1, w1)" by (cases "m w")
  ultimately show "case r of Inl _ \<Rightarrow> Q (rw_trace w') | Inr a \<Rightarrow> K a (rw_trace w')"
    using assms unfolding ends_def bindR_def by (cases r1) (fastforce split: sum.splits)+
qed

lemma ends_then: "ends I m (\<lambda>_. J) Q \<Longrightarrow> ends J k K Q \<Longrightarrow> ends I (thenR m k) K Q"
  unfolding thenR_def by (rule ends_bind)

text \<open>The worktree an event adds, and what the run owes for one that was added.\<close>

fun added_path :: "release_event \<Rightarrow> string option" where
  "added_path (Ran (g # opt # dir # verb # arg # path # rest) cwd c) =
     (if opt = ''-C'' \<and> verb = ''worktree'' \<and> arg = ''add'' then Some path else None)"
| "added_path _ = None"

definition add_command :: "release_env \<Rightarrow> release_args \<Rightarrow> string \<Rightarrow> string list" where
  "add_command env args worktree = [''git'', ''-C'', re_repo env, ''worktree'', ''add'', worktree, ra_release args]"

definition acts :: "release_event list \<Rightarrow> release_event list" where
  "acts t = filter (\<lambda>e. case e of Printed b s \<Rightarrow> False | _ \<Rightarrow> True) t"

definition cleaned :: "release_env \<Rightarrow> release_args \<Rightarrow> string \<Rightarrow> release_event list \<Rightarrow> bool" where
  "cleaned env args worktree t =
     (\<exists>pre c1 c2 root rest. worktree = worktree_of root \<and> acts t = pre @
        [Ran [''git'', ''-C'', re_repo env, ''worktree'', ''remove'', ''--force'', worktree] None (Some c1),
         Ran [''git'', ''-C'', re_repo env, ''worktree'', ''prune''] None (Some c2), RemovedTree root] @ rest \<and>
        (rest = [] \<or> ra_bootstrap args \<and>
          (\<exists>c3. rest = [Ran [''git'', ''-C'', re_repo env, ''branch'', ''-D'', ra_release args] None (Some c3)])))"

definition tidy :: "release_env \<Rightarrow> release_args \<Rightarrow> release_event list \<Rightarrow> bool" where
  "tidy env args t = (\<forall>worktree. passed (add_command env args worktree) t \<longrightarrow> cleaned env args worktree t)"

definition adds_only :: "string option set \<Rightarrow> release_event list \<Rightarrow> bool" where
  "adds_only A t = list_all (\<lambda>e. added_path e \<in> A) t"

lemma adds_only_passed:
  "adds_only A t \<Longrightarrow> passed (add_command env args worktree) t \<Longrightarrow> Some worktree \<in> A"
  by (fastforce simp: adds_only_def passed_def add_command_def list_all_iff)

lemma fresh_tidy: "adds_only {None} t \<Longrightarrow> tidy env args t"
  by (auto simp: tidy_def dest: adds_only_passed)

lemma only_mono: "only E m \<Longrightarrow> (\<And>e. E e \<Longrightarrow> E' e) \<Longrightarrow> only E' m"
  unfolding only_def by (metis (no_types, lifting) list.pred_mono_strong)

lemma plain_adds_nothing: "plain_event e \<Longrightarrow> added_path e = None"
  by (cases e rule: added_path.cases) auto

lemma plain_adds_no: "only plain_event m \<Longrightarrow> only (\<lambda>e. added_path e = None) m"
  by (erule only_mono) (rule plain_adds_nothing)

lemma plain_adds_only: "None \<in> A \<Longrightarrow> only plain_event m \<Longrightarrow> only (\<lambda>e. added_path e \<in> A) m"
  by (erule only_mono) (simp add: plain_adds_nothing)

lemma ends_adds_only:
  assumes "only (\<lambda>e. added_path e \<in> A) m"
  shows "ends (adds_only A) m (\<lambda>_. adds_only A) (adds_only A)"
  using assms unfolding only_def ends_def adds_only_def
  by (metis (no_types, lifting) list_all_append snd_conv sum.case_eq_if)

lemma ends_weaken:
  "ends I m J Q \<Longrightarrow> (\<And>t. I' t \<Longrightarrow> I t) \<Longrightarrow> (\<And>a t. J a t \<Longrightarrow> J' a t) \<Longrightarrow> (\<And>t. Q t \<Longrightarrow> Q' t) \<Longrightarrow> ends I' m J' Q'"
  unfolding ends_def by (fastforce split: sum.splits)

lemma ends_fresh:
  assumes "only (\<lambda>e. added_path e \<in> {None}) m"
  shows "ends (adds_only {None}) m (\<lambda>_. adds_only {None}) (tidy env args)"
  by (rule ends_weaken [OF ends_adds_only [OF assms]]) (auto intro: fresh_tidy)

lemma only_command:
  assumes "\<And>c. E (Ran cmd cwd c)" and "\<And>e. plain_event e \<Longrightarrow> E e"
  shows "only E (run_checked rh cmd cwd capture check)"
  unfolding only_def
proof
  fix w
  obtain r w' where run: "run_checked rh cmd cwd capture check w = (r, w')" by fastforce
  obtain m c es where t: "rw_trace w' = ((rw_trace w @ [Printed False m]) @ [Ran cmd cwd c]) @ es" "list_all plain_event es"
    using run_checked_trace [OF run] by blast
  have "list_all E ([Printed False m, Ran cmd cwd c] @ es)"
    using assms t(2) by (auto simp: list_all_iff)
  with t(1) run show "\<exists>es. rw_trace (snd (run_checked rh cmd cwd capture check w)) = rw_trace w @ es \<and> list_all E es"
    by (intro exI [of _ "[Printed False m, Ran cmd cwd c] @ es"]) simp
qed

lemma ends_add:
  "ends (adds_only {None}) (git rh env [''worktree'', ''add'', worktree, ra_release args] capture True)
     (\<lambda>_. adds_only {None, Some worktree}) (tidy env args)"
  unfolding ends_def
proof (intro allI impI)
  fix w r w'
  assume fresh: "adds_only {None} (rw_trace w)"
    and run: "git rh env [''worktree'', ''add'', worktree, ra_release args] capture True w = (r, w')"
  obtain m c es where t: "rw_trace w' = ((rw_trace w @ [Printed False m]) @ [Ran (add_command env args worktree) None c]) @ es"
      "list_all plain_event es" "\<forall>e a. r = Inl e \<longrightarrow> c = Some a \<longrightarrow> returncode a \<noteq> 0"
    using run_checked_trace [OF run [unfolded git_def]] by (auto simp: add_command_def)
  have all: "adds_only {None, Some worktree} (rw_trace w')"
    using fresh t(2) plain_adds_nothing
    by (auto simp: t(1) adds_only_def list_all_iff add_command_def)
  have no: "\<not> passed (add_command env args worktree) (rw_trace w')" if "r = Inl e" for e
  proof
    assume "passed (add_command env args worktree) (rw_trace w')"
    then obtain cwd a where a: "Ran (add_command env args worktree) cwd (Some a) \<in> set (rw_trace w')" "returncode a = 0"
      by (auto simp: passed_def)
    moreover have "Ran (add_command env args worktree) cwd (Some a) \<notin> set (rw_trace w)"
      using fresh by (auto simp: adds_only_def list_all_iff add_command_def)
    moreover have "Ran (add_command env args worktree) cwd (Some a) \<notin> set es"
      using t(2) plain_adds_nothing by (fastforce simp: list_all_iff add_command_def)
    ultimately show False using t(1,3) that by auto
  qed
  show "case r of Inl _ \<Rightarrow> tidy env args (rw_trace w') | Inr _ \<Rightarrow> adds_only {None, Some worktree} (rw_trace w')"
  proof (cases r)
    case (Inl e)
    with no all have "adds_only {None, Some worktree} (rw_trace w') \<and>
        \<not> passed (add_command env args worktree) (rw_trace w')" by blast
    then have "tidy env args (rw_trace w')" by (fastforce simp: tidy_def dest: adds_only_passed)
    with Inl show ?thesis by simp
  qed (simp add: all)
qed

subsection \<open>The clean-up of a host that can start commands\<close>

definition host_starts :: "'h release_host \<Rightarrow> bool" where
  "host_starts rh = (\<forall>cmd cwd capture h. \<exists>c h1. rh_run rh cmd cwd capture h = (Inr c, h1))"

lemma acts_simps [simp]: "acts (t @ s) = acts t @ acts s" "acts [] = []" "acts (Printed b x # t) = acts t"
  "acts (Ran cmd cwd c # t) = Ran cmd cwd c # acts t" "acts (RemovedTree p # t) = RemovedTree p # acts t"
  by (simp_all add: acts_def)

lemma started:
  assumes "host_starts rh"
  obtains c w1 where "run_checked rh cmd cwd capture False w = (Inr c, w1)"
    "acts (rw_trace w1) = acts (rw_trace w) @ [Ran cmd cwd (Some c)]"
proof -
  obtain c h1 where "rh_run rh cmd cwd capture (rw_host w) = (Inr c, h1)"
    using assms unfolding host_starts_def by blast
  then show ?thesis
    by (intro that [of c "emit (Ran cmd cwd (Some c)) (emit (Printed False (''release: $ '' @ join '' '' cmd)) w\<lparr>rw_host := h1\<rparr>)"])
      (simp_all add: run_checked_def bindR_def thenR_def log_line_def subprocess_run_def returnR_def emit_def)
qed

lemma removed:
  assumes "host_starts rh" and "remove_worktree rh env (worktree_of root) root w = (r, w')"
  shows "\<exists>c1 c2. r = Inr () \<and> acts (rw_trace w') = acts (rw_trace w) @
     [Ran [''git'', ''-C'', re_repo env, ''worktree'', ''remove'', ''--force'', worktree_of root] None (Some c1),
      Ran [''git'', ''-C'', re_repo env, ''worktree'', ''prune''] None (Some c2), RemovedTree root]"
proof -
  obtain c1 w1 where 1:
    "run_checked rh [''git'', ''-C'', re_repo env, ''worktree'', ''remove'', ''--force'', worktree_of root] None False False w = (Inr c1, w1)"
    "acts (rw_trace w1) = acts (rw_trace w) @
      [Ran [''git'', ''-C'', re_repo env, ''worktree'', ''remove'', ''--force'', worktree_of root] None (Some c1)]"
    by (rule started [OF assms(1)])
  obtain c2 w2 where 2:
    "run_checked rh [''git'', ''-C'', re_repo env, ''worktree'', ''prune''] None False False w1 = (Inr c2, w2)"
    "acts (rw_trace w2) = acts (rw_trace w1) @ [Ran [''git'', ''-C'', re_repo env, ''worktree'', ''prune''] None (Some c2)]"
    by (rule started [OF assms(1)])
  from assms(2) 1 2 show ?thesis
    by (auto simp: remove_worktree_def thenR_def bindR_def git_def rmtree_def emit_def)
qed

lemma release_cleaned:
  assumes "host_starts rh" and "\<not> ra_keep_worktree args" and "release_cleanup rh env args root w = (r, w')"
  shows "r = Inr ()" "cleaned env args (worktree_of root) (rw_trace w')"
proof -
  have "remove_worktree rh env (worktree_of root) root w = (r, w')"
    using assms(2,3) by (simp add: release_cleanup_def Let_def worktree_of_def)
  from removed [OF assms(1) this] show "r = Inr ()" "cleaned env args (worktree_of root) (rw_trace w')"
    by (fastforce simp: cleaned_def)+
qed

lemma bootstrap_cleaned:
  assumes "host_starts rh" and "\<not> ra_keep_worktree args" and "ra_bootstrap args"
    and "bootstrap_cleanup rh env args root committed w = (r, w')"
  shows "r = Inr ()" "cleaned env args (worktree_of root) (rw_trace w')"
proof -
  obtain r1 w1 where m: "remove_worktree rh env (worktree_of root) root w = (r1, w1)" by fastforce
  obtain c3 w2 where 3: "run_checked rh [''git'', ''-C'', re_repo env, ''branch'', ''-D'', ra_release args] None False False w1 = (Inr c3, w2)"
    "acts (rw_trace w2) = acts (rw_trace w1) @ [Ran [''git'', ''-C'', re_repo env, ''branch'', ''-D'', ra_release args] None (Some c3)]"
    by (rule started [OF assms(1)])
  have "r = Inr () \<and> (w' = w1 \<or> w' = w2)"
    using assms(2,4) m removed [OF assms(1) m] 3(1)
    by (auto simp: bootstrap_cleanup_def Let_def worktree_of_def [symmetric] thenR_def bindR_def whenR_def returnR_def
        git_def split: if_splits)
  with removed [OF assms(1) m] 3(2) assms(3) show "r = Inr ()" "cleaned env args (worktree_of root) (rw_trace w')"
    by (fastforce simp: cleaned_def)+
qed

lemma cleaned_tidy:
  assumes "adds_only {None, Some worktree} t" and "adds_only {None} s" and "cleaned env args worktree (t @ s)"
  shows "tidy env args (t @ s)"
  unfolding tidy_def
proof (intro allI impI)
  fix w assume p: "passed (add_command env args w) (t @ s)"
  have "adds_only {None, Some worktree} (t @ s)" using assms(1,2) by (auto simp: adds_only_def list_all_iff)
  from adds_only_passed [OF this p] assms(3) show "cleaned env args w (t @ s)" by simp
qed

lemma ends_finally:
  assumes body: "ends I m (\<lambda>_. adds_only {None, Some worktree}) (adds_only {None, Some worktree})"
    and plain: "only plain_event c"
    and clean: "\<And>w r w'. c w = (r, w') \<Longrightarrow> r = Inr () \<and> cleaned env args worktree (rw_trace w')"
  shows "ends I (finallyR m c) (\<lambda>_. tidy env args) (tidy env args)"
  unfolding ends_def
proof (intro allI impI)
  fix w r w' assume "I (rw_trace w)" and run: "finallyR m c w = (r, w')"
  obtain r1 w1 r2 w2 where m: "m w = (r1, w1)" "c w1 = (r2, w2)" by (metis surj_pair)
  have "adds_only {None, Some worktree} (rw_trace w1)"
    using body m(1) \<open>I (rw_trace w)\<close> unfolding ends_def by (cases r1) (fastforce split: sum.splits)+
  moreover obtain es where "rw_trace w2 = rw_trace w1 @ es" "list_all plain_event es"
    using plain m(2) by (metis only_def snd_conv)
  moreover from run m clean [OF m(2)] have "w' = w2" by (auto simp: finallyR_def)
  ultimately have "tidy env args (rw_trace w')"
    using clean [OF m(2)] plain_adds_nothing
    by (auto simp: adds_only_def list_all_iff intro!: cleaned_tidy [of worktree "rw_trace w1" es])
  then show "case r of Inl _ \<Rightarrow> tidy env args (rw_trace w') | Inr _ \<Rightarrow> tidy env args (rw_trace w')"
    by (cases r) simp_all
qed

subsection \<open>Everything else adds no worktree\<close>

lemma adds_no_worktree:
  "only (\<lambda>e. added_path e = None) (ensure_tag rh env tag target)"
  "only (\<lambda>e. added_path e = None) (push_release rh env release tag)"
  "only (\<lambda>e. added_path e = None) (mkdtemp rh stem)"
proof -
  note plain = plain_adds_no
  have command: "only (\<lambda>e. added_path e = None) (run_checked rh cmd cwd capture check)"
    if "\<And>c. added_path (Ran cmd cwd c) = None" for cmd cwd capture check
    by (intro only_command that plain_adds_nothing)
  show "only (\<lambda>e. added_path e = None) (ensure_tag rh env tag target)"
    unfolding ensure_tag_def git_def
    by (intro only_bind only_option only_if only_then command plain [OF only_log] plain [OF only_fail]
        plain [OF only_questions(2)]) simp_all
  show "only (\<lambda>e. added_path e = None) (push_release rh env release tag)"
    unfolding push_release_def
    by (intro only_bind only_if only_then only_when command plain [OF only_log] plain [OF only_fail]
        plain [OF only_print]) simp_all
  show "only (\<lambda>e. added_path e = None) (mkdtemp rh stem)"
    by (auto simp: only_def mkdtemp_def emit_def split: prod.splits sum.splits)
qed

lemma adds_no_worktree_more:
  "only (\<lambda>e. added_path e = None) (publish rh env args)"
  "only (\<lambda>e. added_path e = None) (release_body rh env args version root)"
  "only (\<lambda>e. added_path e = None) (bootstrap_finish rh env args version root)"
  "only (\<lambda>e. added_path e = None) (already_cut rh env args commit)"
proof -
  note plain = plain_adds_no
  show pub: "only (\<lambda>e. added_path e = None) (publish rh env args)"
    unfolding publish_def by (intro only_if only_then adds_no_worktree plain [OF only_log])
  show "only (\<lambda>e. added_path e = None) (release_body rh env args version root)"
    unfolding release_body_def Let_def
    by (intro only_then only_bind only_if only_return adds_no_worktree pub plain [OF only_log] plain [OF only_merge]
        plain [OF only_questions(8)] plain [OF only_questions(9)] plain [OF only_files(1)] plain [OF only_files(4)]
        plain [OF only_files(5)] plain [OF only_checks] plain [OF only_git_wt]) simp_all
  show "only (\<lambda>e. added_path e = None) (bootstrap_finish rh env args version root)"
    unfolding bootstrap_finish_def
    by (intro only_then only_bind only_return adds_no_worktree pub plain [OF only_log] plain [OF only_questions(9)])
  show "only (\<lambda>e. added_path e = None) (already_cut rh env args commit)"
    unfolding already_cut_def
    by (intro only_then only_bind only_when only_return adds_no_worktree plain [OF only_log] plain [OF only_fail]
        plain [OF only_git]) simp_all
qed

lemma ends_then_fresh:
  "only plain_event m \<Longrightarrow> ends (adds_only {None}) k K (tidy env args) \<Longrightarrow>
   ends (adds_only {None}) (thenR m k) K (tidy env args)"
  by (rule ends_then [OF ends_fresh]) (simp_all add: plain_adds_no)

lemma ends_bind_fresh:
  "only (\<lambda>e. added_path e = None) m \<Longrightarrow> (\<And>a. ends (adds_only {None}) (f a) K (tidy env args)) \<Longrightarrow>
   ends (adds_only {None}) (bindR m f) K (tidy env args)"
  by (rule ends_bind [OF ends_fresh]) simp_all

lemma ends_tidy: "only (\<lambda>e. added_path e = None) m \<Longrightarrow> ends (adds_only {None}) m (\<lambda>_. tidy env args) (tidy env args)"
  by (rule ends_weaken [OF ends_fresh]) (auto intro: fresh_tidy)

lemma ends_rest:
  "only (\<lambda>e. added_path e = None) m \<Longrightarrow> ends (adds_only {None, Some worktree}) m
     (\<lambda>_. adds_only {None, Some worktree}) (adds_only {None, Some worktree})"
  by (intro ends_adds_only) (erule only_mono, simp)

lemma ends_normal:
  assumes "host_starts rh" and "\<not> ra_keep_worktree args"
  shows "ends (adds_only {None}) (normal_release rh env args version) (\<lambda>_. tidy env args) (tidy env args)"
proof -
  note plain = plain_adds_no
  have body: "ends (adds_only {None})
      (thenR (git rh env [''worktree'', ''add'', worktree_of root, ra_release args] False True)
        (finallyR (release_body rh env args version root) (release_cleanup rh env args root)))
      (\<lambda>_. tidy env args) (tidy env args)" for root
    by (rule ends_then [OF ends_add], rule ends_finally [OF ends_rest], rule adds_no_worktree_more, rule only_cleanup)
      (use release_cleaned [OF assms] in blast)
  show ?thesis
    unfolding normal_release_def Let_def worktree_of_def [symmetric]
  proof (rule ends_bind_fresh [OF plain [OF only_questions(1)]],
      rule ends_then_fresh, intro only_intros,
      rule ends_then_fresh [OF only_questions(7)], rule ends_then_fresh [OF only_questions(5)],
      rule ends_then_fresh [OF only_questions(5)], rule ends_then_fresh [OF only_questions(6)],
      rule ends_then_fresh [OF only_questions(6)], rule ends_bind_fresh [OF plain [OF only_questions(2)]])
    show "ends (adds_only {None})
        (case a of
           None \<Rightarrow> bindR (mkdtemp rh (''gwz-py-'' @ ra_tag args @ ''-'')) (\<lambda>root.
             thenR (git rh env [''worktree'', ''add'', worktree_of root, ra_release args] False True)
               (finallyR (release_body rh env args version root) (release_cleanup rh env args root)))
         | Some commit \<Rightarrow> already_cut rh env args commit) (\<lambda>_. tidy env args) (tidy env args)" for a
      by (cases a) (simp_all add: ends_bind_fresh [OF adds_no_worktree(3) body] ends_tidy [OF adds_no_worktree_more(4)])
  qed
qed

lemma ends_bootstrap_try:
  assumes "host_starts rh" and "\<not> ra_keep_worktree args" and "ra_bootstrap args"
  shows "ends (adds_only {None}) (bootstrap_try rh env args version root) (\<lambda>_. tidy env args) (tidy env args)"
proof -
  let ?A = "{None, Some (worktree_of root)}"
  have add: "only (\<lambda>e. added_path e \<in> ?A)
      (git rh env [''worktree'', ''add'', worktree_of root, ra_release args] False True)"
    unfolding git_def by (intro only_command) (auto simp: plain_adds_nothing)
  have commit: "ends (adds_only ?A) (bootstrap_commit rh env args version root) (\<lambda>_. adds_only ?A) (adds_only ?A)"
    unfolding bootstrap_commit_def Let_def worktree_of_def [symmetric]
    by (intro ends_adds_only only_then only_bind only_when only_return add plain_adds_only [OF _ only_questions(7)]
        plain_adds_only [OF _ only_files(1)] plain_adds_only [OF _ only_files(4)] plain_adds_only [OF _ only_files(5)]
        plain_adds_only [OF _ only_checks] plain_adds_only [OF _ only_fail] plain_adds_only [OF _ only_git_wt]) simp_all
  have tidied: "ends (adds_only ?A) (finallyR m (bootstrap_cleanup rh env args root c)) (\<lambda>_. tidy env args) (tidy env args)"
    if "ends (adds_only ?A) m (\<lambda>_. adds_only ?A) (adds_only ?A)" for c and m :: "('a, int) rel"
    by (rule ends_finally [OF that only_cleanup(3)]) (use bootstrap_cleaned [OF assms] in blast)
  have raised: "ends (adds_only ?A) (\<lambda>w. (Inl e, w)) (\<lambda>_. adds_only ?A) (adds_only ?A)" for e
    by (auto simp: ends_def)
  show ?thesis
    unfolding ends_def
  proof (intro allI impI)
    fix w r w'
    assume fresh: "adds_only {None} (rw_trace w)" and run: "bootstrap_try rh env args version root w = (r, w')"
    obtain r1 w1 where c: "bootstrap_commit rh env args version root w = (r1, w1)" by fastforce
    from fresh have "adds_only ?A (rw_trace w)" by (auto simp: adds_only_def list_all_iff)
    with commit c have start: "adds_only ?A (rw_trace w1)" unfolding ends_def by (cases r1) (fastforce split: sum.splits)+
    show "case r of Inl _ \<Rightarrow> tidy env args (rw_trace w') | Inr _ \<Rightarrow> tidy env args (rw_trace w')"
    proof (cases r1)
      case (Inl e)
      with run c have "finallyR (\<lambda>w. (Inl e, w)) (bootstrap_cleanup rh env args root False) w1 = (r, w')"
        by (simp add: bootstrap_try_def)
      with tidied [OF raised] start show ?thesis unfolding ends_def by blast
    next
      case (Inr u)
      with run c have "finallyR (bootstrap_finish rh env args version root) (bootstrap_cleanup rh env args root True) w1 = (r, w')"
        by (simp add: bootstrap_try_def)
      with tidied [OF ends_rest [OF adds_no_worktree_more(3)]] start show ?thesis unfolding ends_def by blast
    qed
  qed
qed

lemma ends_main:
  assumes "host_starts rh" and "\<not> ra_keep_worktree args"
  shows "ends (adds_only {None}) (release_main rh env args) (\<lambda>_. tidy env args) (tidy env args)"
proof -
  note plain = plain_adds_no
  have boot: "ends (adds_only {None}) (bootstrap_release rh env args version) (\<lambda>_. tidy env args) (tidy env args)"
    if "ra_bootstrap args" for version
    unfolding bootstrap_release_def Let_def
    by (rule ends_bind_fresh [OF plain [OF only_questions(1)]], rule ends_then_fresh, intro only_intros,
        rule ends_bind_fresh [OF plain [OF only_questions(2)]], rule ends_then_fresh, intro only_intros,
        rule ends_then_fresh [OF only_questions(6)], rule ends_then_fresh [OF only_questions(6)],
        rule ends_bind_fresh [OF adds_no_worktree(3)], rule ends_then_fresh, intro only_intros, simp,
        rule ends_bootstrap_try [OF assms that])
  have "ends (adds_only {None}) (if ra_bootstrap args then bootstrap_release rh env args version
      else normal_release rh env args version) (\<lambda>_. tidy env args) (tidy env args)" for version
    by (simp add: boot ends_normal [OF assms])
  then show ?thesis
    unfolding release_main_def Let_def
    by (intro ends_then_fresh ends_bind_fresh [OF plain [OF only_questions(1)]] only_intros)
qed

text \<open>
  C14: A release run leaves nothing behind: when the host can start commands and \<^verbatim>\<open>--keep-worktree\<close> is not
  given, a run that added its worktree ends, whatever goes wrong after that, by removing the worktree,
  pruning it and deleting its temporary directory; only deleting an unfinished first release branch
  comes after.
\<close>

theorem release_cleans_up:
  assumes "host_starts rh" and "\<not> ra_keep_worktree args"
    and "release_main rh env args \<lparr>rw_host = h, rw_trace = []\<rparr> = (r, w')"
    and "passed (add_command env args worktree) (rw_trace w')"
  shows "cleaned env args worktree (rw_trace w')"
proof -
  have "case r of Inl _ \<Rightarrow> tidy env args (rw_trace w') | Inr _ \<Rightarrow> tidy env args (rw_trace w')"
    by (rule endsD [OF ends_main [OF assms(1,2)] _ assms(3)]) (simp add: adds_only_def)
  then have "tidy env args (rw_trace w')" by (cases r) simp_all
  with assms(4) show ?thesis by (simp add: tidy_def)
qed

text \<open>A release that fails because its manifest cannot be read.\<close>

definition sample_release_host :: "unit release_host" where
  "sample_release_host =
     \<lparr>rh_run = (\<lambda>cmd cwd capture h.
        (Inr \<lparr>returncode = (if ''-q'' \<in> set cmd then 1 else 0),
              cp_stdout = (if ''ls-remote'' \<in> set cmd then ''found'' else []), cp_stderr = []\<rparr>, h)),
      rh_read = (\<lambda>path h. (Inl ''unreadable'', h)), rh_write = (\<lambda>path t h. (Inr (), h)),
      rh_mkdtemp = (\<lambda>stem h. (Inr ''/t'', h)), rh_rmtree = (\<lambda>path h. h), rh_which = (\<lambda>tool. True)\<rparr>"

definition sample_release_env :: release_env where
  "sample_release_env = \<lparr>re_repo = ''/r'', re_python = ''/p'', re_nt = False\<rparr>"

definition sample_release_args :: release_args where
  "sample_release_args = default_args ''v1.2.3''"

lemmas release_eval = release_main_def normal_release_def Let_def thenR_def bindR_def whenR_def returnR_def fail_def
  log_line_def require_clean_worktree_def branch_exists_def git_def git_wt_def run_checked_def subprocess_run_def
  release_branch_is_free_def warn_if_behind_upstream_def verify_remote_tag_def tag_commit_def mkdtemp_def finallyR_def
  release_body_def do_merge_def is_ancestor_def merge_head_exists_def reconcile_cargo_toml_def read_text_def
  release_cleanup_def remove_worktree_def rmtree_def emit_def
  sample_release_host_def sample_release_env_def sample_release_args_def default_args_def
  DEFAULT_GWZ_CORE_URL_def DEFAULT_GWZ_CLI_URL_def

lemma sample_texts:
  "strip [] = []" "strip ''found'' = ''found''" "words [] = []" "release_tag ''v1.2.3''" "path_str ''/t'' = ''/t''"
  "path_join ''/t'' ''gwz-py'' = ''/t/gwz-py''"
  by code_simp+

theorem release_cleans_up_witness:
  "\<exists>r w'. release_main sample_release_host sample_release_env sample_release_args \<lparr>rw_host = (), rw_trace = []\<rparr> = (r, w') \<and>
     cleaned sample_release_env sample_release_args ''/t/gwz-py'' (rw_trace w')"
proof -
  obtain r w' where run:
    "release_main sample_release_host sample_release_env sample_release_args \<lparr>rw_host = (), rw_trace = []\<rparr> = (r, w')"
    by fastforce
  moreover have "host_starts sample_release_host" "\<not> ra_keep_worktree sample_release_args"
    by (simp_all add: host_starts_def sample_release_host_def sample_release_args_def default_args_def)
  moreover have "passed (add_command sample_release_env sample_release_args ''/t/gwz-py'') (rw_trace
      (snd (release_main sample_release_host sample_release_env sample_release_args \<lparr>rw_host = (), rw_trace = []\<rparr>)))"
    by (simp add: release_eval sample_texts passed_def add_command_def)
  ultimately show ?thesis
    using release_cleans_up [of sample_release_host sample_release_args] by fastforce
qed

end
