(* ===== verification/ProtocolDrift.thy ===== *)
theory ProtocolDrift
  imports Json "HOL-Library.AList"
begin

section \<open>The protocol drift check\<close>

text \<open>
  \<^verbatim>\<open>scripts/check_protocol_drift.py\<close>: the packaged protocol IR must be what the schema exports, and without
  the listed additions it must have the pinned fingerprint. The documents are JSON values of \<^verbatim>\<open>Json\<close>, with
  the keys of an object distinct; the export of the schema and SHA-256 are parameters. A document is
  changed in place by the source; here each change gives the document it leaves.
\<close>

subsection \<open>Values\<close>

text \<open>
  \<open>fail\<close> prints and raises \<open>SystemExit(1)\<close>; a \<open>KeyError\<close>, \<open>TypeError\<close>, \<open>AttributeError\<close> or \<open>StopIteration\<close>
  of a malformed document is \<open>DriftCrash\<close>. Where a collection is expected anything but a list is malformed.
  A message that shows a JSON value or where a node is ends before it.
\<close>

datatype drift_fault = DriftExit string | DriftValueError string | DriftCrash

text \<open>Python's \<open>==\<close>: a boolean is an integer, the order of keys does not matter.\<close>

fun as_int :: "json \<Rightarrow> int option" where
  "as_int (JBool b) = Some (if b then 1 else 0)"
| "as_int (JInt i) = Some i"
| "as_int _ = None"

function py_eq :: "json \<Rightarrow> json \<Rightarrow> bool" where
  "py_eq (JList xs) w =
     (case w of JList ys \<Rightarrow> length xs = length ys \<and> list_all (\<lambda>(x, y). py_eq x y) (zip xs ys) | _ \<Rightarrow> False)"
| "py_eq (JObj a) w =
     (case w of
        JObj b \<Rightarrow> length a = length b \<and>
          list_all (\<lambda>(k, v). case map_of b k of None \<Rightarrow> False | Some u \<Rightarrow> py_eq v u) a
      | _ \<Rightarrow> False)"
| "py_eq JNull w = (w = JNull)"
| "py_eq (JStr s) w = (w = JStr s)"
| "py_eq (JBool b) w = (as_int w = as_int (JBool b))"
| "py_eq (JInt i) w = (as_int w = Some i)"
  by pat_completeness auto
termination
proof (relation "measure (size \<circ> fst)", goal_cases)
  case (2 xs w ys z x y)
  then have "x \<in> set xs" by (auto dest: set_zip_leftD)
  then have "size x \<le> size_list size xs" by (rule size_list_estimation') simp
  then show ?case by simp
next
  case (3 a w b z k v u)
  then have "(k, v) \<in> set a" by simp
  then have "size v \<le> size_list (size_prod (\<lambda>_. 0) size) a" by (rule size_list_estimation') simp
  then show ?case by simp
qed auto

definition truthy_json :: "json \<Rightarrow> bool" where
  "truthy_json v = (v \<notin> {JNull, JBool False, JInt 0, JStr [], JList [], JObj []})"

definition item :: "json \<Rightarrow> string \<Rightarrow> drift_fault + json" where
  "item j k =
     (case j of
        JObj kvs \<Rightarrow> (case map_of kvs k of None \<Rightarrow> Inl DriftCrash | Some v \<Rightarrow> Inr v)
      | _ \<Rightarrow> Inl DriftCrash)"

definition items :: "json \<Rightarrow> string \<Rightarrow> drift_fault + json list" where
  "items j k = bindE (item j k) (\<lambda>v. case v of JList xs \<Rightarrow> Inr xs | _ \<Rightarrow> Inl DriftCrash)"

definition put :: "json \<Rightarrow> string \<Rightarrow> json \<Rightarrow> json" where
  "put j k v = (case j of JObj kvs \<Rightarrow> JObj (AList.update k v kvs) | _ \<Rightarrow> j)"

text \<open>\<open>x["name"] == s\<close>, and \<open>x["name"] in\<close> a set, which needs a name with a hash.\<close>

definition named :: "string \<Rightarrow> json \<Rightarrow> drift_fault + bool" where
  "named s j = bindE (item j ''name'') (\<lambda>n. Inr (n = JStr s))"

definition hashed_name :: "json \<Rightarrow> drift_fault + json" where
  "hashed_name j =
     bindE (item j ''name'') (\<lambda>n. case n of JList _ \<Rightarrow> Inl DriftCrash | JObj _ \<Rightarrow> Inl DriftCrash | _ \<Rightarrow> Inr n)"

definition named_in :: "string list \<Rightarrow> json \<Rightarrow> drift_fault + bool" where
  "named_in names j = bindE (hashed_name j) (\<lambda>n. Inr (n \<in> JStr ` set names))"

text \<open>A comprehension with a condition, \<open>next\<close> with what is done to the item it finds, and a \<open>for\<close> loop.\<close>

fun filterE :: "('a \<Rightarrow> 'e + bool) \<Rightarrow> 'a list \<Rightarrow> 'e + 'a list" where
  "filterE p [] = Inr []"
| "filterE p (x # xs) =
     bindE (p x) (\<lambda>b. bindE (filterE p xs) (\<lambda>ys. Inr (if b then x # ys else ys)))"

fun on_first :: "('a \<Rightarrow> drift_fault + bool) \<Rightarrow> ('a \<Rightarrow> drift_fault + 'a) \<Rightarrow> 'a list \<Rightarrow> drift_fault + 'a list" where
  "on_first p f [] = Inl DriftCrash"
| "on_first p f (x # xs) =
     bindE (p x) (\<lambda>b. if b then bindE (f x) (\<lambda>y. Inr (y # xs))
                      else bindE (on_first p f xs) (\<lambda>ys. Inr (x # ys)))"

fun foldE :: "('a \<Rightarrow> 'd \<Rightarrow> 'e + 'd) \<Rightarrow> 'a list \<Rightarrow> 'd \<Rightarrow> 'e + 'd" where
  "foldE f [] d = Inr d"
| "foldE f (x # xs) d = bindE (f x d) (foldE f xs)"

definition change_list :: "json \<Rightarrow> string \<Rightarrow> (json list \<Rightarrow> drift_fault + json list) \<Rightarrow> drift_fault + json" where
  "change_list j k f = bindE (items j k) (\<lambda>xs. bindE (f xs) (\<lambda>ys. Inr (put j k (JList ys))))"

definition negate :: "('a \<Rightarrow> 'e + bool) \<Rightarrow> 'a \<Rightarrow> 'e + bool" where
  "negate p x = bindE (p x) (\<lambda>b. Inr (\<not> b))"

text \<open>\<open>list.remove\<close>: the first item that is the value or equal to it.\<close>

fun remove_first :: "json \<Rightarrow> json list \<Rightarrow> json list" where
  "remove_first a [] = []"
| "remove_first a (x # xs) = (if x = a \<or> py_eq x a then xs else x # remove_first a xs)"

subsection \<open>The tables\<close>

definition OWNER_ENUMS :: "string list" where
  "OWNER_ENUMS =
     [''MessageKind'', ''EndpointRole'', ''Scheme'', ''AuthPolicy'', ''GitService'', ''IdentityMode'',
      ''ErrorCode'', ''SetupFailureCause'', ''HelperFailureCause'', ''CapacityCause'', ''CapacitySignal'',
      ''Effect'', ''Disposition'', ''AuthMethod'', ''NativeSource'', ''NativeScheme'', ''NativeObservation'',
      ''NativeMechanism'']"

definition OWNER_MESSAGES :: "string list" where
  "OWNER_MESSAGES =
     [''NativeFacts'', ''Limits'', ''Bind'', ''Bound'', ''RetryAttempt'', ''CapacityDetail'', ''FailureDetail'',
      ''Failure'', ''Destination'', ''Identity'', ''Deadlines'', ''Open'', ''CheckIdentity'', ''IdentityChecked'',
      ''Facts'', ''Opened'', ''Data'', ''Window'', ''Barrier'', ''EndWrite'', ''Close'', ''Closed'', ''Cancel'',
      ''Envelope'']"

definition scalar_type :: "string \<Rightarrow> json" where
  "scalar_type s = JObj [(''k'', JStr ''scalar''), (''scalar'', JStr s)]"

definition named_type :: "string \<Rightarrow> string \<Rightarrow> json" where
  "named_type k n = JObj [(''k'', JStr k), (''name'', JStr n)]"

definition list_type :: "json \<Rightarrow> json" where
  "list_type t = JObj [(''k'', JStr ''list''), (''elem'', t)]"

definition enum_list :: "string \<Rightarrow> json" where
  "enum_list name = list_type (named_type ''enum'' name)"

definition field_document :: "string \<Rightarrow> int \<Rightarrow> json \<Rightarrow> json \<Rightarrow> json" where
  "field_document name tag t opt =
     JObj [(''name'', JStr name), (''tag'', JInt tag), (''type'', t), (''optional'', opt),
           (''transient'', JBool False), (''merge'', JNull)]"

type_synonym addition = "string \<times> (string \<times> int \<times> json) list"

definition PLACEMENT_ADDITIONS :: "addition list" where
  "PLACEMENT_ADDITIONS =
     [(''TransportOptions'',
        [(''placement'', 4, named_type ''enum'' ''TransportPlacement''),
         (''endpoint_path_base'', 5, scalar_type ''str'')]),
      (''RequestMeta'', [(''transport_message'', 10, named_type ''msg'' ''Envelope'')]),
      (''ResponseMeta'', [(''transport_message'', 9, named_type ''msg'' ''Envelope'')]),
      (''TransportCapabilitiesResponse'',
        [(''message_versions'', 3, list_type (scalar_type ''int'')),
         (''placements'', 4, enum_list ''TransportPlacement''),
         (''schemes'', 5, enum_list ''Scheme''),
         (''auth_policies'', 6, enum_list ''AuthPolicy''),
         (''message_limits'', 7, named_type ''msg'' ''Limits'')])]"

definition C2_ADDITIONS :: "(string \<times> (string \<times> int \<times> string) list) list" where
  "C2_ADDITIONS =
     [(''OperationPolicy'', [(''max_retries'', 9, ''int'')]),
      (''TransportObservation'',
        [(''endpoint_id'', 9, ''str''), (''connection_id'', 10, ''str''), (''stream_id'', 11, ''int''),
         (''reused'', 12, ''bool'')])]"

definition S2_2B_METHODS :: "string list" where
  "S2_2B_METHODS = [''operation.response'', ''operation.cancel'', ''operation.release'', ''session.close'']"

definition S2_2B_ENUMS :: "string list" where
  "S2_2B_ENUMS = [''SessionMode'']"

definition S2_2B_MESSAGES :: "string list" where
  "S2_2B_MESSAGES =
     [''SessionCall'', ''SessionReply'', ''SessionError'', ''OperationResultRequest'',
      ''OperationResponseRequest'', ''OperationCancelRequest'', ''OperationReleaseRequest'',
      ''SessionCloseRequest'', ''CleanupReport'', ''OperationReleaseResponse'', ''TransportLaneFrame'']"

definition S2_2B_CODES :: "(string \<times> int) list" where
  "S2_2B_CODES =
     [(''transport_session_full'', 77), (''operation_expired'', 78), (''server_unavailable'', 79),
      (''server_version_mismatch'', 80), (''server_environment_mismatch'', 81),
      (''server_peer_refused'', 82), (''server_address_refused'', 83),
      (''server_listener_refused'', 84), (''server_session_closed'', 85),
      (''server_destination_refused'', 86)]"

definition PRE_LOG_WIRE_FINGERPRINT :: string where
  "PRE_LOG_WIRE_FINGERPRINT = ''sha256:4d377a496c8905293b5e9b53392b70867cf6dafccbb623841a623dbd2d555f14''"

subsection \<open>From version 2 to version 1\<close>

definition sorted_repr :: "string list \<Rightarrow> string" where
  "sorted_repr names = ''['' @ join '', '' (map py_repr (sort names)) @ '']''"

text \<open>What one node must not have, and what is taken off it.\<close>

definition check_node :: "json \<Rightarrow> drift_fault + unit" where
  "check_node node =
     (case node of
        JObj kvs \<Rightarrow>
          (let declares = Inl (DriftExit ''declares taut options, which this check predates'')
           in if map_of kvs ''options'' \<noteq> None \<and> truthy_json (the (map_of kvs ''options'')) then declares
              else case map_of kvs ''member_options'' of
                None \<Rightarrow> Inr ()
              | Some (JObj ms) \<Rightarrow> if list_ex (\<lambda>(k, v). truthy_json v) ms then declares else Inr ()
              | Some _ \<Rightarrow> Inl DriftCrash)
      | _ \<Rightarrow> Inl DriftCrash)"

definition bare_node :: "json \<Rightarrow> json" where
  "bare_node node =
     (case node of
        JObj kvs \<Rightarrow> JObj (AList.delete ''effective'' (AList.delete ''member_options'' (AList.delete ''options'' kvs)))
      | _ \<Rightarrow> node)"

text \<open>The names of the nodes are read when they are listed, before any node is checked.\<close>

definition parts_of :: "json \<Rightarrow> string \<Rightarrow> string \<Rightarrow> drift_fault + json list" where
  "parts_of document outer inner =
     bindE (items document outer) (\<lambda>xs.
     bindE (mapE (\<lambda>x. bindE (items x inner) (\<lambda>ys.
       bindE (mapE (\<lambda>y. bindE (item x ''name'') (\<lambda>_. item y ''name'')) ys) (\<lambda>_. Inr ys))) xs) (\<lambda>yss.
     Inr (concat yss)))"

definition named_items :: "json \<Rightarrow> string \<Rightarrow> drift_fault + json list" where
  "named_items document kind =
     bindE (items document kind) (\<lambda>xs. bindE (mapE (\<lambda>x. item x ''name'') xs) (\<lambda>_. Inr xs))"

definition bare_parts :: "string \<Rightarrow> json \<Rightarrow> drift_fault + json" where
  "bare_parts inner node = change_list (bare_node node) inner (\<lambda>xs. Inr (map bare_node xs))"

definition ir_version_1 :: "json \<Rightarrow> drift_fault + json" where
  "ir_version_1 value =
     (case value of
        JObj kvs \<Rightarrow>
          (case map_of kvs ''version'' of
             Some (JInt i) \<Rightarrow>
               if i \<noteq> 2 then Inl (DriftExit ''expected taut IR version 2'')
               else
                 (let document = put value ''version'' (JInt 1)
                  in bindE (named_items document ''enums'') (\<lambda>enums.
                     bindE (named_items document ''messages'') (\<lambda>messages.
                     bindE (parts_of document ''messages'' ''fields'') (\<lambda>fields.
                     bindE (named_items document ''services'') (\<lambda>services.
                     bindE (parts_of document ''services'' ''methods'') (\<lambda>methods.
                     bindE (mapE check_node ([document] @ enums @ messages @ fields @ services @ methods)) (\<lambda>_.
                     bindE (change_list (bare_node document) ''enums'' (\<lambda>xs. Inr (map bare_node xs))) (\<lambda>d1.
                     bindE (change_list d1 ''messages'' (mapE (bare_parts ''fields''))) (\<lambda>d2.
                     change_list d2 ''services'' (mapE (bare_parts ''methods'')))))))))))
           | _ \<Rightarrow> Inl (DriftExit ''expected taut IR version 2''))
      | _ \<Rightarrow> Inl DriftCrash)"

definition fingerprint :: "(string \<Rightarrow> string) \<Rightarrow> json \<Rightarrow> string" where
  "fingerprint sha256 value = ''sha256:'' @ sha256 (dumps True '','' '':'' value)"

subsection \<open>The projection\<close>

text \<open>Dropping one exact field of one message, one exact message or enum, one member of an enum.\<close>

definition drop_field :: "string \<Rightarrow> json \<Rightarrow> string \<Rightarrow> json \<Rightarrow> drift_fault + json" where
  "drop_field field expected err message =
     change_list message ''fields'' (\<lambda>fs.
       bindE (filterE (named field) fs) (\<lambda>added.
       if \<not> py_eq (JList added) (JList [expected]) then Inl (DriftValueError err)
       else Inr (remove_first (hd added) fs)))"

definition drop_message_field :: "string \<Rightarrow> string \<Rightarrow> json \<Rightarrow> string \<Rightarrow> json \<Rightarrow> drift_fault + json" where
  "drop_message_field message field expected err d =
     change_list d ''messages'' (on_first (named message) (drop_field field expected err))"

definition drop_exact :: "string \<Rightarrow> string \<Rightarrow> json \<Rightarrow> string \<Rightarrow> json \<Rightarrow> drift_fault + json" where
  "drop_exact kind name expected err d =
     change_list d kind (\<lambda>xs.
       bindE (filterE (named name) xs) (\<lambda>found.
       if \<not> py_eq (JList found) (JList [expected]) then Inl (DriftValueError err)
       else Inr (remove_first (hd found) xs)))"

definition drop_member :: "drift_fault \<Rightarrow> string \<Rightarrow> int \<Rightarrow> json \<Rightarrow> drift_fault + json" where
  "drop_member wrong name value enum =
     bindE (item enum ''members'') (\<lambda>members.
     case members of
       JObj kvs \<Rightarrow>
         (case map_of kvs name of
            None \<Rightarrow> Inl wrong
          | Some v \<Rightarrow> if py_eq v (JInt value) then Inr (put enum ''members'' (JObj (AList.delete name kvs))) else Inl wrong)
     | _ \<Rightarrow> Inl DriftCrash)"

definition require_names :: "string list \<Rightarrow> (string list \<Rightarrow> string) \<Rightarrow> json list \<Rightarrow> drift_fault + json list" where
  "require_names names err xs =
     bindE (mapE hashed_name xs) (\<lambda>ns.
     let missing = filter (\<lambda>n. JStr n \<notin> set ns) names
     in if missing \<noteq> [] then Inl (DriftValueError (err missing))
        else filterE (negate (named_in names)) xs)"

text \<open>The log messages, enums, action and methods; the session methods.\<close>

definition log_named :: "json \<Rightarrow> drift_fault + bool" where
  "log_named j = bindE (item j ''name'') (\<lambda>n. case n of JStr s \<Rightarrow> Inr (starts_with ''Log'' s) | _ \<Rightarrow> Inl DriftCrash)"

definition drop_log :: "json \<Rightarrow> drift_fault + json" where
  "drop_log d =
     bindE (change_list d ''messages'' (filterE (negate log_named))) (\<lambda>d1.
     bindE (change_list d1 ''enums'' (filterE (negate log_named))) (\<lambda>d2.
     change_list d2 ''enums'' (on_first (named ''ActionKind'')
       (drop_member (DriftExit ''ActionKind.log must occupy the next additive slot 26'') ''log'' 26))))"

definition drop_methods :: "json \<Rightarrow> drift_fault + json" where
  "drop_methods d =
     change_list d ''services'' (on_first (named ''GwzCore'') (\<lambda>service.
       change_list service ''methods'' (\<lambda>ms.
         bindE (filterE (negate (named_in [''log'', ''log.output''])) ms) (\<lambda>ms1.
         require_names S2_2B_METHODS
           (\<lambda>_. ''GwzCore must declare the session methods '' @ sorted_repr S2_2B_METHODS) ms1))))"

text \<open>The session enums, messages and the field of the capabilities.\<close>

definition session_missing :: "string \<Rightarrow> string list \<Rightarrow> string" where
  "session_missing kind missing = ''the schema must declare the session '' @ kind @ '' '' @ sorted_repr missing"

definition drop_session :: "json \<Rightarrow> drift_fault + json" where
  "drop_session d =
     bindE (change_list d ''enums'' (require_names S2_2B_ENUMS (session_missing ''enums''))) (\<lambda>d1.
     bindE (change_list d1 ''messages'' (require_names S2_2B_MESSAGES (session_missing ''messages''))) (\<lambda>d2.
     drop_message_field ''TransportCapabilitiesResponse'' ''cancellation''
       (field_document ''cancellation'' 8 (scalar_type ''bool'') (JStr ''missing_ok''))
       ''TransportCapabilitiesResponse.cancellation must be the MISSING_OK bool at tag 8'' d2))"

definition context_document :: json where
  "context_document =
     JObj [(''name'', JStr ''InvocationContext''),
           (''fields'', JList [field_document ''caller_cwd'' 1 (scalar_type ''str'') (JBool False)]),
           (''next_id'', JNull), (''reserved_names'', JList []), (''reserved_tags'', JList [])]"

definition drop_invocation :: "json \<Rightarrow> drift_fault + json" where
  "drop_invocation d =
     bindE (drop_message_field ''RequestMeta'' ''invocation''
       (field_document ''invocation'' 9 (named_type ''msg'' ''InvocationContext'') (JBool True))
       ''RequestMeta.invocation must be the optional InvocationContext at tag 9'' d) (\<lambda>d1.
     drop_exact ''messages'' ''InvocationContext'' context_document
       ''InvocationContext must contain only caller_cwd at tag 1'' d1)"

definition reasons_document :: json where
  "reasons_document =
     JObj [(''name'', JStr ''LockDifferenceReason''),
           (''members'', JObj
             [(''dirty_worktree'', JInt 0), (''commit'', JInt 1), (''branch'', JInt 2), (''attachment'', JInt 3),
              (''missing_lock_entry'', JInt 4), (''unavailable_observations'', JInt 5)])]"

definition drop_reasons :: "json \<Rightarrow> drift_fault + json" where
  "drop_reasons d =
     bindE (drop_exact ''enums'' ''LockDifferenceReason'' reasons_document
       ''LockDifferenceReason must retain its six assigned values'' d) (\<lambda>d1.
     drop_message_field ''MemberResponse'' ''lock_difference_reasons''
       (field_document ''lock_difference_reasons'' 11 (enum_list ''LockDifferenceReason'') (JBool True))
       ''MemberResponse.lock_difference_reasons must be the optional tag-11 enum list'' d1)"

definition drop_private :: "json \<Rightarrow> drift_fault + json" where
  "drop_private =
     foldE (\<lambda>(name, tag). drop_message_field name ''private''
         (field_document ''private'' tag (scalar_type ''bool'') (JBool True))
         (name @ ''.private must be the optional boolean at tag '' @ show_int tag))
       [(''MemberSpec'', 8), (''RepoSyncRequest'', 2)]"

definition drop_codes :: "json \<Rightarrow> drift_fault + json" where
  "drop_codes d =
     change_list d ''enums'' (on_first (named ''GwzErrorCode'')
       (foldE (\<lambda>(name, value). drop_member
           (DriftValueError (''GwzErrorCode.'' @ name @ '' must occupy additive slot '' @ show_int value)) name value)
         (S2_2B_CODES @ [(''cancelled'', 73), (''transport_record_limit'', 74),
                         (''credential_helper_timeout'', 75), (''capacity'', 76)])))"

definition drop_c2 :: "json \<Rightarrow> drift_fault + json" where
  "drop_c2 =
     foldE (\<lambda>(message, additions).
         foldE (\<lambda>(name, tag, scalar). drop_message_field message name
             (field_document name tag (scalar_type scalar) (JStr ''missing_ok''))
             (message @ ''.'' @ name @ '' must be the MISSING_OK '' @ scalar @ '' at tag '' @ show_int tag))
           additions)
       C2_ADDITIONS"

definition drop_placement_fields :: "json \<Rightarrow> drift_fault + json" where
  "drop_placement_fields =
     foldE (\<lambda>(message, additions).
         foldE (\<lambda>(name, tag, t). drop_message_field message name
             (field_document name tag t (JStr ''missing_ok''))
             (message @ ''.'' @ name @ '' must be the MISSING_OK field at tag '' @ show_int tag))
           additions)
       PLACEMENT_ADDITIONS"

fun check_placement :: "json list \<Rightarrow> drift_fault + unit" where
  "check_placement [] = Inl (DriftValueError ''TransportPlacement must be local=1, cli=2'')"
| "check_placement (e # es) =
     bindE (named ''TransportPlacement'' e) (\<lambda>b.
     if \<not> b then check_placement es
     else bindE (item e ''members'') (\<lambda>m.
       guardE (\<not> py_eq m (JObj [(''local'', JInt 1), (''cli'', JInt 2)]))
         (DriftValueError ''TransportPlacement must be local=1, cli=2'')))"

definition owner_error :: "string list \<Rightarrow> string" where
  "owner_error missing = ''the composed owner declarations are missing '' @ sorted_repr missing"

definition drop_owner :: "json \<Rightarrow> drift_fault + json" where
  "drop_owner d =
     bindE (items d ''enums'') (\<lambda>enums.
     bindE (check_placement enums) (\<lambda>_.
     bindE (change_list d ''enums'' (require_names (OWNER_ENUMS @ [''TransportPlacement'']) owner_error)) (\<lambda>d1.
     change_list d1 ''messages'' (require_names OWNER_MESSAGES owner_error))))"

definition pre_log_projection :: "json \<Rightarrow> drift_fault + json" where
  "pre_log_projection value =
     bindE (drop_log value) (\<lambda>d1.
     bindE (drop_methods d1) (\<lambda>d2.
     bindE (drop_session d2) (\<lambda>d3.
     bindE (drop_invocation d3) (\<lambda>d4.
     bindE (drop_reasons d4) (\<lambda>d5.
     bindE (drop_private d5) (\<lambda>d6.
     bindE (drop_codes d6) (\<lambda>d7.
     bindE (drop_c2 d7) (\<lambda>d8.
     bindE (drop_placement_fields d8) drop_owner))))))))"

subsection \<open>The check\<close>

text \<open>
  \<open>main\<close>: whether the two files exist, what the schema exports and what the packaged file holds, or how
  reading them ends; the exit code and the lines, with the channel of each.
\<close>

definition drift_main ::
    "(string \<Rightarrow> string) \<Rightarrow> string \<Rightarrow> string \<Rightarrow> bool \<Rightarrow> bool \<Rightarrow> drift_fault + json \<Rightarrow> drift_fault + json \<Rightarrow>
     drift_fault + int \<times> (bool \<times> string) list" where
  "drift_main sha256 schema packaged schema_exists packaged_exists export load =
     (if \<not> schema_exists then Inl (DriftExit (''schema not found: '' @ schema))
      else if \<not> packaged_exists then Inl (DriftExit (''packaged IR not found: '' @ packaged))
      else bindE export (\<lambda>expected. bindE load (\<lambda>actual.
        if \<not> py_eq actual expected then
          Inr (1, map (\<lambda>l. (True, l))
            [''check_protocol_drift: packaged gwz.ir.json does not match gwz-core schema'',
             ''  schema:      '' @ schema, ''  packaged IR: '' @ packaged,
             ''  expected:    '' @ fingerprint sha256 expected, ''  actual:      '' @ fingerprint sha256 actual,
             ''  run: python scripts/regen_protocol.py''])
        else bindE (ir_version_1 actual) (\<lambda>document. bindE (pre_log_projection document) (\<lambda>projected.
          if fingerprint sha256 projected \<noteq> PRE_LOG_WIRE_FINGERPRINT then
            Inr (1, map (\<lambda>l. (True, l))
              [''check_protocol_drift: gwz-log changed a pre-existing wire shape'',
               ''  expected: '' @ PRE_LOG_WIRE_FINGERPRINT, ''  actual:   '' @ fingerprint sha256 projected])
          else Inr (0, [(False, ''check_protocol_drift: OK '' @ fingerprint sha256 actual)]))))))"

subsection \<open>What the projection strips\<close>

text \<open>
  A specification lists what is taken off a document: whether the items named \<open>Log...\<close> go, the fields by
  message, the messages, the members by enum, the enums, the methods by service. Stripping by it is one
  pass over each list, in which every item is judged by its own name.
\<close>

record strip_spec =
  sp_log :: bool
  sp_fields :: "(string \<times> string) list"
  sp_messages :: "string list"
  sp_members :: "(string \<times> string) list"
  sp_enums :: "string list"
  sp_methods :: "(string \<times> string) list"

definition jname :: "json \<Rightarrow> string option" where
  "jname j = (case item j ''name'' of Inr (JStr s) \<Rightarrow> Some s | _ \<Rightarrow> None)"

definition kept :: "bool \<Rightarrow> string list \<Rightarrow> json \<Rightarrow> bool" where
  "kept no_log names j =
     (case jname j of None \<Rightarrow> True | Some s \<Rightarrow> s \<notin> set names \<and> \<not> (no_log \<and> starts_with ''Log'' s))"

definition listed :: "(string \<times> string) list \<Rightarrow> json \<Rightarrow> string option \<Rightarrow> bool" where
  "listed A owner part = list_ex (\<lambda>(n, f). jname owner = Some n \<and> part = Some f) A"

definition strip_inner :: "string \<Rightarrow> (string \<times> string) list \<Rightarrow> json \<Rightarrow> json" where
  "strip_inner k A j =
     (case items j k of
        Inl _ \<Rightarrow> j
      | Inr xs \<Rightarrow> put j k (JList (filter (\<lambda>x. \<not> listed A j (jname x)) xs)))"

definition strip_members :: "(string \<times> string) list \<Rightarrow> json \<Rightarrow> json" where
  "strip_members A j =
     (case item j ''members'' of
        Inr (JObj kvs) \<Rightarrow> put j ''members'' (JObj (filter (\<lambda>(k, v). \<not> listed A j (Some k)) kvs))
      | _ \<Rightarrow> j)"

definition strip_messages :: "strip_spec \<Rightarrow> json list \<Rightarrow> json list" where
  "strip_messages sp ms = map (strip_inner ''fields'' (sp_fields sp)) (filter (kept (sp_log sp) (sp_messages sp)) ms)"

definition strip_enums :: "strip_spec \<Rightarrow> json list \<Rightarrow> json list" where
  "strip_enums sp es = map (strip_members (sp_members sp)) (filter (kept (sp_log sp) (sp_enums sp)) es)"

definition strip_services :: "strip_spec \<Rightarrow> json list \<Rightarrow> json list" where
  "strip_services sp ss = map (strip_inner ''methods'' (sp_methods sp)) ss"

text \<open>Two documents that differ by a specification.\<close>

definition stripped :: "strip_spec \<Rightarrow> json \<Rightarrow> json \<Rightarrow> bool" where
  "stripped sp d d' =
     (items d' ''messages'' = bindE (items d ''messages'') (\<lambda>xs. Inr (strip_messages sp xs)) \<and>
      items d' ''enums'' = bindE (items d ''enums'') (\<lambda>xs. Inr (strip_enums sp xs)) \<and>
      items d' ''services'' = bindE (items d ''services'') (\<lambda>xs. Inr (strip_services sp xs)) \<and>
      (\<forall>k. k \<in> {''messages'', ''enums'', ''services''} \<or> item d' k = item d k))"

definition nothing :: strip_spec where
  "nothing = \<lparr>sp_log = False, sp_fields = [], sp_messages = [], sp_members = [], sp_enums = [], sp_methods = []\<rparr>"

definition both :: "strip_spec \<Rightarrow> strip_spec \<Rightarrow> strip_spec" where
  "both s t =
     \<lparr>sp_log = (sp_log s \<or> sp_log t), sp_fields = sp_fields s @ sp_fields t,
      sp_messages = sp_messages s @ sp_messages t, sp_members = sp_members s @ sp_members t,
      sp_enums = sp_enums s @ sp_enums t, sp_methods = sp_methods s @ sp_methods t\<rparr>"

subsection \<open>Stripping twice\<close>

lemma item_put: "item j k = Inr u \<Longrightarrow> item (put j k v) k' = (if k' = k then Inr v else item j k')"
  by (auto simp: item_def put_def update_conv split: json.splits option.splits)

lemma items_Inr: "items j k = Inr xs \<longleftrightarrow> item j k = Inr (JList xs)"
proof (cases "item j k")
  case (Inr v)
  then show ?thesis by (cases v) (auto simp: items_def)
qed (simp add: items_def)

lemma put_same: "item j k = Inr v \<Longrightarrow> put j k v = j"
  by (auto simp: item_def put_def update_triv split: json.splits option.splits)

lemma put_put: "put (put j k u) k v = put j k v"
  by (auto simp: put_def split: json.splits)

lemma jname_put: "item j k = Inr u \<Longrightarrow> k \<noteq> ''name'' \<Longrightarrow> jname (put j k v) = jname j"
  by (simp add: jname_def item_put)

lemma listed_append: "listed (A @ B) j p \<longleftrightarrow> listed A j p \<or> listed B j p"
  by (auto simp: listed_def)

lemma listed_same: "jname j' = jname j \<Longrightarrow> listed A j' p = listed A j p"
  by (simp add: listed_def)

lemma jname_strip_inner: "k \<noteq> ''name'' \<Longrightarrow> jname (strip_inner k A j) = jname j"
  by (auto simp: strip_inner_def items_Inr jname_put split: sum.splits)

lemma jname_strip_members: "jname (strip_members A j) = jname j"
  by (auto simp: strip_members_def jname_put split: sum.splits json.splits)

lemma strip_inner_twice:
  assumes "k \<noteq> ''name''"
  shows "strip_inner k B (strip_inner k A j) = strip_inner k (A @ B) j"
proof (cases "items j k")
  case (Inr xs)
  let ?ys = "filter (\<lambda>x. \<not> listed A j (jname x)) xs"
  have old: "item j k = Inr (JList xs)" using Inr by (simp add: items_Inr)
  have one: "strip_inner k A j = put j k (JList ?ys)" by (simp add: strip_inner_def Inr)
  have "items (strip_inner k A j) k = Inr ?ys" by (simp add: one items_Inr item_put [OF old])
  then have "strip_inner k B (strip_inner k A j) =
      put j k (JList (filter (\<lambda>x. \<not> listed B j (jname x)) ?ys))"
    by (simp add: strip_inner_def [of k B "strip_inner k A j"] listed_same [OF jname_strip_inner [OF assms]])
      (simp add: one put_put)
  then show ?thesis
    by (simp add: strip_inner_def [of k "A @ B"] Inr listed_append conj_commute)
qed (simp add: strip_inner_def)

lemma strip_members_twice: "strip_members B (strip_members A j) = strip_members (A @ B) j"
proof (cases "\<exists>kvs. item j ''members'' = Inr (JObj kvs)")
  case True
  then obtain kvs where old: "item j ''members'' = Inr (JObj kvs)" by blast
  let ?ys = "filter (\<lambda>(k, v). \<not> listed A j (Some k)) kvs"
  have one: "strip_members A j = put j ''members'' (JObj ?ys)" by (simp add: strip_members_def old)
  have "item (strip_members A j) ''members'' = Inr (JObj ?ys)" by (simp add: one item_put [OF old])
  then have "strip_members B (strip_members A j) =
      put j ''members'' (JObj (filter (\<lambda>(k, v). \<not> listed B j (Some k)) ?ys))"
    by (simp add: strip_members_def [of B "strip_members A j"] listed_same [OF jname_strip_members])
      (simp add: one put_put)
  then show ?thesis
    by (simp add: strip_members_def [of "A @ B"] old listed_append case_prod_unfold conj_commute)
next
  case False
  then show ?thesis by (auto simp: strip_members_def split: sum.splits json.splits)
qed

lemma kept_both: "kept (a \<or> b) (M @ N) = (\<lambda>j. kept a M j \<and> kept b N j)"
  by (auto simp: kept_def fun_eq_iff split: option.splits)

lemma kept_all: "kept False [] = (\<lambda>_. True)"
  by (auto simp: kept_def fun_eq_iff split: option.splits)

lemma kept_same: "jname j' = jname j \<Longrightarrow> kept a M j' = kept a M j"
  by (simp add: kept_def)

lemma strip_both:
  "strip_messages t (strip_messages s xs) = strip_messages (both s t) xs"
  "strip_enums t (strip_enums s xs) = strip_enums (both s t) xs"
  "strip_services t (strip_services s xs) = strip_services (both s t) xs"
  by (simp_all add: strip_messages_def strip_enums_def strip_services_def both_def filter_map comp_def
      kept_same [OF jname_strip_inner] kept_same [OF jname_strip_members] kept_both
      strip_inner_twice strip_members_twice conj_commute)

lemma stripped_both: "stripped s d d1 \<Longrightarrow> stripped t d1 d2 \<Longrightarrow> stripped (both s t) d d2"
  unfolding stripped_def by (simp add: bindE_assoc strip_both) metis

lemma strip_inner_other: "\<forall>(n, f) \<in> set A. jname j \<noteq> Some n \<Longrightarrow> strip_inner k A j = j"
  by (auto simp: strip_inner_def listed_def list_ex_iff items_Inr case_prod_unfold
      intro!: put_same split: sum.splits)

lemma strip_members_other: "\<forall>(n, f) \<in> set A. jname j \<noteq> Some n \<Longrightarrow> strip_members A j = j"
  by (auto simp: strip_members_def listed_def list_ex_iff case_prod_unfold
      intro!: put_same split: sum.splits json.splits)

subsection \<open>Each step strips by a specification\<close>

definition unique :: "json \<Rightarrow> bool" where
  "unique d = (\<forall>k \<in> {''messages'', ''enums'', ''services''}. \<forall>xs. items d k = Inr xs \<longrightarrow> distinct (map jname xs))"

lemma jnames_kept:
  "(\<And>x. jname (f x) = jname x) \<Longrightarrow> distinct (map jname xs) \<Longrightarrow> distinct (map jname (map f (filter P xs)))"
  by (simp add: comp_def distinct_map_filter)

lemma unique_stripped:
  assumes "unique d" and "stripped sp d d'"
  shows "unique d'"
proof -
  have "distinct (map jname (strip_messages sp xs))" "distinct (map jname (strip_enums sp xs))"
    "distinct (map jname (strip_services sp xs))" if "distinct (map jname xs)" for xs
    using that jnames_kept [of "strip_inner ''fields'' (sp_fields sp)"] jnames_kept [of "strip_members (sp_members sp)"]
      jnames_kept [of "strip_inner ''methods'' (sp_methods sp)" xs "\<lambda>_. True"]
    by (simp_all add: strip_messages_def strip_enums_def strip_services_def jname_strip_inner jname_strip_members)
  with assms show ?thesis
    by (auto simp: unique_def stripped_def bindE_eq_Inr)
qed

lemma bindE_id: "(\<And>x. m = Inr x \<Longrightarrow> f x = Inr x) \<Longrightarrow> bindE m f = m"
  by (cases m) auto

lemma strip_nothing:
  "sp_fields sp = [] \<Longrightarrow> sp_messages sp = [] \<Longrightarrow> \<not> sp_log sp \<Longrightarrow> strip_messages sp xs = xs"
  "sp_members sp = [] \<Longrightarrow> sp_enums sp = [] \<Longrightarrow> \<not> sp_log sp \<Longrightarrow> strip_enums sp xs = xs"
  "sp_methods sp = [] \<Longrightarrow> strip_services sp xs = xs"
  by (auto simp: strip_messages_def strip_enums_def strip_services_def kept_def map_idI
      strip_inner_other strip_members_other split: option.splits intro!: map_idI filter_True)

text \<open>A change of one list: what it reads, what it leaves.\<close>

lemma change_Inr:
  assumes "change_list d k f = Inr d'"
  obtains xs ys where "items d k = Inr xs" "f xs = Inr ys" "items d' k = Inr ys"
    "\<And>k'. k' \<noteq> k \<Longrightarrow> item d' k' = item d k'" "\<And>k'. k' \<noteq> k \<Longrightarrow> items d' k' = items d k'"
proof -
  obtain xs ys where xs: "items d k = Inr xs" "f xs = Inr ys" "d' = put d k (JList ys)"
    using assms by (auto simp: change_list_def bindE_eq_Inr)
  then have "item d k = Inr (JList xs)" by (simp add: items_Inr)
  note new = item_put [OF this]
  show ?thesis
    by (rule that [OF xs(1,2)]) (simp_all add: xs(3) items_def new)
qed

lemma stripped_messages:
  assumes "change_list d ''messages'' f = Inr d'"
    and "\<And>xs ys. items d ''messages'' = Inr xs \<Longrightarrow> f xs = Inr ys \<Longrightarrow> ys = strip_messages sp xs"
    and "sp_members sp = []" "sp_enums sp = []" "sp_methods sp = []" "\<not> sp_log sp"
  shows "stripped sp d d'"
  using assms(1)
  by (rule change_Inr) (auto simp: stripped_def assms strip_nothing
      intro!: bindE_id [symmetric])

lemma stripped_enums:
  assumes "change_list d ''enums'' f = Inr d'"
    and "\<And>xs ys. items d ''enums'' = Inr xs \<Longrightarrow> f xs = Inr ys \<Longrightarrow> ys = strip_enums sp xs"
    and "sp_fields sp = []" "sp_messages sp = []" "sp_methods sp = []" "\<not> sp_log sp"
  shows "stripped sp d d'"
  using assms(1)
  by (rule change_Inr) (auto simp: stripped_def assms strip_nothing
      intro!: bindE_id [symmetric])

lemma stripped_services:
  assumes "change_list d ''services'' f = Inr d'"
    and "\<And>xs ys. items d ''services'' = Inr xs \<Longrightarrow> f xs = Inr ys \<Longrightarrow> ys = strip_services sp xs"
    and "sp_fields sp = []" "sp_messages sp = []" "sp_members sp = []" "sp_enums sp = []" "\<not> sp_log sp"
  shows "stripped sp d d'"
  using assms(1)
  by (rule change_Inr) (auto simp: stripped_def assms strip_nothing
      intro!: bindE_id [symmetric])

text \<open>The comprehensions and \<open>next\<close>.\<close>

lemma filterE_Inr:
  "filterE p xs = Inr ys \<Longrightarrow> ys = filter (\<lambda>x. p x = Inr True) xs \<and> (\<forall>x \<in> set xs. \<exists>b. p x = Inr b)"
  by (induction xs arbitrary: ys) (auto simp: bindE_eq_Inr split: if_splits)

lemma on_first_Inr:
  assumes "on_first p f xs = Inr ys"
  obtains as x bs y where "xs = as @ x # bs" "ys = as @ y # bs" "p x = Inr True" "f x = Inr y"
    "\<And>a. a \<in> set as \<Longrightarrow> p a = Inr False"
  using assms
proof (induction xs arbitrary: ys thesis)
  case (Cons z zs)
  from Cons.prems(2) obtain b where b: "p z = Inr b" by (auto simp: bindE_eq_Inr)
  show ?case
  proof (cases b)
    case True
    with Cons.prems(2) b obtain y where "f z = Inr y" "ys = y # zs" by (auto simp: bindE_eq_Inr)
    with b True show ?thesis by (intro Cons.prems(1) [of "[]" z zs y]) auto
  next
    case False
    with Cons.prems(2) b obtain ws where ws: "on_first p f zs = Inr ws" "ys = z # ws" by (auto simp: bindE_eq_Inr)
    show ?thesis
    proof (rule Cons.IH [OF _ ws(1)])
      fix as x bs y
      assume "zs = as @ x # bs" "ws = as @ y # bs" "p x = Inr True" "f x = Inr y" "\<And>a. a \<in> set as \<Longrightarrow> p a = Inr False"
      then show thesis using b False ws(2) by (intro Cons.prems(1) [of "z # as" x bs y]) auto
    qed
  qed
qed simp

lemma named_iff: "named s j = Inr b \<Longrightarrow> b \<longleftrightarrow> jname j = Some s"
  by (auto simp: named_def jname_def bindE_eq_Inr split: json.splits)

lemma on_first_named:
  assumes "on_first (named n) f xs = Inr ys" and "distinct (map jname xs)"
    and "\<And>x y. f x = Inr y \<Longrightarrow> jname x = Some n \<Longrightarrow> y = g x"
    and "\<And>x. jname x \<noteq> Some n \<Longrightarrow> g x = x"
  shows "ys = map g xs"
proof -
  obtain as x bs y where xs: "xs = as @ x # bs" "ys = as @ y # bs" "named n x = Inr True" "f x = Inr y"
    using on_first_Inr [OF assms(1)] by metis
  have x: "jname x = Some n" using named_iff [OF xs(3)] by simp
  have "g a = a" if "a \<in> set as \<union> set bs" for a
    by (rule assms(4)) (use that assms(2) x in \<open>force simp: xs(1) image_iff\<close>)
  then show ?thesis using assms(3) [OF xs(4) x] by (simp add: xs(1,2) map_idI)
qed

lemma py_eq_name:
  assumes "py_eq y x" and "jname x = Some s" and "named t y = Inr b"
  shows "jname y = Some s"
proof -
  obtain kx where x: "x = JObj kx" "map_of kx ''name'' = Some (JStr s)"
    using assms(2) by (auto simp: jname_def item_def split: json.splits option.splits)
  obtain ky v where y: "y = JObj ky" "map_of ky ''name'' = Some v"
    using assms(3) by (auto simp: named_def item_def bindE_eq_Inr split: json.splits option.splits)
  then have "(''name'', v) \<in> set ky" by (auto dest: map_of_SomeD)
  with assms(1) have "py_eq v (JStr s)"
    by (auto simp: x y(1) list_all_iff)
  then have "v = JStr s" by (cases v) auto
  with y show ?thesis by (simp add: jname_def item_def)
qed

lemma remove_only:
  assumes "filter P xs = [x]" and "\<And>y. y \<in> set xs \<Longrightarrow> y = x \<or> py_eq y x \<Longrightarrow> P y"
  shows "remove_first x xs = filter (\<lambda>y. \<not> P y) xs"
  using assms
proof (induction xs)
  case (Cons z zs)
  show ?case
  proof (cases "P z")
    case True
    with Cons.prems(1) have "z = x" "filter P zs = []" by auto
    then show ?thesis using True by (auto simp: filter_empty_conv intro!: filter_True [symmetric])
  next
    case False
    with Cons.prems(2) [of z] have "\<not> (z = x \<or> py_eq z x)" by auto
    with False Cons show ?thesis by auto
  qed
qed simp

lemma remove_named:
  assumes "filterE (named s) xs = Inr found" and "py_eq (JList found) (JList [e])"
  shows "remove_first (hd found) xs = filter (\<lambda>x. jname x \<noteq> Some s) xs"
proof -
  note all = filterE_Inr [OF assms(1)]
  have same: "(named s x = Inr True) = (jname x = Some s)" if x: "x \<in> set xs" for x
  proof -
    obtain b where b: "named s x = Inr b" by (rule exE [OF bspec [OF all [THEN conjunct2] x]])
    with named_iff [OF b] show ?thesis by simp
  qed
  have found: "found = filter (\<lambda>x. jname x = Some s) xs"
    unfolding all [THEN conjunct1] by (rule filter_cong [OF refl same])
  from assms(2) obtain x where x: "found = [x]" by (auto simp: length_Suc_conv)
  then have "x \<in> set (filter (\<lambda>x. jname x = Some s) xs)" by (simp flip: found)
  then have name: "jname x = Some s" by simp
  have "remove_first x xs = filter (\<lambda>x. \<not> jname x = Some s) xs"
  proof (rule remove_only)
    show "filter (\<lambda>x. jname x = Some s) xs = [x]" using found x by simp
    show "jname y = Some s" if y: "y \<in> set xs" "y = x \<or> py_eq y x" for y
    proof -
      obtain b where "named s y = Inr b" by (rule exE [OF bspec [OF all [THEN conjunct2] y(1)]])
      with y(2) name py_eq_name [of y x s s b] show ?thesis by blast
    qed
  qed
  then show ?thesis by (simp add: x)
qed

lemma drop_field_Inr:
  assumes "drop_field f e err m = Inr m'" and "jname m = Some n"
  shows "m' = strip_inner ''fields'' [(n, f)] m"
proof -
  obtain fs found where fs: "items m ''fields'' = Inr fs" "filterE (named f) fs = Inr found"
    "py_eq (JList found) (JList [e])" "m' = put m ''fields'' (JList (remove_first (hd found) fs))"
    using assms(1) by (auto simp: drop_field_def change_list_def bindE_eq_Inr simp del: py_eq.simps split: if_splits)
  with remove_named [OF fs(2,3)] assms(2) show ?thesis
    by (simp add: strip_inner_def listed_def)
qed

lemma drop_message_field_strips:
  assumes "drop_message_field n f e err d = Inr d'" and "unique d"
  shows "stripped (nothing\<lparr>sp_fields := [(n, f)]\<rparr>) d d'"
proof (rule stripped_messages [OF assms(1) [unfolded drop_message_field_def]])
  fix xs ys assume xs: "items d ''messages'' = Inr xs" "on_first (named n) (drop_field f e err) xs = Inr ys"
  have "ys = map (strip_inner ''fields'' [(n, f)]) xs"
    by (rule on_first_named [OF xs(2)])
      (use assms(2) xs(1) drop_field_Inr in \<open>auto simp: unique_def intro!: strip_inner_other\<close>)
  then show "ys = strip_messages (nothing\<lparr>sp_fields := [(n, f)]\<rparr>) xs"
    by (simp add: strip_messages_def nothing_def kept_all)
qed (simp_all add: nothing_def)

lemma stripped_nothing: "stripped nothing d d"
  by (auto simp: stripped_def nothing_def strip_nothing intro!: bindE_id [symmetric])

lemma filterE_negate:
  assumes "filterE (negate p) xs = Inr ys" and "\<And>x b. p x = Inr b \<Longrightarrow> b = Q x"
  shows "ys = filter (\<lambda>x. \<not> Q x) xs"
proof -
  note all = filterE_Inr [OF assms(1)]
  have "(negate p x = Inr True) = (\<not> Q x)" if x: "x \<in> set xs" for x
  proof -
    obtain b where "negate p x = Inr b" by (rule exE [OF bspec [OF all [THEN conjunct2] x]])
    then obtain c where "p x = Inr c" by (auto simp: negate_def bindE_eq_Inr)
    with assms(2) [OF this] show ?thesis by (simp add: negate_def)
  qed
  then show ?thesis unfolding all [THEN conjunct1] by (rule filter_cong [OF refl])
qed

lemma named_in_Inr:
  assumes "named_in names x = Inr b"
  shows "b = (\<not> kept False names x)"
proof -
  obtain n where n: "item x ''name'' = Inr n"
    using assms by (auto simp: named_in_def hashed_name_def bindE_eq_Inr)
  with assms show ?thesis
    by (cases n) (auto simp: named_in_def hashed_name_def kept_def jname_def)
qed

lemma log_named_Inr:
  assumes "log_named x = Inr b"
  shows "b = (\<not> kept True [] x)"
proof -
  obtain n where n: "item x ''name'' = Inr n"
    using assms by (auto simp: log_named_def bindE_eq_Inr)
  with assms show ?thesis
    by (cases n) (auto simp: log_named_def kept_def jname_def)
qed

lemma require_names_Inr: "require_names names err xs = Inr ys \<Longrightarrow> ys = filter (kept False names) xs"
  by (auto simp: require_names_def bindE_eq_Inr Let_def split: if_splits
      dest!: filterE_negate [where Q = "\<lambda>x. \<not> kept False names x", OF _ named_in_Inr])

lemma strip_inner_Nil: "strip_inner k [] = (\<lambda>j. j)" "strip_members [] = (\<lambda>j. j)"
  by (simp_all add: fun_eq_iff strip_inner_other strip_members_other)

lemmas only_names = strip_messages_def strip_enums_def nothing_def strip_inner_Nil

lemma drop_exact_Inr:
  assumes "filterE (named n) xs = Inr found" and "py_eq (JList found) (JList [e])"
  shows "remove_first (hd found) xs = filter (kept False [n]) xs"
  unfolding remove_named [OF assms] by (rule filter_cong) (auto simp: kept_def split: option.splits)

lemma drop_exact_strips:
  "drop_exact ''messages'' n e err d = Inr d' \<Longrightarrow> stripped (nothing\<lparr>sp_messages := [n]\<rparr>) d d'"
  "drop_exact ''enums'' n e err d = Inr d' \<Longrightarrow> stripped (nothing\<lparr>sp_enums := [n]\<rparr>) d d'"
  unfolding drop_exact_def
  by (erule stripped_messages stripped_enums; auto simp: only_names bindE_eq_Inr drop_exact_Inr
      simp del: py_eq.simps split: if_splits)+

lemma drop_member_Inr:
  assumes "drop_member wrong k v e = Inr e'" and "jname e = Some n"
  shows "e' = strip_members [(n, k)] e"
proof -
  obtain m where m: "item e ''members'' = Inr m" using assms(1) by (auto simp: drop_member_def bindE_eq_Inr)
  then obtain kvs where kvs: "item e ''members'' = Inr (JObj kvs)" "e' = put e ''members'' (JObj (AList.delete k kvs))"
    using assms(1) by (cases m) (auto simp: drop_member_def split: option.splits if_splits)
  have "AList.delete k kvs = filter (\<lambda>(k', _). k' \<noteq> k) kvs"
    unfolding AList.delete_eq by (rule filter_cong) auto
  with kvs assms(2) show ?thesis
    by (simp add: strip_members_def listed_def case_prod_unfold)
qed

lemma drop_members_Inr:
  "foldE (\<lambda>(k, v). drop_member (wrong k v) k v) cs e = Inr e' \<Longrightarrow> jname e = Some n \<Longrightarrow>
   e' = strip_members (map (\<lambda>(k, _). (n, k)) cs) e"
proof (induction cs arbitrary: e)
  case (Cons c cs)
  then obtain e1 where e1: "drop_member (wrong (fst c) (snd c)) (fst c) (snd c) e = Inr e1"
    "foldE (\<lambda>(k, v). drop_member (wrong k v) k v) cs e1 = Inr e'"
    by (auto simp: bindE_eq_Inr case_prod_unfold)
  have "e1 = strip_members [(n, fst c)] e" using drop_member_Inr [OF e1(1) Cons.prems(2)] .
  with Cons.IH [OF e1(2)] Cons.prems(2) show ?case
    by (simp add: jname_strip_members strip_members_twice case_prod_unfold)
qed (simp add: strip_inner_Nil)

lemma first_enum_strips:
  assumes "change_list d ''enums'' (on_first (named n) f) = Inr d'" and "unique d"
    and "\<And>e e'. f e = Inr e' \<Longrightarrow> jname e = Some n \<Longrightarrow> e' = strip_members (map (Pair n) ks) e"
  shows "stripped (nothing\<lparr>sp_members := map (Pair n) ks\<rparr>) d d'"
proof (rule stripped_enums [OF assms(1)])
  fix xs ys assume xs: "items d ''enums'' = Inr xs" "on_first (named n) f xs = Inr ys"
  have "ys = map (strip_members (map (Pair n) ks)) xs"
    by (rule on_first_named [OF xs(2)])
      (use assms(2,3) xs(1) in \<open>auto simp: unique_def intro!: strip_members_other\<close>)
  then show "ys = strip_enums (nothing\<lparr>sp_members := map (Pair n) ks\<rparr>) xs"
    by (simp add: strip_enums_def nothing_def kept_all)
qed (simp_all add: nothing_def)

definition sum_specs :: "strip_spec list \<Rightarrow> strip_spec" where
  "sum_specs sps = foldr both sps nothing"

lemma foldE_strips:
  assumes "foldE f xs d = Inr d'" and "unique d"
    and "\<And>x d d'. f x d = Inr d' \<Longrightarrow> unique d \<Longrightarrow> stripped (g x) d d'"
  shows "stripped (sum_specs (map g xs)) d d'"
  using assms(1,2)
proof (induction xs arbitrary: d)
  case (Cons x xs)
  then obtain d1 where d1: "f x d = Inr d1" "foldE f xs d1 = Inr d'" by (auto simp: bindE_eq_Inr)
  note first = assms(3) [OF d1(1) Cons.prems(2)]
  from stripped_both [OF first Cons.IH [OF d1(2) unique_stripped [OF Cons.prems(2) first]]]
  show ?case by (simp add: sum_specs_def)
qed (simp add: sum_specs_def stripped_nothing)


lemma names_strip:
  "change_list d ''messages'' (require_names names err) = Inr d' \<Longrightarrow> stripped (nothing\<lparr>sp_messages := names\<rparr>) d d'"
  "change_list d ''enums'' (require_names names err) = Inr d' \<Longrightarrow> stripped (nothing\<lparr>sp_enums := names\<rparr>) d d'"
  by (erule stripped_messages stripped_enums; auto simp: only_names dest: require_names_Inr)+

lemma log_items_strip:
  assumes "change_list d ''messages'' (filterE (negate log_named)) = Inr d1"
    and "change_list d1 ''enums'' (filterE (negate log_named)) = Inr d2"
  shows "stripped (nothing\<lparr>sp_log := True\<rparr>) d d2"
proof -
  have only: "ys = filter (kept True []) xs" if "filterE (negate log_named) xs = Inr ys" for xs ys
    using filterE_negate [OF that, of "\<lambda>x. \<not> kept True [] x"] log_named_Inr by simp
  obtain ms ms' where ms: "items d ''messages'' = Inr ms" "filterE (negate log_named) ms = Inr ms'"
    "items d1 ''messages'' = Inr ms'"
    "\<And>k. k \<noteq> ''messages'' \<Longrightarrow> item d1 k = item d k" "\<And>k. k \<noteq> ''messages'' \<Longrightarrow> items d1 k = items d k"
    using assms(1) by (rule change_Inr) blast
  obtain es es' where es: "items d1 ''enums'' = Inr es" "filterE (negate log_named) es = Inr es'"
    "items d2 ''enums'' = Inr es'"
    "\<And>k. k \<noteq> ''enums'' \<Longrightarrow> item d2 k = item d1 k" "\<And>k. k \<noteq> ''enums'' \<Longrightarrow> items d2 k = items d1 k"
    using assms(2) by (rule change_Inr) blast
  have "items d ''enums'' = Inr es" using es(1) ms(5) by simp
  then show ?thesis
    using ms es only [OF ms(2)] only [OF es(2)]
    by (auto simp: stripped_def only_names strip_services_def intro!: bindE_id [symmetric])
qed

lemma drop_log_strips:
  assumes "drop_log d = Inr d'" and "unique d"
  shows "stripped (both (nothing\<lparr>sp_log := True\<rparr>) (nothing\<lparr>sp_members := [(''ActionKind'', ''log'')]\<rparr>)) d d'"
proof -
  obtain d1 d2 where d: "change_list d ''messages'' (filterE (negate log_named)) = Inr d1"
    "change_list d1 ''enums'' (filterE (negate log_named)) = Inr d2"
    "change_list d2 ''enums'' (on_first (named ''ActionKind'')
       (drop_member (DriftExit ''ActionKind.log must occupy the next additive slot 26'') ''log'' 26)) = Inr d'"
    using assms(1) by (auto simp: drop_log_def bindE_eq_Inr)
  note first = log_items_strip [OF d(1,2)]
  have "stripped (nothing\<lparr>sp_members := map (Pair ''ActionKind'') [''log'']\<rparr>) d2 d'"
    by (rule first_enum_strips [OF d(3) unique_stripped [OF assms(2) first]]) (simp add: drop_member_Inr)
  then show ?thesis by (simp add: stripped_both [OF first])
qed

lemma drop_codes_strips:
  assumes "drop_codes d = Inr d'" and "unique d"
  shows "stripped (nothing\<lparr>sp_members := map (Pair ''GwzErrorCode'')
    (map fst S2_2B_CODES @ [''cancelled'', ''transport_record_limit'', ''credential_helper_timeout'', ''capacity''])\<rparr>) d d'"
  by (rule first_enum_strips [OF assms(1) [unfolded drop_codes_def] assms(2)])
    (drule drop_members_Inr, assumption, simp add: case_prod_unfold comp_def)

lemma drop_methods_strips:
  assumes "drop_methods d = Inr d'" and "unique d"
  shows "stripped (nothing\<lparr>sp_methods := map (Pair ''GwzCore'') ([''log'', ''log.output''] @ S2_2B_METHODS)\<rparr>) d d'"
    (is "stripped (nothing\<lparr>sp_methods := ?A\<rparr>) d d'")
proof (rule stripped_services [OF assms(1) [unfolded drop_methods_def]])
  fix xs ys
  assume xs: "items d ''services'' = Inr xs"
    "on_first (named ''GwzCore'') (\<lambda>service. change_list service ''methods'' (\<lambda>ms.
         bindE (filterE (negate (named_in [''log'', ''log.output''])) ms) (\<lambda>ms1.
         require_names S2_2B_METHODS
           (\<lambda>_. ''GwzCore must declare the session methods '' @ sorted_repr S2_2B_METHODS) ms1))) xs = Inr ys"
  have "ys = map (strip_inner ''methods'' ?A) xs"
  proof (rule on_first_named [OF xs(2)])
    show "distinct (map jname xs)" using assms(2) xs(1) by (simp add: unique_def)
    show "strip_inner ''methods'' ?A x = x" if "jname x \<noteq> Some ''GwzCore''" for x
      by (rule strip_inner_other) (use that in auto)
  next
    fix x y
    assume x: "change_list x ''methods'' (\<lambda>ms.
         bindE (filterE (negate (named_in [''log'', ''log.output''])) ms) (\<lambda>ms1.
         require_names S2_2B_METHODS
           (\<lambda>_. ''GwzCore must declare the session methods '' @ sorted_repr S2_2B_METHODS) ms1)) = Inr y"
      and name: "jname x = Some ''GwzCore''"
    then obtain ms ms1 ms2 where ms: "items x ''methods'' = Inr ms"
      "filterE (negate (named_in [''log'', ''log.output''])) ms = Inr ms1"
      "require_names S2_2B_METHODS (\<lambda>_. ''GwzCore must declare the session methods '' @ sorted_repr S2_2B_METHODS) ms1
        = Inr ms2" "y = put x ''methods'' (JList ms2)"
      by (auto simp: change_list_def bindE_eq_Inr)
    have "ms2 = filter (kept False S2_2B_METHODS) (filter (kept False [''log'', ''log.output'']) ms)"
      using require_names_Inr [OF ms(3)]
        filterE_negate [OF ms(2), of "\<lambda>x. \<not> kept False [''log'', ''log.output''] x"] named_in_Inr by simp
    also have "\<dots> = filter (\<lambda>m. \<not> listed ?A x (jname m)) ms"
      unfolding filter_filter
      by (rule filter_cong) (auto simp: kept_def listed_def name list_ex_iff split: option.splits)
    finally show "y = strip_inner ''methods'' ?A x" by (simp add: strip_inner_def ms(1,4))
  qed
  then show "ys = strip_services (nothing\<lparr>sp_methods := ?A\<rparr>) xs"
    by (simp add: strip_services_def nothing_def)
qed (simp_all add: nothing_def)

text \<open>Steps in a row.\<close>

lemma strips_then:
  assumes "bindE m g = Inr d'" and "unique d"
    and "\<And>d1. m = Inr d1 \<Longrightarrow> stripped s d d1"
    and "\<And>d1. g d1 = Inr d' \<Longrightarrow> unique d1 \<Longrightarrow> stripped t d1 d'"
  shows "stripped (both s t) d d'"
proof -
  obtain d1 where d1: "m = Inr d1" "g d1 = Inr d'" using assms(1) by (auto simp: bindE_eq_Inr)
  show ?thesis
    by (rule stripped_both [OF assms(3) [OF d1(1)] assms(4) [OF d1(2) unique_stripped [OF assms(2) assms(3) [OF d1(1)]]]])
qed

lemma drop_session_strips:
  assumes "drop_session d = Inr d'" and "unique d"
  shows "stripped (both (nothing\<lparr>sp_enums := S2_2B_ENUMS\<rparr>) (both (nothing\<lparr>sp_messages := S2_2B_MESSAGES\<rparr>)
    (nothing\<lparr>sp_fields := [(''TransportCapabilitiesResponse'', ''cancellation'')]\<rparr>))) d d'"
  by (rule strips_then [OF assms(1) [unfolded drop_session_def] assms(2)])
    (assumption | erule names_strip strips_then drop_message_field_strips)+

lemma drop_invocation_strips:
  assumes "drop_invocation d = Inr d'" and "unique d"
  shows "stripped (both (nothing\<lparr>sp_fields := [(''RequestMeta'', ''invocation'')]\<rparr>)
    (nothing\<lparr>sp_messages := [''InvocationContext'']\<rparr>)) d d'"
  by (rule strips_then [OF assms(1) [unfolded drop_invocation_def] assms(2)])
    (erule drop_message_field_strips [OF _ assms(2)] drop_exact_strips)+

lemma drop_reasons_strips:
  assumes "drop_reasons d = Inr d'" and "unique d"
  shows "stripped (both (nothing\<lparr>sp_enums := [''LockDifferenceReason'']\<rparr>)
    (nothing\<lparr>sp_fields := [(''MemberResponse'', ''lock_difference_reasons'')]\<rparr>)) d d'"
  by (rule strips_then [OF assms(1) [unfolded drop_reasons_def] assms(2)])
    (assumption | erule drop_message_field_strips drop_exact_strips)+

lemma drop_private_strips:
  assumes "drop_private d = Inr d'" and "unique d"
  shows "stripped (sum_specs (map (\<lambda>(n, _). nothing\<lparr>sp_fields := [(n, ''private'')]\<rparr>)
    [(''MemberSpec'', 8::int), (''RepoSyncRequest'', 2)])) d d'"
  by (rule foldE_strips [OF assms(1) [unfolded drop_private_def] assms(2)])
    (auto intro: drop_message_field_strips)

definition fields_of :: "(string \<times> (string \<times> 'a) list) list \<Rightarrow> strip_spec" where
  "fields_of A = sum_specs (map (\<lambda>(n, fs). sum_specs (map (\<lambda>(f, _). nothing\<lparr>sp_fields := [(n, f)]\<rparr>) fs)) A)"

lemma foldE_fields:
  assumes "foldE (\<lambda>(n, fs). foldE (\<lambda>(f, x). drop_message_field n f (e n f x) (err n f x)) fs) A d = Inr d'"
    and "unique d"
  shows "stripped (fields_of A) d d'"
  unfolding fields_of_def
proof (rule foldE_strips [OF assms])
  fix a d d'
  assume a: "(case a of (n, fs) \<Rightarrow> foldE (\<lambda>(f, x). drop_message_field n f (e n f x) (err n f x)) fs) d = Inr d'"
    and u: "unique d"
  obtain n fs where nfs: "a = (n, fs)" by (cases a)
  have "stripped (sum_specs (map (\<lambda>(f, _). nothing\<lparr>sp_fields := [(n, f)]\<rparr>) fs)) d d'"
    by (rule foldE_strips [OF a [unfolded nfs, simplified] u]) (auto intro: drop_message_field_strips)
  then show "stripped (case a of (n, fs) \<Rightarrow> sum_specs (map (\<lambda>(f, _). nothing\<lparr>sp_fields := [(n, f)]\<rparr>) fs)) d d'"
    by (simp add: nfs)
qed

lemma drop_c2_strips: "drop_c2 d = Inr d' \<Longrightarrow> unique d \<Longrightarrow> stripped (fields_of C2_ADDITIONS) d d'"
  unfolding drop_c2_def
  by (rule foldE_fields [where e = "\<lambda>_ name (tag, scalar). field_document name tag (scalar_type scalar) (JStr ''missing_ok'')"
    and err = "\<lambda>message name (tag, scalar).
      message @ ''.'' @ name @ '' must be the MISSING_OK '' @ scalar @ '' at tag '' @ show_int tag"])
    (simp_all only: case_prod_unfold fst_conv snd_conv)

lemma drop_placement_fields_strip:
  "drop_placement_fields d = Inr d' \<Longrightarrow> unique d \<Longrightarrow> stripped (fields_of PLACEMENT_ADDITIONS) d d'"
  unfolding drop_placement_fields_def
  by (rule foldE_fields [where e = "\<lambda>_ name (tag, t). field_document name tag t (JStr ''missing_ok'')"
    and err = "\<lambda>message name (tag, t).
      message @ ''.'' @ name @ '' must be the MISSING_OK field at tag '' @ show_int tag"])
    (simp_all only: case_prod_unfold fst_conv snd_conv)

lemma drop_owner_strips:
  assumes "drop_owner d = Inr d'" and "unique d"
  shows "stripped (both (nothing\<lparr>sp_enums := OWNER_ENUMS @ [''TransportPlacement'']\<rparr>)
    (nothing\<lparr>sp_messages := OWNER_MESSAGES\<rparr>)) d d'"
proof -
  obtain d1 where "change_list d ''enums'' (require_names (OWNER_ENUMS @ [''TransportPlacement'']) owner_error) = Inr d1"
    "change_list d1 ''messages'' (require_names OWNER_MESSAGES owner_error) = Inr d'"
    using assms(1) by (auto simp: drop_owner_def bindE_eq_Inr)
  then show ?thesis by (intro stripped_both names_strip)
qed

text \<open>All of it.\<close>

definition additions :: strip_spec where
  "additions =
     \<lparr>sp_log = True,
      sp_fields =
        [(''TransportCapabilitiesResponse'', ''cancellation''), (''RequestMeta'', ''invocation''),
         (''MemberResponse'', ''lock_difference_reasons''), (''MemberSpec'', ''private''),
         (''RepoSyncRequest'', ''private''), (''OperationPolicy'', ''max_retries''),
         (''TransportObservation'', ''endpoint_id''), (''TransportObservation'', ''connection_id''),
         (''TransportObservation'', ''stream_id''), (''TransportObservation'', ''reused''),
         (''TransportOptions'', ''placement''), (''TransportOptions'', ''endpoint_path_base''),
         (''RequestMeta'', ''transport_message''), (''ResponseMeta'', ''transport_message''),
         (''TransportCapabilitiesResponse'', ''message_versions''),
         (''TransportCapabilitiesResponse'', ''placements''), (''TransportCapabilitiesResponse'', ''schemes''),
         (''TransportCapabilitiesResponse'', ''auth_policies''),
         (''TransportCapabilitiesResponse'', ''message_limits'')],
      sp_messages = S2_2B_MESSAGES @ [''InvocationContext''] @ OWNER_MESSAGES,
      sp_members = (''ActionKind'', ''log'') # map (Pair ''GwzErrorCode'')
        (map fst S2_2B_CODES @ [''cancelled'', ''transport_record_limit'', ''credential_helper_timeout'', ''capacity'']),
      sp_enums = S2_2B_ENUMS @ [''LockDifferenceReason''] @ OWNER_ENUMS @ [''TransportPlacement''],
      sp_methods = map (Pair ''GwzCore'') ([''log'', ''log.output''] @ S2_2B_METHODS)\<rparr>"

lemma projection_strips:
  assumes "pre_log_projection v = Inr p" and "unique v"
  shows "stripped additions v p"
proof -
  obtain d1 d2 d3 d4 d5 d6 d7 d8 d9 where d:
    "drop_log v = Inr d1" "drop_methods d1 = Inr d2" "drop_session d2 = Inr d3" "drop_invocation d3 = Inr d4"
    "drop_reasons d4 = Inr d5" "drop_private d5 = Inr d6" "drop_codes d6 = Inr d7" "drop_c2 d7 = Inr d8"
    "drop_placement_fields d8 = Inr d9" "drop_owner d9 = Inr p"
    using assms(1) by (auto simp: pre_log_projection_def bindE_eq_Inr)
  note s1 = drop_log_strips [OF d(1) assms(2)]  note u1 = unique_stripped [OF assms(2) s1]
  note s2 = drop_methods_strips [OF d(2) u1]  note u2 = unique_stripped [OF u1 s2]
  note s3 = drop_session_strips [OF d(3) u2]  note u3 = unique_stripped [OF u2 s3]
  note s4 = drop_invocation_strips [OF d(4) u3]  note u4 = unique_stripped [OF u3 s4]
  note s5 = drop_reasons_strips [OF d(5) u4]  note u5 = unique_stripped [OF u4 s5]
  note s6 = drop_private_strips [OF d(6) u5]  note u6 = unique_stripped [OF u5 s6]
  note s7 = drop_codes_strips [OF d(7) u6]  note u7 = unique_stripped [OF u6 s7]
  note s8 = drop_c2_strips [OF d(8) u7]  note u8 = unique_stripped [OF u7 s8]
  note s9 = drop_placement_fields_strip [OF d(9) u8]  note u9 = unique_stripped [OF u8 s9]
  note s10 = drop_owner_strips [OF d(10) u9]
  from stripped_both [OF s1 stripped_both [OF s2 stripped_both [OF s3 stripped_both [OF s4
    stripped_both [OF s5 stripped_both [OF s6 stripped_both [OF s7 stripped_both [OF s8
    stripped_both [OF s9 s10]]]]]]]]]
  show ?thesis
    by (simp add: additions_def both_def nothing_def sum_specs_def fields_of_def C2_ADDITIONS_def
        PLACEMENT_ADDITIONS_def)
qed

text \<open>Version 1 has the names of version 2.\<close>

lemma jname_bare_node: "jname (bare_node j) = jname j"
  by (auto simp: jname_def item_def bare_node_def delete_conv' map_of_delete split: json.splits)

lemma jname_change: "change_list j k f = Inr j' \<Longrightarrow> k \<noteq> ''name'' \<Longrightarrow> jname j' = jname j"
  by (erule change_Inr) (auto simp: jname_def)

lemma jname_bare_parts: "bare_parts k j = Inr j' \<Longrightarrow> k \<noteq> ''name'' \<Longrightarrow> jname j' = jname j"
  by (auto simp: bare_parts_def jname_bare_node dest: jname_change)

lemma names_mapE: "mapE f xs = Inr ys \<Longrightarrow> (\<And>x y. f x = Inr y \<Longrightarrow> jname y = jname x) \<Longrightarrow> map jname ys = map jname xs"
  by (induction xs arbitrary: ys) (auto simp: bindE_eq_Inr)

lemma unique_names:
  assumes "unique v" and "\<And>k xs. k \<in> {''messages'', ''enums'', ''services''} \<Longrightarrow> items d k = Inr xs \<Longrightarrow>
    \<exists>ys. items v k = Inr ys \<and> map jname ys = map jname xs"
  shows "unique d"
  unfolding unique_def
proof (intro ballI allI impI)
  fix k xs assume k: "k \<in> {''messages'', ''enums'', ''services''}" "items d k = Inr xs"
  obtain ys where "items v k = Inr ys" "map jname ys = map jname xs" using assms(2) [OF k] by blast
  with assms(1) k(1) show "distinct (map jname xs)" by (metis unique_def)
qed

lemma change_names:
  assumes "change_list d k f = Inr d'" and "\<And>xs ys. f xs = Inr ys \<Longrightarrow> map jname ys = map jname xs" and "unique d"
  shows "unique d'"
proof -
  obtain xs ys where xs: "items d k = Inr xs" "f xs = Inr ys" "items d' k = Inr ys"
    "\<And>k'. k' \<noteq> k \<Longrightarrow> items d' k' = items d k'"
    using assms(1) by (rule change_Inr) blast
  show ?thesis
  proof (rule unique_names [OF assms(3)])
    fix k' zs assume "items d' k' = Inr zs"
    with xs assms(2) [OF xs(2)] show "\<exists>ys. items d k' = Inr ys \<and> map jname ys = map jname zs"
      by (cases "k' = k") auto
  qed
qed

lemma item_bare_node:
  "k \<notin> {''effective'', ''member_options'', ''options''} \<Longrightarrow> item (bare_node j) k = item j k"
  by (auto simp: item_def bare_node_def delete_conv' map_of_delete split: json.splits)

lemma unique_version_1:
  assumes "ir_version_1 v = Inr d" and "unique v"
  shows "unique d"
proof -
  obtain kvs where v: "v = JObj kvs" using assms(1) by (cases v) (auto simp: ir_version_1_def)
  obtain w where w: "item v ''version'' = Inr w"
    using assms(1) by (auto simp: v ir_version_1_def item_def split: option.splits)
  let ?d = "bare_node (put v ''version'' (JInt 1))"
  obtain d1 d2 where d: "change_list ?d ''enums'' (\<lambda>xs. Inr (map bare_node xs)) = Inr d1"
    "change_list d1 ''messages'' (mapE (bare_parts ''fields'')) = Inr d2"
    "change_list d2 ''services'' (mapE (bare_parts ''methods'')) = Inr d"
    using assms(1) by (auto simp: ir_version_1_def v bindE_eq_Inr Let_def split: option.splits json.splits if_splits)
  have u: "unique ?d"
    by (rule unique_names [OF assms(2)]) (auto simp: items_Inr item_bare_node item_put [OF w])
  have "map jname ys = map jname xs" if "mapE (bare_parts k) xs = Inr ys" "k \<noteq> ''name''" for k xs ys
    using names_mapE [OF that(1)] jname_bare_parts [OF _ that(2)] by blast
  then show ?thesis
    by (intro change_names [OF d(3)] change_names [OF d(2)] change_names [OF d(1)] u)
      (auto simp: jname_bare_node)
qed

subsection \<open>A document that passes\<close>

definition message_document :: "string \<Rightarrow> json list \<Rightarrow> json" where
  "message_document name fs = JObj [(''name'', JStr name), (''fields'', JList fs)]"

definition enum_document :: "string \<Rightarrow> (string \<times> json) list \<Rightarrow> json" where
  "enum_document name ms = JObj [(''name'', JStr name), (''members'', JObj ms)]"

definition service_document :: "string list \<Rightarrow> json" where
  "service_document ms =
     JObj [(''name'', JStr ''GwzCore''), (''methods'', JList (map (\<lambda>n. JObj [(''name'', JStr n)]) ms))]"

definition ir_document :: "int \<Rightarrow> json list \<Rightarrow> json list \<Rightarrow> string list \<Rightarrow> json" where
  "ir_document version es ms methods =
     JObj [(''version'', JInt version), (''enums'', JList es), (''messages'', JList ms),
           (''services'', JList [service_document methods])]"

definition later_field :: "string \<Rightarrow> int \<Rightarrow> json \<Rightarrow> json" where
  "later_field name tag t = field_document name tag t (JStr ''missing_ok'')"

definition kept_message :: json where
  "kept_message = message_document ''Kept'' [field_document ''k'' 1 (scalar_type ''int'') (JBool False)]"

definition sample_messages :: "json list" where
  "sample_messages =
    [kept_message,
     message_document ''RequestMeta''
       [field_document ''invocation'' 9 (named_type ''msg'' ''InvocationContext'') (JBool True),
        later_field ''transport_message'' 10 (named_type ''msg'' ''Envelope'')],
     message_document ''ResponseMeta'' [later_field ''transport_message'' 9 (named_type ''msg'' ''Envelope'')],
     message_document ''MemberResponse''
       [field_document ''lock_difference_reasons'' 11 (enum_list ''LockDifferenceReason'') (JBool True)],
     message_document ''MemberSpec'' [field_document ''private'' 8 (scalar_type ''bool'') (JBool True)],
     message_document ''RepoSyncRequest'' [field_document ''private'' 2 (scalar_type ''bool'') (JBool True)],
     message_document ''OperationPolicy'' [later_field ''max_retries'' 9 (scalar_type ''int'')],
     message_document ''TransportObservation''
       [later_field ''endpoint_id'' 9 (scalar_type ''str''), later_field ''connection_id'' 10 (scalar_type ''str''),
        later_field ''stream_id'' 11 (scalar_type ''int''), later_field ''reused'' 12 (scalar_type ''bool'')],
     message_document ''TransportOptions''
       [later_field ''placement'' 4 (named_type ''enum'' ''TransportPlacement''),
        later_field ''endpoint_path_base'' 5 (scalar_type ''str'')],
     message_document ''TransportCapabilitiesResponse''
       [later_field ''cancellation'' 8 (scalar_type ''bool''),
        later_field ''message_versions'' 3 (list_type (scalar_type ''int'')),
        later_field ''placements'' 4 (enum_list ''TransportPlacement''),
        later_field ''schemes'' 5 (enum_list ''Scheme''), later_field ''auth_policies'' 6 (enum_list ''AuthPolicy''),
        later_field ''message_limits'' 7 (named_type ''msg'' ''Limits'')],
     context_document, message_document ''LogEntry'' []] @
    map (\<lambda>n. message_document n []) (S2_2B_MESSAGES @ OWNER_MESSAGES)"

definition sample_enums :: "json list" where
  "sample_enums =
    [enum_document ''ActionKind'' [(''status'', JInt 0), (''log'', JInt 26)],
     enum_document ''GwzErrorCode'' (map (\<lambda>(n, v). (n, JInt v))
       (S2_2B_CODES @ [(''cancelled'', 73), (''transport_record_limit'', 74),
                       (''credential_helper_timeout'', 75), (''capacity'', 76)])),
     reasons_document, enum_document ''TransportPlacement'' [(''local'', JInt 1), (''cli'', JInt 2)]] @
    map (\<lambda>n. enum_document n []) (S2_2B_ENUMS @ OWNER_ENUMS)"

definition sample_ir :: "int \<Rightarrow> json" where
  "sample_ir version = ir_document version sample_enums sample_messages ([''status'', ''log''] @ S2_2B_METHODS)"

definition sample_projected :: json where
  "sample_projected =
     ir_document 1 [enum_document ''ActionKind'' [(''status'', JInt 0)], enum_document ''GwzErrorCode'' []]
       (kept_message # map (\<lambda>n. message_document n [])
         [''RequestMeta'', ''ResponseMeta'', ''MemberResponse'', ''MemberSpec'', ''RepoSyncRequest'',
          ''OperationPolicy'', ''TransportObservation'', ''TransportOptions'', ''TransportCapabilitiesResponse''])
       [''status'']"

lemma sample_equal: "py_eq (sample_ir 2) (sample_ir 2)"
  by code_simp

lemma sample_version_1: "ir_version_1 (sample_ir 2) = Inr (sample_ir 1)"
  by code_simp

lemma sample_distinct: "list_all (\<lambda>k. distinct (map jname (case items (sample_ir 2) k of Inr xs \<Rightarrow> xs)))
    [''messages'', ''enums'', ''services'']"
  by code_simp

lemma sample_projects: "pre_log_projection (sample_ir 1) = Inr sample_projected"
  by code_simp

lemma sample_unique: "unique (sample_ir 2)"
  using sample_distinct by (auto simp: unique_def split: sum.splits)

subsection \<open>What a pass says\<close>

lemma if_Inl_eq_Inr: "(if b then Inl e else m) = Inr x \<longleftrightarrow> \<not> b \<and> m = Inr x"
  by simp

lemma if_exit_zero: "(if b then Inr (1, l) else m) = Inr (0::int, out) \<longleftrightarrow> \<not> b \<and> m = Inr (0, out)"
  by simp



end
