(* ===== verification/Regen.thy ===== *)
theory Regen
  imports Faults "HOL-Library.AList"
begin

section \<open>Regenerating the protocol package\<close>

text \<open>
  \<^verbatim>\<open>scripts/regen_protocol.py\<close>. The child process, which may only generate with the pinned taut release,
  over the facts of its interpreter; the parent, which compares or replaces the directory of the package,
  over directories. What taut writes and which modules an import loads are parameters. Paths are resolved.
\<close>

subsection \<open>The pinned generator\<close>

datatype regen_fault = RegenExit string | RegenCrash

definition TAUT_GENERATOR_VERSION :: string where
  "TAUT_GENERATOR_VERSION = ''0.10.0''"

text \<open>A loaded module: its name and its \<open>__file__\<close> where that is a text.\<close>

type_synonym loaded = "(string \<times> string option) list"

record distribution =
  dn_location :: string
  dn_version :: string
  dn_package :: string

record interpreter =
  ip_modules :: loaded
  ip_sites :: "string list"
  ip_taut :: "distribution option"
  ip_import_taut :: "regen_fault + loaded"
  ip_import_tool :: "bool \<Rightarrow> regen_fault + loaded"
  ip_generate :: "string list \<Rightarrow> regen_fault + int \<times> loaded"

definition taut_module :: "string \<Rightarrow> bool" where
  "taut_module name \<longleftrightarrow> name = ''taut'' \<or> starts_with ''taut.'' name"

definition path_below :: "string \<Rightarrow> string \<Rightarrow> bool" where
  "path_below package origin \<longleftrightarrow>
     path_root package = path_root origin \<and> strict_prefix (path_parts package) (path_parts origin)"

definition released_taut :: "interpreter \<Rightarrow> regen_fault + string" where
  "released_taut ip =
     (case ip_taut ip of
        None \<Rightarrow> Inl (RegenExit (''taut-proto '' @ TAUT_GENERATOR_VERSION @
                   '' is required for protocol generation; none is installed''))
      | Some d \<Rightarrow>
          if dn_location d \<notin> set (ip_sites ip) then
            Inl (RegenExit (''taut-proto metadata at '' @ dn_location d @ '' is not the installed taut-proto release: '' @
                   ''it lies outside this interpreter'' @ [CHR 0x27] @ ''s site directories''))
          else if dn_version d \<noteq> TAUT_GENERATOR_VERSION then
            Inl (RegenExit (''taut-proto '' @ TAUT_GENERATOR_VERSION @
                   '' is required for protocol generation; found '' @ dn_version d))
          else Inr (dn_package d))"

definition released_module :: "string \<Rightarrow> string \<times> string option \<Rightarrow> bool" where
  "released_module package m \<longleftrightarrow>
     (taut_module (fst m) \<longrightarrow> (case snd m of None \<Rightarrow> False | Some origin \<Rightarrow> path_below package origin))"

fun check_loaded_taut :: "string \<Rightarrow> loaded \<Rightarrow> regen_fault + unit" where
  "check_loaded_taut package [] = Inr ()"
| "check_loaded_taut package (m # ms) =
     (if released_module package m then check_loaded_taut package ms
      else Inl (RegenExit (''imported '' @ fst m @ '' is not the installed taut-proto release: '' @
                  (case snd m of None \<Rightarrow> ''None'' | Some origin \<Rightarrow> origin))))"

text \<open>\<open>ir SCHEMA PATH\<close> takes its two operands when it loads the schema.\<close>

definition wants_ir :: "string list \<Rightarrow> bool" where
  "wants_ir argv \<longleftrightarrow> take 1 argv = [''ir'']"

definition child :: "interpreter \<Rightarrow> string list \<Rightarrow> regen_fault + int" where
  "child ip argv =
     bindE (guardE (list_ex (taut_module \<circ> fst) (ip_modules ip))
              (RegenExit ''taut modules are already loaded; generate in a fresh interpreter'')) (\<lambda>_.
     bindE (released_taut ip) (\<lambda>package.
     bindE (ip_import_taut ip) (\<lambda>loaded.
     bindE (check_loaded_taut package loaded) (\<lambda>_.
     bindE (ip_import_tool ip (wants_ir argv)) (\<lambda>loaded.
     bindE (check_loaded_taut package loaded) (\<lambda>_.
     bindE (guardE (wants_ir argv \<and> length argv < 3) RegenCrash) (\<lambda>_.
     bindE (ip_generate ip argv) (\<lambda>(status, loaded).
     bindE (check_loaded_taut package loaded) (\<lambda>_.
     Inr (if wants_ir argv then 0 else status))))))))))"

definition child_env :: "(string \<times> string) list \<Rightarrow> (string \<times> string) list" where
  "child_env environ =
     (let setdefault = (\<lambda>k v env. if map_of env k = None then AList.update k v env else env)
      in AList.update ''PYTHONIOENCODING'' ''utf-8'' (AList.update ''PYTHONUTF8'' ''1''
        (setdefault ''SETUPTOOLS_SCM_PRETEND_VERSION_FOR_TAUT_PROTO'' ''0.0.0''
        (setdefault ''SETUPTOOLS_SCM_PRETEND_VERSION'' ''0.0.0'' (AList.delete ''PYTHONPATH'' environ)))))"

subsection \<open>Directories\<close>

text \<open>The entries of a directory in the order it lists them: files with their contents, anything else.\<close>

datatype entry = FileEntry string | OtherEntry

type_synonym tree = "(string \<times> entry) list"

definition is_file_entry :: "entry \<Rightarrow> bool" where
  "is_file_entry e = (case e of FileEntry _ \<Rightarrow> True | OtherEntry \<Rightarrow> False)"

definition file_names :: "tree \<Rightarrow> string list" where
  "file_names t = sort (map fst (filter (is_file_entry \<circ> snd) t))"

definition same_tree :: "tree \<Rightarrow> tree \<Rightarrow> bool" where
  "same_tree source dest \<longleftrightarrow>
     file_names source = file_names dest \<and>
     list_all (\<lambda>n. map_of source n = map_of dest n) (file_names source)"

text \<open>Writing a file: a directory of that name cannot be opened.\<close>

definition write_file :: "string \<Rightarrow> string \<Rightarrow> tree \<Rightarrow> (regen_fault + unit) \<times> tree" where
  "write_file n b t =
     (if map_of t n = Some OtherEntry then (Inl RegenCrash, t) else (Inr (), AList.update n (FileEntry b) t))"

fun copy_files :: "tree \<Rightarrow> tree \<Rightarrow> (regen_fault + unit) \<times> tree" where
  "copy_files [] d = (Inr (), d)"
| "copy_files ((n, FileEntry b) # s) d =
     (case write_file n b d of (Inl e, d1) \<Rightarrow> (Inl e, d1) | (Inr _, d1) \<Rightarrow> copy_files s d1)"
| "copy_files ((n, OtherEntry) # s) d = copy_files s d"

definition replace_tree :: "tree \<Rightarrow> tree option \<Rightarrow> (regen_fault + unit) \<times> tree" where
  "replace_tree source dest =
     copy_files source (filter (\<lambda>(n, e). \<not> is_file_entry e) (case dest of None \<Rightarrow> [] | Some t \<Rightarrow> t))"

subsection \<open>The parent\<close>

text \<open>
  The name of the temporary directory, and what the two children answer: the exit code and the generated directory, if there is one; the exit code
  and the directory with the IR exported to it. The disk: whether the temporary directory is there, and
  the directory of the package.
\<close>

record generator =
  gn_temp :: string
  gn_python :: "int \<times> tree option"
  gn_ir :: "tree \<Rightarrow> int \<times> tree"

record disk =
  dk_temp :: bool
  dk_out :: "tree option"

record regen_args =
  rg_schema :: string
  rg_out :: string
  rg_check :: bool

definition PYTHON_INIT :: string where
  "PYTHON_INIT = ''from .api import *  # noqa: F401,F403'' @ [CHR 0x0A]"

definition ensure_python_package :: "tree \<Rightarrow> regen_fault + tree" where
  "ensure_python_package generated =
     (case write_file ''__init__.py'' PYTHON_INIT generated of (Inl e, _) \<Rightarrow> Inl e | (Inr _, t) \<Rightarrow> Inr t)"

definition generate_python :: "generator \<Rightarrow> regen_fault + tree" where
  "generate_python gn =
     (case gn_python gn of
        (code, generated) \<Rightarrow>
          if code \<noteq> 0 then Inl (RegenExit ''tautc Python generation failed'')
          else case generated of
            None \<Rightarrow> Inl (RegenExit (''expected generated Python package missing: '' @ path_join (gn_temp gn) ''python''))
          | Some t \<Rightarrow> Inr t)"

definition export_ir :: "generator \<Rightarrow> tree \<Rightarrow> regen_fault + tree" where
  "export_ir gn generated =
     (case gn_ir gn generated of
        (code, t) \<Rightarrow> if code \<noteq> 0 then Inl (RegenExit ''taut IR export failed'') else Inr t)"

definition generate :: "generator \<Rightarrow> regen_fault + tree" where
  "generate gn =
     bindE (generate_python gn) (\<lambda>generated. bindE (ensure_python_package generated) (export_ir gn))"

definition regen_body ::
    "generator \<Rightarrow> regen_args \<Rightarrow> disk \<Rightarrow> (regen_fault + int \<times> (bool \<times> string) list) \<times> disk" where
  "regen_body gn args dk =
     (case generate gn of
        Inl e \<Rightarrow> (Inl e, dk)
      | Inr generated \<Rightarrow>
          if rg_check args then
            if dk_out dk = None \<or> \<not> same_tree generated (the (dk_out dk)) then
              (Inr (1, [(True, ''regen_protocol: generated protocol files are stale'')]), dk)
            else (Inr (0, [(False, ''regen_protocol: OK'')]), dk)
          else case replace_tree generated (dk_out dk) of
            (Inl e, t) \<Rightarrow> (Inl e, dk\<lparr>dk_out := Some t\<rparr>)
          | (Inr _, t) \<Rightarrow> (Inr (0, [(False, ''regen_protocol: wrote '' @ rg_out args)]), dk\<lparr>dk_out := Some t\<rparr>))"

definition regen_main ::
    "generator \<Rightarrow> bool \<Rightarrow> regen_args \<Rightarrow> disk \<Rightarrow> (regen_fault + int \<times> (bool \<times> string) list) \<times> disk" where
  "regen_main gn schema_exists args dk =
     (if \<not> schema_exists then (Inl (RegenExit (''schema not found: '' @ rg_schema args)), dk)
      else case regen_body gn args (dk\<lparr>dk_temp := True\<rparr>) of (result, dk1) \<Rightarrow> (result, dk1\<lparr>dk_temp := False\<rparr>))"

subsection \<open>What a replaced directory holds\<close>

definition files_of :: "tree \<Rightarrow> string \<Rightarrow> string option" where
  "files_of t n = (case map_of t n of Some (FileEntry b) \<Rightarrow> Some b | _ \<Rightarrow> None)"

definition tidy_tree :: "tree \<Rightarrow> bool" where
  "tidy_tree t = distinct (map fst t)"

lemma tidy_update: "tidy_tree t \<Longrightarrow> tidy_tree (AList.update n e t)"
  by (simp add: tidy_tree_def distinct_update)

lemma files_of_Some: "files_of t n = Some b \<longleftrightarrow> map_of t n = Some (FileEntry b)"
  by (auto simp: files_of_def split: option.splits entry.splits)

lemma set_file_names:
  assumes "tidy_tree t"
  shows "set (file_names t) = dom (files_of t)"
proof -
  have "n \<in> set (file_names t) \<longleftrightarrow> (\<exists>b. (n, FileEntry b) \<in> set t)" for n
  proof
    assume "n \<in> set (file_names t)"
    then obtain e where "(n, e) \<in> set t" "is_file_entry e" by (auto simp: file_names_def)
    then show "\<exists>b. (n, FileEntry b) \<in> set t" by (cases e) (auto simp: is_file_entry_def)
  next
    assume "\<exists>b. (n, FileEntry b) \<in> set t"
    then show "n \<in> set (file_names t)" by (force simp: file_names_def is_file_entry_def)
  qed
  then show ?thesis
    using assms by (auto simp: dom_def files_of_Some tidy_tree_def)
qed

lemma files_of_fresh: "n \<notin> fst ` set t \<Longrightarrow> files_of t n = None"
  by (simp add: files_of_def map_of_eq_None_iff [THEN iffD2])

lemma file_names_eq: "tidy_tree s \<Longrightarrow> tidy_tree t \<Longrightarrow> files_of s = files_of t \<Longrightarrow> file_names s = file_names t"
  by (rule sorted_distinct_set_unique)
    (simp_all add: set_file_names, simp_all add: file_names_def tidy_tree_def distinct_map_filter)

lemma same_tree_iff:
  assumes "tidy_tree s" and "tidy_tree t"
  shows "same_tree s t \<longleftrightarrow> files_of s = files_of t"
proof
  assume same: "same_tree s t"
  show "files_of s = files_of t"
  proof
    fix n
    have "dom (files_of s) = dom (files_of t)"
      using same assms set_file_names unfolding same_tree_def by metis
    then have out: "n \<notin> set (file_names s) \<Longrightarrow> files_of s n = None \<and> files_of t n = None"
      using assms(1) set_file_names by blast
    show "files_of s n = files_of t n"
      using same out by (cases "n \<in> set (file_names s)") (auto simp: same_tree_def list_all_iff files_of_def)
  qed
next
  assume files: "files_of s = files_of t"
  have "map_of s n = map_of t n" if "n \<in> set (file_names s)" for n
  proof -
    from that assms(1) obtain b where b: "files_of s n = Some b" by (auto simp: set_file_names)
    then have "files_of t n = Some b" by (simp add: files)
    with b show ?thesis by (auto simp: files_of_def split: option.splits entry.splits)
  qed
  then show "same_tree s t"
    using file_names_eq [OF assms files] by (simp add: same_tree_def list_all_iff)
qed

lemma write_file_Inr:
  assumes "write_file n b t = (Inr u, t')"
  shows "files_of t' = (files_of t)(n \<mapsto> b)" and "tidy_tree t \<Longrightarrow> tidy_tree t'"
    and "map_of t' k = Some OtherEntry \<longleftrightarrow> map_of t k = Some OtherEntry"
  using assms
  by (auto simp: write_file_def files_of_def update_conv' tidy_update fun_eq_iff split: if_splits)

lemma copy_files_Inr:
  assumes "copy_files s d = (Inr u, d')" and "tidy_tree s" and "tidy_tree d"
  shows "tidy_tree d' \<and> files_of d' = (\<lambda>n. case files_of s n of None \<Rightarrow> files_of d n | Some b \<Rightarrow> Some b) \<and>
    (\<forall>k. map_of d' k = Some OtherEntry \<longleftrightarrow> map_of d k = Some OtherEntry)"
  using assms
proof (induction s d rule: copy_files.induct)
  case (2 n b s d)
  then obtain d1 where d1: "write_file n b d = (Inr (), d1)" "copy_files s d1 = (Inr u, d')"
    by (auto split: prod.splits sum.splits)
  have s: "tidy_tree s" "files_of s n = None"
    using 2(3) by (auto simp: tidy_tree_def files_of_fresh)
  from 2(1) [OF d1(1) [symmetric] refl d1(2) s(1) write_file_Inr(2) [OF d1(1) 2(4)]] s(2) show ?case
    by (auto simp: write_file_Inr(1,3) [OF d1(1)] files_of_def [of "(n, FileEntry b) # s"] fun_eq_iff
        files_of_def [of s] split: option.splits entry.splits)
next
  case (3 n s d)
  then have s: "tidy_tree s" "files_of s n = None" "copy_files s d = (Inr u, d')"
    by (auto simp: tidy_tree_def files_of_fresh)
  from 3(1) [OF s(3,1) 3(4)] s(2) show ?case
    by (auto simp: files_of_def [of "(n, OtherEntry) # s"] fun_eq_iff files_of_def [of s]
        split: option.splits entry.splits)
qed (auto simp: files_of_def)

lemma replace_tree_Inr:
  assumes "replace_tree s dest = (Inr u, t)" and "tidy_tree s" and "\<And>d. dest = Some d \<Longrightarrow> tidy_tree d"
  shows "tidy_tree t \<and> files_of t = files_of s \<and>
    (\<forall>k. map_of t k = Some OtherEntry \<longleftrightarrow> (\<exists>d. dest = Some d \<and> map_of d k = Some OtherEntry))"
proof -
  let ?old = "case dest of None \<Rightarrow> [] | Some d \<Rightarrow> d"
  let ?kept = "filter (\<lambda>(n, e). \<not> is_file_entry e) ?old"
  have old: "tidy_tree ?old" using assms(3) by (auto simp: tidy_tree_def split: option.splits)
  then have kept: "tidy_tree ?kept" by (simp add: tidy_tree_def distinct_map_filter)
  have at: "map_of ?kept k = Some e \<longleftrightarrow> map_of ?old k = Some e \<and> \<not> is_file_entry e" for k e
    using old kept by (auto simp: tidy_tree_def)
  have none: "files_of ?kept k = None" for k
  proof -
    have "files_of ?kept k \<noteq> Some b" for b
      unfolding files_of_Some at by (simp add: is_file_entry_def)
    then show ?thesis by (cases "files_of ?kept k") auto
  qed
  have copied: "copy_files s ?kept = (Inr u, t)" using assms(1) by (simp add: replace_tree_def)
  note new = copy_files_Inr [OF copied assms(2) kept]
  have "files_of t n = files_of s n" for n
    using fun_cong [OF new [THEN conjunct2, THEN conjunct1], of n] by (cases "files_of s n") (simp_all add: none)
  then have "files_of t = files_of s" by (rule ext)
  moreover have "map_of t k = Some OtherEntry \<longleftrightarrow> (\<exists>d. dest = Some d \<and> map_of d k = Some OtherEntry)" for k
    using spec [OF new [THEN conjunct2, THEN conjunct2], of k]
    unfolding at by (cases dest) (simp_all add: is_file_entry_def)
  ultimately show ?thesis using new [THEN conjunct1] by simp
qed

text \<open>The temporary directory goes on every path, and \<open>--check\<close> leaves the package alone.\<close>

lemma regen_main_disk:
  "\<not> dk_temp dk \<Longrightarrow> \<not> dk_temp (snd (regen_main gn exists args dk))"
  "rg_check args \<Longrightarrow> dk_out (snd (regen_main gn exists args dk)) = dk_out dk"
  by (auto simp: regen_main_def regen_body_def split: prod.splits sum.splits if_splits)

subsection \<open>The properties\<close>

text \<open>
  C16: after a regeneration that succeeded the package directory holds exactly the generated files, its other
  entries are as before, no temporary directory is left, and \<open>--check\<close> on the same schema passes and
  changes nothing. The names in a directory are distinct.
\<close>

theorem regenerate_then_current:
  assumes "regen_main gn schema_exists args dk = (Inr (0, lines), dk')" and "\<not> rg_check args"
    and "\<And>t. generate gn = Inr t \<Longrightarrow> tidy_tree t" and "\<And>t. dk_out dk = Some t \<Longrightarrow> tidy_tree t"
  shows "\<exists>generated new. generate gn = Inr generated \<and> dk_out dk' = Some new \<and> files_of new = files_of generated \<and>
    (\<forall>k. map_of new k = Some OtherEntry \<longleftrightarrow> (\<exists>t. dk_out dk = Some t \<and> map_of t k = Some OtherEntry)) \<and>
    \<not> dk_temp dk' \<and>
    regen_main gn schema_exists (args\<lparr>rg_check := True\<rparr>) dk' = (Inr (0, [(False, ''regen_protocol: OK'')]), dk')"
proof -
  have sch: "schema_exists" using assms(1) by (simp add: regen_main_def split: if_splits)
  obtain generated where gen: "generate gn = Inr generated"
    using assms(1) sch by (cases "generate gn") (auto simp: regen_main_def regen_body_def)
  obtain u new where new: "replace_tree generated (dk_out dk) = (Inr u, new)"
    "dk' = dk\<lparr>dk_temp := False, dk_out := Some new\<rparr>"
    using assms(1,2) sch gen by (auto simp: regen_main_def regen_body_def split: prod.splits sum.splits)
  note held = replace_tree_Inr [OF new(1) assms(3) [OF gen] assms(4)]
  have "same_tree generated new"
    using held same_tree_iff [OF assms(3) [OF gen]] by simp
  then have "regen_main gn schema_exists (args\<lparr>rg_check := True\<rparr>) dk' = (Inr (0, [(False, ''regen_protocol: OK'')]), dk')"
    by (simp add: regen_main_def regen_body_def sch gen new(2))
  with gen held new(2) show ?thesis by auto
qed

definition sample_generator :: generator where
  "sample_generator =
     \<lparr>gn_temp = ''/t'', gn_python = (0, Some [(''api.py'', FileEntry ''a''), (''sub'', OtherEntry)]),
      gn_ir = (\<lambda>t. (0, AList.update ''gwz.ir.json'' (FileEntry ''i'') t))\<rparr>"

definition sample_regen_args :: regen_args where
  "sample_regen_args = \<lparr>rg_schema = ''/s'', rg_out = ''/o'', rg_check = False\<rparr>"

definition sample_disk :: disk where
  "sample_disk = \<lparr>dk_temp = False, dk_out = Some [(''api.py'', FileEntry ''old''), (''old.py'', FileEntry ''x''),
     (''__pycache__'', OtherEntry)]\<rparr>"

lemma sample_generated:
  "generate sample_generator = Inr [(''api.py'', FileEntry ''a''), (''sub'', OtherEntry),
     (''__init__.py'', FileEntry PYTHON_INIT), (''gwz.ir.json'', FileEntry ''i'')]"
  by code_simp

lemma regenerate_then_current_witness:
  "\<exists>dk' new. regen_main sample_generator True sample_regen_args sample_disk
      = (Inr (0, [(False, ''regen_protocol: wrote /o'')]), dk') \<and>
    dk_out dk' = Some new \<and> map_of new ''__pycache__'' = Some OtherEntry \<and> files_of new ''old.py'' = None \<and>
    fst (regen_main sample_generator True (sample_regen_args\<lparr>rg_check := True\<rparr>) dk')
      = Inr (0, [(False, ''regen_protocol: OK'')])"
proof -
  let ?new = "[(''__pycache__'', OtherEntry), (''api.py'', FileEntry ''a''), (''__init__.py'', FileEntry PYTHON_INIT),
     (''gwz.ir.json'', FileEntry ''i'')]"
  have run: "regen_main sample_generator True sample_regen_args sample_disk =
      (Inr (0, [(False, ''regen_protocol: wrote /o'')]), \<lparr>dk_temp = False, dk_out = Some ?new\<rparr>)"
    by code_simp
  have tidy: "tidy_tree t" if "generate sample_generator = Inr t" for t
    using that by (auto simp: sample_generated tidy_tree_def)
  have old: "tidy_tree t" if "dk_out sample_disk = Some t" for t
    using that by (auto simp: sample_disk_def tidy_tree_def)
  have "\<not> rg_check sample_regen_args" by (simp add: sample_regen_args_def)
  from regenerate_then_current [OF run this tidy old] run show ?thesis
    by (auto simp: files_of_def)
qed

text \<open>
  A child that returns had no taut loaded, found the pinned version in a site directory, and every taut
  module loaded when it looked, at the end included, lay under that release.
\<close>

lemma check_loaded_taut_Inr: "check_loaded_taut package ms = Inr u \<longleftrightarrow> list_all (released_module package) ms"
  by (induction ms) auto

lemma child_uses_pinned_release:
  assumes "child ip argv = Inr status"
  shows "\<not> list_ex (taut_module \<circ> fst) (ip_modules ip) \<and>
    (\<exists>d loaded1 loaded2 code loaded3. ip_taut ip = Some d \<and> dn_location d \<in> set (ip_sites ip) \<and>
      dn_version d = TAUT_GENERATOR_VERSION \<and> ip_import_taut ip = Inr loaded1 \<and>
      ip_import_tool ip (wants_ir argv) = Inr loaded2 \<and> ip_generate ip argv = Inr (code, loaded3) \<and>
      list_all (released_module (dn_package d)) (loaded1 @ loaded2 @ loaded3))"
  using assms
  by (auto simp: child_def bindE_eq_Inr bindE_guardE released_taut_def check_loaded_taut_Inr
      split: if_splits option.splits)

end
