(* ===== verification/WheelBackend.thy ===== *)
theory WheelBackend
  imports Faults
begin

section \<open>The wheel backend\<close>

text \<open>
  \<^verbatim>\<open>build_support/sspi_backend.py\<close>: the packaging options maturin and the worker are built with. The
  configuration of maturin, the environment, the answers of \<^verbatim>\<open>rustc -vV\<close> and of the interpreter are given.
\<close>

text \<open>What \<open>settings\<close> and \<open>interpreter_facts\<close> raise: the text of a \<open>RuntimeError\<close>, or another exception.\<close>

datatype backend_fault = BackendError string | BackendCrash

definition backend_flags :: "string list" where
  "backend_flags =
     [''--release'', ''--locked'', ''--offline'', ''--frozen'', ''--strip'', ''--no-default-features'', ''-v'', ''-q'',
      ''--verbose'', ''--quiet'']"

definition backend_values :: "string list" where
  "backend_values =
     [''--target'', ''--profile'', ''--features'', ''-F'', ''--auditwheel'', ''--compatibility'', ''--manylinux'',
      ''--interpreter'', ''-i'']"

definition option_key :: "string \<Rightarrow> string" where
  "option_key key = (if key = ''-F'' then ''--features'' else if key = ''-i'' then ''--interpreter'' else key)"

text \<open>What an argument is; the loop over the arguments, \<open>parsed\<close> in reverse.\<close>

datatype packaging_arg = WithValue string string | NeedsValue string | FlagArg | UnsupportedArg

definition read_packaging_arg :: "string \<Rightarrow> packaging_arg" where
  "read_packaging_arg arg =
     (case partition_at CHR ''='' arg of
        (k, separator, v) \<Rightarrow>
          if option_key k \<in> set backend_values then
            if separator then WithValue (option_key k) v else NeedsValue (option_key k)
          else if arg \<in> set backend_flags then FlagArg else UnsupportedArg)"

fun parse_options :: "string list \<Rightarrow> (string \<times> string) list \<Rightarrow> backend_fault + (string \<times> string) list" where
  "parse_options [] parsed = Inr parsed"
| "parse_options (arg # rest) parsed =
     (case read_packaging_arg arg of
        WithValue key v \<Rightarrow>
          if key \<in> fst ` set parsed then Inl (BackendError ''duplicate packaging option'')
          else parse_options rest ((key, v) # parsed)
      | NeedsValue key \<Rightarrow>
          (case rest of
             [] \<Rightarrow> Inl (BackendError ''missing packaging option value'')
           | v # rest \<Rightarrow>
               if key \<in> fst ` set parsed then Inl (BackendError ''duplicate packaging option'')
               else parse_options rest ((key, v) # parsed))
      | FlagArg \<Rightarrow> parse_options rest parsed
      | UnsupportedArg \<Rightarrow> Inl (BackendError ''unsupported packaging option''))"

record maturin_config =
  mc_target :: "string option"
  mc_profile :: "string option"
  mc_features :: "string list"
  mc_base_python :: bool

record build_env =
  be_cargo_target :: "string option"
  be_base_python :: "string option"
  be_executable :: string
  be_base_executable :: "string option"
  be_rustc_lines :: "string list"
  be_platform :: "string \<times> string \<times> int"
  be_ask :: "string \<Rightarrow> backend_fault + (string \<times> string \<times> int) option"

text \<open>\<open>be_ask\<close> is what another interpreter prints, if that is a list of three.\<close>

definition interpreter_facts :: "build_env \<Rightarrow> string \<Rightarrow> backend_fault + string \<times> string \<times> int" where
  "interpreter_facts be interpreter =
     (if interpreter = be_executable be then Inr (be_platform be)
      else bindE (be_ask be interpreter) (\<lambda>facts.
        case facts of
          None \<Rightarrow> Inl (BackendError ''unsupported build interpreter'')
        | Some (system, machine, width) \<Rightarrow>
            if width \<notin> {32, 64} then Inl (BackendError ''unsupported build interpreter'')
            else Inr (system, machine, width)))"

text \<open>\<open>lower()\<close>, needed on ASCII names only.\<close>

definition lower_ascii :: "string \<Rightarrow> string" where
  "lower_ascii s =
     map (\<lambda>c. if 65 \<le> byte_of c \<and> byte_of c \<le> 90 then char_of (byte_of c + 32) else c) s"

definition host_triple :: "string list \<Rightarrow> backend_fault + string" where
  "host_triple lines =
     (case filter (starts_with ''host: '') lines of [] \<Rightarrow> Inl BackendCrash | l # _ \<Rightarrow> Inr (drop 6 l))"

definition default_target :: "build_env \<Rightarrow> string \<times> string \<times> int \<Rightarrow> backend_fault + string" where
  "default_target be facts =
     (case facts of
        (system, machine, width) \<Rightarrow>
          if lower_ascii system = ''windows'' \<and> lower_ascii machine = ''amd64'' \<and> width = 32
          then Inr ''i686-pc-windows-msvc'' else host_triple (be_rustc_lines be))"

definition chosen_interpreter :: "maturin_config \<Rightarrow> build_env \<Rightarrow> (string \<times> string) list \<Rightarrow> string" where
  "chosen_interpreter mc be parsed =
     (case map_of parsed ''--interpreter'' of
        Some i \<Rightarrow> i
      | None \<Rightarrow>
          if be_base_python be \<in> {Some ''1'', Some ''true''} \<or> mc_base_python mc
          then (case be_base_executable be of None \<Rightarrow> be_executable be | Some b \<Rightarrow> b)
          else be_executable be)"

definition rust_triple :: "string \<Rightarrow> bool" where
  "rust_triple target \<longleftrightarrow>
     target \<noteq> [] \<and> list_all (\<lambda>c. is_alnum c \<or> c = CHR ''-'' \<or> c = CHR ''_'') target"

definition chosen_target :: "maturin_config \<Rightarrow> build_env \<Rightarrow> (string \<times> string) list \<Rightarrow> string \<Rightarrow> string" where
  "chosen_target mc be parsed native =
     or_else (map_of parsed ''--target'') (or_else (mc_target mc) (or_else (be_cargo_target be) native))"

definition chosen_profile ::
    "maturin_config \<Rightarrow> string list \<Rightarrow> (string \<times> string) list \<Rightarrow> backend_fault + string" where
  "chosen_profile mc args parsed =
     (let profile = (case map_of parsed ''--profile'' of
                       Some p \<Rightarrow> p | None \<Rightarrow> (case mc_profile mc of Some p \<Rightarrow> p | None \<Rightarrow> ''release''))
      in bindE (if ''--release'' \<in> set args then
                  if map_of parsed ''--profile'' \<noteq> None \<and> profile \<noteq> ''release''
                  then Inl (BackendError ''conflicting packaging profiles'') else Inr ''release''
                else Inr profile) (\<lambda>profile.
         if profile \<notin> {''dev'', ''release''} then Inl (BackendError ''unsupported worker build profile'')
         else Inr profile))"

definition chosen_features :: "maturin_config \<Rightarrow> (string \<times> string) list \<Rightarrow> string list" where
  "chosen_features mc parsed =
     (let given = split_on CHR '','' (replace_char CHR '' '' CHR '','' (case map_of parsed ''--features'' of None \<Rightarrow> [] | Some f \<Rightarrow> f))
      in sort (remdups (filter (\<lambda>f. f \<noteq> []) (mc_features mc @ given))))"

text \<open>The options both builds get, the target, the profile and the features.\<close>

definition explicit_args ::
    "string list \<Rightarrow> (string \<times> string) list \<Rightarrow> string \<Rightarrow> string \<Rightarrow> string \<Rightarrow> string list" where
  "explicit_args args parsed profile target interpreter =
     (let given = (\<lambda>k. map_of parsed k \<noteq> None);
          args = filter (\<lambda>a. a \<noteq> ''--release'') args;
          args = args @ (if given ''--profile'' then [] else [''--profile'', profile]);
          args = args @ (if given ''--target'' then [] else [''--target'', target]);
          args = args @ (if given ''--interpreter'' then [] else [''--interpreter'', interpreter])
      in args @ (if ''--locked'' \<in> set args then [] else [''--locked'']))"

definition settings ::
    "string list \<Rightarrow> maturin_config \<Rightarrow> build_env \<Rightarrow> backend_fault + string list \<times> string \<times> string \<times> string list" where
  "settings args mc be =
     bindE (parse_options args []) (\<lambda>parsed.
     let interpreter = chosen_interpreter mc be parsed
     in bindE (interpreter_facts be interpreter) (\<lambda>facts.
        bindE (default_target be facts) (\<lambda>native.
        let target = chosen_target mc be parsed native
        in if \<not> rust_triple target then Inl (BackendError ''target must be a Rust triple, not a JSON path'')
           else bindE (chosen_profile mc args parsed) (\<lambda>profile.
             Inr (explicit_args args parsed profile target interpreter, target, profile, chosen_features mc parsed)))))"

text \<open>The worker beside the extension: the command that builds it and where its binary is.\<close>

definition worker_command :: "string \<Rightarrow> string list \<Rightarrow> string \<Rightarrow> string \<Rightarrow> string list" where
  "worker_command worker args target profile =
     [''cargo'', ''build'', ''--locked'', ''--manifest-path'', worker, ''--features'', ''worker-bin'', ''--target'', target,
      ''--profile'', profile] @ filter (\<lambda>a. a \<in> {''--offline'', ''--frozen''}) args"

definition worker_binary :: "string \<Rightarrow> string \<Rightarrow> string \<Rightarrow> string" where
  "worker_binary target_dir target profile =
     path_join (path_join (path_join target_dir target) (if profile = ''dev'' then ''debug'' else profile))
       (if sublist ''windows'' target then ''gwz-sspi-worker.exe'' else ''gwz-sspi-worker'')"

subsection \<open>The options are explicit\<close>

lemma parse_append: "parse_options xs p = Inr q \<Longrightarrow> parse_options (xs @ ys) p = parse_options ys q"
  by (induction xs p rule: parse_options.induct) (auto split: packaging_arg.splits list.splits if_splits)

lemma parse_more: "parse_options xs p = Inr q \<Longrightarrow> set p \<subseteq> set q"
  by (induction xs p rule: parse_options.induct) (auto split: packaging_arg.splits list.splits if_splits)

lemma read_literals:
  "read_packaging_arg ''--release'' = FlagArg" "read_packaging_arg ''--locked'' = FlagArg"
  "read_packaging_arg ''--profile'' = NeedsValue ''--profile''"
  "read_packaging_arg ''--target'' = NeedsValue ''--target''"
  "read_packaging_arg ''--interpreter'' = NeedsValue ''--interpreter''"
  by code_simp+

lemma parse_without:
  "parse_options xs p = Inr q \<Longrightarrow> \<forall>(k, v) \<in> set q. v \<noteq> ''--release'' \<Longrightarrow>
   parse_options (filter (\<lambda>a. a \<noteq> ''--release'') xs) p = Inr q"
proof (induction xs p rule: parse_options.induct)
  case (2 arg rest p)
  show ?case
  proof (cases "read_packaging_arg arg")
    case (NeedsValue key)
    then obtain w ws where rest: "rest = w # ws" "key \<notin> fst ` set p" "parse_options ws ((key, w) # p) = Inr q"
      using 2(4) by (auto split: list.splits if_splits)
    have "w \<noteq> ''--release''" using parse_more [OF rest(3)] 2(5) by auto
    moreover have "arg \<noteq> ''--release''" using NeedsValue by (auto simp: read_literals)
    moreover have "parse_options (filter (\<lambda>a. a \<noteq> ''--release'') ws) ((key, w) # p) = Inr q"
      by (rule 2(2) [OF NeedsValue rest(1,2,3) 2(5)])
    ultimately show ?thesis using rest NeedsValue by simp
  next
    case (WithValue key v)
    moreover from this have "arg \<noteq> ''--release''" by (auto simp: read_literals)
    ultimately show ?thesis using 2 by (simp split: if_splits)
  next
    case FlagArg
    with 2 show ?thesis by simp
  qed (use 2 in simp)
qed simp

definition named_options :: "string list" where
  "named_options = [''--profile'', ''--target'', ''--interpreter'']"

lemma parse_pair:
  assumes "k \<in> set named_options" and "map_of p k = None"
  shows "parse_options (k # v # xs) p = parse_options xs ((k, v) # p)"
proof -
  have "read_packaging_arg k = NeedsValue k" using assms(1) by (auto simp: named_options_def read_literals)
  with assms(2) show ?thesis by (simp add: map_of_eq_None_iff)
qed

lemma parse_extend:
  assumes "parse_options xs [] = Inr q" and "k \<in> set named_options" and "g \<longleftrightarrow> map_of q k \<noteq> None"
  shows "parse_options (xs @ (if g then [] else [k, v])) [] = Inr (if g then q else (k, v) # q)"
  using assms by (cases g) (simp_all add: parse_append parse_pair del: parse_options.simps(2))

lemma parse_locked:
  "parse_options xs [] = Inr q \<Longrightarrow> parse_options (xs @ (if b then [] else [''--locked''])) [] = Inr q"
  by (cases b) (simp_all add: parse_append read_literals)

definition named_values :: "(string \<times> string) list \<Rightarrow> string \<Rightarrow> string \<Rightarrow> string \<Rightarrow> (string \<times> string) list" where
  "named_values q profile target interpreter =
     (let add = (\<lambda>k v r. if map_of q k \<noteq> None then r else (k, v) # r)
      in add ''--interpreter'' interpreter (add ''--target'' target (add ''--profile'' profile q)))"

lemma map_of_named_values:
  "map_of (named_values q profile target interpreter) ''--profile'' =
     Some (case map_of q ''--profile'' of None \<Rightarrow> profile | Some v \<Rightarrow> v)"
  "map_of (named_values q profile target interpreter) ''--target'' =
     Some (case map_of q ''--target'' of None \<Rightarrow> target | Some v \<Rightarrow> v)"
  "map_of (named_values q profile target interpreter) ''--interpreter'' =
     Some (case map_of q ''--interpreter'' of None \<Rightarrow> interpreter | Some v \<Rightarrow> v)"
  "k \<notin> set named_options \<Longrightarrow> map_of (named_values q profile target interpreter) k = map_of q k"
  by (auto simp: named_values_def named_options_def split: option.splits)

lemma parse_explicit:
  assumes "parse_options args [] = Inr q" and "\<forall>(k, v) \<in> set q. v \<noteq> ''--release''"
  shows "parse_options (explicit_args args q profile target interpreter) [] =
    Inr (named_values q profile target interpreter)"
proof -
  let ?g = "\<lambda>k. map_of q k \<noteq> None"
  let ?a = "filter (\<lambda>a. a \<noteq> ''--release'') args"
  let ?b = "?a @ (if ?g ''--profile'' then [] else [''--profile'', profile])"
  let ?c = "?b @ (if ?g ''--target'' then [] else [''--target'', target])"
  let ?d = "?c @ (if ?g ''--interpreter'' then [] else [''--interpreter'', interpreter])"
  have a: "parse_options ?a [] = Inr q" by (rule parse_without [OF assms])
  have b: "parse_options ?b [] = Inr (if ?g ''--profile'' then q else (''--profile'', profile) # q)" (is "_ = Inr ?p")
    by (rule parse_extend [OF a]) (simp_all add: named_options_def)
  have c: "parse_options ?c [] = Inr (if ?g ''--target'' then ?p else (''--target'', target) # ?p)" (is "_ = Inr ?t")
    by (rule parse_extend [OF b]) (simp_all add: named_options_def)
  have d: "parse_options ?d [] = Inr (if ?g ''--interpreter'' then ?t else (''--interpreter'', interpreter) # ?t)"
    by (rule parse_extend [OF c]) (simp_all add: named_options_def)
  from parse_locked [OF d, of "''--locked'' \<in> set ?d"] show ?thesis
    by (simp only: explicit_args_def named_values_def Let_def)
qed

lemma explicit_args_flags:
  "''--locked'' \<in> set (explicit_args args q profile target interpreter)"
  "''--release'' \<notin> {profile, target, interpreter} \<Longrightarrow>
   ''--release'' \<notin> set (explicit_args args q profile target interpreter)"
  by (auto simp: explicit_args_def Let_def)

lemma explicit_args_fixed:
  assumes "''--release'' \<notin> set args" and "''--locked'' \<in> set args"
    and "\<And>k. k \<in> set named_options \<Longrightarrow> map_of q k \<noteq> None"
  shows "explicit_args args q profile target interpreter = args"
proof -
  have "filter (\<lambda>a. a \<noteq> ''--release'') args = args" using assms(1) by (auto intro: filter_True)
  then show ?thesis using assms(2,3) by (simp add: explicit_args_def named_options_def)
qed

lemma settings_Inr:
  assumes "settings args mc be = Inr (args', target, profile, features)"
  obtains q facts native where "parse_options args [] = Inr q"
    "interpreter_facts be (chosen_interpreter mc be q) = Inr facts" "default_target be facts = Inr native"
    "target = chosen_target mc be q native" "rust_triple target" "chosen_profile mc args q = Inr profile"
    "args' = explicit_args args q profile target (chosen_interpreter mc be q)" "features = chosen_features mc q"
  using assms by (auto simp: settings_def bindE_eq_Inr Let_def split: if_splits)

lemma chosen_profile_Inr:
  assumes "chosen_profile mc args q = Inr profile"
  shows "profile \<in> {''dev'', ''release''}" and "map_of q ''--profile'' = Some p \<Longrightarrow> p = profile"
  using assms by (auto simp: chosen_profile_def Let_def bindE_eq_Inr split: if_splits option.splits)

lemma chosen_profile_given:
  "''--release'' \<notin> set args \<Longrightarrow> map_of q ''--profile'' = Some p \<Longrightarrow> p \<in> {''dev'', ''release''} \<Longrightarrow>
   chosen_profile mc args q = Inr p"
  by (auto simp: chosen_profile_def)

text \<open>
  the wheel's options name the target and the profile of the worker explicitly, whatever the
  configuration and the environment say: read again they give the same target, profile, features and
  options, \<open>--locked\<close> included. No option value is one of the flags, and \<open>--target\<close> is not given empty.
\<close>

theorem settings_explicit:
  assumes "settings args mc be = Inr (args', target, profile, features)"
    and "\<And>q. parse_options args [] = Inr q \<Longrightarrow>
      \<forall>(k, v) \<in> set q. v \<notin> set backend_flags \<and> (k = ''--target'' \<longrightarrow> v \<noteq> [])"
    and "target \<notin> set backend_flags" and "be_executable be \<notin> set backend_flags"
    and "be_base_executable be \<notin> Some ` set backend_flags"
  shows "(\<exists>q. parse_options args' [] = Inr q \<and> map_of q ''--target'' = Some target \<and>
      map_of q ''--profile'' = Some profile) \<and>
    ''--locked'' \<in> set args' \<and> ''--release'' \<notin> set args' \<and>
    settings args' mc be = Inr (args', target, profile, features)"
proof -
  obtain q facts native where q: "parse_options args [] = Inr q"
    "interpreter_facts be (chosen_interpreter mc be q) = Inr facts" "default_target be facts = Inr native"
    "target = chosen_target mc be q native" "rust_triple target" "chosen_profile mc args q = Inr profile"
    "args' = explicit_args args q profile target (chosen_interpreter mc be q)" "features = chosen_features mc q"
    using assms(1) by (rule settings_Inr)
  let ?i = "chosen_interpreter mc be q"
  let ?q = "named_values q profile target ?i"
  have release: "''--release'' \<in> set backend_flags" by (simp add: backend_flags_def)
  have given: "v \<noteq> ''--release''" "k = ''--target'' \<Longrightarrow> v \<noteq> []" if "(k, v) \<in> set q" for k v
    using assms(2) [OF q(1)] release that by auto
  have again: "parse_options args' [] = Inr ?q"
    unfolding q(7) by (rule parse_explicit [OF q(1)]) (use given(1) in auto)
  have "target = t" if "map_of q ''--target'' = Some t" for t
    using q(4) that given(2) [OF map_of_SomeD [OF that]] by (cases t) (simp_all add: chosen_target_def)
  then have t: "map_of ?q ''--target'' = Some target"
    by (auto simp: map_of_named_values(2) split: option.splits)
  have p: "map_of ?q ''--profile'' = Some profile"
    using chosen_profile_Inr(2) [OF q(6)] by (auto simp: map_of_named_values(1) split: option.splits)
  have i: "map_of ?q ''--interpreter'' = Some ?i"
    by (auto simp: map_of_named_values(3) chosen_interpreter_def split: option.splits)
  then have same_i: "chosen_interpreter mc be ?q = ?i" by (simp add: chosen_interpreter_def [of mc be ?q])
  have "?i \<noteq> ''--release''"
    using assms(4,5) release given(1)
    by (auto simp: chosen_interpreter_def split: option.splits dest!: map_of_SomeD)
  moreover have "profile \<noteq> ''--release''" using chosen_profile_Inr(1) [OF q(6)] by auto
  moreover have "target \<noteq> ''--release''" using assms(3) release by auto
  ultimately have gone: "''--release'' \<notin> set args'"
    unfolding q(7) by (intro explicit_args_flags(2)) auto
  have locked: "''--locked'' \<in> set args'" unfolding q(7) by (rule explicit_args_flags(1))
  have fixed: "explicit_args args' ?q profile target ?i = args'"
    by (rule explicit_args_fixed [OF gone locked]) (auto simp: named_options_def t p i)
  have "chosen_target mc be ?q native = target"
    using q(5) t by (cases target) (auto simp: chosen_target_def rust_triple_def)
  moreover have "chosen_profile mc args' ?q = Inr profile"
    by (rule chosen_profile_given [OF gone p chosen_profile_Inr(1) [OF q(6)]])
  moreover have "chosen_features mc ?q = features"
    by (simp add: q(8) chosen_features_def map_of_named_values(4) named_options_def)
  ultimately have "settings args' mc be = Inr (args', target, profile, features)"
    using q(2,3,5) fixed by (simp add: settings_def again same_i)
  with again t p gone locked show ?thesis by blast
qed

definition sample_build :: build_env where
  "sample_build =
     \<lparr>be_cargo_target = None, be_base_python = None, be_executable = ''/p'', be_base_executable = None,
      be_rustc_lines = [''rustc 1'', ''host: a-b''], be_platform = (''Linux'', ''x86_64'', 64),
      be_ask = (\<lambda>_. Inl BackendCrash)\<rparr>"

definition sample_config :: maturin_config where
  "sample_config = \<lparr>mc_target = None, mc_profile = Some ''dev'', mc_features = [''x''], mc_base_python = False\<rparr>"

lemma sample_settings:
  "settings [''--release'', ''-F'', ''f g''] sample_config sample_build =
     Inr ([''-F'', ''f g'', ''--profile'', ''release'', ''--target'', ''a-b'', ''--interpreter'', ''/p'', ''--locked''],
          ''a-b'', ''release'', [''f'', ''g'', ''x''])"
  by code_simp

lemma settings_explicit_witness:
  "settings [''-F'', ''f g'', ''--profile'', ''release'', ''--target'', ''a-b'', ''--interpreter'', ''/p'', ''--locked'']
     sample_config sample_build =
   Inr ([''-F'', ''f g'', ''--profile'', ''release'', ''--target'', ''a-b'', ''--interpreter'', ''/p'', ''--locked''],
          ''a-b'', ''release'', [''f'', ''g'', ''x''])"
proof -
  have q: "parse_options [''--release'', ''-F'', ''f g''] [] = Inr [(''--features'', ''f g'')]" by code_simp
  have options: "\<forall>(k, v) \<in> set p. v \<notin> set backend_flags \<and> (k = ''--target'' \<longrightarrow> v \<noteq> [])"
    if "parse_options [''--release'', ''-F'', ''f g''] [] = Inr p" for p
    using that unfolding q by (auto simp: backend_flags_def)
  have flags: "''a-b'' \<notin> set backend_flags" "be_executable sample_build \<notin> set backend_flags"
    "be_base_executable sample_build \<notin> Some ` set backend_flags"
    by code_simp+
  show ?thesis
    by (rule settings_explicit [OF sample_settings options, THEN conjunct2, THEN conjunct2, THEN conjunct2])
      (assumption | rule flags)+
qed

text \<open>An empty \<open>--target=\<close> stays in the options of the wheel while the worker is built for the default.\<close>

lemma empty_target_not_explicit:
  "settings [''--target=''] sample_config sample_build =
     Inr ([''--target='', ''--profile'', ''dev'', ''--interpreter'', ''/p'', ''--locked''], ''a-b'', ''dev'', [''x''])"
  by code_simp

end
