(* ===== verification/CandidateBuild.thy ===== *)
theory CandidateBuild
  imports ReleaseText Json
begin

section \<open>The candidate build\<close>

text \<open>
  \<^verbatim>\<open>scripts/build_candidate_extension.py\<close>. A resolved path is the list of its parts below the root. A run
  is the list of the steps it takes, each with the places it writes, and how it ends; what exists, the
  files it reads, the wheels it finds and the names in the wheel are given.
\<close>

type_synonym place = "string list"

definition place_text :: "place \<Rightarrow> string" where
  "place_text p = ''/'' @ join ''/'' p"

text \<open>What a command writes besides its own scratch files is where it is told to write.\<close>

datatype build_step =
  MakeDir place
| RunStep "string list" "place option" "(string \<times> string) list option" "place list"
| LinkStep place place
| WriteStep place string
| ExtractStep place
| ModeStep place

fun written :: "build_step \<Rightarrow> place list" where
  "written (MakeDir p) = [p]"
| "written (RunStep cmd cwd env outs) = outs"
| "written (LinkStep link source) = [link]"
| "written (WriteStep p t) = [p]"
| "written (ExtractStep p) = [p]"
| "written (ModeStep p) = [p]"

subsection \<open>The manifest\<close>

definition substr_count :: "string \<Rightarrow> string \<Rightarrow> nat" where
  "substr_count sub s = length (pieces [sub] [] s) - 1"

definition substr_replace :: "string \<Rightarrow> string \<Rightarrow> string \<Rightarrow> string" where
  "substr_replace sub new s = join new (pieces [sub] [] s)"

definition TRANSPORT_SWITCH :: string where
  "TRANSPORT_SWITCH = ''gwz_transport_candidate''"

definition CORE_DEPENDENCY :: string where
  "CORE_DEPENDENCY = ''gwz-core = { path = '' @ quoted ''../gwz-core'' @ '' }''"

definition SOURCES :: "string list" where
  "SOURCES = [''native'', ''src'', ''build_support'', ''pyproject.toml'', ''README.md'']"

definition EXTENSION_SUFFIXES :: "string list" where
  "EXTENSION_SUFFIXES = [''.so'', ''.pyd'']"

definition candidate_manifest :: "string \<Rightarrow> place \<Rightarrow> string + string" where
  "candidate_manifest manifest core =
     (if substr_count CORE_DEPENDENCY manifest \<noteq> 1 then
        Inl (''Cargo.toml no longer has exactly one '' @ py_repr CORE_DEPENDENCY @
             ''; the candidate build names gwz-core beside this checkout'')
      else Inr (substr_replace CORE_DEPENDENCY
             (''gwz-core = { path = '' @ json_string True (place_text core) @ '' }'') manifest))"

subsection \<open>The parts of a run\<close>

record checkout =
  co_root :: place
  co_exists :: "place \<Rightarrow> bool"
  co_manifest :: string
  co_lock :: string

record prepared =
  pr_destination :: place
  pr_core :: place
  pr_manifest :: place

definition wheels_dir :: "prepared \<Rightarrow> place" where
  "wheels_dir p = pr_destination p @ [''wheels'']"

definition extension_dir :: "prepared \<Rightarrow> place" where
  "extension_dir p = pr_destination p @ [''extension'']"

definition prepare :: "checkout \<Rightarrow> string \<Rightarrow> place \<Rightarrow> place \<Rightarrow> string + prepared \<times> build_step list" where
  "prepare co python core destination =
     (let workspace = butlast (co_root co); py = destination @ [''py'']
      in if co_exists co destination \<or> prefix workspace destination then
           Inl ''use a new directory outside the workspace''
         else bindE (candidate_manifest (co_manifest co) (destination @ [''core''])) (\<lambda>named.
           let manifest = substr_replace (''path = '' @ quoted ''../gwz-sspi'')
                 (''path = '' @ json_string True (place_text (workspace @ [''gwz-sspi'']))) named
           in Inr (\<lparr>pr_destination = destination, pr_core = destination @ [''core''],
                     pr_manifest = py @ [''Cargo.toml'']\<rparr>,
                [MakeDir destination,
                 RunStep [python, place_text (core @ [''tests'', ''transport_backend'', ''prepare.py'']),
                          place_text (destination @ [''core''])] None None [destination @ [''core'']],
                 MakeDir py] @
                map (\<lambda>name. LinkStep (py @ [name]) (co_root co @ [name])) SOURCES @
                [WriteStep (py @ [''Cargo.toml'']) manifest, WriteStep (py @ [''Cargo.lock'']) (co_lock co)])))"

text \<open>\<open>cargo metadata\<close> completes the lock beside the manifest.\<close>

definition resolve :: "prepared \<Rightarrow> build_step list" where
  "resolve p =
     [RunStep [''cargo'', ''metadata'', ''--format-version'', ''1'', ''--manifest-path'', place_text (pr_manifest p)]
        None None [butlast (pr_manifest p) @ [''Cargo.lock'']]]"

definition env_set :: "string \<Rightarrow> string \<Rightarrow> (string \<times> string) list \<Rightarrow> (string \<times> string) list" where
  "env_set k v env =
     (if map_of env k = None then env @ [(k, v)] else map (\<lambda>(j, u). if j = k then (j, v) else (j, u)) env)"

definition build_environment :: "(string \<times> string) list \<Rightarrow> place \<Rightarrow> (string \<times> string) list" where
  "build_environment environment target_dir =
     (let flags = ''--cfg '' @ TRANSPORT_SWITCH;
          inherited = (case map_of environment ''RUSTFLAGS'' of None \<Rightarrow> [] | Some f \<Rightarrow> strip f);
          env = env_set ''RUSTFLAGS'' (if inherited \<noteq> [] then inherited @ '' '' @ flags else flags) environment;
          env = env_set ''CARGO_TARGET_DIR'' (place_text target_dir) env
      in if map_of env ''SETUPTOOLS_SCM_PRETEND_VERSION'' = None
         then env_set ''SETUPTOOLS_SCM_PRETEND_VERSION'' ''0.0.0'' env else env)"

definition build_steps :: "prepared \<Rightarrow> string \<Rightarrow> (string \<times> string) list \<Rightarrow> place \<Rightarrow> build_step list" where
  "build_steps p python environ target_dir =
     [MakeDir (wheels_dir p),
      RunStep [python, ''build_support/sspi_backend.py'', ''--out'', place_text (wheels_dir p), ''--build-args'',
               ''--profile dev --locked --auditwheel skip''] (Some (butlast (pr_manifest p)))
        (Some (build_environment environ target_dir)) [wheels_dir p, target_dir]]"

text \<open>The newest of the wheels \<^verbatim>\<open>gwz-*.whl\<close>, given with their times in the order of the directory.\<close>

definition newest_wheel :: "place \<Rightarrow> (string \<times> int) list \<Rightarrow> string + string" where
  "newest_wheel wheels listing =
     (let found = sort_key snd (filter (\<lambda>(n, _). starts_with ''gwz-'' n \<and> ends_with ''.whl'' (drop 4 n)) listing)
      in if found = [] then Inl (''maturin built no gwz wheel in '' @ place_text wheels) else Inr (fst (last found)))"

text \<open>\<open>ZipFile.extract\<close> leaves out the parts of a name that would lead elsewhere.\<close>

definition member_parts :: "string \<Rightarrow> place" where
  "member_parts name = filter (\<lambda>p. p \<notin> {[], ''.'', ''..''}) (split_on CHR ''/'' name)"

definition unpack :: "string \<Rightarrow> string list \<Rightarrow> place \<Rightarrow> string + place \<times> build_step list" where
  "unpack wheel names extension =
     (let modules = filter (\<lambda>n. starts_with ''gwz/_gwz_core.'' n \<and> list_ex (\<lambda>s. ends_with s n) EXTENSION_SUFFIXES) names
      in if length modules \<noteq> 1 then
           Inl (wheel @ '' holds '' @ show_nat (length modules) @ '' gwz extension modules, not one'')
         else Inr (extension @ path_parts (hd modules),
           concat (map (\<lambda>n. let destination = extension @ member_parts n
                     in ExtractStep destination #
                        (if last destination \<in> {''gwz-sspi-worker'', ''gwz-sspi-worker.exe''} then [ModeStep destination] else []))
             (filter (starts_with ''gwz/'') names))))"

subsection \<open>The run\<close>

record candidate_options =
  cn_destination :: place
  cn_core :: place
  cn_python :: string
  cn_target_dir :: "place option"

text \<open>How the run ends, and its steps, each taken only if those before it succeeded.\<close>

definition candidate_main ::
    "checkout \<Rightarrow> candidate_options \<Rightarrow> (string \<times> string) list \<Rightarrow> (string \<times> int) list \<Rightarrow> (string \<Rightarrow> string list) \<Rightarrow>
     (string + place) \<times> build_step list" where
  "candidate_main co opts environ listing names =
     (case prepare co (cn_python opts) (cn_core opts) (cn_destination opts) of
        Inl e \<Rightarrow> (Inl e, [])
      | Inr (p, steps) \<Rightarrow>
          (let target = (case cn_target_dir opts of None \<Rightarrow> pr_destination p @ [''target''] | Some t \<Rightarrow> t);
               built = steps @ resolve p @ build_steps p (cn_python opts) environ target
           in case newest_wheel (wheels_dir p) listing of
                Inl e \<Rightarrow> (Inl e, built)
              | Inr wheel \<Rightarrow>
                  (case unpack wheel (names wheel) (extension_dir p) of
                     Inl e \<Rightarrow> (Inl e, built)
                   | Inr (module, unpacked) \<Rightarrow> (Inr module, built @ unpacked))))"

subsection \<open>Properties\<close>

text \<open>A place in the destination is not in the workspace.\<close>

lemma outside_workspace:
  assumes "\<not> co_exists co destination" and "\<not> prefix workspace destination"
    and "co_exists co workspace" and "\<And>p q. co_exists co (p @ q) \<Longrightarrow> co_exists co p"
  shows "\<not> prefix workspace (destination @ r)"
proof
  assume "prefix workspace (destination @ r)"
  then have "prefix destination workspace"
    using prefix_same_cases [of workspace "destination @ r" destination] assms(2) by auto
  then obtain t where "workspace = destination @ t" by (auto simp: prefix_def)
  with assms(3) assms(4) [of destination t] have "co_exists co destination" by simp
  with assms(1) show False ..
qed

lemma prepare_Inr:
  assumes "prepare co python core destination = Inr (p, steps)"
  shows "\<not> co_exists co destination" and "\<not> prefix (butlast (co_root co)) destination"
    and "pr_destination p = destination" and "pr_manifest p = destination @ [''py'', ''Cargo.toml'']"
    and "s \<in> set steps \<Longrightarrow> w \<in> set (written s) \<Longrightarrow> prefix destination w"
  using assms by (auto simp: prepare_def Let_def bindE_eq_Inr split: if_splits)

lemma resolve_written:
  "pr_manifest p = d @ [''py'', ''Cargo.toml''] \<Longrightarrow> s \<in> set (resolve p) \<Longrightarrow> w \<in> set (written s) \<Longrightarrow> prefix d w"
  by (auto simp: resolve_def butlast_append)

lemma build_written:
  "s \<in> set (build_steps p python environ t) \<Longrightarrow> w \<in> set (written s) \<Longrightarrow> w = t \<or> prefix (pr_destination p) w"
  by (auto simp: build_steps_def wheels_dir_def)

lemma unpack_written:
  "unpack wheel ns (extension_dir p) = Inr (m, steps) \<Longrightarrow> s \<in> set steps \<Longrightarrow> w \<in> set (written s) \<Longrightarrow>
   prefix (pr_destination p) w"
  by (auto simp: unpack_def extension_dir_def Let_def split: if_splits)

lemma candidate_written:
  assumes "candidate_main co opts environ listing names = (result, steps)" and "cn_target_dir opts = None"
    and "s \<in> set steps" and "w \<in> set (written s)"
  shows "prefix (cn_destination opts) w" and "\<not> co_exists co (cn_destination opts)"
    and "\<not> prefix (butlast (co_root co)) (cn_destination opts)"
proof -
  obtain p steps0 where prep: "prepare co (cn_python opts) (cn_core opts) (cn_destination opts) = Inr (p, steps0)"
    using assms(1,3) by (auto simp: candidate_main_def split: sum.splits)
  note prep' = prepare_Inr [OF prep]
  from prep' show "\<not> co_exists co (cn_destination opts)" "\<not> prefix (butlast (co_root co)) (cn_destination opts)"
    by simp_all
  let ?built = "steps0 @ resolve p @ build_steps p (cn_python opts) environ (pr_destination p @ [''target''])"
  have "s \<in> set ?built \<or> (\<exists>wheel m u. unpack wheel (names wheel) (extension_dir p) = Inr (m, u) \<and> s \<in> set u)"
    using assms(1-3) prep by (auto simp: candidate_main_def Let_def split: sum.splits)
  then show "prefix (cn_destination opts) w"
  proof
    assume "s \<in> set ?built"
    with prep' assms(4) show ?thesis
      using resolve_written [OF prep'(4)] build_written by fastforce
  next
    assume "\<exists>wheel m u. unpack wheel (names wheel) (extension_dir p) = Inr (m, u) \<and> s \<in> set u"
    with prep'(3) assms(4) show ?thesis using unpack_written by metis
  qed
qed

text \<open>
  the candidate build never changes a production manifest: every place any of its steps writes is below
  the destination and outside the workspace the checkout is in, however the run ends. A directory above an
  existing place exists, the workspace exists, and no other target directory is named.
\<close>

theorem candidate_stays_outside:
  assumes "candidate_main co opts environ listing names = (result, steps)" and "cn_target_dir opts = None"
    and "co_exists co (butlast (co_root co))" and "\<And>p q. co_exists co (p @ q) \<Longrightarrow> co_exists co p"
  shows "\<forall>s \<in> set steps. \<forall>w \<in> set (written s).
    prefix (cn_destination opts) w \<and> \<not> prefix (butlast (co_root co)) w"
proof (intro ballI)
  fix s w assume s: "s \<in> set steps" "w \<in> set (written s)"
  note c = candidate_written [OF assms(1,2) s]
  then obtain r where "w = cn_destination opts @ r" by (auto simp: prefix_def)
  with c outside_workspace [OF c(2,3) assms(3,4)] show "prefix (cn_destination opts) w \<and> \<not> prefix (butlast (co_root co)) w"
    by simp
qed

definition sample_checkout :: checkout where
  "sample_checkout =
     \<lparr>co_root = [''w'', ''gwz-py''], co_exists = (\<lambda>p. prefix p [''w'', ''gwz-py'']),
      co_manifest = ''x '' @ CORE_DEPENDENCY, co_lock = ''l''\<rparr>"

definition sample_candidate :: candidate_options where
  "sample_candidate =
     \<lparr>cn_destination = [''d''], cn_core = [''w'', ''gwz-core''], cn_python = ''py'', cn_target_dir = None\<rparr>"

lemma sample_candidate_ends:
  "fst (candidate_main sample_checkout sample_candidate [] [(''gwz-1.whl'', 1)] (\<lambda>_. [''gwz/_gwz_core.a.so'']))
     = Inr [''d'', ''extension'', ''gwz'', ''_gwz_core.a.so'']"
  by code_simp

lemma candidate_stays_outside_witness:
  "\<exists>steps. candidate_main sample_checkout sample_candidate [] [(''gwz-1.whl'', 1)] (\<lambda>_. [''gwz/_gwz_core.a.so''])
      = (Inr [''d'', ''extension'', ''gwz'', ''_gwz_core.a.so''], steps) \<and>
    (\<forall>s \<in> set steps. \<forall>w \<in> set (written s). prefix [''d''] w \<and> \<not> prefix [''w''] w)"
proof -
  let ?run = "candidate_main sample_checkout sample_candidate [] [(''gwz-1.whl'', 1)] (\<lambda>_. [''gwz/_gwz_core.a.so''])"
  obtain steps where run: "?run = (Inr [''d'', ''extension'', ''gwz'', ''_gwz_core.a.so''], steps)"
    using sample_candidate_ends by (cases ?run) simp
  have "prefix (butlast [''w'', ''gwz-py'']) [''w'', ''gwz-py'']" by simp
  then have ws: "co_exists sample_checkout (butlast (co_root sample_checkout))"
    by (simp add: sample_checkout_def)
  have up: "co_exists sample_checkout p" if "co_exists sample_checkout (p @ q)" for p q
    using that by (auto simp: sample_checkout_def prefix_def)
  have none: "cn_target_dir sample_candidate = None" by (simp add: sample_candidate_def)
  from candidate_stays_outside [OF run none ws up] run show ?thesis
    by (simp add: sample_checkout_def sample_candidate_def)
qed

text \<open>The manifest differs in the one place.\<close>

lemma pieces_some: "pieces seps cur s \<noteq> []"
  by (induction seps cur s rule: pieces.induct) (subst pieces.simps, auto split: list.splits)

lemma pieces_join: "sub \<noteq> [] \<Longrightarrow> join sub (pieces [sub] cur s) = cur @ s"
proof (induction "length s" arbitrary: cur s rule: less_induct)
  case less
  show ?case
  proof (cases "starts_with sub s")
    case True
    then obtain t where t: "s = sub @ t" by (auto simp: starts_with_iff)
    with less.prems have "length t < length s" by simp
    from less.hyps [OF this less.prems, of "[]"] have "join sub (pieces [sub] [] t) = t" by simp
    then show ?thesis
      using less.prems t by (subst pieces.simps) (simp add: starts_with_append join_Cons pieces_some)
  next
    case False
    then show ?thesis
      using less by (subst pieces.simps) (cases s, auto)
  qed
qed

lemma candidate_manifest_one_place:
  assumes "candidate_manifest manifest core = Inr m"
  shows "\<exists>a b. manifest = a @ CORE_DEPENDENCY @ b \<and>
    m = a @ ''gwz-core = { path = '' @ json_string True (place_text core) @ '' }'' @ b"
proof -
  have "length (pieces [CORE_DEPENDENCY] [] manifest) = 2"
    using assms by (auto simp: candidate_manifest_def substr_count_def split: if_splits)
  then obtain a b where ab: "pieces [CORE_DEPENDENCY] [] manifest = [a, b]"
    by (auto simp: numeral_2_eq_2 length_Suc_conv)
  have "CORE_DEPENDENCY \<noteq> []" by (simp add: CORE_DEPENDENCY_def)
  from pieces_join [OF this, of "[]" manifest] ab have "manifest = a @ CORE_DEPENDENCY @ b" by simp
  with assms ab show ?thesis
    by (auto simp: candidate_manifest_def substr_replace_def split: if_splits)
qed

end
