(* ===== verification/Spec2Isabelle.thy ===== *)
theory Spec2Isabelle
  imports ProtocolSession RequestFacts Codec OutputReaders NativeBridge ClientLife CliOptions CliParse
    CliCommands CliMerge CliLocal CliLog CliDiff
    RenderStatus RenderListings RenderMerge RenderLog RenderResponse CliMain MainFacts
    PackageInfo ReleaseFacts ProtocolDrift Regen WheelBackend CandidateBuild
begin

text \<open>
  A verification development of gwz-py, the Python client and command line of gwz, a tool for
  workspaces of many git repositories. Paths below are relative to \<^verbatim>\<open>src/gwz/\<close>.

  \<^bold>\<open>The program.\<close> A command line becomes a request dataclass, the request goes through the client to
  the native core, the answer comes back as a response dataclass and is printed. In order:

  \<^item> \<^verbatim>\<open>cli.py\<close> normalises the global options, opens the client, calls the handler of the command, closes
    the client, prints the response and turns exceptions into a message and an exit code.
  \<^item> \<^verbatim>\<open>cli_shared.py\<close> holds what the commands share: the raw scans of the command line, the options and
    the request metadata they become, exit codes.
  \<^item> \<^verbatim>\<open>cli_read.py\<close>, \<^verbatim>\<open>cli_mutation.py\<close>, \<^verbatim>\<open>cli_branch_stash.py\<close>, \<^verbatim>\<open>cli_merge.py\<close>, \<^verbatim>\<open>cli_local.py\<close>,
    \<^verbatim>\<open>cli_local_family.py\<close>, \<^verbatim>\<open>cli_diff.py\<close> and \<^verbatim>\<open>cli_log.py\<close> hold the handlers.
  \<^item> \<^verbatim>\<open>client.py\<close> and \<^verbatim>\<open>client_helpers.py\<close> build the requests, check that the core can serve them, run
    submitted operations with their event streams, and read the two output logs.
  \<^item> \<^verbatim>\<open>bridge.py\<close> is the bridge to the native module: request and answer bytes, native errors, the
    event subscription, and the closing of the host.
  \<^item> \<^verbatim>\<open>protocol/codec.py\<close> and \<^verbatim>\<open>protocol/generated/api.py\<close> are the wire format and its dataclasses.
  \<^item> \<^verbatim>\<open>cli_render.py\<close> and \<^verbatim>\<open>cli_render_parts/\<close> turn responses, events and errors into text and JSON.

  \<^bold>\<open>The theories.\<close>

  \<^item> \<^verbatim>\<open>Prelude\<close>: results that may raise (\<open>'e + 'a\<close> with \<open>bindE\<close>, \<open>mapE\<close>), computations over a state
    (\<open>io\<close>), Python's text functions, with the collections \<open>res_simps\<close> and \<open>text_simps\<close>.
  \<^item> \<^verbatim>\<open>ProtocolTransport\<close>, \<^verbatim>\<open>ProtocolRequests\<close>, \<^verbatim>\<open>ProtocolResponses\<close>, \<^verbatim>\<open>ProtocolPayloads\<close>, \<^verbatim>\<open>ProtocolMerge\<close>,
    \<^verbatim>\<open>ProtocolLogDiff\<close>, \<^verbatim>\<open>ProtocolSession\<close>: one datatype per enum and one record per dataclass of
    \<^verbatim>\<open>api.py\<close>, with the source's names.
  \<^item> \<^verbatim>\<open>Faults\<close>, \<^verbatim>\<open>Messages\<close>, \<^verbatim>\<open>Enums\<close>: the exceptions of \<^verbatim>\<open>errors.py\<close> as one datatype; requests and responses
    as disjoint unions, with the attributes the client looks up by name; the look-up of an enum member
    by name, whose contract is the locale \<open>named_enum\<close>, interpreted for every enum.
  \<^item> \<^verbatim>\<open>Requests\<close>, \<^verbatim>\<open>ClientMethods\<close>, \<^verbatim>\<open>RequestFacts\<close>: \<open>Client.meta\<close>, every request method of \<open>Client\<close> as a
    function from its arguments to the request or the exception, and their properties.
  \<^item> \<^verbatim>\<open>ClientCalls\<close>, \<^verbatim>\<open>OutputReaders\<close>: the part of \<open>Client\<close> that talks to a bridge. A bridge is a record of
    functions on a state of its own; \<open>world\<close> adds the closed flag and the trace of all foreign calls,
    over which the properties are stated. The two log readers are instances of one loop, whose
    contract is the locale \<open>cursor_reader\<close>, interpreted for both.
  \<^item> \<^verbatim>\<open>Codec\<close>: conversion to and from wire values, with the relations \<open>typed\<close> (a dataclass value fits the
    schema) and \<open>wire_form\<close> (its abstract wire form), which \<open>to_wire\<close> and \<open>from_wire\<close> refine.
  \<^item> \<^verbatim>\<open>NativeBridge\<close>: the bridge over a native module. The interleavings of calls and closes are the
    step relation \<open>life_step\<close>; the event subscription is \<open>wait_loop\<close>.
  \<^item> \<^verbatim>\<open>ClientLife\<close>: entering, using and closing a client over any bridge, and over the native one.
  \<^item> \<^verbatim>\<open>CliOptions\<close>, \<^verbatim>\<open>CliParse\<close>: the option tables of every command as the modules register them, with what
    \<^verbatim>\<open>argparse\<close> does when they are declared (conflicting option strings, parents, subcommands), and how it
    reads a command line up to the command.
  \<^item> \<^verbatim>\<open>CliShared\<close>, \<^verbatim>\<open>CliCommands\<close>, \<^verbatim>\<open>CliMerge\<close>, \<^verbatim>\<open>CliLocal\<close>, \<^verbatim>\<open>CliDiff\<close>, \<^verbatim>\<open>CliLog\<close>: the command line. A
    handler is a function from the parsed options to the client action it takes, or, where it writes
    while it runs, a function on the state of the bridge and of the output streams of \<^verbatim>\<open>Terminal\<close>.
  \<^item> \<^verbatim>\<open>Json\<close>, \<^verbatim>\<open>Calendar\<close>, \<^verbatim>\<open>RenderCommon\<close>, \<^verbatim>\<open>RenderStatus\<close>, \<^verbatim>\<open>RenderListings\<close>, \<^verbatim>\<open>RenderMerge\<close>, \<^verbatim>\<open>RenderLog\<close>,
    \<^verbatim>\<open>RenderResponse\<close>: \<open>json.dumps\<close> as used here, calendar dates, and every renderer.
  \<^item> \<^verbatim>\<open>CliMain\<close>, \<^verbatim>\<open>MainFacts\<close>: \<open>run\<close> and \<open>main\<close> with all handlers composed, and the properties of the whole
    path from the command line to the exit code. \<^verbatim>\<open>Samples\<close> holds the values the witnesses use.

  \<^item> \<^verbatim>\<open>ReleaseText\<close>, \<^verbatim>\<open>Release\<close>, \<^verbatim>\<open>ReleaseFacts\<close>: the script \<^verbatim>\<open>scripts/release.py\<close> (beside the package): what it
    reads and writes of manifests and locks as functions on text, the script itself over a host that
    runs its commands, and what holds of the events of every run.
  \<^item> \<^verbatim>\<open>ProtocolDrift\<close>: the script \<^verbatim>\<open>scripts/check_protocol_drift.py\<close> on JSON documents; a \<open>strip_spec\<close> lists
    what a projection takes off, and every step is shown to strip by one.
  \<^item> \<^verbatim>\<open>Regen\<close>, \<^verbatim>\<open>WheelBackend\<close>, \<^verbatim>\<open>CandidateBuild\<close>: \<^verbatim>\<open>scripts/regen_protocol.py\<close>,
    \<^verbatim>\<open>build_support/sspi_backend.py\<close> and \<^verbatim>\<open>scripts/build_candidate_extension.py\<close>: what is compared and replaced,
    the options the builds get, the steps of a candidate build and the places they write.
  \<^item> \<^verbatim>\<open>PackageInfo\<close>: the metadata of the packaged IR, the version, and the notices of a command line.

  \<^bold>\<open>Representation.\<close> A text is the list of its UTF-8 bytes; a character UTF-8 cannot carry is a lone
  surrogate in its three bytes, and encoding such a text raises, as in Python. Python integers are
  \<open>int\<close>, and the 64-bit bounds are written out where the code tests them. A dictionary whose order is
  visible is an association list. An exception is a value of \<open>exn\<close>; a \<open>try ... finally\<close> is
  \<open>finallyS\<close>. What a request method receives as keywords is the record \<open>meta_kw\<close>, None for an absent
  keyword.

  \<^bold>\<open>What the lemmas show.\<close>

  \<^item> Requests: the metadata is bounded and free of control characters, the selection and the policy are
    what was asked for, and the options of the command line reach every request of every command.
  \<^item> Calls: an option the core does not confirm is never sent; a stream that ends normally ran the named
    operation and succeeded; log spools and reader streams are released exactly once, however the
    reading ends, and are read to the end against a server that makes progress.
  \<^item> Bridge: a call enters the host once, after a close none starts, every close answers the same, and
    the events of an operation come once and in order however the native waits batch them.
  \<^item> Codec: encoding and decoding are inverse on well-typed values, what is decoded is well-typed, and
    decoding raises the protocol error only.
  \<^item> Command line: the option tables are consistent, the raw scans agree with the parser built of them,
    guards, exclusions, exit codes.
  \<^item> Output: machine documents are well-formed and complete, human reports lose no row they promise, and
    nothing a commit says passes for a header line of the log.

  \<^item> Release: a tag is made only of a commit all checks passed on, never over another, and pushed only
    on request; reconciling a manifest is idempotent and keeps its other lines; a run cleans up. The drift
    check passes only a packaged document that is the exported one and has the pinned fingerprint once
    the listed additions, and nothing else, are taken off. After a regeneration the package is current
    and no other file is left in it; the packaging options name target and profile explicitly, and a
    candidate build writes below its destination only.

  \<^bold>\<open>Fuel.\<close> Loops whose end depends on the other side take fuel and answer None when it runs out: the log
  readers use one unit per read, the event subscription one per wait, the streamed outputs that sit on
  them the same. The liveness properties give the bound: one unit more than the records left in the
  spool plus the answers that carry none; one unit per native wait until it reports completion. All
  other loops are total functions.

  \<^bold>\<open>Outside the model.\<close>

  \<^item> Parameters: the native module and its host, the start of processes, path resolution, environment
    variables, the fresh request and reader identifiers, the local time zone, the IR schema, and the
    conversions by dataclass reflection (\<open>json_default\<close>, \<open>protocol_json\<close>, \<open>repr\<close>) of the payloads no
    renderer takes apart; for the scripts, the commands they run, the files, the export of the schema
    and SHA-256.
  \<^item> The arguments behind the command: \<^verbatim>\<open>argparse\<close> builds the parsers from the modelled tables and reads
    the line up to the command as modelled; what it makes of the rest is the record of parsed options the
    handlers take.
  \<^item> The thread that waits for a cancelled native call: interpreter state.
  \<^item> \<^verbatim>\<open>scripts/package_smoke.py\<close> and \<^verbatim>\<open>run_tests.py\<close>, and the part of \<^verbatim>\<open>build_support/\<close> that runs cargo and
    maturin and writes archives: sequences of external commands.
\<close>

end
